(* ===== verification/Prelude.thy ===== *)
theory Prelude
  imports
    Main
    "HOL-Library.Word"
    "HOL-Library.AList"
    "HOL-Library.Multiset"
    "HOL-Library.Char_ord"
    "HOL-Library.List_Lexorder"
begin

section \<open>Prelude: the parts of Go every component uses\<close>

text \<open>
  What the Go code of this repository needs from the language, once for all components:
  \<^item> errors and panics as values (\<open>outcome\<close>) and operations on an outside world
    (\<open>io\<close>) composed the way \<open>if err != nil { return err }\<close> composes them;
  \<^item> maps with string keys that may be nil (\<open>gomap\<close>) and slices that may be nil
    (\<open>goslice\<close>);
  \<^item> \<open>reflect.DeepEqual\<close> on both;
  \<^item> a small calculus (\<open>preserves\<close>) for facts every write of a handler keeps.

  A Go map is an association list with distinct keys (\<open>gomap_ok\<close>): \<open>range\<close> over a
  map visits the entries in an order the language leaves open, and the model visits them in
  the order of the list. The lemmas read maps through \<open>gget\<close> only, so they hold for
  every order.
\<close>

named_theorems gomap_simps \<open>lookups in maps after the map operations\<close>
named_theorems io_simps \<open>unfolding sequences of operations on the world\<close>
named_theorems preserves_intros \<open>rules for facts kept by operations on the world\<close>

type_synonym int32 = "32 word"
type_synonym int64 = "64 word"

text \<open>\<open>%d\<close> of \<open>fmt\<close>\<close>

fun decimal_nat :: "nat \<Rightarrow> string" where
  "decimal_nat n =
     (if n < 10 then [char_of (48 + n)] else decimal_nat (n div 10) @ [char_of (48 + n mod 10)])"

declare decimal_nat.simps [simp del]

definition decimal :: "int \<Rightarrow> string" where
  "decimal i = (if i < 0 then ''-'' @ decimal_nat (nat (- i)) else decimal_nat (nat i))"

subsection \<open>Errors, panics, operations on the world\<close>

text \<open>
  An error of the API machinery carries a reason the code asks for (\<open>IsNotFound\<close>,
  \<open>IsAlreadyExists\<close>, \<open>IsTimeout\<close>). An error made by \<open>errors.New\<close> or
  \<open>fmt.Errorf\<close> with \<open>%s\<close> or \<open>%v\<close> has a text only: the cause it was made
  from can no longer be recognised.
\<close>

datatype status_reason = NotFound | AlreadyExists | Conflict | Timeout | OtherReason

datatype go_error = StatusErr status_reason string | PlainErr string

fun error_text :: "go_error \<Rightarrow> string" where
  "error_text (StatusErr r msg) = msg"
| "error_text (PlainErr msg) = msg"

fun isNotFound :: "go_error \<Rightarrow> bool" where
  "isNotFound (StatusErr r msg) = (r = NotFound)"
| "isNotFound (PlainErr msg) = False"

fun isAlreadyExists :: "go_error \<Rightarrow> bool" where
  "isAlreadyExists (StatusErr r msg) = (r = AlreadyExists)"
| "isAlreadyExists (PlainErr msg) = False"

fun isTimeout :: "go_error \<Rightarrow> bool" where
  "isTimeout (StatusErr r msg) = (r = Timeout)"
| "isTimeout (PlainErr msg) = False"

text \<open>\<open>Panic\<close> is a run-time panic: no \<open>if err != nil\<close> of the code sees it.\<close>

datatype 'a outcome = Ret 'a | Err go_error | Panic string

type_synonym ('w, 'a) io = "'w \<Rightarrow> 'a outcome \<times> 'w"

definition ret :: "'a \<Rightarrow> ('w, 'a) io" where
  "ret x w = (Ret x, w)"

definition fail :: "go_error \<Rightarrow> ('w, 'a) io" where
  "fail e w = (Err e, w)"

definition lift :: "'a outcome \<Rightarrow> ('w, 'a) io" where
  "lift r w = (r, w)"

text \<open>\<open>x, err := m(); if err != nil { return err }; k(x)\<close>\<close>

definition andThen :: "('w, 'a) io \<Rightarrow> ('a \<Rightarrow> ('w, 'b) io) \<Rightarrow> ('w, 'b) io" where
  "andThen m k w =
     (case m w of
        (Ret x, w') \<Rightarrow> k x w'
      | (Err e, w') \<Rightarrow> (Err e, w')
      | (Panic p, w') \<Rightarrow> (Panic p, w'))"

text \<open>\<open>x, err := m()\<close> where the code goes on to look at \<open>err\<close> itself\<close>

definition attempt :: "('w, 'a) io \<Rightarrow> ('w, go_error + 'a) io" where
  "attempt m w =
     (case m w of
        (Ret x, w') \<Rightarrow> (Ret (Inr x), w')
      | (Err e, w') \<Rightarrow> (Ret (Inl e), w')
      | (Panic p, w') \<Rightarrow> (Panic p, w'))"

text \<open>A loop that returns at the first error.\<close>

fun forEach :: "('a \<Rightarrow> ('w, unit) io) \<Rightarrow> 'a list \<Rightarrow> ('w, unit) io" where
  "forEach f [] = ret ()"
| "forEach f (x # xs) = andThen (f x) (\<lambda>_. forEach f xs)"

lemma io_basic [io_simps]:
  "ret x w = (Ret x, w)" "fail e w = (Err e, w)" "lift r w = (r, w)"
  by (simp_all add: ret_def fail_def lift_def)

lemma andThen_Ret [io_simps]: "m w = (Ret x, w') \<Longrightarrow> andThen m k w = k x w'"
  by (simp add: andThen_def)

lemma andThen_Err [io_simps]: "m w = (Err e, w') \<Longrightarrow> andThen m k w = (Err e, w')"
  by (simp add: andThen_def)

lemma andThen_Panic [io_simps]: "m w = (Panic p, w') \<Longrightarrow> andThen m k w = (Panic p, w')"
  by (simp add: andThen_def)

lemma andThen_RetD:
  assumes "andThen m k w = (Ret y, w'')"
  obtains x w' where "m w = (Ret x, w')" and "k x w' = (Ret y, w'')"
  using assms by (cases "m w"; cases "fst (m w)") (auto simp: andThen_def)

lemma andThen_RetD2:
  assumes "andThen m (\<lambda>(a, b). k a b) w = (Ret y, w'')"
  obtains a b w' where "m w = (Ret (a, b), w')" and "k a b w' = (Ret y, w'')"
  using assms by (rule andThen_RetD) (metis (no_types, lifting) case_prod_conv surj_pair)

lemma andThen_RetD3:
  assumes "andThen m (\<lambda>(a, b, c). k a b c) w = (Ret y, w'')"
  obtains a b c w' where "m w = (Ret (a, b, c), w')" and "k a b c w' = (Ret y, w'')"
  using assms by (rule andThen_RetD) (metis (no_types, lifting) case_prod_conv prod_cases3)

lemma andThen_ret [simp]: "andThen (ret x) k = k x"
  by (simp add: andThen_def ret_def fun_eq_iff)

lemma andThen_fail [simp]: "andThen (fail e) k = fail e"
  by (simp add: andThen_def fail_def fun_eq_iff)

lemma andThen_lift_Ret [simp]: "andThen (lift (Ret x)) k = k x"
  by (simp add: andThen_def lift_def fun_eq_iff)

lemma andThen_assoc: "andThen (andThen m f) g = andThen m (\<lambda>x. andThen (f x) g)"
  by (auto simp: andThen_def fun_eq_iff split: prod.split outcome.split)

lemma attempt_Ret [io_simps]: "m w = (Ret x, w') \<Longrightarrow> attempt m w = (Ret (Inr x), w')"
  by (simp add: attempt_def)

lemma attempt_Err [io_simps]: "m w = (Err e, w') \<Longrightarrow> attempt m w = (Ret (Inl e), w')"
  by (simp add: attempt_def)

lemma attempt_RetD:
  assumes "attempt m w = (Ret r, w')"
  obtains x where "m w = (Ret x, w')" and "r = Inr x"
    | e where "m w = (Err e, w')" and "r = Inl e"
  using assms by (cases "m w"; cases "fst (m w)") (auto simp: attempt_def)

lemma forEach_append:
  "forEach f (xs @ ys) = andThen (forEach f xs) (\<lambda>_. forEach f ys)"
  by (induction xs) (simp_all add: andThen_assoc)

subsection \<open>Facts that operations on the world keep\<close>

text \<open>
  \<open>preserves P m\<close>: whatever \<open>m\<close> returns, even an error or a panic, a world that
  satisfies \<open>P\<close> still does afterwards. A handler that only ever writes objects of a
  certain shape keeps every \<open>P\<close> that such writes keep.
\<close>

definition preserves :: "('w \<Rightarrow> bool) \<Rightarrow> ('w, 'a) io \<Rightarrow> bool" where
  "preserves P m \<longleftrightarrow> (\<forall>w. P w \<longrightarrow> P (snd (m w)))"

lemma preservesI: "(\<And>w. P w \<Longrightarrow> P (snd (m w))) \<Longrightarrow> preserves P m"
  by (simp add: preserves_def)

lemma preservesD: "preserves P m \<Longrightarrow> P w \<Longrightarrow> P (snd (m w))"
  by (simp add: preserves_def)

lemma preserves_basic [preserves_intros, simp]:
  "preserves P (ret x)" "preserves P (fail e)" "preserves P (lift r)"
  by (simp_all add: preserves_def ret_def fail_def lift_def)

lemma preserves_andThen [preserves_intros]:
  "preserves P m \<Longrightarrow> (\<And>x. preserves P (k x)) \<Longrightarrow> preserves P (andThen m k)"
  by (fastforce simp: preserves_def andThen_def split: prod.split outcome.split)

text \<open>The same with what is known of the value the first operation returned.\<close>

lemma preserves_andThen_Ret:
  assumes "preserves P m" and "\<And>w x w'. m w = (Ret x, w') \<Longrightarrow> preserves P (k x)"
  shows "preserves P (andThen m k)"
proof (rule preservesI)
  fix w assume "P w"
  obtain r w' where m: "m w = (r, w')" by fastforce
  with \<open>P w\<close> assms(1) have "P w'" by (auto simp: preserves_def dest: spec [of _ w])
  show "P (snd (andThen m k w))"
    using \<open>P w'\<close> m assms(2) by (cases r) (auto simp: io_simps dest: preservesD)
qed

lemma preserves_attempt [preserves_intros]: "preserves P m \<Longrightarrow> preserves P (attempt m)"
  by (fastforce simp: preserves_def attempt_def split: prod.split outcome.split)

lemma preserves_forEach [preserves_intros]:
  "(\<And>x. x \<in> set xs \<Longrightarrow> preserves P (f x)) \<Longrightarrow> preserves P (forEach f xs)"
  by (induction xs) (auto intro: preserves_intros)

lemma preserves_if [preserves_intros]:
  "(b \<Longrightarrow> preserves P m) \<Longrightarrow> (\<not> b \<Longrightarrow> preserves P n) \<Longrightarrow> preserves P (if b then m else n)"
  by simp

lemma preserves_cases [preserves_intros]:
  "(x = None \<Longrightarrow> preserves P a) \<Longrightarrow> (\<And>y. x = Some y \<Longrightarrow> preserves P (f y)) \<Longrightarrow>
   preserves P (case x of None \<Rightarrow> a | Some y \<Rightarrow> f y)"
  "(\<And>e. r = Inl e \<Longrightarrow> preserves P (g e)) \<Longrightarrow> (\<And>v. r = Inr v \<Longrightarrow> preserves P (h v)) \<Longrightarrow>
   preserves P (case r of Inl e \<Rightarrow> g e | Inr v \<Rightarrow> h v)"
  "(\<And>u v. q = (u, v) \<Longrightarrow> preserves P (k u v)) \<Longrightarrow> preserves P (case q of (u, v) \<Rightarrow> k u v)"
  by (simp_all split: option.split sum.split prod.split)

subsection \<open>Maps with string keys\<close>

type_synonym 'v gomap = "(string \<times> 'v) list option"
type_synonym 'a goslice = "'a list option"

definition entries :: "'v gomap \<Rightarrow> (string \<times> 'v) list" where
  "entries m = (case m of None \<Rightarrow> [] | Some kvs \<Rightarrow> kvs)"

definition items :: "'a goslice \<Rightarrow> 'a list" where
  "items s = (case s of None \<Rightarrow> [] | Some xs \<Rightarrow> xs)"

definition gomap_ok :: "'v gomap \<Rightarrow> bool" where
  "gomap_ok m \<longleftrightarrow> distinct (map fst (entries m))"

text \<open>\<open>v, ok := m[k]\<close>, \<open>m[k]\<close> on string values, \<open>m[k] = v\<close> on a map known not to be
  nil, \<open>delete(m, k)\<close>\<close>

definition gget :: "'v gomap \<Rightarrow> string \<Rightarrow> 'v option" where
  "gget m k = map_of (entries m) k"

definition gval :: "string gomap \<Rightarrow> string \<Rightarrow> string" where
  "gval m k = (case gget m k of None \<Rightarrow> [] | Some v \<Rightarrow> v)"

definition gput :: "string \<Rightarrow> 'v \<Rightarrow> 'v gomap \<Rightarrow> 'v gomap" where
  "gput k v m = Some (AList.update k v (entries m))"

definition gdel :: "string \<Rightarrow> 'v gomap \<Rightarrow> 'v gomap" where
  "gdel k m = map_option (AList.delete k) m"

text \<open>\<open>for k, v := range src { dst[k] = v }\<close>\<close>

definition putAll :: "(string \<times> 'v) list \<Rightarrow> 'v gomap \<Rightarrow> 'v gomap" where
  "putAll kvs m = fold (\<lambda>(k, v). gput k v) kvs m"

lemma entries_simps [simp]: "entries None = []" "entries (Some kvs) = kvs"
  by (simp_all add: entries_def)

lemma items_simps [simp]: "items None = []" "items (Some xs) = xs"
  by (simp_all add: items_def)

lemma gget_nil [gomap_simps]: "gget None k = None" "gget (Some []) k = None"
  by (simp_all add: gget_def)

lemma gget_entries_nil: "entries m = [] \<Longrightarrow> gget m k = None"
  by (simp add: gget_def)

lemma gget_gput [gomap_simps]: "gget (gput k v m) j = (if j = k then Some v else gget m j)"
  by (simp add: gget_def gput_def update_conv')

lemma gget_gdel [gomap_simps]: "gget (gdel k m) j = (if j = k then None else gget m j)"
  by (cases m) (simp_all add: gget_def gdel_def delete_conv')

lemma gval_gput [gomap_simps]: "gval (gput k v m) j = (if j = k then v else gval m j)"
  by (simp add: gval_def gomap_simps)

lemma gval_gdel [gomap_simps]: "gval (gdel k m) j = (if j = k then [] else gval m j)"
  by (simp add: gval_def gomap_simps)

lemma gput_not_nil [simp]: "gput k v m \<noteq> None" "gput k v m = None \<longleftrightarrow> False"
  by (simp_all add: gput_def)

lemma gomap_ok_nil [simp]: "gomap_ok None" "gomap_ok (Some [])"
  by (simp_all add: gomap_ok_def)

lemma gomap_ok_gput [simp, intro]: "gomap_ok m \<Longrightarrow> gomap_ok (gput k v m)"
  by (simp add: gomap_ok_def gput_def distinct_update)

lemma gomap_ok_gdel [simp, intro]: "gomap_ok m \<Longrightarrow> gomap_ok (gdel k m)"
  by (cases m) (simp_all add: gomap_ok_def gdel_def distinct_delete)

lemma putAll_simps [simp]:
  "putAll [] m = m" "putAll ((k, v) # kvs) m = putAll kvs (gput k v m)"
  by (simp_all add: putAll_def)

lemma gomap_ok_putAll [simp, intro]: "gomap_ok m \<Longrightarrow> gomap_ok (putAll kvs m)"
  by (induction kvs arbitrary: m) auto

lemma gget_putAll [gomap_simps]:
  "distinct (map fst kvs) \<Longrightarrow>
   gget (putAll kvs m) k = (case map_of kvs k of Some v \<Rightarrow> Some v | None \<Rightarrow> gget m k)"
proof (induction kvs arbitrary: m)
  case Nil
  then show ?case by simp
next
  case (Cons kv kvs)
  obtain j v where kv: "kv = (j, v)" by fastforce
  with Cons.prems have "map_of kvs j = None" and "distinct (map fst kvs)"
    by (auto simp: map_of_eq_None_iff)
  with Cons.IH [of "gput j v m"] kv show ?case
    by (simp add: gomap_simps split: option.split)
qed

lemma putAll_not_nil: "m \<noteq> None \<Longrightarrow> putAll kvs m \<noteq> None"
proof (induction kvs arbitrary: m)
  case (Cons kv kvs)
  then show ?case
    using Cons.IH [of "gput (fst kv) (snd kv) m"] by (cases kv) (simp del: not_None_eq)
qed simp

lemma gget_putAll_notin [simp]:
  "k \<notin> fst ` set kvs \<Longrightarrow> gget (putAll kvs m) k = gget m k"
  by (induction kvs arbitrary: m) (auto simp: gomap_simps)

lemma gget_Some_iff: "gomap_ok m \<Longrightarrow> gget m k = Some v \<longleftrightarrow> (k, v) \<in> set (entries m)"
  by (simp add: gget_def gomap_ok_def)

lemma gget_None_iff: "gget m k = None \<longleftrightarrow> k \<notin> fst ` set (entries m)"
  by (simp add: gget_def map_of_eq_None_iff)

text \<open>Writing a binding that is already there changes nothing.\<close>

lemma gput_same: "m \<noteq> None \<Longrightarrow> gget m k = Some v \<Longrightarrow> gput k v m = m"
proof -
  have "map_of kvs k = Some v \<Longrightarrow> AList.update k v kvs = kvs" for kvs
    by (induction kvs) (auto split: if_splits)
  then show "m \<noteq> None \<Longrightarrow> gget m k = Some v \<Longrightarrow> gput k v m = m"
    by (cases m) (simp_all add: gget_def gput_def)
qed

subsection \<open>\<open>reflect.DeepEqual\<close>\<close>

text \<open>
  Two maps are deeply equal when both are nil or both are not, they have the same length,
  and every key of the first is bound in the second to the same value. For slices: both nil
  or both not, and equal element by element.
\<close>

definition map_DeepEqual :: "'v gomap \<Rightarrow> 'v gomap \<Rightarrow> bool" where
  "map_DeepEqual m1 m2 =
     ((m1 = None) = (m2 = None) \<and> length (entries m1) = length (entries m2)
      \<and> list_all (\<lambda>(k, v). gget m2 k = Some v) (entries m1))"

definition slice_DeepEqual :: "'a goslice \<Rightarrow> 'a goslice \<Rightarrow> bool" where
  "slice_DeepEqual s1 s2 = (s1 = s2)"

lemma map_DeepEqual_refl [simp]: "gomap_ok m \<Longrightarrow> map_DeepEqual m m"
  by (auto simp: map_DeepEqual_def list_all_iff gget_Some_iff)

lemma map_DeepEqual_iff:
  assumes "gomap_ok m1" and "gomap_ok m2"
  shows "map_DeepEqual m1 m2 \<longleftrightarrow> (m1 = None) = (m2 = None) \<and> gget m1 = gget m2"
proof
  assume eq: "map_DeepEqual m1 m2"
  let ?A = "set (entries m1)" and ?B = "set (entries m2)"
  from eq assms(2) have "?A \<subseteq> ?B"
    by (auto simp: map_DeepEqual_def list_all_iff gget_Some_iff)
  moreover have "card ?A = card ?B"
    using eq assms by (simp add: map_DeepEqual_def gomap_ok_def distinct_card distinct_map)
  ultimately have "?A = ?B" by (simp add: card_subset_eq)
  then have "map_of (entries m1) = map_of (entries m2)"
    using assms by (simp add: gomap_ok_def map_of_inject_set)
  with eq show "(m1 = None) = (m2 = None) \<and> gget m1 = gget m2"
    by (simp add: map_DeepEqual_def gget_def fun_eq_iff)
next
  assume eq: "(m1 = None) = (m2 = None) \<and> gget m1 = gget m2"
  then have "map_of (entries m1) = map_of (entries m2)"
    by (simp add: gget_def fun_eq_iff)
  with assms have same: "set (entries m1) = set (entries m2)"
    by (simp add: gomap_ok_def map_of_inject_set)
  with assms have "length (entries m1) = length (entries m2)"
    by (metis distinct_card distinct_map gomap_ok_def)
  with eq same assms show "map_DeepEqual m1 m2"
    by (auto simp: map_DeepEqual_def list_all_iff gget_Some_iff)
qed

subsection \<open>Lists\<close>

text \<open>\<open>for i, x := range xs { if p(x) { xs = append(xs[:i], xs[i+1:]...); break } }\<close>\<close>

fun removeFirst :: "('a \<Rightarrow> bool) \<Rightarrow> 'a list \<Rightarrow> 'a list" where
  "removeFirst p [] = []"
| "removeFirst p (x # xs) = (if p x then xs else x # removeFirst p xs)"

lemma removeFirst_id [simp]: "\<not> (\<exists>x \<in> set xs. p x) \<Longrightarrow> removeFirst p xs = xs"
  by (induction xs) auto

lemma set_removeFirst_subset: "set (removeFirst p xs) \<subseteq> set xs"
  by (induction xs) auto

lemma removeFirst_keeps: "x \<in> set xs \<Longrightarrow> \<not> p x \<Longrightarrow> x \<in> set (removeFirst p xs)"
  by (induction xs) auto

lemma filter_removeFirst_other:
  "(\<And>x. q x \<Longrightarrow> \<not> p x) \<Longrightarrow> filter q (removeFirst p xs) = filter q xs"
  by (induction xs) auto

lemma distinct_map_removeFirst:
  "distinct (map f xs) \<Longrightarrow> distinct (map f (removeFirst p xs))"
  using set_removeFirst_subset [of p] by (induction xs) fastforce+

lemma removeFirst_unique:
  "distinct (map f xs) \<Longrightarrow> removeFirst (\<lambda>x. f x = c) xs = filter (\<lambda>x. f x \<noteq> c) xs"
proof (induction xs)
  case (Cons x xs)
  show ?case
  proof (cases "f x = c")
    case True
    with Cons.prems have "filter (\<lambda>y. f y \<noteq> c) xs = xs"
      by (auto simp: filter_id_conv image_iff)
    with True show ?thesis by simp
  next
    case False
    with Cons show ?thesis by simp
  qed
qed simp

end
