(* ===== verification/K8s.thy ===== *)
theory K8s
  imports Prelude
begin

section \<open>The Kubernetes objects the code works on\<close>

text \<open>
  The API types are declared in \<open>k8s.io/api\<close> and \<open>k8s.io/apimachinery\<close>; here they
  are records with the fields this repository reads or writes. A Go struct that embeds
  \<open>metav1.ObjectMeta\<close> is an extension of the record \<open>object_meta\<close>, so an operation on
  a \<open>metav1.Object\<close> is a function on every extension.
\<close>

record owner_ref =
  or_apiVersion :: string
  or_kind :: string
  or_name :: string
  or_uid :: string
  or_controller :: "bool option"
  or_blockOwnerDeletion :: "bool option"

record object_meta =
  m_name :: string
  m_namespace :: string
  m_generateName :: string
  m_uid :: string
  m_resourceVersion :: string
  m_generation :: int64
  m_labels :: "string gomap"
  m_annotations :: "string gomap"
  m_owners :: "owner_ref goslice"
  m_finalizers :: "string goslice"
  m_deletionTimestamp :: "string option"

definition empty_meta :: object_meta where
  "empty_meta = \<lparr>m_name = [], m_namespace = [], m_generateName = [], m_uid = [],
     m_resourceVersion = [], m_generation = 0, m_labels = None, m_annotations = None,
     m_owners = None, m_finalizers = None, m_deletionTimestamp = None\<rparr>"

record label_requirement =
  lr_key :: string
  lr_operator :: string
  lr_values :: "string goslice"

record label_selector =
  ls_matchLabels :: "string gomap"
  ls_matchExpressions :: "label_requirement goslice"

record taint =
  t_key :: string
  t_value :: string
  t_effect :: string
  t_timeAdded :: "string option"

record toleration =
  tol_key :: string
  tol_operator :: string
  tol_value :: string
  tol_effect :: string
  tol_seconds :: "int64 option"

text \<open>A taint is identified by its key and its effect.\<close>

abbreviation taint_id :: "taint \<Rightarrow> string \<times> string" where
  "taint_id t \<equiv> (t_key t, t_effect t)"

record node_condition =
  nc_type :: string
  nc_status :: string

record node = object_meta +
  n_taints :: "taint goslice"
  n_conditions :: "node_condition list"

subsection \<open>Names the API reserves\<close>

definition LabelDesiredNodePool :: string where
  "LabelDesiredNodePool = ''apps.openyurt.io/desired-nodepool''"

definition LabelCurrentNodePool :: string where
  "LabelCurrentNodePool = ''apps.openyurt.io/nodepool''"

definition AnnotationPrevAttrs :: string where
  "AnnotationPrevAttrs = ''nodepool.openyurt.io/previous-attributes''"

definition DefaultCloudNodePoolName :: string where
  "DefaultCloudNodePoolName = ''default-nodepool''"

definition DefaultEdgeNodePoolName :: string where
  "DefaultEdgeNodePoolName = ''default-edge-nodepool''"

definition NodePoolTypeLabelKey :: string where
  "NodePoolTypeLabelKey = ''openyurt.io/node-pool-type''"

definition ControllerRevisionHashLabelKey :: string where
  "ControllerRevisionHashLabelKey = ''apps.openyurt.io/controller-revision-hash''"

definition PoolNameLabelKey :: string where
  "PoolNameLabelKey = ''apps.openyurt.io/pool-name''"

definition AnnotationPatchKey :: string where
  "AnnotationPatchKey = ''apps.openyurt.io/patch''"

definition AnnotationRefNodePool :: string where
  "AnnotationRefNodePool = ''apps.openyurt.io/ref-nodepool''"

lemmas key_defs =
  LabelDesiredNodePool_def LabelCurrentNodePool_def AnnotationPrevAttrs_def
  DefaultCloudNodePoolName_def DefaultEdgeNodePoolName_def NodePoolTypeLabelKey_def
  ControllerRevisionHashLabelKey_def PoolNameLabelKey_def AnnotationPatchKey_def
  AnnotationRefNodePool_def

lemma keys_distinct [simp]:
  "ControllerRevisionHashLabelKey \<noteq> PoolNameLabelKey"
  "PoolNameLabelKey \<noteq> ControllerRevisionHashLabelKey"
  "LabelDesiredNodePool \<noteq> LabelCurrentNodePool"
  "LabelCurrentNodePool \<noteq> LabelDesiredNodePool"
  by (simp_all add: key_defs)

subsection \<open>NodePool, \<open>v1alpha1\<close>\<close>

record nodepool_spec =
  nps_type :: string
  nps_selector :: "label_selector option"
  nps_labels :: "string gomap"
  nps_annotations :: "string gomap"
  nps_taints :: "taint goslice"

record nodepool_status =
  nst_readyNodeNum :: int32
  nst_unreadyNodeNum :: int32
  nst_nodes :: "string goslice"

record nodepool = object_meta +
  np_spec :: nodepool_spec
  np_status :: nodepool_status

definition empty_nodepool :: nodepool where
  "empty_nodepool = object_meta.extend empty_meta
     \<lparr>np_spec = \<lparr>nps_type = [], nps_selector = None, nps_labels = None,
        nps_annotations = None, nps_taints = None\<rparr>,
      np_status = \<lparr>nst_readyNodeNum = 0, nst_unreadyNodeNum = 0, nst_nodes = None\<rparr>\<rparr>"

end
