(* ===== verification/NodePool_Attrs.thy ===== *)
theory NodePool_Attrs
  imports K8s
begin

section \<open>What a node pool puts on its nodes\<close>

text \<open>
  The part of \<open>pkg/yurtappmanager/controller/nodepool/nodepool_controller.go\<close> that edits
  one node: \<open>concilateNode\<close> gives a node the labels, annotations and taints of its pool
  and remembers them as JSON in an annotation; \<open>removePoolRelatedAttrs\<close> takes them away
  again when the node leaves. The JSON encoder and decoder are the two functions of
  \<open>attrs_codec\<close>, a parameter.
\<close>

record pool_attrs =
  pa_labels :: "string gomap"
  pa_annotations :: "string gomap"
  pa_taints :: "taint goslice"

record attrs_codec =
  marshalAttrs :: "pool_attrs \<Rightarrow> go_error + string"
  unmarshalAttrs :: "string \<Rightarrow> go_error + pool_attrs"

definition attrs_DeepEqual :: "pool_attrs \<Rightarrow> pool_attrs \<Rightarrow> bool" where
  "attrs_DeepEqual a b =
     (map_DeepEqual (pa_labels a) (pa_labels b)
      \<and> map_DeepEqual (pa_annotations a) (pa_annotations b)
      \<and> slice_DeepEqual (pa_taints a) (pa_taints b))"

subsection \<open>Operations\<close>

definition mergeMap :: "string gomap \<Rightarrow> string gomap \<Rightarrow> string gomap" where
  "mergeMap m1 m2 =
     putAll (entries m2) (case m1 of None \<Rightarrow> Some [] | Some kvs \<Rightarrow> Some kvs)"

definition sameTaint :: "taint \<Rightarrow> taint \<Rightarrow> bool" where
  "sameTaint t1 t2 = (t_effect t1 = t_effect t2 \<and> t_key t1 = t_key t2)"

text \<open>\<open>containTaint\<close> returns the index of the first match and whether there is one.\<close>

fun containTaint_from :: "nat \<Rightarrow> taint \<Rightarrow> taint list \<Rightarrow> nat \<times> bool" where
  "containTaint_from i t [] = (0, False)"
| "containTaint_from i t (u # us) =
     (if sameTaint t u then (i, True) else containTaint_from (Suc i) t us)"

definition containTaint :: "taint \<Rightarrow> taint list \<Rightarrow> nat \<times> bool" where
  "containTaint t ts = containTaint_from 0 t ts"

definition removeTaint :: "taint \<Rightarrow> taint goslice \<Rightarrow> taint goslice" where
  "removeTaint t ts = map_option (removeFirst (sameTaint t)) ts"

definition cachePrevPoolAttrs ::
  "attrs_codec \<Rightarrow> node \<Rightarrow> pool_attrs \<Rightarrow> go_error + node" where
  "cachePrevPoolAttrs c n a =
     (case marshalAttrs c a of
        Inl e \<Rightarrow> Inl e
      | Inr js \<Rightarrow> Inr (n\<lparr>m_annotations := gput AnnotationPrevAttrs js (m_annotations n)\<rparr>))"

definition removedKeys :: "string gomap \<Rightarrow> string gomap \<Rightarrow> string list" where
  "removedKeys old new = filter (\<lambda>k. gget new k = None) (map fst (entries old))"

definition conciliateLabels :: "node \<Rightarrow> string gomap \<Rightarrow> string gomap \<Rightarrow> node" where
  "conciliateLabels n old new =
     n\<lparr>m_labels := mergeMap (fold gdel (removedKeys old new) (m_labels n)) new\<rparr>"

definition conciliateAnnotations :: "node \<Rightarrow> string gomap \<Rightarrow> string gomap \<Rightarrow> node" where
  "conciliateAnnotations n old new =
     n\<lparr>m_annotations := mergeMap (fold gdel (removedKeys old new) (m_annotations n)) new\<rparr>"

definition appendTaint :: "taint \<Rightarrow> taint goslice \<Rightarrow> taint goslice" where
  "appendTaint t ts = Some (items ts @ [t])"

definition conciliateTaints :: "node \<Rightarrow> taint goslice \<Rightarrow> taint goslice \<Rightarrow> node" where
  "conciliateTaints n old new =
     (let kept = fold (\<lambda>t ts. if snd (containTaint t (items ts)) then removeTaint t ts else ts)
                   (items old) (n_taints n)
      in n\<lparr>n_taints := fold appendTaint (items new) kept\<rparr>)"

text \<open>The loop of \<open>concilateNode\<close> that puts the pool's taints on a node it has not seen.\<close>

definition applyPoolTaints :: "taint goslice \<Rightarrow> taint goslice \<Rightarrow> taint goslice" where
  "applyPoolTaints new ts =
     fold (\<lambda>t ts. appendTaint t (map_option (removeFirst (sameTaint t)) ts)) (items new) ts"

definition ownerLabel :: "string \<Rightarrow> node \<times> bool \<Rightarrow> node \<times> bool" where
  "ownerLabel pool nu =
     (case nu of (n, updated) \<Rightarrow>
        if gval (m_labels n) LabelCurrentNodePool \<noteq> pool
        then (n\<lparr>m_labels := gput LabelCurrentNodePool pool
                  (if length (entries (m_labels n)) = 0 then Some [] else m_labels n)\<rparr>, True)
        else (n, updated))"

definition poolAttrs :: "nodepool \<Rightarrow> pool_attrs" where
  "poolAttrs np = \<lparr>pa_labels = nps_labels (np_spec np),
     pa_annotations = nps_annotations (np_spec np), pa_taints = nps_taints (np_spec np)\<rparr>"

text \<open>The edited node and whether it has to be written back.\<close>

definition concilateNode ::
  "attrs_codec \<Rightarrow> node \<Rightarrow> nodepool \<Rightarrow> go_error + (node \<times> bool)" where
  "concilateNode c n np =
     (let npra = poolAttrs np in
      case gget (m_annotations n) AnnotationPrevAttrs of
        None \<Rightarrow>
          (let n1 = n\<lparr>m_labels := mergeMap (m_labels n) (pa_labels npra),
                     m_annotations := mergeMap (m_annotations n) (pa_annotations npra),
                     n_taints := applyPoolTaints (pa_taints npra) (n_taints n)\<rparr>
           in case cachePrevPoolAttrs c n1 npra of
                Inl e \<Rightarrow> Inl e
              | Inr n2 \<Rightarrow> Inr (ownerLabel (m_name np) (n2, True)))
      | Some js \<Rightarrow>
          (case unmarshalAttrs c js of
             Inl e \<Rightarrow> Inl e
           | Inr pre \<Rightarrow>
               (if \<not> attrs_DeepEqual pre npra
                then (let n1 = conciliateLabels n (pa_labels pre) (pa_labels npra);
                          n2 = conciliateAnnotations n1 (pa_annotations pre) (pa_annotations npra);
                          n3 = conciliateTaints n2 (pa_taints pre) (pa_taints npra)
                      in case cachePrevPoolAttrs c n3 npra of
                           Inl e \<Rightarrow> Inl e
                         | Inr n4 \<Rightarrow> Inr (ownerLabel (m_name np) (n4, True)))
                else Inr (ownerLabel (m_name np) (n, False)))))"

text \<open>
  The loops of \<open>removePoolRelatedAttrs\<close>: a label or annotation goes only if its value is
  still the pool's, a taint goes by key and effect.
\<close>

definition dropMatching :: "string gomap \<Rightarrow> string gomap \<Rightarrow> string gomap" where
  "dropMatching attrs m =
     fold (\<lambda>(k, v) m. if gval m k = v then gdel k m else m) (entries attrs) m"

definition dropTaint :: "taint \<Rightarrow> taint goslice \<Rightarrow> taint goslice" where
  "dropTaint t ts =
     (case containTaint t (items ts) of
        (i, True) \<Rightarrow> Some (take i (items ts) @ drop (Suc i) (items ts))
      | (i, False) \<Rightarrow> ts)"

definition removePoolRelatedAttrs :: "attrs_codec \<Rightarrow> node \<Rightarrow> go_error + node" where
  "removePoolRelatedAttrs c n =
     (case gget (m_annotations n) AnnotationPrevAttrs of
        None \<Rightarrow> Inr n
      | Some _ \<Rightarrow>
          (case unmarshalAttrs c (gval (m_annotations n) AnnotationPrevAttrs) of
             Inl e \<Rightarrow> Inl e
           | Inr npra \<Rightarrow>
               (let n1 = n\<lparr>m_labels := dropMatching (pa_labels npra) (m_labels n),
                          m_annotations := dropMatching (pa_annotations npra) (m_annotations n),
                          n_taints := fold dropTaint (items (pa_taints npra)) (n_taints n)\<rparr>
                in Inr (n1\<lparr>m_annotations := gdel AnnotationPrevAttrs (m_annotations n1),
                          m_labels := gdel LabelCurrentNodePool (m_labels n1)\<rparr>))))"


subsection \<open>Looking into the edited maps\<close>

lemma gget_mergeMap [gomap_simps]:
  assumes "gomap_ok m2"
  shows "gget (mergeMap m1 m2) k = (case gget m2 k of Some v \<Rightarrow> Some v | None \<Rightarrow> gget m1 k)"
  using assms
  by (cases m1)
    (simp_all add: mergeMap_def gomap_simps gomap_ok_def gget_def [of m2] split: option.split)

lemma mergeMap_not_nil [simp]: "mergeMap m1 m2 \<noteq> None" "mergeMap m1 m2 = None \<longleftrightarrow> False"
  using putAll_not_nil [of "case m1 of None \<Rightarrow> Some [] | Some kvs \<Rightarrow> Some kvs"]
  by (auto simp: mergeMap_def simp del: not_None_eq split: option.splits)

lemma gomap_ok_mergeMap [simp, intro]: "gomap_ok m1 \<Longrightarrow> gomap_ok (mergeMap m1 m2)"
  by (cases m1) (simp_all add: mergeMap_def)

lemma gget_fold_gdel [gomap_simps]:
  "gget (fold gdel ks m) k = (if k \<in> set ks then None else gget m k)"
  by (induction ks arbitrary: m) (auto simp: gomap_simps)

lemma gomap_ok_fold_gdel [simp, intro]: "gomap_ok m \<Longrightarrow> gomap_ok (fold gdel ks m)"
  by (induction ks arbitrary: m) auto

lemma set_removedKeys:
  "k \<in> set (removedKeys old new) \<longleftrightarrow> gget old k \<noteq> None \<and> gget new k = None"
  by (auto simp: removedKeys_def gget_None_iff)

lemma gget_dropMatching [gomap_simps]:
  assumes "gomap_ok attrs"
  shows "gget (dropMatching attrs m) k =
    (case gget attrs k of None \<Rightarrow> gget m k
     | Some v \<Rightarrow> if gval m k = v then None else gget m k)"
proof -
  have "distinct (map fst kvs) \<Longrightarrow>
    gget (fold (\<lambda>(k, v) m. if gval m k = v then gdel k m else m) kvs m) k =
    (case map_of kvs k of None \<Rightarrow> gget m k | Some v \<Rightarrow> if gval m k = v then None else gget m k)"
    for kvs
  proof (induction kvs arbitrary: m)
    case (Cons kv kvs)
    obtain j v where kv: "kv = (j, v)" by fastforce
    with Cons.prems have "map_of kvs j = None" and "distinct (map fst kvs)"
      by (auto simp: map_of_eq_None_iff)
    with Cons.IH kv show ?case
      by (simp add: gomap_simps split: option.split)
  qed simp
  with assms show ?thesis
    by (simp add: dropMatching_def gomap_ok_def gget_def [of attrs])
qed

lemma gget_dropMatching_le: "gget (dropMatching attrs m) k = None \<or> gget (dropMatching attrs m) k = gget m k"
proof -
  have "gget (fold (\<lambda>(k, v) m. if gval m k = v then gdel k m else m) kvs m) k \<in> {None, gget m k}"
    for kvs
  proof (induction kvs arbitrary: m)
    case (Cons kv kvs)
    show ?case
      using Cons [of "if gval m (fst kv) = snd kv then gdel (fst kv) m else m"]
      by (auto simp: gomap_simps split: prod.splits if_splits)
  qed simp
  then show ?thesis by (auto simp: dropMatching_def)
qed

lemma gomap_ok_dropMatching [simp, intro]: "gomap_ok m \<Longrightarrow> gomap_ok (dropMatching attrs m)"
proof -
  have "gomap_ok m \<Longrightarrow>
    gomap_ok (fold (\<lambda>(k, v) m. if gval m k = v then gdel k m else m) kvs m)" for kvs
    by (induction kvs arbitrary: m) auto
  then show "gomap_ok m \<Longrightarrow> gomap_ok (dropMatching attrs m)"
    by (simp add: dropMatching_def)
qed

subsection \<open>Taints\<close>

lemma sameTaint_iff: "sameTaint t u \<longleftrightarrow> taint_id u = taint_id t"
  by (auto simp: sameTaint_def)

lemma sameTaint_fun: "sameTaint t = (\<lambda>u. taint_id u = taint_id t)"
  by (auto simp: sameTaint_def fun_eq_iff)

lemma containTaint_from:
  "containTaint_from i t us =
     (case find (sameTaint t) us of None \<Rightarrow> (0, False)
      | Some u \<Rightarrow> (i + length (takeWhile (\<lambda>u. \<not> sameTaint t u) us), True))"
  by (induction us arbitrary: i) (auto split: option.splits)

lemma snd_containTaint: "snd (containTaint t us) \<longleftrightarrow> taint_id t \<in> taint_id ` set us"
  by (auto simp: containTaint_def containTaint_from find_None_iff find_Some_iff sameTaint_iff
      image_iff split: option.splits) (metis nth_mem)+

text \<open>Cutting the list at the index \<open>containTaint\<close> found removes the first match.\<close>

lemma cut_containTaint:
  assumes "containTaint t us = (i, True)"
  shows "take i us @ drop (Suc i) us = removeFirst (sameTaint t) us"
proof -
  have "find (sameTaint t) us \<noteq> None \<Longrightarrow>
     (let i = length (takeWhile (\<lambda>u. \<not> sameTaint t u) us)
      in take i us @ drop (Suc i) us = removeFirst (sameTaint t) us)"
    by (induction us) (auto simp: Let_def)
  with assms show ?thesis
    by (auto simp: containTaint_def containTaint_from Let_def split: option.splits)
qed

lemma containTaint_False: "containTaint t us = (i, False) \<Longrightarrow> \<not> (\<exists>u \<in> set us. sameTaint t u)"
  by (auto simp: containTaint_def containTaint_from find_None_iff split: option.splits)

lemma items_dropTaint: "items (dropTaint t ts) = removeFirst (sameTaint t) (items ts)"
  using cut_containTaint [of t "items ts"] containTaint_False [of t "items ts"]
  by (auto simp: dropTaint_def split: prod.split bool.split)

lemma items_removeTaint: "items (removeTaint t ts) = removeFirst (sameTaint t) (items ts)"
  by (cases ts) (simp_all add: removeTaint_def)

lemma items_appendTaint [simp]: "items (appendTaint t ts) = items ts @ [t]"
  by (simp add: appendTaint_def)

lemma removeFirst_sameTaint:
  "distinct (map taint_id us) \<Longrightarrow>
   removeFirst (sameTaint t) us = filter (\<lambda>u. taint_id u \<noteq> taint_id t) us"
  unfolding sameTaint_fun by (rule removeFirst_unique)

text \<open>Taking a list of taints away, one by one, from a list that holds each at most once.\<close>

lemma fold_removeFirst:
  "distinct (map taint_id us) \<Longrightarrow>
   fold (\<lambda>t. removeFirst (sameTaint t)) ts us =
     filter (\<lambda>u. taint_id u \<notin> taint_id ` set ts) us"
proof (induction ts arbitrary: us)
  case (Cons t ts)
  from Cons.prems have "removeFirst (sameTaint t) us = filter (\<lambda>u. taint_id u \<noteq> taint_id t) us"
    by (rule removeFirst_sameTaint)
  moreover have "distinct (map taint_id (filter (\<lambda>u. taint_id u \<noteq> taint_id t) us))"
    using Cons.prems by (rule distinct_map_filter)
  ultimately show ?case using Cons.IH by (auto intro: filter_cong)
qed simp

lemma items_fold_dropTaint:
  "items (fold dropTaint ts s) = fold (\<lambda>t. removeFirst (sameTaint t)) ts (items s)"
  by (induction ts arbitrary: s) (simp_all add: items_dropTaint)

lemma items_fold_conciliate:
  "items (fold (\<lambda>t ts. if snd (containTaint t (items ts)) then removeTaint t ts else ts) ts s) =
     fold (\<lambda>t. removeFirst (sameTaint t)) ts (items s)"
proof (induction ts arbitrary: s)
  case (Cons t ts)
  have "\<not> snd (containTaint t (items s)) \<Longrightarrow> removeFirst (sameTaint t) (items s) = items s"
    by (rule removeFirst_id) (auto simp: snd_containTaint sameTaint_iff image_iff)
  with Cons show ?case by (simp add: items_removeTaint)
qed simp

lemma items_fold_appendTaint: "items (fold appendTaint ts s) = items s @ ts"
  by (induction ts arbitrary: s) simp_all

lemma items_applyPoolTaints:
  assumes "distinct (map taint_id (items ts))" and "distinct (map taint_id (items new))"
  shows "items (applyPoolTaints new ts) =
    filter (\<lambda>u. taint_id u \<notin> taint_id ` set (items new)) (items ts) @ items new"
proof -
  have "distinct (map taint_id us) \<Longrightarrow> distinct (map taint_id (items s)) \<Longrightarrow>
    items (fold (\<lambda>t ts. appendTaint t (map_option (removeFirst (sameTaint t)) ts)) us s) =
    filter (\<lambda>u. taint_id u \<notin> taint_id ` set us) (items s) @ us" for us s
  proof (induction us arbitrary: s)
    case (Cons t us)
    let ?s = "appendTaint t (map_option (removeFirst (sameTaint t)) s)"
    have s: "items ?s = filter (\<lambda>u. taint_id u \<noteq> taint_id t) (items s) @ [t]"
      using Cons.prems(2) by (cases s) (simp_all add: removeFirst_sameTaint)
    then have "distinct (map taint_id (items ?s))"
      using Cons.prems(2) by (auto simp: distinct_map_filter)
    with Cons s show ?case by (auto intro: filter_cong)
  qed simp
  from this [OF assms(2,1)] show ?thesis by (simp add: applyPoolTaints_def)
qed

lemma items_conciliateTaints:
  assumes "distinct (map taint_id (items (n_taints n)))"
  shows "items (n_taints (conciliateTaints n old new)) =
    filter (\<lambda>u. taint_id u \<notin> taint_id ` set (items old)) (items (n_taints n)) @ items new"
  using assms
  by (simp add: conciliateTaints_def Let_def items_fold_appendTaint items_fold_conciliate
      fold_removeFirst)

end
