(* ===== verification/NodePool_Node.thy ===== *)
theory NodePool_Node
  imports NodePool_Attrs
begin

section \<open>A node joins, follows and leaves its pool\<close>

text \<open>
  What \<open>concilateNode\<close> and \<open>removePoolRelatedAttrs\<close> achieve. The attributes of the pool
  pass through \<open>encoding/json\<close>; all that is used of it is \<open>codec_roundtrips\<close>: encoding
  succeeds, and decoding gives the attributes back in the form \<open>omitempty\<close> leaves them in,
  an empty map or slice as nil and the keys of a map in order.
\<close>

definition omitEmpty_map :: "string gomap \<Rightarrow> string gomap" where
  "omitEmpty_map m = (if entries m = [] then None else Some (sort_key fst (entries m)))"

definition omitEmpty_slice :: "'a goslice \<Rightarrow> 'a goslice" where
  "omitEmpty_slice s = (if items s = [] then None else s)"

definition omitEmpty :: "pool_attrs \<Rightarrow> pool_attrs" where
  "omitEmpty a = \<lparr>pa_labels = omitEmpty_map (pa_labels a),
     pa_annotations = omitEmpty_map (pa_annotations a),
     pa_taints = omitEmpty_slice (pa_taints a)\<rparr>"

definition codec_roundtrips :: "attrs_codec \<Rightarrow> pool_attrs \<Rightarrow> bool" where
  "codec_roundtrips c a =
     (case marshalAttrs c a of Inl e \<Rightarrow> False
      | Inr js \<Rightarrow> unmarshalAttrs c js = Inr (omitEmpty a))"

definition attrs_ok :: "pool_attrs \<Rightarrow> bool" where
  "attrs_ok a \<longleftrightarrow> gomap_ok (pa_labels a) \<and> gomap_ok (pa_annotations a)"

text \<open>No map and no slice is empty without being nil: JSON would lose the difference.\<close>

definition attrs_canonical :: "pool_attrs \<Rightarrow> bool" where
  "attrs_canonical a \<longleftrightarrow>
     pa_labels a \<noteq> Some [] \<and> pa_annotations a \<noteq> Some [] \<and> pa_taints a \<noteq> Some []"

subsection \<open>The JSON form of the attributes\<close>

lemma gomap_ok_omitEmpty_map [simp]: "gomap_ok (omitEmpty_map m) = gomap_ok m"
proof -
  have "mset (map fst (sort_key fst (entries m))) = mset (map fst (entries m))"
    by (simp only: mset_map mset_sort)
  then have "distinct (map fst (sort_key fst (entries m))) = distinct (map fst (entries m))"
    by (rule mset_eq_imp_distinct_iff)
  then show ?thesis by (simp add: omitEmpty_map_def gomap_ok_def)
qed

lemma gget_omitEmpty_map: "gomap_ok m \<Longrightarrow> gget (omitEmpty_map m) = gget m"
proof (rule ext)
  fix k assume ok: "gomap_ok m"
  have "set (entries (omitEmpty_map m)) = set (entries m)"
    by (simp add: omitEmpty_map_def)
  with ok have "map_of (entries (omitEmpty_map m)) = map_of (entries m)"
    using gomap_ok_omitEmpty_map [of m] by (simp add: gomap_ok_def map_of_inject_set)
  then show "gget (omitEmpty_map m) k = gget m k" by (simp add: gget_def)
qed

lemma omitEmpty_map_nil: "omitEmpty_map m = None \<longleftrightarrow> m = None \<or> m = Some []"
  by (cases m) (auto simp: omitEmpty_map_def)

lemma map_DeepEqual_omitEmpty:
  "gomap_ok m \<Longrightarrow> map_DeepEqual (omitEmpty_map m) m \<longleftrightarrow> m \<noteq> Some []"
  by (cases m) (auto simp: map_DeepEqual_iff gget_omitEmpty_map omitEmpty_map_nil)

lemma slice_DeepEqual_omitEmpty: "slice_DeepEqual (omitEmpty_slice s) s \<longleftrightarrow> s \<noteq> Some []"
  by (cases s) (auto simp: slice_DeepEqual_def omitEmpty_slice_def)

lemma attrs_DeepEqual_omitEmpty:
  "attrs_ok a \<Longrightarrow> attrs_DeepEqual (omitEmpty a) a \<longleftrightarrow> attrs_canonical a"
  by (simp add: attrs_DeepEqual_def omitEmpty_def attrs_ok_def attrs_canonical_def
      map_DeepEqual_omitEmpty slice_DeepEqual_omitEmpty)

subsection \<open>The owner label\<close>

lemma ownerLabel_frame:
  assumes "ownerLabel p (n, u) = (n', u')"
  shows "m_annotations n' = m_annotations n" and "n_taints n' = n_taints n"
    and "m_name n' = m_name n" and "n_conditions n' = n_conditions n"
    and "gval (m_labels n') LabelCurrentNodePool = p"
    and "u \<Longrightarrow> u'"
  using assms by (auto simp: ownerLabel_def gomap_simps split: if_splits)

lemma ownerLabel_labels:
  assumes "ownerLabel p (n, u) = (n', u')" and "p \<noteq> []"
  shows "gget (m_labels n') k =
    (if k = LabelCurrentNodePool then Some p else gget (m_labels n) k)"
  using assms
  by (auto simp: ownerLabel_def gomap_simps gval_def gget_entries_nil
      split: if_splits option.splits)

lemma ownerLabel_again: "ownerLabel p (n, u) = (n', u') \<Longrightarrow> ownerLabel p (n', False) = (n', False)"
  using ownerLabel_frame(5) [of p n u n' u'] by (simp add: ownerLabel_def)

subsection \<open>The three ways through \<open>concilateNode\<close>\<close>

text \<open>The node is new to the pool machinery.\<close>

definition joined :: "node \<Rightarrow> pool_attrs \<Rightarrow> node" where
  "joined n a = n\<lparr>m_labels := mergeMap (m_labels n) (pa_labels a),
     m_annotations := mergeMap (m_annotations n) (pa_annotations a),
     n_taints := applyPoolTaints (pa_taints a) (n_taints n)\<rparr>"

text \<open>The node carries the attributes \<open>pre\<close> and the pool has other ones by now.\<close>

definition followed :: "node \<Rightarrow> pool_attrs \<Rightarrow> pool_attrs \<Rightarrow> node" where
  "followed n pre a =
     conciliateTaints
       (conciliateAnnotations
         (conciliateLabels n (pa_labels pre) (pa_labels a))
         (pa_annotations pre) (pa_annotations a))
       (pa_taints pre) (pa_taints a)"

lemma concilateNode_cases:
  assumes "concilateNode c n np = Inr (n', u)"
  obtains
    (join) js n2 where "gget (m_annotations n) AnnotationPrevAttrs = None"
      and "marshalAttrs c (poolAttrs np) = Inr js"
      and "n2 = (joined n (poolAttrs np))\<lparr>m_annotations :=
        gput AnnotationPrevAttrs js (m_annotations (joined n (poolAttrs np)))\<rparr>"
      and "ownerLabel (m_name np) (n2, True) = (n', u)"
  | (follow) pre old js n2 where "gget (m_annotations n) AnnotationPrevAttrs = Some old"
      and "unmarshalAttrs c old = Inr pre" and "\<not> attrs_DeepEqual pre (poolAttrs np)"
      and "marshalAttrs c (poolAttrs np) = Inr js"
      and "n2 = (followed n pre (poolAttrs np))\<lparr>m_annotations :=
        gput AnnotationPrevAttrs js (m_annotations (followed n pre (poolAttrs np)))\<rparr>"
      and "ownerLabel (m_name np) (n2, True) = (n', u)"
  | (same) pre old where "gget (m_annotations n) AnnotationPrevAttrs = Some old"
      and "unmarshalAttrs c old = Inr pre" and "attrs_DeepEqual pre (poolAttrs np)"
      and "ownerLabel (m_name np) (n, False) = (n', u)"
proof (cases "gget (m_annotations n) AnnotationPrevAttrs")
  case None
  with assms join show thesis
    by (auto simp: concilateNode_def cachePrevPoolAttrs_def joined_def Let_def split: sum.splits)
next
  case (Some old)
  with assms obtain pre where pre: "unmarshalAttrs c old = Inr pre"
    by (auto simp: concilateNode_def Let_def split: sum.splits)
  show thesis
  proof (cases "attrs_DeepEqual pre (poolAttrs np)")
    case True
    with assms Some pre same show thesis by (simp add: concilateNode_def)
  next
    case False
    with assms Some pre follow show thesis
      by (auto simp: concilateNode_def cachePrevPoolAttrs_def followed_def Let_def
          split: sum.splits)
  qed
qed

lemma joined_simps [simp]:
  "m_labels (joined n a) = mergeMap (m_labels n) (pa_labels a)"
  "m_annotations (joined n a) = mergeMap (m_annotations n) (pa_annotations a)"
  "n_taints (joined n a) = applyPoolTaints (pa_taints a) (n_taints n)"
  "m_name (joined n a) = m_name n"
  by (simp_all add: joined_def)

lemma followed_simps [simp]:
  "m_labels (followed n pre a) =
     mergeMap (fold gdel (removedKeys (pa_labels pre) (pa_labels a)) (m_labels n)) (pa_labels a)"
  "m_annotations (followed n pre a) =
     mergeMap (fold gdel (removedKeys (pa_annotations pre) (pa_annotations a)) (m_annotations n))
       (pa_annotations a)"
  "m_name (followed n pre a) = m_name n"
  by (simp_all add: followed_def conciliateLabels_def conciliateAnnotations_def
      conciliateTaints_def Let_def)

lemma items_followed_taints:
  "distinct (map taint_id (items (n_taints n))) \<Longrightarrow>
   items (n_taints (followed n pre a)) =
     filter (\<lambda>u. taint_id u \<notin> taint_id ` set (items (pa_taints pre))) (items (n_taints n))
       @ items (pa_taints a)"
  by (simp add: followed_def items_conciliateTaints conciliateLabels_def
      conciliateAnnotations_def)

lemma ownerLabel_other:
  "ownerLabel p (n, u) = (n', u') \<Longrightarrow> k \<noteq> LabelCurrentNodePool \<Longrightarrow>
   gget (m_labels n') k = gget (m_labels n) k"
  by (auto simp: ownerLabel_def gomap_simps gget_entries_nil split: if_splits)

lemma items_omitEmpty_slice [simp]: "items (omitEmpty_slice s) = items s"
  by (simp add: omitEmpty_slice_def)

lemma codec_roundtripsD:
  "codec_roundtrips c a \<Longrightarrow> marshalAttrs c a = Inr js \<Longrightarrow> unmarshalAttrs c js = Inr (omitEmpty a)"
  by (simp add: codec_roundtrips_def)

lemma omitEmpty_simps:
  "attrs_ok a \<Longrightarrow> gget (pa_labels (omitEmpty a)) = gget (pa_labels a)"
  "attrs_ok a \<Longrightarrow> gget (pa_annotations (omitEmpty a)) = gget (pa_annotations a)"
  "items (pa_taints (omitEmpty a)) = items (pa_taints a)"
  "attrs_ok (omitEmpty a) = attrs_ok a"
  by (simp_all add: omitEmpty_def attrs_ok_def gget_omitEmpty_map)

text \<open>After \<open>concilateNode\<close> the node's record of the pool's attributes is up to date.\<close>

lemma concilateNode_record:
  assumes "concilateNode c n np = Inr (n', u)" and "codec_roundtrips c (poolAttrs np)"
    and "attrs_ok (poolAttrs np)" and "attrs_canonical (poolAttrs np)"
  obtains js pre where "gget (m_annotations n') AnnotationPrevAttrs = Some js"
    and "unmarshalAttrs c js = Inr pre" and "attrs_DeepEqual pre (poolAttrs np)"
  using assms(1)
proof (cases rule: concilateNode_cases)
  case (join js n2)
  with assms that [of js "omitEmpty (poolAttrs np)"] show thesis
    by (simp add: ownerLabel_frame gomap_simps codec_roundtripsD attrs_DeepEqual_omitEmpty)
next
  case (follow pre old js n2)
  with assms that [of js "omitEmpty (poolAttrs np)"] show thesis
    by (simp add: ownerLabel_frame gomap_simps codec_roundtripsD attrs_DeepEqual_omitEmpty)
next
  case (same pre old)
  with that show thesis by (simp add: ownerLabel_frame)
qed

lemma concilateNode_owned:
  "concilateNode c n np = Inr (n', u) \<Longrightarrow>
   gval (m_labels n') LabelCurrentNodePool = m_name np \<and> m_name n' = m_name n
     \<and> n_conditions n' = n_conditions n"
  by (erule concilateNode_cases)
    (auto simp: ownerLabel_frame joined_def followed_def conciliateLabels_def
      conciliateAnnotations_def conciliateTaints_def Let_def)

text \<open>Where no write is asked for the node is as it was; right after a write none is.\<close>

lemma concilateNode_unchanged: "concilateNode c n np = Inr (n', False) \<Longrightarrow> n' = n"
  by (erule concilateNode_cases)
    (auto simp: ownerLabel_def split: if_splits)

lemma concilateNode_settled:
  assumes "concilateNode c n np = Inr (n', u)" and "codec_roundtrips c (poolAttrs np)"
    and "attrs_ok (poolAttrs np)" and "attrs_canonical (poolAttrs np)"
  shows "concilateNode c n' np = Inr (n', False)"
proof -
  obtain js pre where rec: "gget (m_annotations n') AnnotationPrevAttrs = Some js"
    "unmarshalAttrs c js = Inr pre" "attrs_DeepEqual pre (poolAttrs np)"
    using assms by (rule concilateNode_record)
  have "gval (m_labels n') LabelCurrentNodePool = m_name np"
    using assms(1) by (simp add: concilateNode_owned)
  with rec show ?thesis by (simp add: concilateNode_def ownerLabel_def)
qed

text \<open>A label neither the pool nor the node's record mentions stays.\<close>

lemma concilateNode_other_label:
  assumes "concilateNode c n np = Inr (n', u)" and "k \<noteq> LabelCurrentNodePool"
    and "gget (nps_labels (np_spec np)) k = None" and "attrs_ok (poolAttrs np)"
    and "\<And>js pre. gget (m_annotations n) AnnotationPrevAttrs = Some js \<Longrightarrow>
      unmarshalAttrs c js = Inr pre \<Longrightarrow> gget (pa_labels pre) k = None"
  shows "gget (m_labels n') k = gget (m_labels n) k"
  using assms
  by (elim concilateNode_cases)
    (auto simp: ownerLabel_other gomap_simps set_removedKeys attrs_ok_def poolAttrs_def)

text \<open>What leaving the pool does to a node that carries a record.\<close>

lemma leave_effect:
  assumes rec: "gget (m_annotations n) AnnotationPrevAttrs = Some js"
    and pre: "unmarshalAttrs c js = Inr a" and ok: "attrs_ok a"
    and taints: "distinct (map taint_id (items (n_taints n)))"
  shows "\<exists>n'. removePoolRelatedAttrs c n = Inr n' \<and> m_name n' = m_name n \<and>
    (\<forall>k. gget (m_labels n') k =
      (if k = LabelCurrentNodePool then None
       else case gget (pa_labels a) k of None \<Rightarrow> gget (m_labels n) k
            | Some v \<Rightarrow> if gval (m_labels n) k = v then None else gget (m_labels n) k)) \<and>
    (\<forall>k. gget (m_annotations n') k =
      (if k = AnnotationPrevAttrs then None
       else case gget (pa_annotations a) k of None \<Rightarrow> gget (m_annotations n) k
            | Some v \<Rightarrow> if gval (m_annotations n) k = v then None else gget (m_annotations n) k)) \<and>
    items (n_taints n') =
      filter (\<lambda>t. taint_id t \<notin> taint_id ` set (items (pa_taints a))) (items (n_taints n))"
  using assms
  by (simp add: removePoolRelatedAttrs_def gval_def [of "m_annotations n" AnnotationPrevAttrs]
      Let_def gomap_simps attrs_ok_def items_fold_dropTaint fold_removeFirst)

subsection \<open>Properties\<close>

text \<open>A node that joins a pool gets the pool's name as its owner label, every label and
  annotation of the pool (the pool wins over what the node had), keeps its other labels and
  annotations, remembers the pool's attributes in one annotation, and has the pool's taints
  after its own ones of other keys or effects.\<close>

theorem concilateNode_joins:
  assumes fresh: "gget (m_annotations n) AnnotationPrevAttrs = None"
    and run: "concilateNode c n np = Inr (n', u)"
    and ok: "attrs_ok (poolAttrs np)" and name: "m_name np \<noteq> []"
    and taints: "distinct (map taint_id (items (n_taints n)))"
      "distinct (map taint_id (items (nps_taints (np_spec np))))"
  shows "u \<and>
    (\<forall>k. gget (m_labels n') k =
      (if k = LabelCurrentNodePool then Some (m_name np)
       else case gget (nps_labels (np_spec np)) k of Some v \<Rightarrow> Some v
            | None \<Rightarrow> gget (m_labels n) k)) \<and>
    (\<forall>k. k \<noteq> AnnotationPrevAttrs \<longrightarrow> gget (m_annotations n') k =
      (case gget (nps_annotations (np_spec np)) k of Some v \<Rightarrow> Some v
       | None \<Rightarrow> gget (m_annotations n) k)) \<and>
    (\<exists>js. marshalAttrs c (poolAttrs np) = Inr js
        \<and> gget (m_annotations n') AnnotationPrevAttrs = Some js) \<and>
    items (n_taints n') =
      filter (\<lambda>t. taint_id t \<notin> taint_id ` set (items (nps_taints (np_spec np))))
        (items (n_taints n)) @ items (nps_taints (np_spec np))"
  using run
proof (cases rule: concilateNode_cases)
  case (join js n2)
  then have "u" using ownerLabel_frame(6) by blast
  with join ok name taints show ?thesis
    by (simp add: ownerLabel_frame ownerLabel_labels gomap_simps items_applyPoolTaints
        attrs_ok_def poolAttrs_def split: option.split)
qed (use fresh in simp_all)

text \<open>C19: when the pool's attributes change, a node that carries the old ones loses the labels
  and annotations the pool no longer has, gets the new ones, and keeps everything the pool
  never set; the old taints of the pool go and the new ones follow.\<close>

theorem concilateNode_follows:
  assumes old: "gget (m_annotations n) AnnotationPrevAttrs = Some js"
    and pre: "unmarshalAttrs c js = Inr pre" "\<not> attrs_DeepEqual pre (poolAttrs np)"
    and run: "concilateNode c n np = Inr (n', u)"
    and ok: "attrs_ok (poolAttrs np)" and name: "m_name np \<noteq> []"
    and taints: "distinct (map taint_id (items (n_taints n)))"
  shows "u \<and>
    (\<forall>k. gget (m_labels n') k =
      (if k = LabelCurrentNodePool then Some (m_name np)
       else case gget (nps_labels (np_spec np)) k of Some v \<Rightarrow> Some v
            | None \<Rightarrow> if gget (pa_labels pre) k = None then gget (m_labels n) k else None)) \<and>
    (\<forall>k. k \<noteq> AnnotationPrevAttrs \<longrightarrow> gget (m_annotations n') k =
      (case gget (nps_annotations (np_spec np)) k of Some v \<Rightarrow> Some v
       | None \<Rightarrow> if gget (pa_annotations pre) k = None then gget (m_annotations n) k else None)) \<and>
    items (n_taints n') =
      filter (\<lambda>t. taint_id t \<notin> taint_id ` set (items (pa_taints pre))) (items (n_taints n))
        @ items (nps_taints (np_spec np))"
  using run
proof (cases rule: concilateNode_cases)
  case (follow pre' old' js' n2)
  then have "u" using ownerLabel_frame(6) by blast
  moreover have "pre' = pre" using follow old pre by simp
  ultimately show ?thesis using follow ok name taints
    by (simp add: ownerLabel_frame ownerLabel_labels gomap_simps items_followed_taints
        set_removedKeys attrs_ok_def poolAttrs_def split: option.split)
qed (use old pre in simp_all)

text \<open>Reconciling a node again right away changes nothing and asks for no write, unless the
  pool's attributes hold an empty map or slice that is not nil.\<close>

theorem concilateNode_idempotent:
  assumes "concilateNode c n np = Inr (n', u)" and "codec_roundtrips c (poolAttrs np)"
    and "attrs_ok (poolAttrs np)" and "attrs_canonical (poolAttrs np)"
  shows "concilateNode c n' np = Inr (n', False)"
  using assms by (rule concilateNode_settled)


text \<open>What leaving a pool does to a node that carries a record: the owner label and the
  record go; of the recorded labels and annotations exactly those go whose value is still the
  recorded one; the recorded taints go by key and effect; nothing else changes.\<close>

theorem removePoolRelatedAttrs_effect:
  assumes rec: "gget (m_annotations n) AnnotationPrevAttrs = Some js"
    and pre: "unmarshalAttrs c js = Inr a" and ok: "attrs_ok a"
    and taints: "distinct (map taint_id (items (n_taints n)))"
  shows "\<exists>n'. removePoolRelatedAttrs c n = Inr n' \<and> m_name n' = m_name n \<and>
    (\<forall>k. gget (m_labels n') k =
      (if k = LabelCurrentNodePool then None
       else case gget (pa_labels a) k of None \<Rightarrow> gget (m_labels n) k
            | Some v \<Rightarrow> if gval (m_labels n) k = v then None else gget (m_labels n) k)) \<and>
    (\<forall>k. gget (m_annotations n') k =
      (if k = AnnotationPrevAttrs then None
       else case gget (pa_annotations a) k of None \<Rightarrow> gget (m_annotations n) k
            | Some v \<Rightarrow> if gval (m_annotations n) k = v then None else gget (m_annotations n) k)) \<and>
    items (n_taints n') =
      filter (\<lambda>t. taint_id t \<notin> taint_id ` set (items (pa_taints a))) (items (n_taints n))"
  using assms by (rule leave_effect)

text \<open>C20: joining a pool and leaving it again gives a node back as it was, if the pool's labels,
  annotations and taints do not collide with the node's own.\<close>

theorem join_then_leave:
  assumes fresh: "gget (m_annotations n) AnnotationPrevAttrs = None"
      "gget (m_labels n) LabelCurrentNodePool = None"
    and run: "concilateNode c n np = Inr (n1, u)"
    and codec: "codec_roundtrips c (poolAttrs np)" and ok: "attrs_ok (poolAttrs np)"
    and labels: "dom (gget (nps_labels (np_spec np))) \<inter> dom (gget (m_labels n)) = {}"
    and annos: "dom (gget (nps_annotations (np_spec np))) \<inter> dom (gget (m_annotations n)) = {}"
    and taints: "distinct (map taint_id (items (n_taints n) @ items (nps_taints (np_spec np))))"
  shows "\<exists>n2. removePoolRelatedAttrs c n1 = Inr n2 \<and>
    gget (m_labels n2) = gget (m_labels n) \<and> gget (m_annotations n2) = gget (m_annotations n) \<and>
    items (n_taints n2) = items (n_taints n)"
  using run
proof (cases rule: concilateNode_cases)
  case (join js n2)
  let ?a = "omitEmpty (poolAttrs np)"
  have disj: "taint_id t \<notin> taint_id ` set (items (nps_taints (np_spec np)))"
    if "t \<in> set (items (n_taints n))" for t
    using taints that by (auto simp del: o_apply)
  have n1: "items (n_taints n1) = items (n_taints n) @ items (nps_taints (np_spec np))"
    using join taints disj
    by (simp add: ownerLabel_frame items_applyPoolTaints poolAttrs_def filter_id_conv)
  have "gget (m_annotations n1) AnnotationPrevAttrs = Some js"
    using join by (simp add: ownerLabel_frame gomap_simps)
  moreover have "unmarshalAttrs c js = Inr ?a"
    using codec join by (simp add: codec_roundtripsD)
  moreover have "attrs_ok ?a" using ok by (simp add: omitEmpty_simps)
  moreover have "distinct (map taint_id (items (n_taints n1)))" using n1 taints by simp
  ultimately obtain n' where n': "removePoolRelatedAttrs c n1 = Inr n'"
    and L: "gget (m_labels n') k =
      (if k = LabelCurrentNodePool then None
       else case gget (pa_labels ?a) k of None \<Rightarrow> gget (m_labels n1) k
            | Some v \<Rightarrow> if gval (m_labels n1) k = v then None else gget (m_labels n1) k)"
    and A: "gget (m_annotations n') k =
      (if k = AnnotationPrevAttrs then None
       else case gget (pa_annotations ?a) k of None \<Rightarrow> gget (m_annotations n1) k
            | Some v \<Rightarrow> if gval (m_annotations n1) k = v then None
                       else gget (m_annotations n1) k)"
    and T: "items (n_taints n') =
      filter (\<lambda>t. taint_id t \<notin> taint_id ` set (items (pa_taints ?a))) (items (n_taints n1))"
    for k
    using leave_effect [of n1 js c ?a] by blast
  have n1L: "k \<noteq> LabelCurrentNodePool \<Longrightarrow> gget (m_labels n1) k =
      (case gget (nps_labels (np_spec np)) k of Some v \<Rightarrow> Some v | None \<Rightarrow> gget (m_labels n) k)" for k
    using join ok by (simp add: ownerLabel_other gomap_simps attrs_ok_def poolAttrs_def)
  have n1A: "k \<noteq> AnnotationPrevAttrs \<Longrightarrow> gget (m_annotations n1) k =
      (case gget (nps_annotations (np_spec np)) k of Some v \<Rightarrow> Some v
       | None \<Rightarrow> gget (m_annotations n) k)" for k
    using join ok by (simp add: ownerLabel_frame gomap_simps attrs_ok_def poolAttrs_def)
  have "gget (m_labels n') k = gget (m_labels n) k" for k
    using L [of k] n1L [of k] fresh labels ok
    by (auto simp: omitEmpty_simps gval_def poolAttrs_def disjoint_iff dom_def
        split: option.splits if_splits)
  moreover have "gget (m_annotations n') k = gget (m_annotations n) k" for k
    using A [of k] n1A [of k] fresh annos ok
    by (auto simp: omitEmpty_simps gval_def poolAttrs_def disjoint_iff dom_def
        split: option.splits if_splits)
  moreover have "items (n_taints n') = items (n_taints n)"
    using T n1 disj by (simp add: omitEmpty_simps poolAttrs_def filter_id_conv)
  ultimately show ?thesis using n' by (auto simp: fun_eq_iff)
qed (use fresh in simp_all)

subsection \<open>A node and a pool to try the properties on\<close>

definition demo_pool :: nodepool where
  "demo_pool = empty_nodepool\<lparr>m_name := ''hangzhou'',
     np_spec := \<lparr>nps_type = ''Edge'', nps_selector = None,
       nps_labels = Some [(''region'', ''hz''), (''zone'', ''a'')],
       nps_annotations = Some [(''owner'', ''ops'')],
       nps_taints = Some [\<lparr>t_key = ''edge'', t_value = ''yes'', t_effect = ''NoSchedule'',
         t_timeAdded = None\<rparr>]\<rparr>\<rparr>"

definition demo_node :: node where
  "demo_node = object_meta.extend
     (empty_meta\<lparr>m_name := ''n1'', m_labels := Some [(''arch'', ''arm64'')]\<rparr>)
     \<lparr>n_taints = Some [\<lparr>t_key = ''gpu'', t_value = [], t_effect = ''NoExecute'',
        t_timeAdded = None\<rparr>], n_conditions = []\<rparr>"

definition demo_codec :: attrs_codec where
  "demo_codec = \<lparr>marshalAttrs = (\<lambda>a. Inr ''{..}''),
     unmarshalAttrs = (\<lambda>js. Inr (poolAttrs demo_pool))\<rparr>"

definition demo_joined :: node where
  "demo_joined =
     (case concilateNode demo_codec demo_node demo_pool of Inr (n, u) \<Rightarrow> n | Inl e \<Rightarrow> demo_node)"

definition demo_pool_changed :: nodepool where
  "demo_pool_changed = demo_pool\<lparr>np_spec := (np_spec demo_pool)
     \<lparr>nps_labels := Some [(''zone'', ''b'')], nps_taints := None\<rparr>\<rparr>"

definition demo_followed :: node where
  "demo_followed =
     (case concilateNode demo_codec demo_joined demo_pool_changed of
        Inr (n, u) \<Rightarrow> n | Inl e \<Rightarrow> demo_joined)"

definition demo_pool_empty :: nodepool where
  "demo_pool_empty = demo_pool\<lparr>np_spec := (np_spec demo_pool)
     \<lparr>nps_labels := Some [], nps_annotations := None, nps_taints := None\<rparr>\<rparr>"

definition demo_codec_empty :: attrs_codec where
  "demo_codec_empty = \<lparr>marshalAttrs = (\<lambda>a. Inr ''{}''),
     unmarshalAttrs =
       (\<lambda>js. Inr \<lparr>pa_labels = None, pa_annotations = None, pa_taints = None\<rparr>)\<rparr>"

definition demo_joined_empty :: node where
  "demo_joined_empty =
     (case concilateNode demo_codec_empty demo_node demo_pool_empty of
        Inr (n, u) \<Rightarrow> n | Inl e \<Rightarrow> demo_node)"

lemma demo_runs:
  "concilateNode demo_codec demo_node demo_pool = Inr (demo_joined, True)"
  "concilateNode demo_codec demo_joined demo_pool_changed = Inr (demo_followed, True)"
  "concilateNode demo_codec_empty demo_node demo_pool_empty = Inr (demo_joined_empty, True)"
  by code_simp+

lemma demo_facts:
  "gget (m_annotations demo_node) AnnotationPrevAttrs = None"
  "gget (m_labels demo_node) LabelCurrentNodePool = None"
  "gget (m_annotations demo_joined) AnnotationPrevAttrs = Some ''{..}''"
  "unmarshalAttrs demo_codec ''{..}'' = Inr (poolAttrs demo_pool)"
  "attrs_ok (poolAttrs demo_pool)" "attrs_ok (poolAttrs demo_pool_changed)"
  "attrs_canonical (poolAttrs demo_pool)"
  "codec_roundtrips demo_codec (poolAttrs demo_pool)"
  "attrs_ok (poolAttrs demo_pool_empty)" "\<not> attrs_canonical (poolAttrs demo_pool_empty)"
  "codec_roundtrips demo_codec_empty (poolAttrs demo_pool_empty)"
  "m_name demo_pool = ''hangzhou''" "m_name demo_pool_changed = ''hangzhou''"
  "distinct (map taint_id (items (n_taints demo_node)))"
  "distinct (map taint_id (items (nps_taints (np_spec demo_pool))))"
  "distinct (map taint_id (items (n_taints demo_node) @ items (nps_taints (np_spec demo_pool))))"
  "distinct (map taint_id (items (n_taints demo_joined)))"
  "\<not> attrs_DeepEqual (poolAttrs demo_pool) (poolAttrs demo_pool_changed)"
  by code_simp+

lemma demo_lookups:
  "gget (nps_labels (np_spec demo_pool)) ''region'' = Some ''hz''"
  "gget (nps_labels (np_spec demo_pool_changed)) ''region'' = None"
  "gget (nps_labels (np_spec demo_pool_changed)) ''zone'' = Some ''b''"
  "gget (pa_labels (poolAttrs demo_pool)) ''region'' = Some ''hz''"
  "''region'' \<noteq> LabelCurrentNodePool" "''zone'' \<noteq> LabelCurrentNodePool"
  "m_name demo_pool \<noteq> []" "m_name demo_pool_changed \<noteq> []"
  "gval (m_labels demo_joined) ''region'' = ''hz''"
  by code_simp+

lemma demo_disjoint:
  "dom (gget (nps_labels (np_spec demo_pool))) \<inter> dom (gget (m_labels demo_node)) = {}"
  "dom (gget (nps_annotations (np_spec demo_pool))) \<inter> dom (gget (m_annotations demo_node)) = {}"
  by (auto simp: demo_pool_def demo_node_def gget_def empty_meta_def empty_nodepool_def
      object_meta.defs split: if_splits)

theorem concilateNode_joins_witness:
  "gget (m_labels demo_joined) LabelCurrentNodePool = Some (m_name demo_pool) \<and>
   gget (m_labels demo_joined) ''region'' = Some ''hz''"
  using concilateNode_joins [OF demo_facts(1) demo_runs(1) demo_facts(5) demo_lookups(7)
      demo_facts(14,15)]
  by (simp add: demo_lookups)

theorem concilateNode_follows_witness:
  "gget (m_labels demo_followed) ''region'' = None \<and>
   gget (m_labels demo_followed) ''zone'' = Some ''b''"
  using concilateNode_follows [OF demo_facts(3,4,18) demo_runs(2) demo_facts(6)
      demo_lookups(8) demo_facts(17)]
  by (simp add: demo_lookups)

theorem concilateNode_idempotent_witness:
  "concilateNode demo_codec demo_joined demo_pool = Inr (demo_joined, False)"
  by (rule concilateNode_idempotent [OF demo_runs(1) demo_facts(8,5,7)])


theorem removePoolRelatedAttrs_effect_witness:
  "\<exists>n. removePoolRelatedAttrs demo_codec demo_joined = Inr n
     \<and> gget (m_labels n) ''region'' = None"
  using removePoolRelatedAttrs_effect [OF demo_facts(3,4,5,17)]
  by (auto simp: demo_lookups elim!: allE [of _ "''region''"])

theorem join_then_leave_witness:
  "\<exists>n. removePoolRelatedAttrs demo_codec demo_joined = Inr n
     \<and> gget (m_labels n) = gget (m_labels demo_node)"
  using join_then_leave [OF demo_facts(1,2) demo_runs(1) demo_facts(8,5) demo_disjoint
      demo_facts(16)]
  by blast

end
