(* ===== verification/NodePool_Controller.thy ===== *)
theory NodePool_Controller
  imports NodePool_Node
begin

section \<open>The node pool controller\<close>

text \<open>
  \<open>Reconcile\<close> of \<open>controller/nodepool/nodepool_controller.go\<close> and the creation of the
  default pools. What lies outside the repository is the record \<open>np_env\<close>: the API server
  (\<open>Get\<close>, \<open>List\<close> with one label, \<open>Update\<close>, \<open>Status().Update\<close>, \<open>Create\<close>) acting on a
  world \<open>'w\<close>, \<open>time.Sleep\<close>, \<open>nodeutil.GetNodeCondition\<close> and the JSON codec.
\<close>

record 'w np_env =
  npe_codec :: attrs_codec
  npe_GetNodeCondition :: "node_condition list \<Rightarrow> string \<Rightarrow> node_condition option"
  npe_Get :: "string \<Rightarrow> ('w, nodepool) io"
  npe_ListNodes :: "string \<Rightarrow> string \<Rightarrow> ('w, node list) io"
  npe_UpdateNode :: "node \<Rightarrow> ('w, unit) io"
  npe_UpdateStatus :: "nodepool \<Rightarrow> ('w, unit) io"
  npe_Create :: "nodepool \<Rightarrow> ('w, unit) io"
  npe_Sleep :: "nat \<Rightarrow> ('w, unit) io"

subsection \<open>Operations\<close>

definition isNodeReady :: "'w np_env \<Rightarrow> node \<Rightarrow> bool" where
  "isNodeReady env n =
     (case npe_GetNodeCondition env (n_conditions n) ''Ready'' of
        None \<Rightarrow> False | Some nc \<Rightarrow> nc_status nc = ''True'')"

definition getRemovedNodes :: "node list \<Rightarrow> node list \<Rightarrow> node list" where
  "getRemovedNodes current desired =
     filter (\<lambda>m. \<not> list_ex (\<lambda>d. m_name m = m_name d) desired) current"

text \<open>The pool with its status brought up to date, and whether it has to be written. Both node
  lists are sorted in place, whatever the outcome.\<close>

definition conciliateNodePoolStatus ::
  "int32 \<Rightarrow> int32 \<Rightarrow> string goslice \<Rightarrow> nodepool \<Rightarrow> nodepool \<times> bool" where
  "conciliateNodePoolStatus readyNode notReadyNode nodes np =
     (let st0 = np_status np;
          (st1, u1) = (if readyNode \<noteq> nst_readyNodeNum st0
                       then (st0\<lparr>nst_readyNodeNum := readyNode\<rparr>, True) else (st0, False));
          (st2, u2) = (if notReadyNode \<noteq> nst_unreadyNodeNum st1
                       then (st1\<lparr>nst_unreadyNodeNum := notReadyNode\<rparr>, True) else (st1, u1));
          nodes' = map_option sort nodes;
          st3 = st2\<lparr>nst_nodes := map_option sort (nst_nodes st2)\<rparr>;
          (st4, u4) = (if \<not> slice_DeepEqual nodes' (nst_nodes st3)
                       then (st3\<lparr>nst_nodes := nodes'\<rparr>, True) else (st3, u2))
      in (np\<lparr>np_status := st4\<rparr>, u4))"

definition ignoreNotFound :: "go_error \<Rightarrow> ('w, unit) io" where
  "ignoreNotFound e = (if isNotFound e then ret () else fail e)"

text \<open>The body of the first loop of \<open>Reconcile\<close>: a node that left the pool.\<close>

definition leaveNode :: "'w np_env \<Rightarrow> node \<Rightarrow> ('w, unit) io" where
  "leaveNode env n =
     (case removePoolRelatedAttrs (npe_codec env) n of
        Inl e \<Rightarrow> fail e
      | Inr n' \<Rightarrow> npe_UpdateNode env n')"

text \<open>The body of the second loop without its counters: a node that is to be in the pool.\<close>

definition joinNode :: "'w np_env \<Rightarrow> nodepool \<Rightarrow> node \<Rightarrow> ('w, unit) io" where
  "joinNode env np n =
     (case concilateNode (npe_codec env) n np of
        Inl e \<Rightarrow> fail e
      | Inr (n', updated) \<Rightarrow> (if updated then npe_UpdateNode env n' else ret ()))"

text \<open>The second loop, with \<open>readyNode\<close>, \<open>notReadyNode\<close> and \<open>nodes\<close>.\<close>

fun joinNodes ::
  "'w np_env \<Rightarrow> nodepool \<Rightarrow> node list \<Rightarrow> int32 \<Rightarrow> int32 \<Rightarrow> string goslice
   \<Rightarrow> ('w, int32 \<times> int32 \<times> string goslice) io" where
  "joinNodes env np [] ready notReady nodes = ret (ready, notReady, nodes)"
| "joinNodes env np (n # ns) ready notReady nodes =
     (let nodes' = Some (items nodes @ [m_name n]);
          ready' = (if isNodeReady env n then ready + 1 else ready);
          notReady' = (if isNodeReady env n then notReady else notReady + 1)
      in andThen (joinNode env np n)
           (\<lambda>_. joinNodes env np ns ready' notReady' nodes'))"

definition Reconcile_np :: "'w np_env \<Rightarrow> string \<Rightarrow> ('w, unit) io" where
  "Reconcile_np env name =
     andThen (attempt (npe_Get env name)) (\<lambda>r. case r of Inl e \<Rightarrow> ignoreNotFound e | Inr np \<Rightarrow>
     andThen (attempt (npe_ListNodes env LabelDesiredNodePool (m_name np))) (\<lambda>r.
       case r of Inl e \<Rightarrow> ignoreNotFound e | Inr desired \<Rightarrow>
     andThen (attempt (npe_ListNodes env LabelCurrentNodePool (m_name np))) (\<lambda>r.
       case r of Inl e \<Rightarrow> ignoreNotFound e | Inr current \<Rightarrow>
     andThen (forEach (leaveNode env) (getRemovedNodes current desired)) (\<lambda>_.
     andThen (joinNodes env np desired 0 0 None) (\<lambda>(ready, notReady, nodes).
       case conciliateNodePoolStatus ready notReady nodes np of (np', needUpdate) \<Rightarrow>
         (if needUpdate then npe_UpdateStatus env np' else ret ()))))))"

text \<open>\<open>createNodePool\<close>: at most five attempts, a pause of two seconds after each failure.\<close>

fun createNodePool_tries :: "nat \<Rightarrow> 'w np_env \<Rightarrow> nodepool \<Rightarrow> ('w, bool) io" where
  "createNodePool_tries 0 env np = ret False"
| "createNodePool_tries (Suc k) env np =
     andThen (attempt (npe_Create env np)) (\<lambda>r.
       case r of
         Inr _ \<Rightarrow> ret True
       | Inl e \<Rightarrow>
           (if isAlreadyExists e then ret False
            else andThen (npe_Sleep env 2) (\<lambda>_. createNodePool_tries k env np)))"

definition newNodePool :: "string \<Rightarrow> string \<Rightarrow> nodepool" where
  "newNodePool name poolType = empty_nodepool
     \<lparr>m_name := name, np_spec := (np_spec empty_nodepool)\<lparr>nps_type := poolType\<rparr>\<rparr>"

definition createNodePool :: "'w np_env \<Rightarrow> string \<Rightarrow> string \<Rightarrow> ('w, bool) io" where
  "createNodePool env name poolType = createNodePool_tries 5 env (newNodePool name poolType)"

definition createDefaultNodePool :: "'w np_env \<Rightarrow> ('w, unit) io" where
  "createDefaultNodePool env =
     andThen (createNodePool env DefaultEdgeNodePoolName ''Edge'') (\<lambda>_.
     andThen (createNodePool env DefaultCloudNodePoolName ''Cloud'') (\<lambda>_. ret ()))"

subsection \<open>The status of the pool\<close>

definition readyCount :: "'w np_env \<Rightarrow> node list \<Rightarrow> int32" where
  "readyCount env ns = of_nat (length (filter (isNodeReady env) ns))"

definition notReadyCount :: "'w np_env \<Rightarrow> node list \<Rightarrow> int32" where
  "notReadyCount env ns = of_nat (length (filter (\<lambda>n. \<not> isNodeReady env n) ns))"

text \<open>The two loops write the nodes; the counters only depend on what was listed.\<close>

lemma joinNodes_split:
  "joinNodes env np ns ready notReady nodes =
     andThen (forEach (joinNode env np) ns)
       (\<lambda>_. ret (ready + readyCount env ns, notReady + notReadyCount env ns,
          if ns = [] then nodes else Some (items nodes @ map m_name ns)))"
  by (induction ns arbitrary: ready notReady nodes)
    (auto simp: readyCount_def notReadyCount_def andThen_assoc Let_def algebra_simps
      intro!: arg_cong2 [where f = andThen])

lemma conciliateNodePoolStatus_status:
  "np_status (fst (conciliateNodePoolStatus r u nodes np)) =
     \<lparr>nst_readyNodeNum = r, nst_unreadyNodeNum = u, nst_nodes = map_option sort nodes\<rparr>"
  by (auto simp: conciliateNodePoolStatus_def Let_def slice_DeepEqual_def split: prod.splits)

lemma conciliateNodePoolStatus_needed:
  "snd (conciliateNodePoolStatus r u nodes np) \<longleftrightarrow>
     nst_readyNodeNum (np_status np) \<noteq> r \<or> nst_unreadyNodeNum (np_status np) \<noteq> u \<or>
     map_option sort (nst_nodes (np_status np)) \<noteq> map_option sort nodes"
  by (auto simp: conciliateNodePoolStatus_def Let_def slice_DeepEqual_def split: prod.splits)

lemma conciliateNodePoolStatus_frame:
  "np_spec (fst (conciliateNodePoolStatus r u nodes np)) = np_spec np"
  "m_name (fst (conciliateNodePoolStatus r u nodes np)) = m_name np"
  by (auto simp: conciliateNodePoolStatus_def Let_def split: prod.splits)


subsection \<open>A store of nodes\<close>

text \<open>
  What is used of the API server, for a view \<open>st\<close> of the nodes a world holds: a list that
  succeeds returns the nodes with the label; a successful update replaces the node of the same
  name and a failed one changes none; the other calls change no node.
\<close>

definition node_store :: "'w np_env \<Rightarrow> ('w \<Rightarrow> node list) \<Rightarrow> bool" where
  "node_store env st \<longleftrightarrow>
     (\<forall>k v w. st (snd (npe_ListNodes env k v w)) = st w) \<and>
     (\<forall>k v w ns w'. npe_ListNodes env k v w = (Ret ns, w') \<longrightarrow>
        ns = filter (\<lambda>n. gget (m_labels n) k = Some v) (st w)) \<and>
     (\<forall>n w w'. npe_UpdateNode env n w = (Ret (), w') \<longrightarrow>
        st w' = map (\<lambda>m. if m_name m = m_name n then n else m) (st w)) \<and>
     (\<forall>name w. st (snd (npe_Get env name w)) = st w) \<and>
     (\<forall>np w. st (snd (npe_UpdateStatus env np w)) = st w)"

lemma node_storeD:
  assumes "node_store env st"
  shows "npe_ListNodes env k v w = (r, w') \<Longrightarrow> st w' = st w"
    and "npe_ListNodes env k v w = (Ret ns, w') \<Longrightarrow>
      ns = filter (\<lambda>n. gget (m_labels n) k = Some v) (st w)"
    and "npe_UpdateNode env n w = (Ret (), w') \<Longrightarrow>
      st w' = map (\<lambda>m. if m_name m = m_name n then n else m) (st w)"
    and "npe_Get env name w = (q, w') \<Longrightarrow> st w' = st w"
    and "npe_UpdateStatus env np w = (p, w') \<Longrightarrow> st w' = st w"
proof -
  have eqs: "st (snd (npe_ListNodes env k v w)) = st w" "st (snd (npe_Get env name w)) = st w"
    "st (snd (npe_UpdateStatus env np w)) = st w"
    using assms by (simp_all add: node_store_def)
  show "npe_ListNodes env k v w = (r, w') \<Longrightarrow> st w' = st w" using eqs(1) by simp
  show "npe_Get env name w = (q, w') \<Longrightarrow> st w' = st w" using eqs(2) by simp
  show "npe_UpdateStatus env np w = (p, w') \<Longrightarrow> st w' = st w" using eqs(3) by simp
  show "npe_ListNodes env k v w = (Ret ns, w') \<Longrightarrow>
      ns = filter (\<lambda>n. gget (m_labels n) k = Some v) (st w)"
    using assms by (simp add: node_store_def)
  show "npe_UpdateNode env n w = (Ret (), w') \<Longrightarrow>
      st w' = map (\<lambda>m. if m_name m = m_name n then n else m) (st w)"
    using assms by (simp add: node_store_def)
qed

text \<open>A loop that replaces nodes one by one, as one \<open>map\<close> over the stored nodes.\<close>

lemma forEach_replaces:
  assumes step: "\<And>n w w'. n \<in> set (st w) \<Longrightarrow> distinct (map m_name (st w)) \<Longrightarrow>
      f n w = (Ret (), w') \<Longrightarrow>
      st w' = map (\<lambda>m. if m_name m = m_name n then g n else m) (st w)"
    and name: "\<And>n. m_name (g n) = m_name n"
  shows "forEach f xs w = (Ret (), w') \<Longrightarrow> set xs \<subseteq> set (st w) \<Longrightarrow>
    distinct (map m_name xs) \<Longrightarrow> distinct (map m_name (st w)) \<Longrightarrow>
    st w' = map (\<lambda>m. if m_name m \<in> m_name ` set xs then g m else m) (st w)"
proof (induction xs arbitrary: w)
  case Nil
  then show ?case by (simp add: io_simps)
next
  case (Cons x xs)
  from Cons.prems(1) obtain w1 where w1: "f x w = (Ret (), w1)" "forEach f xs w1 = (Ret (), w')"
    by (auto elim!: andThen_RetD)
  have st1: "st w1 = map (\<lambda>m. if m_name m = m_name x then g x else m) (st w)"
    using step [OF _ _ w1(1)] Cons.prems by simp
  have names: "map m_name (st w1) = map m_name (st w)"
    by (simp add: st1 name)
  have "y \<in> set (st w1)" if "y \<in> set xs" for y
  proof -
    have "m_name y \<noteq> m_name x" using Cons.prems(3) that by (metis distinct.simps(2) image_eqI
        list.set_map list.simps(9))
    with that Cons.prems(2) show ?thesis by (force simp: st1)
  qed
  with Cons.IH [OF w1(2)] Cons.prems names
  have "st w' = map (\<lambda>m. if m_name m \<in> m_name ` set xs then g m else m) (st w1)"
    by auto
  also have "\<dots> = map (\<lambda>m. if m_name m \<in> m_name ` set (x # xs) then g m else m) (st w)"
  proof -
    have "m = x" if "m \<in> set (st w)" "m_name m = m_name x" for m
      using that Cons.prems(2,4) by (auto simp: distinct_map dest: inj_onD)
    moreover have "m_name x \<notin> m_name ` set xs" using Cons.prems(3) by simp
    ultimately show ?thesis by (auto simp: st1 name)
  qed
  finally show ?case .
qed

lemma name_in_filter:
  assumes "distinct (map m_name ns)" and "m \<in> set ns"
  shows "m_name m \<in> m_name ` set (filter p ns) \<longleftrightarrow> p m"
  using assms by (auto simp: distinct_map dest: inj_onD)

lemma map_named_filter:
  assumes "distinct (map m_name ns)"
  shows "map (\<lambda>m. if m_name m \<in> m_name ` set (filter p ns) then f m else h m) ns =
    map (\<lambda>m. if p m then f m else h m) ns"
  using name_in_filter [OF assms] by (intro map_cong refl) (simp only:)

definition leftNode :: "attrs_codec \<Rightarrow> node \<Rightarrow> node" where
  "leftNode c n = (case removePoolRelatedAttrs c n of Inr n' \<Rightarrow> n' | Inl e \<Rightarrow> n)"

definition joinedNode :: "attrs_codec \<Rightarrow> nodepool \<Rightarrow> node \<Rightarrow> node" where
  "joinedNode c np n =
     (case concilateNode c n np of Inr (n', u) \<Rightarrow> if u then n' else n | Inl e \<Rightarrow> n)"

text \<open>What one reconciliation of the pool \<open>np\<close> makes of a node of the cluster.\<close>

definition reconciledNode :: "attrs_codec \<Rightarrow> nodepool \<Rightarrow> node \<Rightarrow> node" where
  "reconciledNode c np n =
     (if gget (m_labels n) LabelDesiredNodePool = Some (m_name np) then joinedNode c np n
      else if gget (m_labels n) LabelCurrentNodePool = Some (m_name np) then leftNode c n
      else n)"

lemma m_name_leftNode [simp]: "m_name (leftNode c n) = m_name n"
  by (auto simp: leftNode_def removePoolRelatedAttrs_def Let_def split: sum.split option.split)

lemma m_name_joinedNode [simp]: "m_name (joinedNode c np n) = m_name n"
  by (auto simp: joinedNode_def dest: concilateNode_owned split: sum.split)

lemma m_name_reconciledNode [simp]: "m_name (reconciledNode c np n) = m_name n"
  by (simp add: reconciledNode_def)

lemma leaveNode_step:
  assumes "node_store env st" and "leaveNode env n w = (Ret (), w')"
  shows "st w' = map (\<lambda>m. if m_name m = m_name n then leftNode (npe_codec env) n else m) (st w)"
proof -
  from assms(2) obtain n' where n': "removePoolRelatedAttrs (npe_codec env) n = Inr n'"
    and upd: "npe_UpdateNode env n' w = (Ret (), w')"
    by (auto simp: leaveNode_def io_simps split: sum.splits)
  from n' have eq: "n' = leftNode (npe_codec env) n" by (simp add: leftNode_def)
  then have "m_name n' = m_name n" by simp
  with node_storeD(3) [OF assms(1) upd] eq show ?thesis by simp
qed

lemma joinNode_step:
  assumes "node_store env st" and "n \<in> set (st w)" and "distinct (map m_name (st w))"
    and "joinNode env np n w = (Ret (), w')"
  shows "st w' =
    map (\<lambda>m. if m_name m = m_name n then joinedNode (npe_codec env) np n else m) (st w)"
proof -
  from assms(4) obtain n' u where c: "concilateNode (npe_codec env) n np = Inr (n', u)"
    by (auto simp: joinNode_def io_simps split: sum.splits)
  show ?thesis
  proof (cases u)
    case True
    with c assms(4) node_storeD(3) [OF assms(1), of n' w w'] concilateNode_owned [OF c]
    show ?thesis by (simp add: joinNode_def joinedNode_def)
  next
    case False
    then have "st w' = st w" and "joinedNode (npe_codec env) np n = n"
      using c assms(4) by (simp_all add: joinNode_def joinedNode_def io_simps)
    moreover have "map (\<lambda>m. if m_name m = m_name n then n else m) (st w) = st w"
    proof (rule map_idI)
      fix m assume "m \<in> set (st w)"
      with assms(2,3) show "(if m_name m = m_name n then n else m) = m"
        by (auto simp: distinct_map dest: inj_onD)
    qed
    ultimately show ?thesis by (simp cong: if_cong)
  qed
qed

text \<open>Running \<open>Reconcile\<close> to success, step by step.\<close>

lemma Reconcile_np_run:
  assumes "Reconcile_np env name w = (Ret (), w')" and "npe_Get env name w = (Ret np, w0)"
    and "node_store env st"
  obtains (failed_list) k v u e u' where "npe_ListNodes env k v u = (Err e, u')" and "st w' = st w"
  | (finished) desired current w1 w2 w3 w4 where
      "npe_ListNodes env LabelDesiredNodePool (m_name np) w0 = (Ret desired, w1)"
      "npe_ListNodes env LabelCurrentNodePool (m_name np) w1 = (Ret current, w2)"
      "forEach (leaveNode env) (getRemovedNodes current desired) w2 = (Ret (), w3)"
      "forEach (joinNode env np) desired w3 = (Ret (), w4)"
      "(case conciliateNodePoolStatus (readyCount env desired) (notReadyCount env desired)
          (if desired = [] then None else Some (map m_name desired)) np of
        (np', needUpdate) \<Rightarrow> if needUpdate then npe_UpdateStatus env np' else ret ()) w4
        = (Ret (), w')"
proof -
  note st = node_storeD [OF assms(3)]
  obtain r1 w1 where l1: "npe_ListNodes env LabelDesiredNodePool (m_name np) w0 = (r1, w1)"
    by fastforce
  have st1: "st w1 = st w" using st(1) [OF l1] st(4) [OF assms(2)] by simp
  show thesis
  proof (cases r1)
    case (Ret desired)
    obtain r2 w2 where l2: "npe_ListNodes env LabelCurrentNodePool (m_name np) w1 = (r2, w2)"
      by fastforce
    have st2: "st w2 = st w" using st(1) [OF l2] st1 by simp
    show thesis
    proof (cases r2)
      case (Ret current)
      with assms(1,2) l1 l2 \<open>r1 = Ret desired\<close>
      have "andThen (forEach (leaveNode env) (getRemovedNodes current desired)) (\<lambda>_.
        andThen (joinNodes env np desired 0 0 None) (\<lambda>(ready, notReady, nodes).
          case conciliateNodePoolStatus ready notReady nodes np of (np', needUpdate) \<Rightarrow>
            (if needUpdate then npe_UpdateStatus env np' else ret ()))) w2 = (Ret (), w')"
        by (simp add: Reconcile_np_def andThen_def [of "attempt m" for m] attempt_def)
      with finished l1 l2 Ret \<open>r1 = Ret desired\<close> show thesis
        by (auto simp: joinNodes_split andThen_assoc elim!: andThen_RetD cong: if_cong)
    next
      case (Err e)
      with assms(1,2) l1 l2 \<open>r1 = Ret desired\<close> have "w' = w2"
        by (auto simp: Reconcile_np_def andThen_def attempt_def ignoreNotFound_def io_simps
            split: if_splits)
      with st2 l2 Err show thesis using failed_list by simp
    qed (use assms(1,2) l1 l2 Ret in \<open>simp add: Reconcile_np_def andThen_def attempt_def\<close>)
  next
    case (Err e)
    with assms(1,2) l1 have "w' = w1"
      by (auto simp: Reconcile_np_def andThen_def attempt_def ignoreNotFound_def io_simps
          split: if_splits)
    with st1 l1 Err show thesis using failed_list by simp
  qed (use assms(1,2) l1 in \<open>simp add: Reconcile_np_def andThen_def attempt_def\<close>)
qed

lemma getRemovedNodes_filter:
  assumes "distinct (map m_name ns)"
  shows "getRemovedNodes (filter p ns) (filter q ns) = filter (\<lambda>n. p n \<and> \<not> q n) ns"
proof -
  have "list_ex (\<lambda>d. m_name m = m_name d) (filter q ns) = q m" if "m \<in> set ns" for m
    using name_in_filter [OF assms that, of q] by (auto simp: list_ex_iff)
  then show ?thesis
    by (auto simp: getRemovedNodes_def intro!: filter_cong)
qed

lemma distinct_names_filter: "distinct (map m_name ns) \<Longrightarrow> distinct (map m_name (filter p ns))"
  by (rule distinct_map_filter)

text \<open>The nodes after a reconciliation that ran to its end.\<close>

lemma Reconcile_np_stores:
  assumes run: "Reconcile_np env name w = (Ret (), w')" and get: "npe_Get env name w = (Ret np, w0)"
    and store: "node_store env st" and names: "distinct (map m_name (st w))"
    and lists: "\<And>k v u. \<exists>ns. fst (npe_ListNodes env k v u) = Ret ns"
  shows "st w' = map (reconciledNode (npe_codec env) np) (st w)"
  using run get store
proof (cases rule: Reconcile_np_run)
  case (failed_list k v u e u')
  with lists [of k v u] show ?thesis by simp
next
  case (finished desired current w1 w2 w3 w4)
  note st = node_storeD [OF store]
  let ?des = "\<lambda>n. gget (m_labels n) LabelDesiredNodePool = Some (m_name np)"
  let ?cur = "\<lambda>n. gget (m_labels n) LabelCurrentNodePool = Some (m_name np)"
  let ?leave = "\<lambda>n. if ?cur n \<and> \<not> ?des n then leftNode (npe_codec env) n else n"
  have w2: "st w2 = st w" and desired: "desired = filter ?des (st w)"
    and current: "current = filter ?cur (st w)"
    using st(1) [OF finished(2)] st(1,2) [OF finished(1)] st(2) [OF finished(2)] st(4) [OF get]
    by simp_all
  have removed: "getRemovedNodes current desired = filter (\<lambda>n. ?cur n \<and> \<not> ?des n) (st w)"
    unfolding desired current using names by (rule getRemovedNodes_filter)
  have st3: "st w3 = map ?leave (st w)"
  proof -
    have "st w3 = map (\<lambda>m. if m_name m \<in> m_name ` set (getRemovedNodes current desired)
        then leftNode (npe_codec env) m else m) (st w2)"
      by (rule forEach_replaces [OF leaveNode_step [OF store] _ finished(3)])
        (use names in \<open>simp_all add: w2 removed distinct_names_filter\<close>)
    then show ?thesis
      unfolding removed w2 map_named_filter [OF names] .
  qed
  have leave_name: "m_name (?leave n) = m_name n" for n
    by simp
  have st3_names: "map m_name (st w3) = map m_name (st w)"
    by (simp add: st3 leave_name del: if_image_distrib cong: map_cong)
  have "set desired \<subseteq> set (st w3)"
    by (force simp: st3 desired)
  then have "st w4 = map (\<lambda>m. if m_name m \<in> m_name ` set desired
      then joinedNode (npe_codec env) np m else m) (st w3)"
    by (intro forEach_replaces [OF joinNode_step [OF store] _ finished(4)])
      (use names st3_names in \<open>simp_all add: desired distinct_names_filter\<close>)
  also have "\<dots> = map (\<lambda>n. if m_name n \<in> m_name ` set (filter ?des (st w))
      then joinedNode (npe_codec env) np (?leave n) else ?leave n) (st w)"
    unfolding desired st3 map_map comp_def leave_name ..
  also have "\<dots> = map (reconciledNode (npe_codec env) np) (st w)"
    unfolding map_named_filter [OF names] by (simp add: reconciledNode_def cong: if_cong)
  finally show ?thesis
    using finished(5) st(5) by (auto simp: io_simps split: prod.splits if_splits)
qed


text \<open>The run succeeded, so every desired node was conciled without an error.\<close>

lemma forEach_Ret_all:
  "forEach f xs w = (Ret (), w') \<Longrightarrow> x \<in> set xs \<Longrightarrow> \<exists>u u'. f x u = (Ret (), u')"
proof (induction xs arbitrary: w)
  case (Cons y ys)
  from Cons.prems(1) obtain w1 where "f y w = (Ret (), w1)" "forEach f ys w1 = (Ret (), w')"
    by (auto elim!: andThen_RetD)
  with Cons.IH Cons.prems(2) show ?case by (cases "x = y") (blast, simp)
qed simp

lemma joinNode_Ret:
  "joinNode env np n u = (Ret (), u') \<Longrightarrow> \<exists>n' b. concilateNode (npe_codec env) n np = Inr (n', b)"
  by (auto simp: joinNode_def io_simps split: sum.splits)

lemma Reconcile_np_concilated:
  assumes run: "Reconcile_np env name w = (Ret (), w')" and get: "npe_Get env name w = (Ret np, w0)"
    and store: "node_store env st"
    and lists: "\<And>k v u. \<exists>ns. fst (npe_ListNodes env k v u) = Ret ns"
    and n: "n \<in> set (st w)" "gget (m_labels n) LabelDesiredNodePool = Some (m_name np)"
  shows "\<exists>n' b. concilateNode (npe_codec env) n np = Inr (n', b)"
  using run get store
proof (cases rule: Reconcile_np_run)
  case (failed_list k v u e u')
  with lists [of k v u] show ?thesis by simp
next
  case (finished desired current w1 w2 w3 w4)
  with n node_storeD(2) [OF store finished(1)] node_storeD(4) [OF store get]
  have "n \<in> set desired" by simp
  then obtain u u' where "joinNode env np n u = (Ret (), u')"
    using forEach_Ret_all [OF finished(4)] by blast
  then show ?thesis by (rule joinNode_Ret)
qed

lemma joinedNode_owned:
  "concilateNode c n np = Inr (n', b) \<Longrightarrow>
   gval (m_labels (joinedNode c np n)) LabelCurrentNodePool = m_name np"
  using concilateNode_owned [of c n np n' b] concilateNode_unchanged [of c n np n']
  by (cases b) (simp_all add: joinedNode_def)


text \<open>Reconciling a node twice is reconciling it once.\<close>

lemma leftNode_again:
  assumes "gget (m_labels n) LabelDesiredNodePool \<noteq> Some (m_name np)"
  shows "reconciledNode c np (leftNode c n) = leftNode c n"
proof (cases "leftNode c n = n")
  case True
  with assms show ?thesis by (simp add: reconciledNode_def)
next
  case False
  then have "gget (m_labels (leftNode c n)) LabelCurrentNodePool = None"
    and "gget (m_labels (leftNode c n)) LabelDesiredNodePool = None \<or>
      gget (m_labels (leftNode c n)) LabelDesiredNodePool = gget (m_labels n) LabelDesiredNodePool"
    by (auto simp: leftNode_def removePoolRelatedAttrs_def Let_def gget_gdel
        split: sum.splits option.splits) (metis gget_dropMatching_le)
  with assms show ?thesis by (auto simp: reconciledNode_def)
qed

lemma joinedNode_again:
  assumes "concilateNode c n np = Inr (n', b)" and "codec_roundtrips c (poolAttrs np)"
    and "attrs_ok (poolAttrs np)" and "attrs_canonical (poolAttrs np)"
  shows "joinedNode c np (joinedNode c np n) = joinedNode c np n"
  using assms concilateNode_unchanged [of c n np n'] concilateNode_settled [OF assms]
  by (cases b) (simp_all add: joinedNode_def)

lemma reconciledNode_again:
  assumes ran: "gget (m_labels n) LabelDesiredNodePool = Some (m_name np) \<Longrightarrow>
      \<exists>n' b. concilateNode c n np = Inr (n', b)"
    and codec: "codec_roundtrips c (poolAttrs np)" and ok: "attrs_ok (poolAttrs np)"
    and canon: "attrs_canonical (poolAttrs np)"
    and keeps: "gget (nps_labels (np_spec np)) LabelDesiredNodePool = None"
      "\<And>js pre. gget (m_annotations n) AnnotationPrevAttrs = Some js \<Longrightarrow>
        unmarshalAttrs c js = Inr pre \<Longrightarrow> gget (pa_labels pre) LabelDesiredNodePool = None"
  shows "reconciledNode c np (reconciledNode c np n) = reconciledNode c np n"
proof (cases "gget (m_labels n) LabelDesiredNodePool = Some (m_name np)")
  case True
  with ran obtain n' b where n': "concilateNode c n np = Inr (n', b)" by blast
  with keeps ok have "gget (m_labels n') LabelDesiredNodePool = Some (m_name np)"
    using concilateNode_other_label [OF n', of LabelDesiredNodePool] True by simp
  with n' True concilateNode_unchanged [of c n np n']
  have "gget (m_labels (joinedNode c np n)) LabelDesiredNodePool = Some (m_name np)"
    by (cases b) (simp_all add: joinedNode_def)
  with True joinedNode_again [OF n' codec ok canon] show ?thesis
    by (simp add: reconciledNode_def)
next
  case False
  with leftNode_again [of n np c] show ?thesis by (simp add: reconciledNode_def)
qed

lemma reconciledNode_spec:
  "np_spec np' = np_spec np \<Longrightarrow> m_name np' = m_name np \<Longrightarrow>
   reconciledNode c np' = reconciledNode c np"
proof -
  assume eq: "np_spec np' = np_spec np" "m_name np' = m_name np"
  then have "concilateNode c n np' = concilateNode c n np" for n
    by (simp only: concilateNode_def poolAttrs_def)
  with eq show ?thesis by (simp add: fun_eq_iff reconciledNode_def joinedNode_def)
qed


text \<open>What the run writes as the pool's status.\<close>

definition listedStatus :: "'w np_env \<Rightarrow> node list \<Rightarrow> nodepool_status" where
  "listedStatus env ns = \<lparr>nst_readyNodeNum = readyCount env ns,
     nst_unreadyNodeNum = notReadyCount env ns,
     nst_nodes = (if ns = [] then None else Some (sort (map m_name ns)))\<rparr>"

definition statusUpToDate :: "'w np_env \<Rightarrow> node list \<Rightarrow> nodepool \<Rightarrow> bool" where
  "statusUpToDate env ns np \<longleftrightarrow>
     (np_status np)\<lparr>nst_nodes := map_option sort (nst_nodes (np_status np))\<rparr> = listedStatus env ns"

lemma conciliate_listed:
  assumes "conciliateNodePoolStatus (readyCount env ns) (notReadyCount env ns)
     (if ns = [] then None else Some (map m_name ns)) np = (np', b)"
  shows "np_status np' = listedStatus env ns" and "b \<longleftrightarrow> \<not> statusUpToDate env ns np"
    and "np_spec np' = np_spec np" and "m_name np' = m_name np"
  using conciliateNodePoolStatus_status [of "readyCount env ns" "notReadyCount env ns"
      "if ns = [] then None else Some (map m_name ns)" np]
    conciliateNodePoolStatus_needed [of "readyCount env ns" "notReadyCount env ns"
      "if ns = [] then None else Some (map m_name ns)" np]
    conciliateNodePoolStatus_frame [of "readyCount env ns" "notReadyCount env ns"
      "if ns = [] then None else Some (map m_name ns)" np] assms
  by (cases "np_status np"; auto simp: listedStatus_def statusUpToDate_def)+


subsection \<open>Properties\<close>

text \<open>C4: a reconciliation that returns without an error, every list having been answered, leaves
  each stored node as \<open>reconciledNode\<close> says: a node that asks for the pool is conciled with it
  and owned by it, a node the pool owned that no longer asks for it is stripped, every other
  node is untouched.\<close>

theorem Reconcile_np_nodes:
  assumes "Reconcile_np env name w = (Ret (), w')" and "npe_Get env name w = (Ret np, w0)"
    and "node_store env st" and "distinct (map m_name (st w))"
    and "\<And>k v u. \<exists>ns. fst (npe_ListNodes env k v u) = Ret ns"
  shows "st w' = map (reconciledNode (npe_codec env) np) (st w) \<and>
    (\<forall>n \<in> set (st w). gget (m_labels n) LabelDesiredNodePool = Some (m_name np) \<longrightarrow>
      gval (m_labels (reconciledNode (npe_codec env) np n)) LabelCurrentNodePool = m_name np)"
proof (intro conjI ballI impI)
  show "st w' = map (reconciledNode (npe_codec env) np) (st w)"
    using assms by (rule Reconcile_np_stores)
  fix n assume n: "n \<in> set (st w)" "gget (m_labels n) LabelDesiredNodePool = Some (m_name np)"
  from Reconcile_np_concilated [OF assms(1,2,3,5) n] joinedNode_owned n(2)
  show "gval (m_labels (reconciledNode (npe_codec env) np n)) LabelCurrentNodePool = m_name np"
    by (auto simp: reconciledNode_def)
qed

text \<open>C5: two reconciliations in a row leave the nodes as the first one left them, for a pool
  whose attributes survive JSON and say nothing of the label by which nodes choose a pool.\<close>

theorem Reconcile_np_twice:
  assumes run1: "Reconcile_np env name w = (Ret (), w1)" "npe_Get env name w = (Ret np, v)"
    and run2: "Reconcile_np env name w1 = (Ret (), w2)" "npe_Get env name w1 = (Ret np', v')"
    and same: "np_spec np' = np_spec np" "m_name np' = m_name np"
    and store: "node_store env st" and names: "distinct (map m_name (st w))"
    and lists: "\<And>k v u. \<exists>ns. fst (npe_ListNodes env k v u) = Ret ns"
    and attrs: "codec_roundtrips (npe_codec env) (poolAttrs np)"
      "attrs_ok (poolAttrs np)" "attrs_canonical (poolAttrs np)"
    and keeps: "gget (nps_labels (np_spec np)) LabelDesiredNodePool = None"
      "\<And>n js pre. n \<in> set (st w) \<Longrightarrow> gget (m_annotations n) AnnotationPrevAttrs = Some js \<Longrightarrow>
        unmarshalAttrs (npe_codec env) js = Inr pre \<Longrightarrow>
        gget (pa_labels pre) LabelDesiredNodePool = None"
  shows "st w2 = st w1"
proof -
  let ?f = "reconciledNode (npe_codec env) np"
  have w1: "st w1 = map ?f (st w)"
    using run1 store names lists by (rule Reconcile_np_stores)
  have "distinct (map m_name (st w1))"
    using names by (simp add: w1 comp_def)
  with run2 store lists have "st w2 = map (reconciledNode (npe_codec env) np') (st w1)"
    by (intro Reconcile_np_stores)
  then have w2: "st w2 = map (\<lambda>n. ?f (?f n)) (st w)"
    by (simp add: reconciledNode_spec [OF same] w1)
  have "?f (?f n) = ?f n" if "n \<in> set (st w)" for n
    using Reconcile_np_concilated [OF run1 store lists that] attrs keeps(1) keeps(2) [OF that]
    by (rule reconciledNode_again)
  with w1 w2 show ?thesis by simp
qed


text \<open>Creating a default pool takes at most five attempts; it answers true exactly if an
  attempt created the pool with the given name and type, and false only if the pool existed
  or all five attempts failed. It never returns an error.\<close>

theorem createNodePool_result:
  assumes create: "\<And>np u r u'. npe_Create env np u = (r, u') \<Longrightarrow> cnt u' = Suc (cnt u) \<and>
      (case r of Ret x \<Rightarrow> pools u' = pools u @ [np]
       | Err e \<Rightarrow> pools u' = pools u \<and> (isAlreadyExists e \<longrightarrow> m_name np \<in> m_name ` set (pools u))
       | Panic p \<Rightarrow> False)"
    and sleep: "\<And>s u. \<exists>u'. npe_Sleep env s u = (Ret (), u') \<and> cnt u' = cnt u \<and> pools u' = pools u"
  shows "\<exists>b w'. createNodePool env name ty w = (Ret b, w') \<and> cnt w' \<le> cnt w + 5 \<and>
    (if b then pools w' = pools w @ [newNodePool name ty]
     else pools w' = pools w \<and> (name \<in> m_name ` set (pools w) \<or> cnt w' = cnt w + 5))"
proof -
  have "\<exists>b w'. createNodePool_tries k env (newNodePool name ty) w = (Ret b, w') \<and>
      cnt w' \<le> cnt w + k \<and>
      (if b then pools w' = pools w @ [newNodePool name ty]
       else pools w' = pools w \<and> (name \<in> m_name ` set (pools w) \<or> cnt w' = cnt w + k))" for k
  proof (induction k arbitrary: w)
    case (Suc k)
    obtain r u where c: "npe_Create env (newNodePool name ty) w = (r, u)" by fastforce
    note eff = create [OF c]
    show ?case
    proof (cases r)
      case (Err e)
      obtain u' where s: "npe_Sleep env 2 u = (Ret (), u')" "cnt u' = cnt u" "pools u' = pools u"
        using sleep by blast
      show ?thesis
      proof (cases "isAlreadyExists e")
        case True
        with eff c Err show ?thesis
          by (intro exI [of _ False] exI [of _ u])
            (simp add: andThen_def attempt_def io_simps newNodePool_def)
      next
        case False
        then have "createNodePool_tries (Suc k) env (newNodePool name ty) w =
            createNodePool_tries k env (newNodePool name ty) u'"
          by (simp add: andThen_def attempt_def s(1) c Err)
        moreover have "cnt u' = Suc (cnt w)" "pools u' = pools w" using eff s Err by simp_all
        moreover obtain b w' where
          "createNodePool_tries k env (newNodePool name ty) u' = (Ret b, w')"
          "cnt w' \<le> cnt u' + k" "if b then pools w' = pools u' @ [newNodePool name ty]
            else pools w' = pools u' \<and> (name \<in> m_name ` set (pools u') \<or> cnt w' = cnt u' + k)"
          using Suc.IH [of u'] by blast
        ultimately show ?thesis
          by (intro exI [of _ b] exI [of _ w']) (cases b; simp del: createNodePool_tries.simps)
      qed
    qed (use eff c in \<open>auto simp: andThen_def attempt_def io_simps\<close>)
  qed (auto simp: io_simps)
  from this [of 5] show ?thesis by (simp only: createNodePool_def)
qed

subsection \<open>An API server in memory to try the properties on\<close>

record cluster =
  cl_nodes :: "node list"
  cl_pools :: "nodepool list"
  cl_creates :: nat

definition memory_env :: "attrs_codec \<Rightarrow> cluster np_env" where
  "memory_env c = \<lparr>npe_codec = c,
     npe_GetNodeCondition = (\<lambda>cs t. find (\<lambda>nc. nc_type nc = t) cs),
     npe_Get = (\<lambda>name w.
       (case find (\<lambda>np. m_name np = name) (cl_pools w) of
          None \<Rightarrow> Err (StatusErr NotFound ''not found'') | Some np \<Rightarrow> Ret np, w)),
     npe_ListNodes = (\<lambda>k v w. (Ret (filter (\<lambda>n. gget (m_labels n) k = Some v) (cl_nodes w)), w)),
     npe_UpdateNode = (\<lambda>n w. (Ret (),
       w\<lparr>cl_nodes := map (\<lambda>m. if m_name m = m_name n then n else m) (cl_nodes w)\<rparr>)),
     npe_UpdateStatus = (\<lambda>np w. (Ret (), w\<lparr>cl_pools :=
       map (\<lambda>p. if m_name p = m_name np then p\<lparr>np_status := np_status np\<rparr> else p) (cl_pools w)\<rparr>)),
     npe_Create = (\<lambda>np w.
       (if m_name np \<in> m_name ` set (cl_pools w)
        then (Err (StatusErr AlreadyExists ''exists''), w\<lparr>cl_creates := Suc (cl_creates w)\<rparr>)
        else (Ret (), w\<lparr>cl_creates := Suc (cl_creates w), cl_pools := cl_pools w @ [np]\<rparr>))),
     npe_Sleep = (\<lambda>s w. (Ret (), w))\<rparr>"

definition demo_want :: node where
  "demo_want = demo_node\<lparr>m_labels := Some [(LabelDesiredNodePool, ''hangzhou'')],
     n_conditions := [\<lparr>nc_type = ''Ready'', nc_status = ''True''\<rparr>]\<rparr>"

definition demo_left :: node where
  "demo_left = demo_joined\<lparr>m_name := ''n2''\<rparr>"

definition demo_cluster :: cluster where
  "demo_cluster = \<lparr>cl_nodes = [demo_want, demo_left], cl_pools = [demo_pool], cl_creates = 0\<rparr>"

definition demo_after :: cluster where
  "demo_after = snd (Reconcile_np (memory_env demo_codec) ''hangzhou'' demo_cluster)"

definition demo_again :: cluster where
  "demo_again = snd (Reconcile_np (memory_env demo_codec) ''hangzhou'' demo_after)"

definition demo_pool_after :: nodepool where
  "demo_pool_after = hd (cl_pools demo_after)"

lemma memory_store: "node_store (memory_env c) cl_nodes"
  by (auto simp: node_store_def memory_env_def)

lemma memory_lists: "\<exists>ns. fst (npe_ListNodes (memory_env c) k v u) = Ret ns"
  by (simp add: memory_env_def)

lemma memory_codec [simp]: "npe_codec (memory_env c) = c"
  by (simp add: memory_env_def)

lemma demo_cluster_runs:
  "Reconcile_np (memory_env demo_codec) ''hangzhou'' demo_cluster = (Ret (), demo_after)"
  "npe_Get (memory_env demo_codec) ''hangzhou'' demo_cluster = (Ret demo_pool, demo_cluster)"
  "Reconcile_np (memory_env demo_codec) ''hangzhou'' demo_after = (Ret (), demo_again)"
  "npe_Get (memory_env demo_codec) ''hangzhou'' demo_after = (Ret demo_pool_after, demo_after)"
  "np_spec demo_pool_after = np_spec demo_pool" "m_name demo_pool_after = m_name demo_pool"
  "distinct (map m_name (cl_nodes demo_cluster))"
  "gget (nps_labels (np_spec demo_pool)) LabelDesiredNodePool = None"
  "gget (pa_labels (poolAttrs demo_pool)) LabelDesiredNodePool = None"
  "\<not> statusUpToDate (memory_env demo_codec)
     (filter (\<lambda>n. gget (m_labels n) LabelDesiredNodePool = Some (m_name demo_pool))
       (cl_nodes demo_cluster)) demo_pool"
  "filter (\<lambda>n. gget (m_labels n) LabelDesiredNodePool = Some (m_name demo_pool))
     (cl_nodes demo_cluster) = [demo_want]"
  by code_simp+

lemma demo_codec_reads: "unmarshalAttrs demo_codec js = Inr pre \<longleftrightarrow> pre = poolAttrs demo_pool"
  by (auto simp: demo_codec_def)

theorem Reconcile_np_nodes_witness:
  "cl_nodes demo_after = map (reconciledNode demo_codec demo_pool) [demo_want, demo_left]"
  using Reconcile_np_nodes [OF demo_cluster_runs(1,2) memory_store demo_cluster_runs(7)
      memory_lists]
  by (simp add: demo_cluster_def)

theorem Reconcile_np_twice_witness: "cl_nodes demo_again = cl_nodes demo_after"
  by (rule Reconcile_np_twice [OF demo_cluster_runs(1-6) memory_store demo_cluster_runs(7)
        memory_lists, unfolded memory_codec, OF demo_facts(8,5,7) demo_cluster_runs(8)])
    (simp add: demo_codec_reads demo_cluster_runs(9))


theorem createNodePool_result_witness:
  "\<exists>b w'. createNodePool (memory_env demo_codec) ''hangzhou'' ''Edge'' demo_cluster = (Ret b, w')
     \<and> cl_creates w' \<le> 5"
proof -
  have "cl_creates demo_cluster = 0" by code_simp
  moreover have "\<exists>b w'. createNodePool (memory_env demo_codec) ''hangzhou'' ''Edge'' demo_cluster
      = (Ret b, w') \<and> cl_creates w' \<le> cl_creates demo_cluster + 5 \<and>
    (if b then cl_pools w' = cl_pools demo_cluster @ [newNodePool ''hangzhou'' ''Edge'']
     else cl_pools w' = cl_pools demo_cluster \<and>
       (''hangzhou'' \<in> m_name ` set (cl_pools demo_cluster)
         \<or> cl_creates w' = cl_creates demo_cluster + 5))"
    by (rule createNodePool_result) (auto simp: memory_env_def split: if_splits)
  ultimately show ?thesis by auto
qed

end
