(* ===== verification/NodePool_Events.thy ===== *)
theory NodePool_Events
  imports NodePool_Controller
begin

section \<open>Which pools a node event wakes up\<close>

text \<open>
  \<open>controller/nodepool/nodepool_enqueue_handlers.go\<close>. A handler is a function from the
  objects of the event to the names it adds to the work queue, in order. An object of the
  event that is not a \<open>*corev1.Node\<close> is \<open>None\<close>: the handler logs and returns.
\<close>

definition addNodePoolToWorkQueue :: "string \<Rightarrow> string list \<Rightarrow> string list" where
  "addNodePoolToWorkQueue npName q = q @ [npName]"

definition EnqueueNodePool_Create :: "node option \<Rightarrow> string list \<Rightarrow> string list" where
  "EnqueueNodePool_Create obj q =
     (case obj of
        None \<Rightarrow> q
      | Some node \<Rightarrow>
          (case gget (m_labels node) LabelDesiredNodePool of
             Some np \<Rightarrow> addNodePoolToWorkQueue np q
           | None \<Rightarrow> q))"

definition EnqueueNodePool_Update ::
  "'w np_env \<Rightarrow> node option \<Rightarrow> node option \<Rightarrow> string list \<Rightarrow> string list" where
  "EnqueueNodePool_Update env objOld objNew q =
     (case objNew of
        None \<Rightarrow> q
      | Some newNode \<Rightarrow>
     (case objOld of
        None \<Rightarrow> q
      | Some oldNode \<Rightarrow>
     (let newNp = gval (m_labels newNode) LabelDesiredNodePool;
          oldNp = gval (m_labels oldNode) LabelCurrentNodePool
      in if newNp \<noteq> oldNp then
           (if newNp = [] then addNodePoolToWorkQueue oldNp q
            else if oldNp = [] then addNodePoolToWorkQueue newNp q
            else addNodePoolToWorkQueue newNp (addNodePoolToWorkQueue oldNp q))
         else if isNodeReady env newNode \<noteq> isNodeReady env oldNode then
           addNodePoolToWorkQueue newNp q
         else if \<not> map_DeepEqual (m_labels newNode) (m_labels oldNode)
             \<or> \<not> map_DeepEqual (m_annotations newNode) (m_annotations oldNode)
             \<or> \<not> slice_DeepEqual (n_taints newNode) (n_taints oldNode) then
           addNodePoolToWorkQueue newNp q
         else q)))"

definition EnqueueNodePool_Delete :: "node option \<Rightarrow> string list \<Rightarrow> string list" where
  "EnqueueNodePool_Delete obj q =
     (case obj of
        None \<Rightarrow> q
      | Some node \<Rightarrow>
          (let np = gval (m_labels node) LabelCurrentNodePool
           in if np = [] then q else addNodePoolToWorkQueue np q))"

definition EnqueueNodePool_Generic :: "node option \<Rightarrow> string list \<Rightarrow> string list" where
  "EnqueueNodePool_Generic obj q = q"

subsection \<open>No pool that has work is forgotten\<close>

text \<open>What a pool's reconciliation looks at in one node: whether it is listed, its readiness
  and the attributes that are conciled.\<close>

definition same_for_pools :: "'w np_env \<Rightarrow> node \<Rightarrow> node \<Rightarrow> bool" where
  "same_for_pools env n1 n2 \<longleftrightarrow>
     isNodeReady env n1 = isNodeReady env n2 \<and>
     map_DeepEqual (m_labels n2) (m_labels n1) \<and>
     map_DeepEqual (m_annotations n2) (m_annotations n1) \<and>
     n_taints n1 = n_taints n2"

lemma Update_queue:
  "set (EnqueueNodePool_Update env (Some old) (Some new) q) = set q \<union>
     (let newNp = gval (m_labels new) LabelDesiredNodePool;
          oldNp = gval (m_labels old) LabelCurrentNodePool
      in if newNp \<noteq> oldNp then {newNp, oldNp} - {[]}
         else if same_for_pools env old new then {} else {newNp})"
  by (auto simp: EnqueueNodePool_Update_def addNodePoolToWorkQueue_def same_for_pools_def
      slice_DeepEqual_def Let_def)



end
