(* ===== verification/Workload.thy ===== *)
theory Workload
  imports K8s
begin

section \<open>Workloads and their templates\<close>

text \<open>
  Deployments, stateful sets, pod templates and controller revisions with the fields this
  repository reads or writes; what it only copies as a whole (strategies, the inside of a
  volume source or of a container) is an opaque text. The templates of \<open>apis/apps/v1alpha1/yurtappset_types.go\<close>, which
  \<open>UnitedDeployment\<close> and \<open>YurtAppDaemon\<close> share, follow.

  A deployment and a stateful set are one record with a body of two kinds, as behind the
  interface \<open>metav1.Object\<close>: a failed type assertion is a branch of the model.
\<close>

record node_selector_term =
  nt_matchExpressions :: "label_requirement goslice"
  nt_matchFields :: "label_requirement goslice"

definition empty_term :: node_selector_term where
  "empty_term = \<lparr>nt_matchExpressions = None, nt_matchFields = None\<rparr>"

text \<open>\<open>RequiredDuringSchedulingIgnoredDuringExecution\<close> is a pointer to the slice of terms.\<close>

record node_affinity =
  na_required :: "node_selector_term goslice option"
  na_preferred :: string

record affinity =
  af_nodeAffinity :: "node_affinity option"
  af_podAffinity :: string

text \<open>Of volumes and containers: the parts that \<open>defaults.go\<close> walks through.\<close>

record downward_item =
  di_body :: string
  di_fieldRef :: "string option"

record downward_api =
  dw_body :: string
  dw_items :: "downward_item list"

record projection =
  pr_body :: string
  pr_downwardAPI :: "downward_item list option"
  pr_serviceAccountToken :: "string option"

record projected =
  pj_body :: string
  pj_sources :: "projection list"

record volume =
  vl_body :: string
  vl_hostPath :: "string option"
  vl_secret :: "string option"
  vl_iscsi :: "string option"
  vl_rbd :: "string option"
  vl_downwardAPI :: "downward_api option"
  vl_configMap :: "string option"
  vl_azureDisk :: "string option"
  vl_projected :: "projected option"
  vl_scaleIO :: "string option"

record container_port =
  cp_body :: string
  cp_protocol :: string

text \<open>\<open>ValueFrom\<close> may be nil, and so may its \<open>FieldRef\<close>.\<close>

record env_var =
  ev_body :: string
  ev_fieldRef :: "string option option"

record probe =
  pb_body :: string
  pb_httpGet :: "string option"

record lifecycle =
  lc_postStart :: "string option option"
  lc_preStop :: "string option option"

record container =
  ct_body :: string
  ct_imagePullPolicy :: string
  ct_ports :: "container_port list"
  ct_env :: "env_var list"
  ct_limits :: string
  ct_requests :: string
  ct_livenessProbe :: "probe option"
  ct_readinessProbe :: "probe option"
  ct_lifecycle :: "lifecycle option"

record pod_spec =
  ps_affinity :: "affinity option"
  ps_tolerations :: "toleration goslice"
  ps_nodeSelector :: "string gomap"
  ps_volumes :: "volume list"
  ps_initContainers :: "container list"
  ps_containers :: "container list"

record volume_claim =
  vc_body :: string
  vc_limits :: string
  vc_requests :: string
  vc_capacity :: string

record pod_template = object_meta +
  pt_spec :: pod_spec

record deployment_spec =
  ds_replicas :: "int32 option"
  ds_selector :: "label_selector option"
  ds_template :: pod_template
  ds_strategy :: string
  ds_minReadySeconds :: int32
  ds_revisionHistoryLimit :: "int32 option"
  ds_paused :: bool
  ds_progressDeadlineSeconds :: "int32 option"

record update_strategy =
  us_type :: string
  us_rollingUpdate :: "int32 option option"

record stateful_set_spec =
  ss_replicas :: "int32 option"
  ss_selector :: "label_selector option"
  ss_template :: pod_template
  ss_volumeClaimTemplates :: "volume_claim goslice"
  ss_serviceName :: string
  ss_podManagementPolicy :: string
  ss_updateStrategy :: update_strategy
  ss_revisionHistoryLimit :: "int32 option"

record workload_status =
  ws_observedGeneration :: int64
  ws_readyReplicas :: int32

datatype workload_body =
  DeploymentBody deployment_spec workload_status
| StatefulSetBody stateful_set_spec workload_status

record workload = object_meta +
  w_body :: workload_body

record controller_revision = object_meta +
  cr_data :: string
  cr_revision :: int64

definition empty_pod_spec :: pod_spec where
  "empty_pod_spec = \<lparr>ps_affinity = None, ps_tolerations = None,
     ps_nodeSelector = None, ps_volumes = [], ps_initContainers = [], ps_containers = []\<rparr>"

definition empty_pod_template :: pod_template where
  "empty_pod_template = object_meta.extend empty_meta \<lparr>pt_spec = empty_pod_spec\<rparr>"

definition empty_workload_status :: workload_status where
  "empty_workload_status = \<lparr>ws_observedGeneration = 0, ws_readyReplicas = 0\<rparr>"

definition empty_deployment_spec :: deployment_spec where
  "empty_deployment_spec = \<lparr>ds_replicas = None, ds_selector = None,
     ds_template = empty_pod_template, ds_strategy = [], ds_minReadySeconds = 0,
     ds_revisionHistoryLimit = None, ds_paused = False, ds_progressDeadlineSeconds = None\<rparr>"

definition empty_stateful_set_spec :: stateful_set_spec where
  "empty_stateful_set_spec = \<lparr>ss_replicas = None, ss_selector = None,
     ss_template = empty_pod_template, ss_volumeClaimTemplates = None, ss_serviceName = [],
     ss_podManagementPolicy = [], ss_updateStrategy = \<lparr>us_type = [], us_rollingUpdate = None\<rparr>,
     ss_revisionHistoryLimit = None\<rparr>"

definition with_body :: "object_meta \<Rightarrow> workload_body \<Rightarrow> workload" where
  "with_body m b = object_meta.extend m \<lparr>w_body = b\<rparr>"

lemma with_body_simps [simp]:
  "w_body (with_body m b) = b" "m_labels (with_body m b) = m_labels m"
  "m_annotations (with_body m b) = m_annotations m" "m_owners (with_body m b) = m_owners m"
  "m_namespace (with_body m b) = m_namespace m" "m_name (with_body m b) = m_name m"
  by (simp_all add: with_body_def object_meta.defs)

definition getRevision :: "'a object_meta_scheme \<Rightarrow> string" where
  "getRevision obj =
     (if m_labels obj = None then [] else gval (m_labels obj) ControllerRevisionHashLabelKey)"

text \<open>\<open>yas.Spec.Topology.Pools\<close> and the templates\<close>

datatype template_type = StatefulSetTemplateType | DeploymentTemplateType | NoTemplateType

record stateful_set_template = object_meta +
  st_spec :: stateful_set_spec

record deployment_template = object_meta +
  dt_spec :: deployment_spec

record workload_template =
  wt_statefulSet :: "stateful_set_template option"
  wt_deployment :: "deployment_template option"

text \<open>The raw bytes of a patch are a text.\<close>

record pool_config =
  pc_name :: string
  pc_nodeSelectorTerm :: node_selector_term
  pc_tolerations :: "toleration goslice"
  pc_replicas :: "int32 option"
  pc_patch :: "string option"

end
