(* ===== verification/YI_Resources.thy ===== *)
theory YI_Resources
  imports Workload
begin

section \<open>The resources of an ingress controller\<close>

text \<open>
  \<open>util/kubernetes/util.go\<close> and \<open>apply_addons.go\<close>: creating, updating and deleting the objects of
  the templates in \<open>constant/nginx-ingress-controller-tmpl.go\<close>. The templates are named by the
  constants that hold them (\<open>yaml_template\<close>); their text, the filling out of a template
  (\<open>text/template\<close>), the decoding of YAML and the API server are the record \<open>ku_env\<close>. An object is
  one record for all kinds with the fields the code writes; asking for a kind it has not is the
  failed type assertion of the code. \<open>ku_Delete\<close> is told whether the call passes
  \<open>deleteOptions\<close> (foreground deletion).
\<close>

datatype obj_kind =
  KNamespace | KClusterRole | KClusterRoleBinding | KRole | KRoleBinding | KServiceAccount
| KConfigMap | KDeployment | KService | KWebhookConfig | KJob | KOther

record kobject = object_meta +
  ko_kind :: obj_kind
  ko_phase :: string
  ko_replicas :: "int32 option"
  ko_images :: "string list"
  ko_externalIPs :: "string goslice"
  ko_body :: string

datatype yaml_template =
  NginxIngressControllerNamespace | NginxIngressControllerClusterRole
| NginxIngressAdmissionWebhookClusterRole | NginxIngressControllerServiceAccount
| NginxIngressControllerConfigMap | NginxIngressControllerClusterRoleBinding
| NginxIngressControllerRole | NginxIngressControllerRoleBinding
| NginxIngressAdmissionWebhookService | NginxIngressControllerService
| NginxIngressControllerNodePoolDeployment | NginxIngressAdmissionWebhookDeployment
| NginxIngressValidatingWebhookConfiguration | NginxIngressAdmissionWebhookServiceAccount
| NginxIngressAdmissionWebhookClusterRoleBinding | NginxIngressAdmissionWebhookRole
| NginxIngressAdmissionWebhookRoleBinding | NginxIngressAdmissionWebhookJob
| NginxIngressAdmissionWebhookJobPatch

record 'w ku_env =
  ku_text :: "yaml_template \<Rightarrow> string"
  ku_Execute :: "string \<Rightarrow> (string \<times> string) list \<Rightarrow> go_error + string"
  ku_Decode :: "string \<Rightarrow> go_error + kobject"
  ku_Get :: "obj_kind \<Rightarrow> string \<Rightarrow> string \<Rightarrow> ('w, kobject) io"
  ku_Create :: "kobject \<Rightarrow> ('w, kobject) io"
  ku_Update :: "kobject \<Rightarrow> ('w, kobject) io"
  ku_Delete :: "bool \<Rightarrow> kobject \<Rightarrow> ('w, unit) io"
  ku_Sleep :: "nat \<Rightarrow> 'w \<Rightarrow> 'w"

definition sleep :: "'w ku_env \<Rightarrow> nat \<Rightarrow> ('w, unit) io" where
  "sleep env seconds w = (Ret (), ku_Sleep env seconds w)"

subsection \<open>Templates\<close>

definition YamlToObject :: "'w ku_env \<Rightarrow> string \<Rightarrow> go_error + kobject" where
  "YamlToObject env yamlContent = ku_Decode env yamlContent"

definition SubsituteTemplate ::
  "'w ku_env \<Rightarrow> string \<Rightarrow> (string \<times> string) list \<Rightarrow> go_error + string" where
  "SubsituteTemplate env tmpl context = ku_Execute env tmpl context"

text \<open>Decoding and the type assertion, with which every function here begins\<close>

definition decodeAs :: "'w ku_env \<Rightarrow> obj_kind \<Rightarrow> string \<Rightarrow> string \<Rightarrow> ('w, kobject) io" where
  "decodeAs env kind what tmpl =
     (case YamlToObject env tmpl of
        Inl e \<Rightarrow> fail e
      | Inr obj \<Rightarrow>
          (if ko_kind obj = kind then ret obj else fail (PlainErr (''fail to assert '' @ what))))"

definition fillAs ::
  "'w ku_env \<Rightarrow> obj_kind \<Rightarrow> string \<Rightarrow> string \<Rightarrow> (string \<times> string) list \<Rightarrow> ('w, kobject) io" where
  "fillAs env kind what tmpl ctx =
     (case SubsituteTemplate env tmpl ctx of
        Inl e \<Rightarrow> fail e
      | Inr text \<Rightarrow> decodeAs env kind what text)"

text \<open>Creating what may be there already, and deleting what may be gone: how every function here ends\<close>

definition createUnlessExists :: "'w ku_env \<Rightarrow> string \<Rightarrow> kobject \<Rightarrow> ('w, unit) io" where
  "createUnlessExists env what obj =
     andThen (attempt (ku_Create env obj)) (\<lambda>r. case r of
       Inr _ \<Rightarrow> ret ()
     | Inl e \<Rightarrow>
         (if \<not> isAlreadyExists e
          then fail (PlainErr (''fail to create the '' @ what @ ''/'' @ m_name obj @ '': '' @ error_text e))
          else ret ()))"

definition deleteIfFound :: "'w ku_env \<Rightarrow> string \<Rightarrow> bool \<Rightarrow> kobject \<Rightarrow> ('w, unit) io" where
  "deleteIfFound env what foreground obj =
     andThen (attempt (ku_Delete env foreground obj)) (\<lambda>r. case r of
       Inr _ \<Rightarrow> ret ()
     | Inl e \<Rightarrow>
         (if \<not> isNotFound e
          then fail (PlainErr (''fail to delete the '' @ what @ ''/'' @ m_name obj @ '': '' @ error_text e))
          else ret ()))"

subsection \<open>\<open>util.go\<close>\<close>

text \<open>The phase that is looked at is the one of the template: the server's object is not read.\<close>

definition CreateNamespaceFromYaml ::
  "'w ku_env \<Rightarrow> string \<Rightarrow> owner_ref list \<Rightarrow> ('w, unit) io" where
  "CreateNamespaceFromYaml env tmpl ownerRefs =
     andThen (decodeAs env KNamespace ''namespace'' tmpl) (\<lambda>obj.
       (let ns = obj\<lparr>m_owners := Some ownerRefs\<rparr> in
        andThen (attempt (ku_Create env ns)) (\<lambda>r. case r of
          Inr _ \<Rightarrow> sleep env 1
        | Inl e \<Rightarrow>
            (if \<not> isAlreadyExists e
             then fail (PlainErr (''fail to create the namespace/'' @ m_name ns @ '': '' @ error_text e))
             else if ko_phase ns \<noteq> ''Active''
             then fail (PlainErr (''namespace/'' @ m_name ns @ '' is not active: '' @ error_text e))
             else sleep env 1))))"

definition DeleteNamespaceFromYaml :: "'w ku_env \<Rightarrow> string \<Rightarrow> ('w, unit) io" where
  "DeleteNamespaceFromYaml env tmpl =
     andThen (decodeAs env KNamespace ''namespace'' tmpl) (deleteIfFound env ''namespace'' False)"

definition CreateClusterRoleFromYaml ::
  "'w ku_env \<Rightarrow> string \<Rightarrow> owner_ref list \<Rightarrow> ('w, unit) io" where
  "CreateClusterRoleFromYaml env tmpl ownerRefs =
     andThen (decodeAs env KClusterRole ''clusterrole'' tmpl) (\<lambda>obj.
       createUnlessExists env ''clusterrole'' (obj\<lparr>m_owners := Some ownerRefs\<rparr>))"

definition DeleteClusterRoleFromYaml :: "'w ku_env \<Rightarrow> string \<Rightarrow> ('w, unit) io" where
  "DeleteClusterRoleFromYaml env tmpl =
     andThen (decodeAs env KClusterRole ''clusterrole'' tmpl) (deleteIfFound env ''clusterrole'' False)"

definition CreateClusterRoleBindingFromYaml ::
  "'w ku_env \<Rightarrow> string \<Rightarrow> owner_ref list \<Rightarrow> ('w, unit) io" where
  "CreateClusterRoleBindingFromYaml env tmpl ownerRefs =
     andThen (decodeAs env KClusterRoleBinding ''clusterrolebinding'' tmpl) (\<lambda>obj.
       createUnlessExists env ''clusterrolebinding'' (obj\<lparr>m_owners := Some ownerRefs\<rparr>))"

definition DeleteClusterRoleBindingFromYaml :: "'w ku_env \<Rightarrow> string \<Rightarrow> ('w, unit) io" where
  "DeleteClusterRoleBindingFromYaml env tmpl =
     andThen (decodeAs env KClusterRoleBinding ''clusterrolebinding'' tmpl) (deleteIfFound env ''clusterrolebinding'' False)"

definition CreateRoleFromYaml ::
  "'w ku_env \<Rightarrow> string \<Rightarrow> owner_ref list \<Rightarrow> ('w, unit) io" where
  "CreateRoleFromYaml env tmpl ownerRefs =
     andThen (decodeAs env KRole ''role'' tmpl) (\<lambda>obj.
       createUnlessExists env ''role'' (obj\<lparr>m_owners := Some ownerRefs\<rparr>))"

definition DeleteRoleFromYaml :: "'w ku_env \<Rightarrow> string \<Rightarrow> ('w, unit) io" where
  "DeleteRoleFromYaml env tmpl =
     andThen (decodeAs env KRole ''role'' tmpl) (deleteIfFound env ''role'' False)"

definition CreateRoleBindingFromYaml ::
  "'w ku_env \<Rightarrow> string \<Rightarrow> owner_ref list \<Rightarrow> ('w, unit) io" where
  "CreateRoleBindingFromYaml env tmpl ownerRefs =
     andThen (decodeAs env KRoleBinding ''rolebinding'' tmpl) (\<lambda>obj.
       createUnlessExists env ''rolebinding'' (obj\<lparr>m_owners := Some ownerRefs\<rparr>))"

definition DeleteRoleBindingFromYaml :: "'w ku_env \<Rightarrow> string \<Rightarrow> ('w, unit) io" where
  "DeleteRoleBindingFromYaml env tmpl =
     andThen (decodeAs env KRoleBinding ''rolebinding'' tmpl) (deleteIfFound env ''rolebinding'' False)"

definition CreateServiceAccountFromYaml ::
  "'w ku_env \<Rightarrow> string \<Rightarrow> owner_ref list \<Rightarrow> ('w, unit) io" where
  "CreateServiceAccountFromYaml env tmpl ownerRefs =
     andThen (decodeAs env KServiceAccount ''serviceaccount'' tmpl) (\<lambda>obj.
       createUnlessExists env ''serviceaccount'' (obj\<lparr>m_owners := Some ownerRefs\<rparr>))"

definition DeleteServiceAccountFromYaml :: "'w ku_env \<Rightarrow> string \<Rightarrow> ('w, unit) io" where
  "DeleteServiceAccountFromYaml env tmpl =
     andThen (decodeAs env KServiceAccount ''serviceaccount'' tmpl) (deleteIfFound env ''serviceaccount'' False)"

definition CreateConfigMapFromYaml ::
  "'w ku_env \<Rightarrow> string \<Rightarrow> owner_ref list \<Rightarrow> ('w, unit) io" where
  "CreateConfigMapFromYaml env tmpl ownerRefs =
     andThen (decodeAs env KConfigMap ''configmap'' tmpl) (\<lambda>obj.
       createUnlessExists env ''configmap'' (obj\<lparr>m_owners := Some ownerRefs\<rparr>))"

definition DeleteConfigMapFromYaml :: "'w ku_env \<Rightarrow> string \<Rightarrow> ('w, unit) io" where
  "DeleteConfigMapFromYaml env tmpl =
     andThen (decodeAs env KConfigMap ''configmap'' tmpl) (deleteIfFound env ''configmap'' False)"

definition setImage :: "string \<Rightarrow> kobject \<Rightarrow> ('w, kobject) io" where
  "setImage img obj =
     (if img = [] then ret obj
      else if ko_images obj = [] then lift (Panic ''index out of range'')
      else ret (obj\<lparr>ko_images := butlast (ko_images obj) @ [img]\<rparr>))"

definition addOwner :: "owner_ref option \<Rightarrow> kobject \<Rightarrow> kobject" where
  "addOwner ownerRef obj =
     (case ownerRef of
        None \<Rightarrow> obj
      | Some own \<Rightarrow> obj\<lparr>m_owners := Some (items (m_owners obj) @ [own])\<rparr>)"

definition CreateDeployFromYaml ::
  "'w ku_env \<Rightarrow> string \<Rightarrow> string \<Rightarrow> int32 \<Rightarrow> owner_ref option \<Rightarrow> (string \<times> string) list \<Rightarrow> ('w, unit) io" where
  "CreateDeployFromYaml env tmpl img replicas ownerRef ctx =
     andThen (fillAs env KDeployment ''deployment'' tmpl ctx) (\<lambda>obj.
     andThen (setImage img ((addOwner ownerRef obj)\<lparr>ko_replicas := Some replicas\<rparr>)) (\<lambda>dply.
       createUnlessExists env ''deployment'' dply))"

definition DeleteDeployFromYaml :: "'w ku_env \<Rightarrow> string \<Rightarrow> (string \<times> string) list \<Rightarrow> ('w, unit) io" where
  "DeleteDeployFromYaml env tmpl ctx =
     andThen (fillAs env KDeployment ''deployment'' tmpl ctx) (deleteIfFound env ''deployment'' False)"

text \<open>A deployment that cannot be read, for whatever reason, is passed over.\<close>

definition UpdateDeployFromYaml ::
  "'w ku_env \<Rightarrow> string \<Rightarrow> string \<Rightarrow> int32 option \<Rightarrow> (string \<times> string) list \<Rightarrow> ('w, unit) io" where
  "UpdateDeployFromYaml env tmpl img replicas ctx =
     andThen (fillAs env KDeployment ''deployment'' tmpl ctx) (\<lambda>obj.
     andThen (attempt (ku_Get env KDeployment (m_namespace obj) (m_name obj))) (\<lambda>g. case g of
       Inl e \<Rightarrow> ret ()
     | Inr dply \<Rightarrow>
         andThen (setImage img (dply\<lparr>ko_replicas := replicas\<rparr>)) (\<lambda>dply'.
         andThen (attempt (ku_Update env dply')) (\<lambda>r. case r of
           Inl e \<Rightarrow> fail (PlainErr (''fail to update the deployment/'' @ m_name dply' @ '': '' @ error_text e))
         | Inr _ \<Rightarrow> ret ()))))"

definition CreateServiceFromYaml ::
  "'w ku_env \<Rightarrow> string \<Rightarrow> string goslice option \<Rightarrow> (string \<times> string) list \<Rightarrow> ('w, unit) io" where
  "CreateServiceFromYaml env tmpl externalIPs ctx =
     andThen (fillAs env KService ''service'' tmpl ctx) (\<lambda>obj.
       createUnlessExists env ''service'' (case externalIPs of
         None \<Rightarrow> obj | Some ips \<Rightarrow> obj\<lparr>ko_externalIPs := ips\<rparr>))"

definition DeleteServiceFromYaml :: "'w ku_env \<Rightarrow> string \<Rightarrow> (string \<times> string) list \<Rightarrow> ('w, unit) io" where
  "DeleteServiceFromYaml env tmpl ctx =
     andThen (fillAs env KService ''service'' tmpl ctx) (deleteIfFound env ''service'' False)"

definition UpdateServiceFromYaml ::
  "'w ku_env \<Rightarrow> string \<Rightarrow> string goslice \<Rightarrow> (string \<times> string) list \<Rightarrow> ('w, unit) io" where
  "UpdateServiceFromYaml env tmpl externalIPs ctx =
     andThen (fillAs env KService ''service'' tmpl ctx) (\<lambda>obj.
     andThen (attempt (ku_Get env KService (m_namespace obj) (m_name obj))) (\<lambda>g. case g of
       Inl e \<Rightarrow> ret ()
     | Inr svc \<Rightarrow>
         andThen (attempt (ku_Update env (svc\<lparr>ko_externalIPs := externalIPs\<rparr>))) (\<lambda>r. case r of
           Inl e \<Rightarrow> fail (PlainErr (''fail to update the service/'' @ m_name svc @ '': '' @ error_text e))
         | Inr _ \<Rightarrow> ret ())))"

definition CreateValidatingWebhookConfigurationFromYaml ::
  "'w ku_env \<Rightarrow> string \<Rightarrow> owner_ref option \<Rightarrow> (string \<times> string) list \<Rightarrow> ('w, unit) io" where
  "CreateValidatingWebhookConfigurationFromYaml env tmpl ownerRef ctx =
     andThen (fillAs env KWebhookConfig ''validatingwebhookconfiguration'' tmpl ctx) (\<lambda>obj.
       createUnlessExists env ''validatingwebhookconfiguration'' (addOwner ownerRef obj))"

definition DeleteValidatingWebhookConfigurationFromYaml ::
  "'w ku_env \<Rightarrow> string \<Rightarrow> (string \<times> string) list \<Rightarrow> ('w, unit) io" where
  "DeleteValidatingWebhookConfigurationFromYaml env tmpl ctx =
     andThen (fillAs env KWebhookConfig ''validatingwebhookconfiguration'' tmpl ctx)
       (deleteIfFound env ''validatingwebhookconfiguration'' False)"

definition CreateJobFromYaml ::
  "'w ku_env \<Rightarrow> string \<Rightarrow> string \<Rightarrow> (string \<times> string) list \<Rightarrow> ('w, unit) io" where
  "CreateJobFromYaml env tmpl img ctx =
     andThen (fillAs env KJob ''job'' tmpl ctx) (\<lambda>obj.
     andThen (setImage img obj) (createUnlessExists env ''job''))"

definition DeleteJobFromYaml ::
  "'w ku_env \<Rightarrow> string \<Rightarrow> bool \<Rightarrow> (string \<times> string) list \<Rightarrow> ('w, unit) io" where
  "DeleteJobFromYaml env tmpl cleanup ctx =
     andThen (fillAs env KJob ''job'' tmpl ctx) (deleteIfFound env ''job'' (\<not> cleanup))"

subsection \<open>\<open>apply_addons.go\<close>\<close>

text \<open>A sequence of steps that stops at the first error\<close>

definition inOrder :: "('w, unit) io list \<Rightarrow> ('w, unit) io" where
  "inOrder steps = forEach (\<lambda>step. step) steps"

definition IsIngressNamespaceReady :: "'w ku_env \<Rightarrow> ('w, bool) io" where
  "IsIngressNamespaceReady env =
     andThen (attempt (ku_Get env KNamespace [] ''ingress-nginx'')) (\<lambda>r. case r of
       Inl e \<Rightarrow> ret False
     | Inr ns \<Rightarrow> ret (ko_phase ns = ''Active''))"

text \<open>The owner is taken from the role even if it could not be read: its fields are empty then. The
  server does not fill in the type of an object it answers with, so \<open>APIVersion\<close> and \<open>Kind\<close>
  are what \<open>roleType\<close> says the client leaves there.\<close>

definition commonOwner :: "(kobject \<Rightarrow> string \<times> string) \<Rightarrow> kobject option \<Rightarrow> owner_ref" where
  "commonOwner roleType cr =
     (case cr of
        None \<Rightarrow> \<lparr>or_apiVersion = [], or_kind = [], or_name = [], or_uid = [],
          or_controller = Some True, or_blockOwnerDeletion = Some True\<rparr>
      | Some r \<Rightarrow> \<lparr>or_apiVersion = fst (roleType r), or_kind = snd (roleType r), or_name = m_name r,
          or_uid = m_uid r, or_controller = Some True, or_blockOwnerDeletion = Some True\<rparr>)"

definition CreateNginxIngressCommonResource ::
  "'w ku_env \<Rightarrow> (kobject \<Rightarrow> string \<times> string) \<Rightarrow> ('w, unit) io" where
  "CreateNginxIngressCommonResource env roleType =
     andThen (attempt (ku_Get env KClusterRole [] ''yurt-app-manager-role'')) (\<lambda>r.
       (let ownerRefs = [commonOwner roleType (case r of Inl e \<Rightarrow> None | Inr cr \<Rightarrow> Some cr)];
            t = ku_text env in
        inOrder
          [CreateNamespaceFromYaml env (t NginxIngressControllerNamespace) ownerRefs,
           CreateClusterRoleFromYaml env (t NginxIngressControllerClusterRole) ownerRefs,
           CreateClusterRoleFromYaml env (t NginxIngressAdmissionWebhookClusterRole) ownerRefs,
           CreateClusterRoleBindingFromYaml env (t NginxIngressControllerClusterRoleBinding) ownerRefs,
           CreateClusterRoleBindingFromYaml env (t NginxIngressAdmissionWebhookClusterRoleBinding) ownerRefs,
           CreateRoleFromYaml env (t NginxIngressControllerRole) ownerRefs,
           CreateRoleFromYaml env (t NginxIngressAdmissionWebhookRole) ownerRefs,
           CreateRoleBindingFromYaml env (t NginxIngressControllerRoleBinding) ownerRefs,
           CreateRoleBindingFromYaml env (t NginxIngressAdmissionWebhookRoleBinding) ownerRefs,
           CreateServiceAccountFromYaml env (t NginxIngressControllerServiceAccount) ownerRefs,
           CreateServiceAccountFromYaml env (t NginxIngressAdmissionWebhookServiceAccount) ownerRefs,
           CreateConfigMapFromYaml env (t NginxIngressControllerConfigMap) ownerRefs]))"

definition DeleteNginxIngressCommonResource :: "'w ku_env \<Rightarrow> ('w, unit) io" where
  "DeleteNginxIngressCommonResource env =
     (let t = ku_text env in
      inOrder
        [DeleteConfigMapFromYaml env (t NginxIngressControllerConfigMap),
         DeleteRoleBindingFromYaml env (t NginxIngressControllerRoleBinding),
         DeleteRoleBindingFromYaml env (t NginxIngressAdmissionWebhookRoleBinding),
         DeleteRoleFromYaml env (t NginxIngressControllerRole),
         DeleteRoleFromYaml env (t NginxIngressAdmissionWebhookRole),
         DeleteClusterRoleBindingFromYaml env (t NginxIngressControllerClusterRoleBinding),
         DeleteClusterRoleBindingFromYaml env (t NginxIngressAdmissionWebhookClusterRoleBinding),
         DeleteClusterRoleFromYaml env (t NginxIngressControllerClusterRole),
         DeleteClusterRoleFromYaml env (t NginxIngressAdmissionWebhookClusterRole),
         DeleteServiceAccountFromYaml env (t NginxIngressControllerServiceAccount),
         DeleteServiceAccountFromYaml env (t NginxIngressAdmissionWebhookServiceAccount),
         DeleteNamespaceFromYaml env (t NginxIngressControllerNamespace)])"

definition poolCtx :: "string \<Rightarrow> (string \<times> string) list" where
  "poolCtx poolname = [(''nodepool_name'', poolname)]"

definition CreateNginxIngressSpecificResource ::
  "'w ku_env \<Rightarrow> string \<Rightarrow> string goslice \<Rightarrow> string \<Rightarrow> string \<Rightarrow> int32 \<Rightarrow> owner_ref \<Rightarrow> ('w, unit) io" where
  "CreateNginxIngressSpecificResource env poolname externalIPs controllerImage certgenImage replicas
       ownerRef =
     (let t = ku_text env; ctx = poolCtx poolname in
      inOrder
        [CreateDeployFromYaml env (t NginxIngressControllerNodePoolDeployment) controllerImage replicas
           (Some ownerRef) ctx,
         CreateDeployFromYaml env (t NginxIngressAdmissionWebhookDeployment) controllerImage 1 None ctx,
         CreateServiceFromYaml env (t NginxIngressControllerService) (Some externalIPs) ctx,
         CreateServiceFromYaml env (t NginxIngressAdmissionWebhookService) None ctx,
         CreateValidatingWebhookConfigurationFromYaml env
           (t NginxIngressValidatingWebhookConfiguration) (Some ownerRef) ctx,
         CreateJobFromYaml env (t NginxIngressAdmissionWebhookJob) certgenImage ctx,
         CreateJobFromYaml env (t NginxIngressAdmissionWebhookJobPatch) certgenImage ctx])"

definition DeleteNginxIngressSpecificResource ::
  "'w ku_env \<Rightarrow> string \<Rightarrow> bool \<Rightarrow> ('w, unit) io" where
  "DeleteNginxIngressSpecificResource env poolname cleanup =
     (let t = ku_text env; ctx = poolCtx poolname in
      inOrder
        [DeleteDeployFromYaml env (t NginxIngressControllerNodePoolDeployment) ctx,
         DeleteDeployFromYaml env (t NginxIngressAdmissionWebhookDeployment) ctx,
         DeleteServiceFromYaml env (t NginxIngressControllerService) ctx,
         DeleteServiceFromYaml env (t NginxIngressAdmissionWebhookService) ctx,
         DeleteValidatingWebhookConfigurationFromYaml env
           (t NginxIngressValidatingWebhookConfiguration) ctx,
         DeleteJobFromYaml env (t NginxIngressAdmissionWebhookJob) cleanup ctx,
         DeleteJobFromYaml env (t NginxIngressAdmissionWebhookJobPatch) cleanup ctx])"

definition ScaleNginxIngressControllerDeploymment ::
  "'w ku_env \<Rightarrow> string \<Rightarrow> int32 \<Rightarrow> ('w, unit) io" where
  "ScaleNginxIngressControllerDeploymment env poolname replicas =
     UpdateDeployFromYaml env (ku_text env NginxIngressControllerNodePoolDeployment) [] (Some replicas)
       (poolCtx poolname)"

definition UpdateNginxServiceExternalIPs ::
  "'w ku_env \<Rightarrow> string \<Rightarrow> string goslice \<Rightarrow> ('w, unit) io" where
  "UpdateNginxServiceExternalIPs env poolname externalIPs =
     UpdateServiceFromYaml env (ku_text env NginxIngressControllerService) externalIPs (poolCtx poolname)"

definition UpdateNginxIngressControllerDeploymment ::
  "'w ku_env \<Rightarrow> string \<Rightarrow> int32 \<Rightarrow> string \<Rightarrow> ('w, unit) io" where
  "UpdateNginxIngressControllerDeploymment env poolname replicas img =
     inOrder
       [UpdateDeployFromYaml env (ku_text env NginxIngressControllerNodePoolDeployment) img
          (Some replicas) (poolCtx poolname),
        UpdateDeployFromYaml env (ku_text env NginxIngressAdmissionWebhookDeployment) img
          (Some 1) (poolCtx poolname)]"

definition RecreateNginxWebhookJob :: "'w ku_env \<Rightarrow> string \<Rightarrow> string \<Rightarrow> ('w, unit) io" where
  "RecreateNginxWebhookJob env poolname img =
     (let t = ku_text env; ctx = poolCtx poolname in
      inOrder
        [DeleteJobFromYaml env (t NginxIngressAdmissionWebhookJob) False ctx,
         DeleteJobFromYaml env (t NginxIngressAdmissionWebhookJobPatch) False ctx,
         sleep env 3,
         CreateJobFromYaml env (t NginxIngressAdmissionWebhookJob) img ctx,
         CreateJobFromYaml env (t NginxIngressAdmissionWebhookJobPatch) img ctx])"

subsection \<open>What is there afterwards\<close>

text \<open>The key under which an object is stored, and what is used of a server that stores objects: \<open>has\<close>
  tells what exists. A deletion in the foreground need not have ended when the call returns.\<close>

type_synonym object_key = "obj_kind \<times> string \<times> string"

definition keyOf :: "kobject \<Rightarrow> object_key" where
  "keyOf obj = (ko_kind obj, m_namespace obj, m_name obj)"

definition kube_store :: "'w ku_env \<Rightarrow> ('w \<Rightarrow> object_key set) \<Rightarrow> bool" where
  "kube_store env has \<longleftrightarrow>
     (\<forall>obj w w' obj'. ku_Create env obj w = (Ret obj', w') \<longrightarrow> has w' = insert (keyOf obj) (has w)) \<and>
     (\<forall>obj w w' e. ku_Create env obj w = (Err e, w') \<longrightarrow>
        has w' = has w \<and> (isAlreadyExists e \<longrightarrow> keyOf obj \<in> has w)) \<and>
     (\<forall>obj w w'. ku_Delete env False obj w = (Ret (), w') \<longrightarrow> has w' = has w - {keyOf obj}) \<and>
     (\<forall>obj w w' e. ku_Delete env False obj w = (Err e, w') \<longrightarrow>
        has w' = has w \<and> (isNotFound e \<longrightarrow> keyOf obj \<notin> has w))"

definition templateKey :: "'w ku_env \<Rightarrow> string \<Rightarrow> yaml_template \<Rightarrow> object_key" where
  "templateKey env poolname t =
     (case SubsituteTemplate env (ku_text env t) (poolCtx poolname) of
        Inl _ \<Rightarrow> (KOther, [], [])
      | Inr text \<Rightarrow> (case YamlToObject env text of Inl _ \<Rightarrow> (KOther, [], []) | Inr obj \<Rightarrow> keyOf obj))"

definition specificTemplates :: "yaml_template list" where
  "specificTemplates =
     [NginxIngressControllerNodePoolDeployment, NginxIngressAdmissionWebhookDeployment,
      NginxIngressControllerService, NginxIngressAdmissionWebhookService,
      NginxIngressValidatingWebhookConfiguration, NginxIngressAdmissionWebhookJob,
      NginxIngressAdmissionWebhookJobPatch]"

definition specificKeys :: "'w ku_env \<Rightarrow> string \<Rightarrow> object_key set" where
  "specificKeys env poolname = set (map (templateKey env poolname) specificTemplates)"

definition adds :: "('w \<Rightarrow> object_key set) \<Rightarrow> ('w, unit) io \<Rightarrow> object_key \<Rightarrow> bool" where
  "adds has step k \<longleftrightarrow> (\<forall>w w'. step w = (Ret (), w') \<longrightarrow> has w' = insert k (has w))"

definition removes :: "('w \<Rightarrow> object_key set) \<Rightarrow> ('w, unit) io \<Rightarrow> object_key \<Rightarrow> bool" where
  "removes has step k \<longleftrightarrow> (\<forall>w w'. step w = (Ret (), w') \<longrightarrow> has w' = has w - {k})"

lemma inOrder_adds:
  "list_all2 (adds has) steps ks \<Longrightarrow> inOrder steps w = (Ret (), w') \<Longrightarrow> has w' = set ks \<union> has w"
proof (induction steps ks arbitrary: w rule: list_all2_induct)
  case (Cons step steps k ks)
  from Cons.prems obtain w1 where "step w = (Ret (), w1)" "inOrder steps w1 = (Ret (), w')"
    unfolding inOrder_def forEach.simps by (auto elim!: andThen_RetD)
  with Cons.IH [of w1] Cons.hyps(1) show ?case by (auto simp: adds_def)
qed (simp add: inOrder_def ret_def)

lemma inOrder_removes:
  "list_all2 (removes has) steps ks \<Longrightarrow> inOrder steps w = (Ret (), w') \<Longrightarrow> has w' = has w - set ks"
proof (induction steps ks arbitrary: w rule: list_all2_induct)
  case (Cons step steps k ks)
  from Cons.prems obtain w1 where "step w = (Ret (), w1)" "inOrder steps w1 = (Ret (), w')"
    unfolding inOrder_def forEach.simps by (auto elim!: andThen_RetD)
  with Cons.IH [of w1] Cons.hyps(1) show ?case by (auto simp: removes_def)
qed (simp add: inOrder_def ret_def)

lemma createUnlessExists_has:
  assumes "kube_store env has" and "createUnlessExists env what obj w = (Ret (), w')"
  shows "has w' = insert (keyOf obj) (has w)"
  using assms by (cases "ku_Create env obj w"; cases "fst (ku_Create env obj w)")
    (auto simp: createUnlessExists_def andThen_def attempt_def fail_def ret_def kube_store_def
      split: if_splits)

lemma deleteIfFound_has:
  assumes "kube_store env has" and "deleteIfFound env what False obj w = (Ret (), w')"
  shows "has w' = has w - {keyOf obj}"
  using assms by (cases "ku_Delete env False obj w"; cases "fst (ku_Delete env False obj w)")
    (auto simp: deleteIfFound_def andThen_def attempt_def fail_def ret_def kube_store_def
      split: if_splits)

lemma fillAs_Ret:
  assumes "fillAs env kind what (ku_text env t) (poolCtx p) w = (Ret obj, w')"
  shows "w' = w" and "keyOf obj = templateKey env p t"
  using assms by (auto simp: fillAs_def decodeAs_def templateKey_def fail_def ret_def
      split: sum.splits if_splits)

lemma setImage_Ret: "setImage img obj w = (Ret obj', w') \<Longrightarrow> w' = w \<and> keyOf obj' = keyOf obj"
  by (auto simp: setImage_def keyOf_def ret_def lift_def split: if_splits)

lemma keyOf_simps [simp]:
  "keyOf (addOwner own obj) = keyOf obj" "keyOf (obj\<lparr>ko_replicas := r\<rparr>) = keyOf obj"
  "keyOf (obj\<lparr>ko_externalIPs := ips\<rparr>) = keyOf obj"
  by (simp_all add: keyOf_def addOwner_def split: option.split)

text \<open>Filling out a template, adjusting the object without touching its key, and creating it.\<close>

lemma adds_fill:
  assumes "kube_store env has"
    and "\<And>obj w obj' w'. f obj w = (Ret obj', w') \<Longrightarrow> w' = w \<and> keyOf obj' = keyOf obj"
  shows "adds has (andThen (fillAs env kind what (ku_text env t) (poolCtx p))
    (\<lambda>obj. andThen (f obj) (createUnlessExists env what'))) (templateKey env p t)"
  unfolding adds_def
proof (intro allI impI)
  fix w w'
  assume "andThen (fillAs env kind what (ku_text env t) (poolCtx p))
    (\<lambda>obj. andThen (f obj) (createUnlessExists env what')) w = (Ret (), w')"
  then obtain obj w1 obj' w2 where fill: "fillAs env kind what (ku_text env t) (poolCtx p) w = (Ret obj, w1)"
    and "f obj w1 = (Ret obj', w2)" and "createUnlessExists env what' obj' w2 = (Ret (), w')"
    by (auto elim!: andThen_RetD)
  with fillAs_Ret [OF fill] assms(2) [of obj w1 obj' w2] createUnlessExists_has [OF assms(1), of what' obj' w2 w']
  show "has w' = insert (templateKey env p t) (has w)" by simp
qed

lemma removes_fill:
  assumes "kube_store env has"
  shows "removes has (andThen (fillAs env kind what (ku_text env t) (poolCtx p))
    (deleteIfFound env what' False)) (templateKey env p t)"
  unfolding removes_def
proof (intro allI impI)
  fix w w'
  assume "andThen (fillAs env kind what (ku_text env t) (poolCtx p)) (deleteIfFound env what' False) w
    = (Ret (), w')"
  then obtain obj w1 where "fillAs env kind what (ku_text env t) (poolCtx p) w = (Ret obj, w1)"
    "deleteIfFound env what' False obj w1 = (Ret (), w')"
    by (auto elim!: andThen_RetD)
  with fillAs_Ret [OF this(1)] deleteIfFound_has [OF assms this(2)]
  show "has w' = has w - {templateKey env p t}" by simp
qed

text \<open>C16: creating the resources of a pool succeeds only if all seven objects exist afterwards, whether
  they were there before or not, and brings nothing else into being; deleting them, with the
  cleanup that does not wait for dependents, succeeds only if none of the seven exists
  afterwards, and removes nothing else. So a deletion undoes a creation.\<close>

theorem specific_resources:
  assumes store: "kube_store env has"
  shows "(CreateNginxIngressSpecificResource env pool ips img1 img2 n own w = (Ret (), w1) \<longrightarrow>
      has w1 = specificKeys env pool \<union> has w) \<and>
    (DeleteNginxIngressSpecificResource env pool True w1 = (Ret (), w2) \<longrightarrow>
      has w2 = has w1 - specificKeys env pool)"
proof -
  note defs = CreateDeployFromYaml_def CreateServiceFromYaml_def
    CreateValidatingWebhookConfigurationFromYaml_def CreateJobFromYaml_def
  have image: "setImage img (g obj) w = (Ret obj', w') \<Longrightarrow> keyOf (g obj) = keyOf obj \<Longrightarrow>
      w' = w \<and> keyOf obj' = keyOf obj" for img g obj w obj' w'
    using setImage_Ret by metis
  have "adds has (CreateDeployFromYaml env (ku_text env t) img r o' (poolCtx pool)) (templateKey env pool t)"
    for t img r o'
    unfolding defs by (rule adds_fill [OF store]) (erule image, simp)
  moreover have "adds has (CreateServiceFromYaml env (ku_text env t) x (poolCtx pool)) (templateKey env pool t)"
    for t x
    unfolding defs using adds_fill [OF store, where f = "\<lambda>obj. ret (case x of None \<Rightarrow> obj
      | Some ips \<Rightarrow> obj\<lparr>ko_externalIPs := ips\<rparr>)"] by (simp add: ret_def split: option.split)
  moreover have "adds has (CreateValidatingWebhookConfigurationFromYaml env (ku_text env t) o' (poolCtx pool))
      (templateKey env pool t)" for t o'
    unfolding defs using adds_fill [OF store, where f = "\<lambda>obj. ret (addOwner o' obj)"]
    by (simp add: ret_def)
  moreover have "adds has (CreateJobFromYaml env (ku_text env t) img (poolCtx pool)) (templateKey env pool t)"
    for t img
    unfolding defs by (rule adds_fill [OF store]) (erule setImage_Ret)
  ultimately have creates: "list_all2 (adds has)
      [CreateDeployFromYaml env (ku_text env NginxIngressControllerNodePoolDeployment) img1 n (Some own) (poolCtx pool),
       CreateDeployFromYaml env (ku_text env NginxIngressAdmissionWebhookDeployment) img1 1 None (poolCtx pool),
       CreateServiceFromYaml env (ku_text env NginxIngressControllerService) (Some ips) (poolCtx pool),
       CreateServiceFromYaml env (ku_text env NginxIngressAdmissionWebhookService) None (poolCtx pool),
       CreateValidatingWebhookConfigurationFromYaml env (ku_text env NginxIngressValidatingWebhookConfiguration)
         (Some own) (poolCtx pool),
       CreateJobFromYaml env (ku_text env NginxIngressAdmissionWebhookJob) img2 (poolCtx pool),
       CreateJobFromYaml env (ku_text env NginxIngressAdmissionWebhookJobPatch) img2 (poolCtx pool)]
      (map (templateKey env pool) specificTemplates)"
    by (simp add: specificTemplates_def)
  have deletes: "list_all2 (removes has)
      [DeleteDeployFromYaml env (ku_text env NginxIngressControllerNodePoolDeployment) (poolCtx pool),
       DeleteDeployFromYaml env (ku_text env NginxIngressAdmissionWebhookDeployment) (poolCtx pool),
       DeleteServiceFromYaml env (ku_text env NginxIngressControllerService) (poolCtx pool),
       DeleteServiceFromYaml env (ku_text env NginxIngressAdmissionWebhookService) (poolCtx pool),
       DeleteValidatingWebhookConfigurationFromYaml env (ku_text env NginxIngressValidatingWebhookConfiguration)
         (poolCtx pool),
       DeleteJobFromYaml env (ku_text env NginxIngressAdmissionWebhookJob) True (poolCtx pool),
       DeleteJobFromYaml env (ku_text env NginxIngressAdmissionWebhookJobPatch) True (poolCtx pool)]
      (map (templateKey env pool) specificTemplates)"
    unfolding DeleteDeployFromYaml_def DeleteServiceFromYaml_def DeleteJobFromYaml_def
      DeleteValidatingWebhookConfigurationFromYaml_def
    by (simp add: specificTemplates_def removes_fill [OF store])
  show ?thesis
    unfolding CreateNginxIngressSpecificResource_def DeleteNginxIngressSpecificResource_def Let_def
      specificKeys_def
    by (intro conjI impI) (erule inOrder_adds [OF creates], erule inOrder_removes [OF deletes])
qed

end
