(* ===== verification/Ref_Manager.thy ===== *)
theory Ref_Manager
  imports K8s
begin

section \<open>Claiming owned objects\<close>

text \<open>
  \<open>util/refmanager/ref_manager.go\<close>: the manager through which every controller finds the
  objects it owns, adopts orphans that match its selector and releases objects that no longer
  match. The objects are extensions of \<open>object_meta\<close>, whatever their kind.

  Outside the repository (the record \<open>rm_env\<close>): label selectors, the scheme, the API server
  (\<open>Get\<close> of the owner, \<open>Update\<close>, which answers with the object as stored), and the helpers
  \<open>SetControllerReference\<close>, \<open>GetControllerOf\<close> and \<open>NewAggregate\<close>. The state of the manager
  is the answer of \<open>canAdopt\<close> once it has been asked (\<open>sync.Once\<close>); it stands beside the
  world.
\<close>

record ('w, 'a) rm_env =
  rm_AsSelector :: "label_selector option \<Rightarrow> go_error + (string gomap \<Rightarrow> bool)"
  rm_NewOwner :: "go_error option"
  rm_GetOwner :: "string \<Rightarrow> string \<Rightarrow> ('w, object_meta) io"
  rm_Update :: "'a object_meta_scheme \<Rightarrow> ('w, 'a object_meta_scheme) io"
  rm_SetControllerReference ::
    "object_meta \<Rightarrow> 'a object_meta_scheme \<Rightarrow> go_error + 'a object_meta_scheme"
  rm_GetControllerOf :: "'a object_meta_scheme \<Rightarrow> owner_ref option"
  rm_NewAggregate :: "go_error list \<Rightarrow> go_error option"

record ref_manager =
  rm_selector :: "string gomap \<Rightarrow> bool"
  rm_owner :: object_meta
  rm_hasSchema :: bool

type_synonym 'w rm_state = "'w \<times> go_error option option"

subsection \<open>Operations\<close>

definition RefManager_New ::
  "('w, 'a) rm_env \<Rightarrow> label_selector option \<Rightarrow> object_meta \<Rightarrow> bool \<Rightarrow> go_error + ref_manager" where
  "RefManager_New env selector owner hasSchema =
     (case rm_AsSelector env selector of
        Inl e \<Rightarrow> Inl e
      | Inr s \<Rightarrow> Inr \<lparr>rm_selector = s, rm_owner = owner, rm_hasSchema = hasSchema\<rparr>)"

definition onWorld :: "('w, 'b) io \<Rightarrow> ('w rm_state, 'b) io" where
  "onWorld m s = (case m (fst s) of (r, w) \<Rightarrow> (r, (w, snd s)))"

definition getOwner :: "('w, 'a) rm_env \<Rightarrow> ref_manager \<Rightarrow> ('w, object_meta) io" where
  "getOwner env mgr =
     (case rm_NewOwner env of
        Some e \<Rightarrow> fail e
      | None \<Rightarrow> rm_GetOwner env (m_namespace (rm_owner mgr)) (m_name (rm_owner mgr)))"

definition objectName :: "'a object_meta_scheme \<Rightarrow> string" where
  "objectName obj = m_namespace obj @ ''/'' @ m_name obj"

definition canAdopt :: "('w, 'a) rm_env \<Rightarrow> ref_manager \<Rightarrow> ('w, unit) io" where
  "canAdopt env mgr =
     andThen (getOwner env mgr) (\<lambda>freshObj.
       (if m_uid freshObj \<noteq> m_uid (rm_owner mgr)
        then fail (PlainErr (''original owner '' @ objectName (rm_owner mgr) @ '' is gone: got uid ''
               @ m_uid freshObj @ '', wanted '' @ m_uid (rm_owner mgr)))
        else (case m_deletionTimestamp freshObj of
                Some t \<Rightarrow> fail (PlainErr (objectName (rm_owner mgr)
                  @ '' has just been deleted at '' @ t))
              | None \<Rightarrow> ret ())))"

definition canAdoptOnce :: "('w, 'a) rm_env \<Rightarrow> ref_manager \<Rightarrow> ('w rm_state, go_error option) io" where
  "canAdoptOnce env mgr s =
     (case snd s of
        Some answer \<Rightarrow> (Ret answer, s)
      | None \<Rightarrow>
          (case canAdopt env mgr (fst s) of
             (Ret _, w) \<Rightarrow> (Ret None, (w, Some None))
           | (Err e, w) \<Rightarrow> (Ret (Some e), (w, Some (Some e)))
           | (Panic p, w) \<Rightarrow> (Panic p, (w, None))))"

definition wrapped :: "string \<Rightarrow> 'a object_meta_scheme \<Rightarrow> string \<Rightarrow> go_error \<Rightarrow> go_error" where
  "wrapped what obj middle e =
     PlainErr (what @ objectName obj @ '' ('' @ m_uid obj @ '')'' @ middle @ error_text e)"

text \<open>The object as it is after the call: adopting edits it in place.\<close>

definition adopt ::
  "('w, 'a) rm_env \<Rightarrow> ref_manager \<Rightarrow> 'a object_meta_scheme \<Rightarrow> ('w rm_state, 'a object_meta_scheme) io"
where
  "adopt env mgr obj =
     andThen (canAdoptOnce env mgr) (\<lambda>r. case r of
       Some e \<Rightarrow> fail (wrapped ''can't adopt Object '' obj '': '' e)
     | None \<Rightarrow>
         (if \<not> rm_hasSchema mgr then ret obj
          else (case rm_SetControllerReference env (rm_owner mgr) obj of
                  Inl e \<Rightarrow> fail (wrapped ''can't set Object '' obj '' owner reference: '' e)
                | Inr obj' \<Rightarrow>
                    andThen (attempt (onWorld (rm_Update env obj'))) (\<lambda>r. case r of
                      Inl e \<Rightarrow> fail (wrapped ''can't update Object '' obj '' owner reference: '' e)
                    | Inr stored \<Rightarrow> ret stored))))"

definition release ::
  "('w, 'a) rm_env \<Rightarrow> ref_manager \<Rightarrow> 'a object_meta_scheme \<Rightarrow> ('w rm_state, unit) io" where
  "release env mgr obj =
     (let refs = items (m_owners obj); uid = m_uid (rm_owner mgr)
      in if list_ex (\<lambda>ref. or_uid ref = uid) refs then
           andThen (attempt (onWorld (rm_Update env
             (obj\<lparr>m_owners := Some (removeFirst (\<lambda>ref. or_uid ref = uid) refs)\<rparr>)))) (\<lambda>r. case r of
             Inl e \<Rightarrow> fail (wrapped ''can't remove Pod '' obj
                ('' owner reference '' @ objectName obj @ '' ('' @ uid @ ''): '') e)
           | Inr stored \<Rightarrow> ret ())
         else ret ())"

text \<open>\<open>Some\<close> with the object as it is by then if it was claimed\<close>

definition claimObject ::
  "('w, 'a) rm_env \<Rightarrow> ref_manager \<Rightarrow> ('a object_meta_scheme \<Rightarrow> bool) \<Rightarrow> 'a object_meta_scheme
   \<Rightarrow> ('w rm_state, 'a object_meta_scheme option) io" where
  "claimObject env mgr match obj =
     (case rm_GetControllerOf env obj of
        Some controllerRef \<Rightarrow>
          (if or_uid controllerRef \<noteq> m_uid (rm_owner mgr) then ret None
           else if match obj then ret (Some obj)
           else if m_deletionTimestamp (rm_owner mgr) \<noteq> None then ret None
           else andThen (attempt (release env mgr obj)) (\<lambda>r. case r of
                  Inl e \<Rightarrow> (if isNotFound e then ret None else fail e)
                | Inr _ \<Rightarrow> ret None))
      | None \<Rightarrow>
          (if m_deletionTimestamp (rm_owner mgr) \<noteq> None \<or> \<not> match obj then ret None
           else if m_deletionTimestamp obj \<noteq> None then ret None
           else andThen (attempt (adopt env mgr obj)) (\<lambda>r. case r of
                  Inl e \<Rightarrow> (if isNotFound e then ret None else fail e)
                | Inr obj' \<Rightarrow> ret (Some obj'))))"

text \<open>The claimed objects and the errors, in the order of the objects.\<close>

fun claimAll ::
  "('w, 'a) rm_env \<Rightarrow> ref_manager \<Rightarrow> ('a object_meta_scheme \<Rightarrow> bool) \<Rightarrow> 'a object_meta_scheme list
   \<Rightarrow> ('w rm_state, 'a object_meta_scheme list \<times> go_error list) io" where
  "claimAll env mgr match [] = ret ([], [])"
| "claimAll env mgr match (obj # objs) =
     andThen (attempt (claimObject env mgr match obj)) (\<lambda>r.
     andThen (claimAll env mgr match objs) (\<lambda>(claimed, errs).
       ret (case r of
              Inl e \<Rightarrow> (claimed, e # errs)
            | Inr None \<Rightarrow> (claimed, errs)
            | Inr (Some obj') \<Rightarrow> (obj' # claimed, errs))))"

definition matchObject ::
  "ref_manager \<Rightarrow> ('a object_meta_scheme \<Rightarrow> bool) list \<Rightarrow> 'a object_meta_scheme \<Rightarrow> bool" where
  "matchObject mgr filters obj =
     (rm_selector mgr (m_labels obj) \<and> list_all (\<lambda>f. f obj) filters)"

text \<open>A fresh manager claims: the objects and the aggregated error are both returned.\<close>

definition ClaimOwnedObjects ::
  "('w, 'a) rm_env \<Rightarrow> ref_manager \<Rightarrow> 'a object_meta_scheme list
   \<Rightarrow> ('a object_meta_scheme \<Rightarrow> bool) list
   \<Rightarrow> ('w, 'a object_meta_scheme list \<times> go_error option) io" where
  "ClaimOwnedObjects env mgr objs filters w =
     (case claimAll env mgr (matchObject mgr filters) objs (w, None) of
        (Ret (claimed, errs), s) \<Rightarrow> (Ret (claimed, rm_NewAggregate env errs), fst s)
      | (Err e, s) \<Rightarrow> (Err e, fst s)
      | (Panic p, s) \<Rightarrow> (Panic p, fst s))"

subsection \<open>What may be written\<close>

text \<open>The two writes of the manager, with everything that was checked before.\<close>

definition may_release ::
  "('w, 'a) rm_env \<Rightarrow> ref_manager \<Rightarrow> ('a object_meta_scheme \<Rightarrow> bool) \<Rightarrow> 'a object_meta_scheme \<Rightarrow> bool"
where
  "may_release env mgr match obj \<longleftrightarrow>
     (\<exists>c. rm_GetControllerOf env obj = Some c \<and> or_uid c = m_uid (rm_owner mgr)) \<and> \<not> match obj
     \<and> m_deletionTimestamp (rm_owner mgr) = None"

definition may_adopt ::
  "('w, 'a) rm_env \<Rightarrow> ref_manager \<Rightarrow> ('a object_meta_scheme \<Rightarrow> bool) \<Rightarrow> 'a object_meta_scheme \<Rightarrow> bool"
where
  "may_adopt env mgr match obj \<longleftrightarrow>
     rm_GetControllerOf env obj = None \<and> match obj \<and> m_deletionTimestamp obj = None
     \<and> m_deletionTimestamp (rm_owner mgr) = None"

definition releasedObject ::
  "ref_manager \<Rightarrow> 'a object_meta_scheme \<Rightarrow> 'a object_meta_scheme" where
  "releasedObject mgr obj = obj\<lparr>m_owners :=
     Some (removeFirst (\<lambda>ref. or_uid ref = m_uid (rm_owner mgr)) (items (m_owners obj)))\<rparr>"

text \<open>The manager writes what is allowed and nothing else.\<close>

inductive allowed_write ::
  "('w, 'a) rm_env \<Rightarrow> ref_manager \<Rightarrow> ('a object_meta_scheme \<Rightarrow> bool) \<Rightarrow> 'a object_meta_scheme set
   \<Rightarrow> 'a object_meta_scheme \<Rightarrow> bool" for env mgr match objs where
  released: "obj \<in> objs \<Longrightarrow> may_release env mgr match obj \<Longrightarrow>
     allowed_write env mgr match objs (releasedObject mgr obj)"
| adopted: "obj \<in> objs \<Longrightarrow> may_adopt env mgr match obj \<Longrightarrow>
     rm_SetControllerReference env (rm_owner mgr) obj = Inr obj' \<Longrightarrow>
     allowed_write env mgr match objs obj'"

lemma preserves_onWorld:
  assumes "preserves P m"
  shows "preserves (\<lambda>s. P (fst s)) (onWorld m)"
proof (rule preservesI, goal_cases)
  case (1 s)
  with assms have "P (snd (m (fst s)))" by (rule preservesD)
  then show ?case by (cases "m (fst s)") (simp add: onWorld_def)
qed

lemma preserves_canAdoptOnce:
  assumes "\<And>ns name. preserves P (rm_GetOwner env ns name)"
  shows "preserves (\<lambda>s. P (fst s)) (canAdoptOnce env mgr)"
proof (rule preservesI, goal_cases)
  case (1 s)
  have "preserves P (canAdopt env mgr)"
    unfolding canAdopt_def getOwner_def by (intro preserves_intros assms)
  then have kept: "P (snd (canAdopt env mgr (fst s)))"
    using 1 by (rule preservesD)
  obtain r w where ran: "canAdopt env mgr (fst s) = (r, w)" by fastforce
  show ?case
    using 1 kept ran by (cases "snd s"; cases r) (simp_all add: canAdoptOnce_def)
qed

lemma preserves_claimObject:
  assumes owner: "\<And>ns name. preserves P (rm_GetOwner env ns name)"
    and upd: "\<And>o'. allowed_write env mgr match objs o' \<Longrightarrow> preserves P (rm_Update env o')"
    and obj: "obj \<in> objs"
  shows "preserves (\<lambda>s. P (fst s)) (claimObject env mgr match obj)"
proof -
  have release: "preserves (\<lambda>s. P (fst s)) (release env mgr obj)" if "may_release env mgr match obj"
  proof -
    have "preserves P (rm_Update env (releasedObject mgr obj))"
      using upd [OF allowed_write.released [OF obj that]] .
    then show ?thesis
      unfolding release_def Let_def releasedObject_def
      by (intro preserves_intros preserves_onWorld)
  qed
  have adopt: "preserves (\<lambda>s. P (fst s)) (adopt env mgr obj)" if "may_adopt env mgr match obj"
    unfolding adopt_def
    by (intro preserves_intros preserves_onWorld preserves_canAdoptOnce owner
        upd [OF allowed_write.adopted [OF obj that]])
  show ?thesis
    unfolding claimObject_def
    by (intro preserves_intros release adopt) (auto simp: may_release_def may_adopt_def)
qed

lemma preserves_claimAll:
  assumes "\<And>ns name. preserves P (rm_GetOwner env ns name)"
    and "\<And>o'. allowed_write env mgr match objs o' \<Longrightarrow> preserves P (rm_Update env o')"
    and "set xs \<subseteq> objs"
  shows "preserves (\<lambda>s. P (fst s)) (claimAll env mgr match xs)"
  using assms(3)
proof (induction xs)
  case (Cons x xs)
  then have x: "x \<in> objs" and IH: "preserves (\<lambda>s. P (fst s)) (claimAll env mgr match xs)"
    by simp_all
  show ?case
    unfolding claimAll.simps
    by (intro preserves_intros IH preserves_claimObject [OF assms(1,2) x])
qed simp

text \<open>C35: whatever happens, the manager writes only two kinds of objects: an object it controls
  that no longer matches, without its reference to the owner, and an object without a
  controller that matches and is not being deleted, with the reference; it writes neither
  while the owner is being deleted. (Every fact that those writes keep is kept.)\<close>

theorem ClaimOwnedObjects_writes:
  assumes "\<And>ns name. preserves P (rm_GetOwner env ns name)"
    and "\<And>o'. allowed_write env mgr (matchObject mgr filters) (set objs) o' \<Longrightarrow>
      preserves P (rm_Update env o')"
  shows "preserves P (ClaimOwnedObjects env mgr objs filters)"
proof (rule preservesI)
  fix w assume "P w"
  have "preserves (\<lambda>s. P (fst s)) (claimAll env mgr (matchObject mgr filters) objs)"
    by (rule preserves_claimAll [OF assms subset_refl])
  then have kept: "P (fst (snd (claimAll env mgr (matchObject mgr filters) objs (w, None))))"
    by (rule preservesD) (use \<open>P w\<close> in simp)
  obtain r s where "claimAll env mgr (matchObject mgr filters) objs (w, None) = (r, s)"
    by (rule prod.exhaust)
  with kept show "P (snd (ClaimOwnedObjects env mgr objs filters w))"
    by (cases r) (auto simp: ClaimOwnedObjects_def)
qed


subsection \<open>Which objects are claimed\<close>

definition controlled :: "('w, 'a) rm_env \<Rightarrow> ref_manager \<Rightarrow> 'a object_meta_scheme \<Rightarrow> bool" where
  "controlled env mgr obj \<longleftrightarrow>
     (\<exists>c. rm_GetControllerOf env obj = Some c \<and> or_uid c = m_uid (rm_owner mgr))"

definition claimable ::
  "('w, 'a) rm_env \<Rightarrow> ref_manager \<Rightarrow> ('a object_meta_scheme \<Rightarrow> bool) \<Rightarrow> 'a object_meta_scheme \<Rightarrow> bool"
where
  "claimable env mgr match obj \<longleftrightarrow>
     controlled env mgr obj \<and> match obj \<or> may_adopt env mgr match obj"

lemma controlled_code [code]:
  "controlled env mgr obj =
     (case rm_GetControllerOf env obj of None \<Rightarrow> False
      | Some c \<Rightarrow> or_uid c = m_uid (rm_owner mgr))"
  by (simp add: controlled_def split: option.split)

text \<open>What is used of an API server that answers: the owner is there, every update is stored
  as sent, every orphan can be given a controller.\<close>

definition api_answers ::
  "('w, 'a) rm_env \<Rightarrow> ref_manager \<Rightarrow> ('a object_meta_scheme \<Rightarrow> 'a object_meta_scheme) \<Rightarrow> bool" where
  "api_answers env mgr own \<longleftrightarrow>
     rm_NewOwner env = None \<and> rm_hasSchema mgr \<and>
     (\<forall>u. \<exists>fresh u'. rm_GetOwner env (m_namespace (rm_owner mgr)) (m_name (rm_owner mgr)) u
        = (Ret fresh, u')) \<and>
     (\<forall>obj u. \<exists>u'. rm_Update env obj u = (Ret obj, u')) \<and>
     (\<forall>obj. rm_GetControllerOf env obj = None \<longrightarrow>
        rm_SetControllerReference env (rm_owner mgr) obj = Inr (own obj)) \<and>
     rm_NewAggregate env [] = None"

definition owner_current :: "('w, 'a) rm_env \<Rightarrow> ref_manager \<Rightarrow> bool" where
  "owner_current env mgr \<longleftrightarrow>
     (\<forall>u fresh u'. rm_GetOwner env (m_namespace (rm_owner mgr)) (m_name (rm_owner mgr)) u
        = (Ret fresh, u') \<longrightarrow>
        m_uid fresh = m_uid (rm_owner mgr) \<and> m_deletionTimestamp fresh = None)"

definition owner_replaced :: "('w, 'a) rm_env \<Rightarrow> ref_manager \<Rightarrow> bool" where
  "owner_replaced env mgr \<longleftrightarrow>
     (\<forall>u fresh u'. rm_GetOwner env (m_namespace (rm_owner mgr)) (m_name (rm_owner mgr)) u
        = (Ret fresh, u') \<longrightarrow>
        m_uid fresh \<noteq> m_uid (rm_owner mgr) \<or> m_deletionTimestamp fresh \<noteq> None)"

lemma api_answersD:
  assumes "api_answers env mgr own"
  shows "rm_NewOwner env = None" and "rm_hasSchema mgr" and "rm_NewAggregate env [] = None"
    and "rm_GetControllerOf env obj = None \<Longrightarrow>
      rm_SetControllerReference env (rm_owner mgr) obj = Inr (own obj)"
  using assms by (simp_all add: api_answers_def)

lemma onWorld_update:
  assumes "api_answers env mgr own"
  obtains u' where "onWorld (rm_Update env obj) s = (Ret obj, (u', snd s))"
proof -
  obtain u' where "rm_Update env obj (fst s) = (Ret obj, u')"
    using assms unfolding api_answers_def by blast
  then show thesis using that [of u'] by (simp add: onWorld_def)
qed

lemma getOwner_answers:
  assumes "api_answers env mgr own"
  obtains fresh u' where
    "rm_GetOwner env (m_namespace (rm_owner mgr)) (m_name (rm_owner mgr)) u = (Ret fresh, u')"
    and "getOwner env mgr u = (Ret fresh, u')"
proof -
  obtain fresh u' where
    "rm_GetOwner env (m_namespace (rm_owner mgr)) (m_name (rm_owner mgr)) u = (Ret fresh, u')"
    using assms unfolding api_answers_def by blast
  then show thesis using that [of fresh u'] api_answersD(1) [OF assms] by (simp add: getOwner_def)
qed

lemma canAdopt_current:
  assumes "api_answers env mgr own" and "owner_current env mgr"
  obtains u' where "canAdopt env mgr u = (Ret (), u')"
proof (rule getOwner_answers [OF assms(1), of u])
  fix fresh u'
  assume got: "rm_GetOwner env (m_namespace (rm_owner mgr)) (m_name (rm_owner mgr)) u
      = (Ret fresh, u')" and fresh: "getOwner env mgr u = (Ret fresh, u')"
  have "m_uid fresh = m_uid (rm_owner mgr) \<and> m_deletionTimestamp fresh = None"
    using assms(2) got unfolding owner_current_def by blast
  with fresh that [of u'] show thesis by (simp add: canAdopt_def io_simps)
qed

lemma canAdopt_replaced:
  assumes "api_answers env mgr own" and "owner_replaced env mgr"
  obtains msg u' where "canAdopt env mgr u = (Err (PlainErr msg), u')"
proof (rule getOwner_answers [OF assms(1), of u])
  fix fresh u'
  assume got: "rm_GetOwner env (m_namespace (rm_owner mgr)) (m_name (rm_owner mgr)) u
      = (Ret fresh, u')" and fresh: "getOwner env mgr u = (Ret fresh, u')"
  have "m_uid fresh \<noteq> m_uid (rm_owner mgr) \<or> m_deletionTimestamp fresh \<noteq> None"
    using assms(2) got unfolding owner_replaced_def by blast
  then have "\<exists>msg. canAdopt env mgr u = (Err (PlainErr msg), u')"
    using fresh by (cases "m_deletionTimestamp fresh") (auto simp: canAdopt_def io_simps)
  with that show thesis by blast
qed

lemma release_answers:
  assumes "api_answers env mgr own"
  obtains u' where "release env mgr obj s = (Ret (), (u', snd s))"
proof (cases "list_ex (\<lambda>ref. or_uid ref = m_uid (rm_owner mgr)) (items (m_owners obj))")
  case True
  obtain u' where "onWorld (rm_Update env (releasedObject mgr obj)) s
      = (Ret (releasedObject mgr obj), (u', snd s))"
    using assms by (rule onWorld_update)
  with True that [of u'] show thesis
    by (simp add: release_def releasedObject_def Let_def io_simps)
next
  case False
  with that [of "fst s"] show thesis
    by (simp add: release_def Let_def io_simps)
qed

lemma canAdoptOnce_current:
  assumes "api_answers env mgr own" and "owner_current env mgr"
    and "snd s = None \<or> snd s = Some None"
  obtains w1 where "canAdoptOnce env mgr s = (Ret None, (w1, Some None))"
proof (cases "snd s")
  case None
  obtain u' where "canAdopt env mgr (fst s) = (Ret (), u')"
    using assms(1,2) by (rule canAdopt_current)
  with None that [of u'] show thesis by (simp add: canAdoptOnce_def)
next
  case (Some a)
  with assms(3) that [of "fst s"] show thesis
    by (cases s) (simp add: canAdoptOnce_def)
qed

lemma adopt_answers:
  assumes ans: "api_answers env mgr own" and cur: "owner_current env mgr"
    and orphan: "rm_GetControllerOf env obj = None"
    and s: "snd s = None \<or> snd s = Some None"
  obtains u' where "adopt env mgr obj s = (Ret (own obj), (u', Some None))"
proof -
  obtain w1 where once: "canAdoptOnce env mgr s = (Ret None, (w1, Some None))"
    using ans cur s by (rule canAdoptOnce_current)
  obtain u' where "onWorld (rm_Update env (own obj)) (w1, Some None)
      = (Ret (own obj), (u', snd (w1, Some None :: go_error option option)))"
    using ans by (rule onWorld_update)
  with once api_answersD [OF ans] orphan that [of u'] show thesis
    by (simp add: adopt_def io_simps)
qed

lemma claimObject_answers:
  assumes ans: "api_answers env mgr own" and cur: "owner_current env mgr"
    and s: "snd s = None \<or> snd s = Some None"
  obtains s' where "snd s' = None \<or> snd s' = Some None"
    and "claimObject env mgr match obj s =
      (Ret (if controlled env mgr obj \<and> match obj then Some obj
            else if may_adopt env mgr match obj then Some (own obj) else None), s')"
proof (cases "rm_GetControllerOf env obj")
  case None
  obtain u' where "adopt env mgr obj s = (Ret (own obj), (u', Some None))"
    using ans cur None s by (rule adopt_answers)
  with None that [of "(u', Some None)"] that [of s] s show thesis
    by (cases "may_adopt env mgr match obj")
      (auto simp: claimObject_def may_adopt_def controlled_def io_simps)
next
  case (Some c)
  obtain u' where "release env mgr obj s = (Ret (), (u', snd s))"
    using ans by (rule release_answers)
  then have "\<exists>s' \<in> {s, (u', snd s)}. claimObject env mgr match obj s =
      (Ret (if or_uid c = m_uid (rm_owner mgr) \<and> match obj then Some obj else None), s')"
    using Some
    by (cases "or_uid c = m_uid (rm_owner mgr)"; cases "match obj";
        cases "m_deletionTimestamp (rm_owner mgr)")
      (simp_all add: claimObject_def io_simps)
  with Some s that [of s] that [of "(u', snd s)"] show thesis
    by (auto simp: may_adopt_def controlled_def)
qed

text \<open>With an API server that answers and an owner that is still the one it was, the
  objects claimed are exactly the controlled ones that match and the matching orphans that
  may be adopted, in their order, the adopted ones with their new controller; no error is
  reported.\<close>

theorem ClaimOwnedObjects_claims:
  assumes "api_answers env mgr own" and "owner_current env mgr"
  shows "\<exists>w'. ClaimOwnedObjects env mgr objs filters w =
    (Ret (map (\<lambda>obj. if controlled env mgr obj then obj else own obj)
            (filter (claimable env mgr (matchObject mgr filters)) objs), None), w')"
proof -
  let ?match = "matchObject mgr filters"
  have "\<exists>s'. claimAll env mgr ?match objs s =
      (Ret (map (\<lambda>obj. if controlled env mgr obj then obj else own obj)
              (filter (claimable env mgr ?match) objs), []), s')"
    if "snd s = None \<or> snd s = Some None" for s
    using that
  proof (induction objs arbitrary: s)
    case (Cons obj objs)
    obtain s1 where s1: "snd s1 = None \<or> snd s1 = Some None" "claimObject env mgr ?match obj s =
        (Ret (if controlled env mgr obj \<and> ?match obj then Some obj
              else if may_adopt env mgr ?match obj then Some (own obj) else None), s1)"
      using claimObject_answers [OF assms Cons.prems] by blast
    have "\<not> (controlled env mgr obj \<and> may_adopt env mgr ?match obj)"
      by (auto simp: controlled_def may_adopt_def)
    with s1(2) Cons.IH [OF s1(1)] show ?case
      by (auto simp: andThen_def attempt_def ret_def claimable_def)
  qed (simp add: ret_def)
  from this [of "(w, None)"] assms(1) show ?thesis
    by (auto simp: ClaimOwnedObjects_def api_answers_def)
qed


definition refused :: "go_error option option \<Rightarrow> bool" where
  "refused cache \<longleftrightarrow> (case cache of None \<Rightarrow> True | Some None \<Rightarrow> False | Some (Some e) \<Rightarrow> True)"

lemma canAdoptOnce_replaced:
  assumes "api_answers env mgr own" and "owner_replaced env mgr" and "refused (snd s)"
  obtains e s1 where "canAdoptOnce env mgr s = (Ret (Some e), s1)" and "refused (snd s1)"
proof (cases "snd s")
  case None
  obtain msg u' where "canAdopt env mgr (fst s) = (Err (PlainErr msg), u')"
    using assms(1,2) by (rule canAdopt_replaced)
  with None that show thesis by (simp add: canAdoptOnce_def refused_def)
next
  case (Some a)
  with assms(3) that show thesis
    by (auto simp: canAdoptOnce_def refused_def split: option.splits)
qed

lemma claimObject_replaced:
  assumes ans: "api_answers env mgr own" and rep: "owner_replaced env mgr"
    and s: "refused (snd s)"
  obtains s' where "refused (snd s')"
    and "\<exists>e. claimObject env mgr match obj s =
      (if may_adopt env mgr match obj then Err e
       else Ret (if controlled env mgr obj \<and> match obj then Some obj else None), s')"
proof (cases "rm_GetControllerOf env obj")
  case None
  obtain e s1 where once: "canAdoptOnce env mgr s = (Ret (Some e), s1)" and s1: "refused (snd s1)"
    using ans rep s by (rule canAdoptOnce_replaced)
  have "\<exists>e'. adopt env mgr obj s = (Err (PlainErr e'), s1)"
    using once by (simp add: adopt_def io_simps wrapped_def)
  with None that [OF s1] that [OF s] show thesis
    by (cases "may_adopt env mgr match obj")
      (auto simp: claimObject_def may_adopt_def controlled_def io_simps)
next
  case (Some c)
  obtain u' where "release env mgr obj s = (Ret (), (u', snd s))"
    using ans by (rule release_answers)
  then have "\<exists>s' \<in> {s, (u', snd s)}. claimObject env mgr match obj s =
      (Ret (if or_uid c = m_uid (rm_owner mgr) \<and> match obj then Some obj else None), s')"
    using Some
    by (cases "or_uid c = m_uid (rm_owner mgr)"; cases "match obj";
        cases "m_deletionTimestamp (rm_owner mgr)")
      (simp_all add: claimObject_def io_simps)
  with Some s that [of s] that [of "(u', snd s)"] show thesis
    by (auto simp: may_adopt_def controlled_def)
qed

text \<open>C36: if the owner the server knows is another one by now, or is being deleted, no object is
  adopted: the objects claimed are those the owner controlled before and that match, and the
  refusal is reported if there was any object to adopt.\<close>

theorem ClaimOwnedObjects_refused:
  assumes "api_answers env mgr own" and "owner_replaced env mgr"
  shows "\<exists>errs w'. ClaimOwnedObjects env mgr objs filters w =
      (Ret (filter (\<lambda>obj. controlled env mgr obj \<and> matchObject mgr filters obj) objs,
        rm_NewAggregate env errs), w') \<and>
    (errs = [] \<longleftrightarrow> \<not> (\<exists>obj \<in> set objs. may_adopt env mgr (matchObject mgr filters) obj))"
proof -
  let ?match = "matchObject mgr filters"
  have "\<exists>errs s'. claimAll env mgr ?match objs s =
      (Ret (filter (\<lambda>obj. controlled env mgr obj \<and> ?match obj) objs, errs), s') \<and>
      (errs = [] \<longleftrightarrow> \<not> (\<exists>obj \<in> set objs. may_adopt env mgr ?match obj))"
    if "refused (snd s)" for s
    using that
  proof (induction objs arbitrary: s)
    case (Cons obj objs)
    obtain e s1 where s1: "refused (snd s1)" "claimObject env mgr ?match obj s =
        (if may_adopt env mgr ?match obj then Err e
         else Ret (if controlled env mgr obj \<and> ?match obj then Some obj else None), s1)"
      using claimObject_replaced [OF assms Cons.prems] by blast
    have "\<not> (controlled env mgr obj \<and> may_adopt env mgr ?match obj)"
      by (auto simp: controlled_def may_adopt_def)
    with s1(2) Cons.IH [OF s1(1)] show ?case
      by (auto simp: andThen_def attempt_def ret_def)
  qed (simp add: ret_def)
  from this [of "(w, None)"] obtain errs s' where
    "claimAll env mgr ?match objs (w, None) =
      (Ret (filter (\<lambda>obj. controlled env mgr obj \<and> ?match obj) objs, errs), s')"
    "errs = [] \<longleftrightarrow> \<not> (\<exists>obj \<in> set objs. may_adopt env mgr ?match obj)"
    by (auto simp: refused_def)
  then show ?thesis
    by (intro exI [of _ errs] exI [of _ "fst s'"]) (simp add: ClaimOwnedObjects_def)
qed

subsection \<open>A server and objects to try the properties on\<close>

definition demo_owner :: object_meta where
  "demo_owner = empty_meta\<lparr>m_name := ''web'', m_namespace := ''default'', m_uid := ''u1''\<rparr>"

definition demo_ref :: "string \<Rightarrow> owner_ref" where
  "demo_ref uid = \<lparr>or_apiVersion = ''apps.openyurt.io/v1alpha1'', or_kind = ''YurtAppSet'',
     or_name = ''web'', or_uid = uid, or_controller = Some True,
     or_blockOwnerDeletion = Some True\<rparr>"

text \<open>The world is the list of objects written; the owner found has the given identifier.\<close>

definition demo_rm_env :: "string \<Rightarrow> (object_meta list, unit) rm_env" where
  "demo_rm_env uid = \<lparr>
     rm_AsSelector = (\<lambda>s. Inr (\<lambda>ls. True)), rm_NewOwner = None,
     rm_GetOwner = (\<lambda>ns name w. (Ret (demo_owner\<lparr>m_uid := uid\<rparr>), w)),
     rm_Update = (\<lambda>obj w. (Ret obj, w @ [obj])),
     rm_SetControllerReference = (\<lambda>own obj. Inr (obj\<lparr>m_owners :=
       Some (items (m_owners obj) @ [demo_ref (m_uid own)])\<rparr>)),
     rm_GetControllerOf = (\<lambda>obj. find (\<lambda>r. or_controller r = Some True) (items (m_owners obj))),
     rm_NewAggregate = (\<lambda>es. if es = [] then None else Some (PlainErr ''errors''))\<rparr>"

definition demo_mgr :: ref_manager where
  "demo_mgr = \<lparr>rm_selector = (\<lambda>ls. gget ls ''app'' = Some ''web''), rm_owner = demo_owner,
     rm_hasSchema = True\<rparr>"

definition demo_object :: "string \<Rightarrow> string \<Rightarrow> string option \<Rightarrow> object_meta" where
  "demo_object name app uid = empty_meta\<lparr>m_name := name, m_labels := Some [(''app'', app)],
     m_owners := map_option (\<lambda>u. [demo_ref u]) uid\<rparr>"

definition demo_objects :: "object_meta list" where
  "demo_objects = [demo_object ''mine'' ''web'' (Some ''u1''), demo_object ''other'' ''web'' (Some ''u2''),
     demo_object ''stale'' ''db'' (Some ''u1''), demo_object ''orphan'' ''web'' None]"

lemma demo_answers:
  "api_answers (demo_rm_env uid) demo_mgr
     (\<lambda>obj. obj\<lparr>m_owners := Some (items (m_owners obj) @ [demo_ref ''u1''])\<rparr>)"
  by (simp add: api_answers_def demo_rm_env_def demo_mgr_def demo_owner_def)

lemma demo_current: "owner_current (demo_rm_env ''u1'') demo_mgr"
  "owner_replaced (demo_rm_env ''u9'') demo_mgr"
  by (auto simp: owner_current_def owner_replaced_def demo_rm_env_def demo_mgr_def demo_owner_def
      empty_meta_def)

theorem ClaimOwnedObjects_writes_witness:
  "preserves (\<lambda>w. demo_object ''other'' ''web'' (Some ''u2'') \<notin> set w)
     (ClaimOwnedObjects (demo_rm_env ''u1'') demo_mgr demo_objects [])"
proof (rule ClaimOwnedObjects_writes)
  fix o' assume "allowed_write (demo_rm_env ''u1'') demo_mgr (matchObject demo_mgr [])
    (set demo_objects) o'"
  then have "o' \<noteq> demo_object ''other'' ''web'' (Some ''u2'')"
  proof cases
    case (released obj)
    then show ?thesis
      by (auto simp: demo_objects_def may_release_def demo_rm_env_def demo_mgr_def demo_owner_def
          demo_object_def demo_ref_def releasedObject_def empty_meta_def)
  next
    case (adopted obj)
    then show ?thesis
      by (auto simp: demo_objects_def may_adopt_def demo_rm_env_def demo_mgr_def demo_owner_def
          demo_object_def demo_ref_def empty_meta_def)
  qed
  then show "preserves (\<lambda>w. demo_object ''other'' ''web'' (Some ''u2'') \<notin> set w)
      (rm_Update (demo_rm_env ''u1'') o')"
    by (auto simp: preserves_def demo_rm_env_def)
qed (simp add: preserves_def demo_rm_env_def)

theorem ClaimOwnedObjects_claims_witness:
  "\<exists>objs w'. ClaimOwnedObjects (demo_rm_env ''u1'') demo_mgr demo_objects [] [] = (Ret (objs, None), w')
     \<and> map m_name objs = [''mine'', ''orphan'']"
proof -
  let ?env = "demo_rm_env ''u1''"
  let ?own = "\<lambda>obj. obj\<lparr>m_owners := Some (items (m_owners obj) @ [demo_ref ''u1''])\<rparr>"
  let ?objs = "map (\<lambda>obj. if controlled ?env demo_mgr obj then obj else ?own obj)
      (filter (claimable ?env demo_mgr (matchObject demo_mgr [])) demo_objects)"
  have names: "map m_name ?objs = [''mine'', ''orphan'']"
    by (simp add: demo_objects_def claimable_def controlled_def may_adopt_def matchObject_def
        demo_rm_env_def demo_mgr_def demo_owner_def demo_object_def demo_ref_def empty_meta_def
        gget_def)
  obtain w' where "ClaimOwnedObjects ?env demo_mgr demo_objects [] [] = (Ret (?objs, None), w')"
    using ClaimOwnedObjects_claims [OF demo_answers demo_current(1), of demo_objects "[]" "[]"]
    by (rule exE)
  with names show ?thesis
    by (intro exI [of _ ?objs] exI [of _ w'] conjI)
qed

theorem ClaimOwnedObjects_refused_witness:
  "\<exists>objs e w'. ClaimOwnedObjects (demo_rm_env ''u9'') demo_mgr demo_objects [] [] =
     (Ret (objs, Some e), w') \<and> map m_name objs = [''mine'']"
proof -
  let ?env = "demo_rm_env ''u9''"
  have "map m_name (filter (\<lambda>obj. controlled ?env demo_mgr obj \<and> matchObject demo_mgr [] obj)
      demo_objects) = [''mine'']"
    and "\<exists>obj \<in> set demo_objects. may_adopt ?env demo_mgr (matchObject demo_mgr []) obj"
    by (simp_all add: demo_objects_def controlled_def may_adopt_def matchObject_def
        demo_rm_env_def demo_mgr_def demo_owner_def demo_object_def demo_ref_def empty_meta_def
        gget_def)
  with ClaimOwnedObjects_refused [OF demo_answers demo_current(2), of demo_objects "[]" "[]"]
  show ?thesis by (fastforce simp: demo_rm_env_def)
qed

end
