(* ===== verification/YI_Controller.thy ===== *)
theory YI_Controller
  imports YI_Resources Ref_Manager
begin

section \<open>YurtIngress: the reconciliation\<close>

text \<open>
  \<open>apis/apps/v1alpha1/yurtingress_types.go\<close> and \<open>controller/yurtingress/yurtingress_controller.go\<close>. A
  YurtIngress names node pools; each gets an ingress controller of its own (\<open>YI_Resources\<close>). The
  pools that have one are read from the status.

  The record \<open>yi_env\<close> is what is outside beside \<open>ku_env\<close>: the client for YurtIngresses and
  deployments and the reference manager.
\<close>

record ingress_pool =
  ip_name :: string
  ip_ips :: "string goslice"

record not_ready_info =
  ni_type :: string
  ni_lastTransitionTime :: string
  ni_reason :: string
  ni_message :: string

record not_ready_pool =
  nr_pool :: ingress_pool
  nr_info :: "not_ready_info option"

record yi_spec =
  yis_replicas :: int32
  yis_controllerImage :: string
  yis_certgenImage :: string
  yis_pools :: "ingress_pool goslice"

record yi_status =
  yi_replicas :: int32
  yi_readyPools :: "ingress_pool goslice"
  yi_notReadyPools :: "not_ready_pool goslice"
  yi_controllerImage :: string
  yi_certgenImage :: string
  yi_readyNum :: int32
  yi_unreadyNum :: int32

record yi = object_meta +
  yi_spec :: yi_spec
  yi_status :: yi_status

record deploy_condition =
  dc_type :: string
  dc_lastTransitionTime :: string
  dc_reason :: string
  dc_message :: string

record ingress_deployment = object_meta +
  id_readyReplicas :: int32
  id_conditions :: "deploy_condition list"

record 'w yi_env =
  yie_ku :: "'w ku_env"
  yie_roleType :: "kobject \<Rightarrow> string \<times> string"
  yie_rm :: "('w, unit ingress_deployment_ext) rm_env"
  yie_Get :: "string \<Rightarrow> string \<Rightarrow> ('w, yi) io"
  yie_Update :: "yi \<Rightarrow> ('w, yi) io"
  yie_UpdateStatus :: "yi \<Rightarrow> ('w, yi) io"
  yie_ListIngresses :: "('w, yi list) io"
  yie_ListDeployments :: "(string gomap \<Rightarrow> bool) \<Rightarrow> ('w, ingress_deployment list) io"

definition YurtIngressFinalizer :: string where
  "YurtIngressFinalizer = ''ingress.operator.openyurt.io''"

definition ingressDeploymentLabel :: string where
  "ingressDeploymentLabel = ''yurtingress.io/nodepool''"

definition updateRetries_yi :: nat where
  "updateRetries_yi = 5"

subsection \<open>Pools\<close>

definition isStrArrayEqual :: "string list \<Rightarrow> string list \<Rightarrow> bool" where
  "isStrArrayEqual strList1 strList2 =
     (if length strList1 \<noteq> length strList2 then False
      else if length strList1 = 0 \<and> length strList2 = 0 then True
      else list_all (\<lambda>i. strList1 ! i = strList2 ! i) [0..<length strList1])"

text \<open>One round of the outer loop of \<open>getPools\<close>; a slice nothing was appended to is nil.\<close>

fun getPools_pass ::
  "bool \<Rightarrow> ingress_pool list \<Rightarrow> ingress_pool list
   \<Rightarrow> ingress_pool goslice \<times> ingress_pool goslice \<times> ingress_pool goslice
   \<Rightarrow> ingress_pool goslice \<times> ingress_pool goslice \<times> ingress_pool goslice" where
  "getPools_pass swap [] current (added, removed, unchanged) = (added, removed, unchanged)"
| "getPools_pass swap (p1 # desired) current (added, removed, unchanged) =
     getPools_pass swap desired current
       (if list_ex (\<lambda>p2. ip_name p1 = ip_name p2) current
        then (added, removed, if swap then unchanged else Some (items unchanged @ [p1]))
        else if swap then (added, Some (items removed @ [p1]), unchanged)
        else (Some (items added @ [p1]), removed, unchanged))"

definition getPools ::
  "ingress_pool goslice \<Rightarrow> ingress_pool goslice
   \<Rightarrow> ingress_pool goslice \<times> ingress_pool goslice \<times> ingress_pool goslice" where
  "getPools desired current =
     getPools_pass True (items current) (items desired)
       (getPools_pass False (items desired) (items current) (None, None, None))"

definition getDesiredPools :: "yi \<Rightarrow> ingress_pool goslice" where
  "getDesiredPools y = yis_pools (yi_spec y)"

definition getCurrentPools :: "yi \<Rightarrow> ingress_pool goslice" where
  "getCurrentPools y =
     (if items (yi_notReadyPools (yi_status y)) = [] then yi_readyPools (yi_status y)
      else Some (items (yi_readyPools (yi_status y))
        @ map nr_pool (items (yi_notReadyPools (yi_status y)))))"

definition getDesiredPool :: "yi \<Rightarrow> string \<Rightarrow> ingress_pool option" where
  "getDesiredPool y poolname =
     find (\<lambda>pool. ip_name pool = poolname) (items (yis_pools (yi_spec y)))"

definition getCurrentPool :: "yi \<Rightarrow> string \<Rightarrow> ingress_pool option" where
  "getCurrentPool y poolname =
     find (\<lambda>pool. ip_name pool = poolname) (items (getCurrentPools y))"

definition decrement :: "int32 \<Rightarrow> int32" where
  "decrement n = (if 1 \<le> sint n then n - 1 else n)"

text \<open>The answer says whether the pool was found.\<close>

definition removePoolfromCondition :: "yi_status \<Rightarrow> string \<Rightarrow> yi_status \<times> bool" where
  "removePoolfromCondition s poolname =
     (if list_ex (\<lambda>pool. ip_name pool = poolname) (items (yi_readyPools s))
      then (s\<lparr>yi_readyPools :=
                Some (removeFirst (\<lambda>pool. ip_name pool = poolname) (items (yi_readyPools s))),
              yi_readyNum := decrement (yi_readyNum s)\<rparr>, True)
      else if list_ex (\<lambda>pool. ip_name (nr_pool pool) = poolname) (items (yi_notReadyPools s))
      then (s\<lparr>yi_notReadyPools :=
                Some (removeFirst (\<lambda>pool. ip_name (nr_pool pool) = poolname)
                  (items (yi_notReadyPools s))),
              yi_unreadyNum := decrement (yi_unreadyNum s)\<rparr>, True)
      else (s, False))"

subsection \<open>Deployments and the status\<close>

definition prepareDeploymentOwnerReferences :: "yi \<Rightarrow> owner_ref" where
  "prepareDeploymentOwnerReferences y =
     \<lparr>or_apiVersion = ''apps.openyurt.io/v1alpha1'', or_kind = ''YurtIngress'', or_name = m_name y,
      or_uid = m_uid y, or_controller = Some True, or_blockOwnerDeletion = Some True\<rparr>"

definition deploymentSelector :: label_selector where
  "deploymentSelector = \<lparr>ls_matchLabels = None, ls_matchExpressions =
     Some [\<lparr>lr_key = ingressDeploymentLabel, lr_operator = ''Exists'', lr_values = None\<rparr>]\<rparr>"

definition getAllDeployments :: "'w yi_env \<Rightarrow> yi \<Rightarrow> ('w, ingress_deployment list) io" where
  "getAllDeployments env y =
     (case rm_AsSelector (yie_rm env) (Some deploymentSelector) of
        Inl e \<Rightarrow> fail e
      | Inr selector \<Rightarrow>
          andThen (yie_ListDeployments env selector) (\<lambda>dplyList.
          (case RefManager_New (yie_rm env) (Some deploymentSelector) (object_meta.truncate y) True of
             Inl e \<Rightarrow> fail e
           | Inr manager \<Rightarrow>
               andThen (ClaimOwnedObjects (yie_rm env) manager dplyList []) (\<lambda>(claimed, err).
                 case err of Some e \<Rightarrow> fail e | None \<Rightarrow> ret claimed))))"

definition getUnreadyDeploymentCondition :: "ingress_deployment \<Rightarrow> not_ready_info option" where
  "getUnreadyDeploymentCondition dply =
     (case id_conditions dply of
        [] \<Rightarrow> None
      | cs \<Rightarrow>
          (let condition = last cs in
           Some \<lparr>ni_type = (if dc_type condition = ''ReplicaFailure'' then ''Failure'' else ''Pending''),
             ni_lastTransitionTime = dc_lastTransitionTime condition,
             ni_reason = dc_reason condition, ni_message = dc_message condition\<rparr>))"

text \<open>The loop over the deployments; a deployment of a pool that is not in the specification makes
  it panic.\<close>

fun countDeployments :: "yi \<Rightarrow> yi_status \<Rightarrow> ingress_deployment list \<Rightarrow> yi_status outcome" where
  "countDeployments y s [] = Ret s"
| "countDeployments y s (dply # rest) =
     (let pool = gval (m_labels dply) ingressDeploymentLabel in
      if id_readyReplicas dply = yis_replicas (yi_spec y) then
        (case getDesiredPool y pool of
           None \<Rightarrow> Panic ''nil pointer dereference''
         | Some readyPool \<Rightarrow>
             countDeployments y (s\<lparr>yi_readyNum := yi_readyNum s + 1,
               yi_readyPools := Some (items (yi_readyPools s) @ [readyPool])\<rparr>) rest)
      else
        (case getUnreadyDeploymentCondition dply of
           None \<Rightarrow> countDeployments y s rest
         | Some condition \<Rightarrow>
             (case getDesiredPool y pool of
                None \<Rightarrow> Panic ''nil pointer dereference''
              | Some p \<Rightarrow>
                  countDeployments y (s\<lparr>yi_notReadyPools := Some (items (yi_notReadyPools s)
                    @ [\<lparr>nr_pool = p, nr_info = Some condition\<rparr>])\<rparr>) rest)))"

fun updateStatus_yi_tries :: "nat \<Rightarrow> 'w yi_env \<Rightarrow> yi \<Rightarrow> go_error option \<Rightarrow> ('w, unit) io" where
  "updateStatus_yi_tries 0 env y updateErr =
     (case updateErr of Some e \<Rightarrow> fail e | None \<Rightarrow> ret ())"
| "updateStatus_yi_tries (Suc tries) env y updateErr =
     andThen (attempt (yie_UpdateStatus env y)) (\<lambda>r. case r of
       Inl e \<Rightarrow> updateStatus_yi_tries tries env y (Some e)
     | Inr _ \<Rightarrow> ret ())"

definition updateStatus_yi :: "'w yi_env \<Rightarrow> yi \<Rightarrow> bool \<Rightarrow> ('w, unit) io" where
  "updateStatus_yi env y ingressCRChanged =
     (let s = (yi_status y)\<lparr>yi_replicas := yis_replicas (yi_spec y),
            yi_controllerImage := yis_controllerImage (yi_spec y),
            yi_certgenImage := yis_certgenImage (yi_spec y)\<rparr> in
      andThen (if \<not> ingressCRChanged then
          andThen (getAllDeployments env y) (\<lambda>deployments.
          andThen (lift (countDeployments y (s\<lparr>yi_readyPools := None, yi_notReadyPools := None,
              yi_readyNum := 0\<rparr>) deployments)) (\<lambda>s'.
            ret (s'\<lparr>yi_unreadyNum :=
              of_nat (length (items (yis_pools (yi_spec y)))) - yi_readyNum s'\<rparr>)))
        else ret s) (\<lambda>s'.
      updateStatus_yi_tries updateRetries_yi env (y\<lparr>yi_status := s'\<rparr>) None))"

definition isOnlyYurtIngressCR :: "'w yi_env \<Rightarrow> ('w, bool) io" where
  "isOnlyYurtIngressCR env =
     andThen (attempt (yie_ListIngresses env)) (\<lambda>r. case r of
       Inl e \<Rightarrow> ret False
     | Inr ings \<Rightarrow> ret (length ings = 1))"

subsection \<open>The parts of \<open>Reconcile\<close>\<close>

text \<open>The pools that are added, one by one; the status grows with each.\<close>

fun addEach :: "'w yi_env \<Rightarrow> owner_ref \<Rightarrow> yi \<Rightarrow> ingress_pool list \<Rightarrow> ('w, yi) io" where
  "addEach env ownerRef y [] = ret y"
| "addEach env ownerRef y (pool # pools) =
     andThen (CreateNginxIngressSpecificResource (yie_ku env) (ip_name pool) (ip_ips pool)
         (yis_controllerImage (yi_spec y)) (yis_certgenImage (yi_spec y)) (yis_replicas (yi_spec y))
         ownerRef) (\<lambda>_.
       addEach env ownerRef (y\<lparr>yi_status := (yi_status y)\<lparr>
           yi_notReadyPools := Some (items (yi_notReadyPools (yi_status y))
             @ [\<lparr>nr_pool = pool, nr_info = None\<rparr>]),
           yi_unreadyNum := yi_unreadyNum (yi_status y) + 1\<rparr>\<rparr>) pools)"

definition addPools :: "'w yi_env \<Rightarrow> yi \<Rightarrow> ingress_pool goslice \<Rightarrow> ingress_pool list \<Rightarrow> ('w, yi) io" where
  "addPools env y currentPools addedPools =
     (let ownerRef = prepareDeploymentOwnerReferences y in
      andThen (if currentPools = None then
          andThen (IsIngressNamespaceReady (yie_ku env)) (\<lambda>ready.
            if \<not> ready then CreateNginxIngressCommonResource (yie_ku env) (yie_roleType env)
            else ret ())
        else ret ()) (\<lambda>_. addEach env ownerRef y addedPools))"

fun removeEach :: "'w yi_env \<Rightarrow> bool \<Rightarrow> yi \<Rightarrow> ingress_pool list \<Rightarrow> ('w, yi) io" where
  "removeEach env noneDesired y [] = ret y"
| "removeEach env noneDesired y (pool # pools) =
     andThen (DeleteNginxIngressSpecificResource (yie_ku env) (ip_name pool) noneDesired) (\<lambda>_.
       removeEach env noneDesired
         (if noneDesired then y
          else y\<lparr>yi_status := fst (removePoolfromCondition (yi_status y) (ip_name pool))\<rparr>) pools)"

definition removePools :: "'w yi_env \<Rightarrow> yi \<Rightarrow> ingress_pool goslice \<Rightarrow> ingress_pool list \<Rightarrow> ('w, yi) io" where
  "removePools env y desiredPools removedPools =
     andThen (removeEach env (desiredPools = None) y removedPools) (\<lambda>y'.
     andThen (if desiredPools = None then isOnlyYurtIngressCR env else ret False) (\<lambda>clean.
       if clean then
         andThen (DeleteNginxIngressCommonResource (yie_ku env)) (\<lambda>_.
           ret (y'\<lparr>yi_status := (yi_status y')\<lparr>yi_readyPools := None, yi_notReadyPools := None,
             yi_readyNum := 0, yi_unreadyNum := 0\<rparr>\<rparr>))
       else ret y'))"

definition updateExternalIPs :: "'w yi_env \<Rightarrow> yi \<Rightarrow> ingress_pool \<Rightarrow> ('w, unit) io" where
  "updateExternalIPs env y pool =
     (case getCurrentPool y (ip_name pool) of
        None \<Rightarrow> ret ()
      | Some currentPool \<Rightarrow>
          (if \<not> isStrArrayEqual (items (ip_ips pool)) (items (ip_ips currentPool))
           then UpdateNginxServiceExternalIPs (yie_ku env) (ip_name pool) (ip_ips pool)
           else ret ()))"

text \<open>The pools that stay; the answer says beside the object whether something has changed.\<close>

definition keepPools :: "'w yi_env \<Rightarrow> yi \<Rightarrow> ingress_pool list \<Rightarrow> ('w, yi \<times> bool) io" where
  "keepPools env y unchangedPools =
     (let spec = yi_spec y; status = yi_status y;
          imageChanged = yis_controllerImage spec \<noteq> yi_controllerImage status;
          replicasChanged = yis_replicas spec \<noteq> yi_replicas status;
          certgenChanged = yis_certgenImage spec \<noteq> yi_certgenImage status;
          y' = (if imageChanged then y\<lparr>yi_status := status\<lparr>yi_readyNum := 0,
              yi_unreadyNum := of_nat (length (items (yis_pools spec)))\<rparr>\<rparr> else y) in
      andThen (if imageChanged then
          forEach (\<lambda>pool. UpdateNginxIngressControllerDeploymment (yie_ku env) (ip_name pool)
            (yis_replicas spec) (yis_controllerImage spec)) unchangedPools
        else if replicasChanged then
          forEach (\<lambda>pool. ScaleNginxIngressControllerDeploymment (yie_ku env) (ip_name pool)
            (yis_replicas spec)) unchangedPools
        else ret ()) (\<lambda>_.
      andThen (if certgenChanged then
          forEach (\<lambda>pool. RecreateNginxWebhookJob (yie_ku env) (ip_name pool)
            (yis_certgenImage spec)) unchangedPools
        else ret ()) (\<lambda>_.
      andThen (forEach (updateExternalIPs env y') unchangedPools) (\<lambda>_.
        ret (y', imageChanged \<or> replicasChanged \<or> certgenChanged)))))"

definition cleanupIngressResources :: "'w yi_env \<Rightarrow> yi \<Rightarrow> ('w, unit) io" where
  "cleanupIngressResources env y =
     (let pools = getDesiredPools y in
      andThen (isOnlyYurtIngressCR env) (\<lambda>isOnly.
      andThen (if list_ex (\<lambda>f. f = YurtIngressFinalizer) (items (m_finalizers y))
        then andThen (yie_Update env (y\<lparr>m_finalizers :=
            Some (filter (\<lambda>f. f \<noteq> YurtIngressFinalizer) (items (m_finalizers y)))\<rparr>)) (\<lambda>_. ret ())
        else ret ()) (\<lambda>_.
      (case pools of
         None \<Rightarrow> ret ()
       | Some ps \<Rightarrow>
           andThen (forEach (\<lambda>pool. DeleteNginxIngressSpecificResource (yie_ku env) (ip_name pool) isOnly) ps)
             (\<lambda>_. if isOnly then DeleteNginxIngressCommonResource (yie_ku env) else ret ())))))"

subsection \<open>\<open>Reconcile\<close>\<close>

text \<open>For a YurtIngress that is not being deleted. An error of \<open>updateStatus\<close> is dropped.\<close>

definition reconcileIngress :: "'w yi_env \<Rightarrow> yi \<Rightarrow> ('w, unit) io" where
  "reconcileIngress env y =
     (let desiredPools = getDesiredPools y; currentPools = getCurrentPools y;
          (addedPools, removedPools, unchangedPools) = getPools desiredPools currentPools in
      andThen (case addedPools of None \<Rightarrow> ret y | Some ps \<Rightarrow> addPools env y currentPools ps) (\<lambda>y1.
      andThen (case removedPools of None \<Rightarrow> ret y1 | Some ps \<Rightarrow> removePools env y1 desiredPools ps) (\<lambda>y2.
      andThen (case unchangedPools of None \<Rightarrow> ret (y2, False) | Some ps \<Rightarrow> keepPools env y2 ps)
        (\<lambda>(y3, changed).
      andThen (attempt (updateStatus_yi env y3
          (addedPools \<noteq> None \<or> removedPools \<noteq> None \<or> changed))) (\<lambda>_. ret ())))))"

definition addFinalizer :: "yi \<Rightarrow> yi" where
  "addFinalizer y = y\<lparr>m_finalizers := Some (items (m_finalizers y) @ [YurtIngressFinalizer])\<rparr>"

definition Reconcile_yi :: "'w yi_env \<Rightarrow> string \<Rightarrow> string \<Rightarrow> ('w, unit) io" where
  "Reconcile_yi env ns name =
     andThen (attempt (yie_Get env ns name)) (\<lambda>g. case g of
       Inl e \<Rightarrow> (if isNotFound e then ret () else fail e)
     | Inr y0 \<Rightarrow>
         andThen (if \<not> list_ex (\<lambda>f. f = YurtIngressFinalizer) (items (m_finalizers y0))
           then yie_Update env (addFinalizer y0) else ret y0) (\<lambda>y.
         (if m_deletionTimestamp y \<noteq> None then cleanupIngressResources env y
          else reconcileIngress env y)))"

subsection \<open>Which pools are added, removed and kept\<close>

definition poolNames :: "ingress_pool goslice \<Rightarrow> string set" where
  "poolNames ps = ip_name ` set (items ps)"

definition sliceOf :: "'a list \<Rightarrow> 'a goslice" where
  "sliceOf xs = (if xs = [] then None else Some xs)"

lemma items_sliceOf [simp]: "items (sliceOf xs) = xs"
  by (simp add: sliceOf_def)

lemma sliceOf_snoc: "Some (items (sliceOf xs) @ [x]) = sliceOf (xs @ [x])"
  by (simp add: sliceOf_def)

lemma getPools_pass_run:
  "getPools_pass swap desired current (sliceOf a, sliceOf r, sliceOf u) =
     (let inside = filter (\<lambda>p. ip_name p \<in> ip_name ` set current) desired;
          outside = filter (\<lambda>p. ip_name p \<notin> ip_name ` set current) desired
      in if swap then (sliceOf a, sliceOf (r @ outside), sliceOf u)
         else (sliceOf (a @ outside), sliceOf r, sliceOf (u @ inside)))"
proof (induction desired arbitrary: a r u)
  case (Cons p desired)
  have "list_ex (\<lambda>p2. ip_name p = ip_name p2) current \<longleftrightarrow> ip_name p \<in> ip_name ` set current"
    by (auto simp: list_ex_iff)
  with Cons show ?case
    by (cases swap) (simp_all add: Let_def sliceOf_snoc [unfolded items_sliceOf])
qed simp

lemma sliceOf_nil: "sliceOf [] = None"
  by (simp add: sliceOf_def)

text \<open>C28: the pools to add are those asked for that no current pool is named like, the pools to remove
  are the current ones that are not asked for, the others asked for are kept; each in the order
  given and each list nil if it is empty. If a list of pools has no name twice, the
  names asked for are those added and those kept, the current names those removed and those kept.\<close>

theorem getPools_partition:
  "getPools desired current =
     (sliceOf (filter (\<lambda>p. ip_name p \<notin> poolNames current) (items desired)),
      sliceOf (filter (\<lambda>p. ip_name p \<notin> poolNames desired) (items current)),
      sliceOf (filter (\<lambda>p. ip_name p \<in> poolNames current) (items desired)))"
proof -
  let ?a = "filter (\<lambda>p. ip_name p \<notin> poolNames current) (items desired)"
    and ?u = "filter (\<lambda>p. ip_name p \<in> poolNames current) (items desired)"
  have "getPools_pass False (items desired) (items current) (None, None, None) = (sliceOf ?a, None, sliceOf ?u)"
    using getPools_pass_run [of False "items desired" "items current" "[]" "[]" "[]"]
    by (simp add: sliceOf_nil Let_def poolNames_def)
  moreover have "getPools_pass True (items current) (items desired) (sliceOf ?a, None, sliceOf ?u) =
      (sliceOf ?a, sliceOf (filter (\<lambda>p. ip_name p \<notin> poolNames desired) (items current)), sliceOf ?u)"
    using getPools_pass_run [of True "items current" "items desired" ?a "[]" ?u]
    by (simp add: sliceOf_nil Let_def poolNames_def)
  ultimately show ?thesis by (simp add: getPools_def)
qed

subsection \<open>Adding pools\<close>

lemma items_getCurrentPools:
  "items (getCurrentPools y) =
     items (yi_readyPools (yi_status y)) @ map nr_pool (items (yi_notReadyPools (yi_status y)))"
  by (simp add: getCurrentPools_def)

text \<open>C17: when the pools to add have been added, each has its seven objects, nothing else has been
  created, and the status lists them, in their order, after the pools it listed before; the number
  of pools that are not ready has grown by theirs.\<close>

theorem addEach_creates:
  assumes store: "kube_store (yie_ku env) has"
    and run: "addEach env own y pools w = (Ret y', w')"
  shows "has w' = (\<Union>p \<in> set pools. specificKeys (yie_ku env) (ip_name p)) \<union> has w \<and>
    items (getCurrentPools y') = items (getCurrentPools y) @ pools \<and>
    yi_unreadyNum (yi_status y') = yi_unreadyNum (yi_status y) + of_nat (length pools)"
  using run
proof (induction pools arbitrary: y w)
  case (Cons pool pools)
  then obtain w1 where c: "CreateNginxIngressSpecificResource (yie_ku env) (ip_name pool) (ip_ips pool)
         (yis_controllerImage (yi_spec y)) (yis_certgenImage (yi_spec y)) (yis_replicas (yi_spec y)) own w
      = (Ret (), w1)" and rest: "addEach env own (y\<lparr>yi_status := (yi_status y)\<lparr>
           yi_notReadyPools := Some (items (yi_notReadyPools (yi_status y))
             @ [\<lparr>nr_pool = pool, nr_info = None\<rparr>]),
           yi_unreadyNum := yi_unreadyNum (yi_status y) + 1\<rparr>\<rparr>) pools w1 = (Ret y', w')"
    by (auto elim!: andThen_RetD)
  have "has w1 = specificKeys (yie_ku env) (ip_name pool) \<union> has w"
    using specific_resources [OF store] c by metis
  with Cons.IH [OF rest] show ?case
    by (auto simp: items_getCurrentPools)
qed (simp add: ret_def)

subsection \<open>The status that is counted\<close>

definition isReady :: "yi \<Rightarrow> ingress_deployment \<Rightarrow> bool" where
  "isReady y d \<longleftrightarrow> id_readyReplicas d = yis_replicas (yi_spec y)"

definition poolOfDeployment :: "yi \<Rightarrow> ingress_deployment \<Rightarrow> ingress_pool option" where
  "poolOfDeployment y d = getDesiredPool y (gval (m_labels d) ingressDeploymentLabel)"

lemma poolOfDeployment_None:
  "poolOfDeployment y d = None \<longleftrightarrow>
     gval (m_labels d) ingressDeploymentLabel \<notin> poolNames (getDesiredPools y)"
  unfolding poolOfDeployment_def getDesiredPool_def find_None_iff poolNames_def getDesiredPools_def
  by (metis (no_types, lifting) image_iff)

text \<open>One round of the loop.\<close>

definition countDeployment :: "yi \<Rightarrow> ingress_deployment \<Rightarrow> yi_status \<Rightarrow> yi_status option" where
  "countDeployment y d s =
     (if isReady y d then
        map_option (\<lambda>p. s\<lparr>yi_readyNum := yi_readyNum s + 1,
          yi_readyPools := Some (items (yi_readyPools s) @ [p])\<rparr>) (poolOfDeployment y d)
      else
        (case getUnreadyDeploymentCondition d of
           None \<Rightarrow> Some s
         | Some c \<Rightarrow>
             map_option (\<lambda>p. s\<lparr>yi_notReadyPools := Some (items (yi_notReadyPools s)
               @ [\<lparr>nr_pool = p, nr_info = Some c\<rparr>])\<rparr>) (poolOfDeployment y d)))"

lemma countDeployments_step:
  "countDeployments y s (d # ds) =
     (case countDeployment y d s of
        None \<Rightarrow> Panic ''nil pointer dereference''
      | Some s' \<Rightarrow> countDeployments y s' ds)"
  by (simp add: Let_def countDeployment_def isReady_def poolOfDeployment_def split: option.split)

lemma countDeployment_panics:
  "countDeployment y d s = None \<longleftrightarrow>
     (isReady y d \<or> id_conditions d \<noteq> []) \<and> poolOfDeployment y d = None"
  by (cases "id_conditions d")
    (simp_all add: countDeployment_def getUnreadyDeploymentCondition_def Let_def)

lemma countDeployments_panics:
  "countDeployments y s ds = Panic ''nil pointer dereference'' \<longleftrightarrow>
     (\<exists>d \<in> set ds. (isReady y d \<or> id_conditions d \<noteq> []) \<and> poolOfDeployment y d = None)"
proof (induction ds arbitrary: s)
  case (Cons d ds)
  show ?case
  proof (cases "countDeployment y d s")
    case None
    then show ?thesis
      using countDeployment_panics [of y d s] by (simp add: countDeployments_step del: countDeployments.simps)
  next
    case (Some s')
    then have "\<not> ((isReady y d \<or> id_conditions d \<noteq> []) \<and> poolOfDeployment y d = None)"
      using countDeployment_panics [of y d s] by simp
    moreover have "countDeployments y s (d # ds) = countDeployments y s' ds"
      using Some by (simp add: countDeployments_step del: countDeployments.simps)
    ultimately show ?thesis using Cons.IH [of s'] by (metis list.set_intros(2) set_ConsD)
  qed
qed simp

lemma countDeployment_ready:
  "countDeployment y d s = Some s' \<Longrightarrow>
     yi_readyNum s' = yi_readyNum s + (if isReady y d then 1 else 0) \<and>
     map Some (items (yi_readyPools s')) =
       map Some (items (yi_readyPools s)) @ (if isReady y d then [poolOfDeployment y d] else [])"
  by (auto simp: countDeployment_def split: if_splits option.splits)

lemma countDeployments_ready:
  "countDeployments y s ds = Ret s' \<Longrightarrow>
     yi_readyNum s' = yi_readyNum s + of_nat (length (filter (isReady y) ds)) \<and>
     map Some (items (yi_readyPools s')) =
       map Some (items (yi_readyPools s)) @ map (poolOfDeployment y) (filter (isReady y) ds)"
proof (induction ds arbitrary: s)
  case (Cons d ds)
  from Cons.prems obtain s1 where s1: "countDeployment y d s = Some s1"
      and rest: "countDeployments y s1 ds = Ret s'"
    by (auto simp: countDeployments_step simp del: countDeployments.simps split: option.splits)
  show ?case
    using countDeployment_ready [OF s1] Cons.IH [OF rest] by (cases "isReady y d") simp_all
qed simp

definition nothing_changed :: "yi \<Rightarrow> bool" where
  "nothing_changed y \<longleftrightarrow>
     poolNames (getDesiredPools y) = poolNames (getCurrentPools y) \<and>
     yis_controllerImage (yi_spec y) = yi_controllerImage (yi_status y) \<and>
     yis_replicas (yi_spec y) = yi_replicas (yi_status y) \<and>
     yis_certgenImage (yi_spec y) = yi_certgenImage (yi_status y) \<and>
     (\<forall>p \<in> set (items (getDesiredPools y)). \<forall>c. getCurrentPool y (ip_name p) = Some c \<longrightarrow>
        items (ip_ips p) = items (ip_ips c))"

lemma isStrArrayEqual_iff: "isStrArrayEqual xs ys \<longleftrightarrow> xs = ys"
proof (cases "length xs = length ys")
  case True
  then show ?thesis
    by (cases "length xs = 0")
      (simp_all add: isStrArrayEqual_def list_all_iff list_eq_iff_nth_eq [of xs ys] Ball_def)
qed (auto simp: isStrArrayEqual_def)

lemma reconcileIngress_nothing_changed:
  assumes "nothing_changed y"
  shows "reconcileIngress env y = andThen (attempt (updateStatus_yi env y False)) (\<lambda>_. ret ())"
proof -
  have names: "poolNames (getDesiredPools y) = poolNames (getCurrentPools y)"
    and same: "yis_controllerImage (yi_spec y) = yi_controllerImage (yi_status y)"
      "yis_replicas (yi_spec y) = yi_replicas (yi_status y)"
      "yis_certgenImage (yi_spec y) = yi_certgenImage (yi_status y)"
    using assms by (simp_all add: nothing_changed_def)
  have inD: "ip_name p \<in> poolNames (getCurrentPools y)" if "p \<in> set (items (getDesiredPools y))" for p
    using that by (simp add: names [symmetric]) (simp add: poolNames_def)
  have inC: "ip_name p \<in> poolNames (getDesiredPools y)" if "p \<in> set (items (getCurrentPools y))" for p
    using that by (simp add: names) (simp add: poolNames_def)
  have "filter (\<lambda>p. ip_name p \<notin> poolNames (getCurrentPools y)) (items (getDesiredPools y)) = []"
    using inD by (simp add: filter_empty_conv)
  moreover have "filter (\<lambda>p. ip_name p \<notin> poolNames (getDesiredPools y)) (items (getCurrentPools y)) = []"
    using inC by (simp add: filter_empty_conv)
  moreover have "filter (\<lambda>p. ip_name p \<in> poolNames (getCurrentPools y)) (items (getDesiredPools y))
      = items (getDesiredPools y)"
    using inD by (simp add: filter_id_conv)
  ultimately have pools: "getPools (getDesiredPools y) (getCurrentPools y) =
      (None, None, sliceOf (items (getDesiredPools y)))"
    by (simp add: getPools_partition sliceOf_def)
  have "forEach (updateExternalIPs env y) ps = ret ()" if "set ps \<subseteq> set (items (getDesiredPools y))" for ps
    using that
  proof (induction ps)
    case (Cons p ps)
    then have "updateExternalIPs env y p = ret ()"
      using assms by (auto simp: updateExternalIPs_def nothing_changed_def isStrArrayEqual_iff
          split: option.split)
    with Cons show ?case by simp
  qed simp
  then have "keepPools env y (items (getDesiredPools y)) = ret (y, False)"
    using same by (simp add: keepPools_def Let_def)
  then have keep: "(case sliceOf (items (getDesiredPools y)) of None \<Rightarrow> ret (y, False)
      | Some ps \<Rightarrow> keepPools env y ps) = ret (y, False)"
    by (simp add: sliceOf_def)
  show ?thesis
    unfolding reconcileIngress_def Let_def pools prod.case option.case andThen_ret keep by simp
qed

text \<open>C29: a deployment that is left over from a pool which is no longer asked for makes the
  reconciliation of the YurtIngress panic, though nothing is to be done: its pool is looked up in
  the specification and read without a test. The status is not written.\<close>

theorem stale_deployment_panics:
  assumes "nothing_changed y"
    and "getAllDeployments env y w = (Ret ds, w')"
    and "d \<in> set ds" and "id_readyReplicas d = yis_replicas (yi_spec y)"
    and "gval (m_labels d) ingressDeploymentLabel \<notin> poolNames (getDesiredPools y)"
  shows "reconcileIngress env y w = (Panic ''nil pointer dereference'', w')"
proof -
  have "poolOfDeployment y d = None"
    using assms(5) by (simp add: poolOfDeployment_None)
  with assms(3,4) have "countDeployments y s ds = Panic ''nil pointer dereference''" for s
    by (auto simp: countDeployments_panics isReady_def)
  with assms(2) have "updateStatus_yi env y False w = (Panic ''nil pointer dereference'', w')"
    by (simp add: updateStatus_yi_def Let_def andThen_def lift_def)
  then show ?thesis
    by (simp add: reconcileIngress_nothing_changed [OF assms(1)] andThen_def attempt_def)
qed

text \<open>When nothing is to be done and no deployment is left over, the status that is written counts the
  ready deployments, lists their pools, and its two numbers add up to the number of pools.\<close>

lemma updateStatus_counts:
  assumes "getAllDeployments env y w = (Ret ds, w1)"
    and "\<forall>d \<in> set ds. gval (m_labels d) ingressDeploymentLabel \<in> poolNames (getDesiredPools y)"
  shows "\<exists>s. updateStatus_yi env y False w = updateStatus_yi_tries updateRetries_yi env
      (y\<lparr>yi_status := s\<rparr>) None w1 \<and>
    yi_readyNum s = of_nat (length (filter (isReady y) ds)) \<and>
    yi_readyNum s + yi_unreadyNum s = of_nat (length (items (yis_pools (yi_spec y)))) \<and>
    map Some (items (yi_readyPools s)) = map (poolOfDeployment y) (filter (isReady y) ds)"
proof -
  let ?s0 = "(yi_status y)\<lparr>yi_replicas := yis_replicas (yi_spec y),
    yi_controllerImage := yis_controllerImage (yi_spec y),
    yi_certgenImage := yis_certgenImage (yi_spec y), yi_readyPools := None, yi_notReadyPools := None,
    yi_readyNum := 0\<rparr>"
  have "\<exists>s'. countDeployments y s ds = Ret s'" for s
    using assms(2)
  proof (induction ds arbitrary: s)
    case (Cons d ds)
    then have "countDeployment y d s \<noteq> None"
      by (simp add: countDeployment_panics poolOfDeployment_None)
    with Cons show ?case
      by (auto simp: countDeployments_step simp del: countDeployments.simps)
  qed simp
  then obtain s' where s': "countDeployments y ?s0 ds = Ret s'" by blast
  with countDeployments_ready [OF s'] assms(1) show ?thesis
    by (intro exI [of _ "s'\<lparr>yi_unreadyNum := of_nat (length (items (yis_pools (yi_spec y))))
        - yi_readyNum s'\<rparr>"]) (simp add: updateStatus_yi_def Let_def andThen_def lift_def ret_def)
qed

subsection \<open>Removing every pool\<close>

lemma removeEach_all:
  "removeEach env True y pools w = (Ret y', w') \<Longrightarrow> y' = y"
  by (induction pools arbitrary: w) (auto simp: ret_def elim!: andThen_RetD)

text \<open>When every pool is withdrawn from a YurtIngress and there are other YurtIngresses, the pools
  are removed and the status that is written still lists all of them: the next
  reconciliation finds the same pools to remove again.\<close>

theorem remove_all_never_settles:
  assumes none: "getDesiredPools y = None" and some: "items (getCurrentPools y) \<noteq> []"
    and only: "\<And>u. fst (isOnlyYurtIngressCR env u) = Ret False"
    and run: "reconcileIngress env y w = (Ret (), w')"
  shows "\<exists>s w1. (Ret (), w') = andThen (attempt (updateStatus_yi_tries updateRetries_yi env
        (y\<lparr>yi_status := s\<rparr>) None)) (\<lambda>_. ret ()) w1 \<and>
    getPools (getDesiredPools y) (getCurrentPools (y\<lparr>yi_status := s\<rparr>)) =
      (None, Some (items (getCurrentPools y)), None)"
proof -
  have pools: "getPools (getDesiredPools y) cur = (None, Some (items (getCurrentPools y)), None)"
    if "items cur = items (getCurrentPools y)" for cur
    using some that by (simp add: none getPools_partition sliceOf_def poolNames_def)
  let ?s = "(yi_status y)\<lparr>yi_replicas := yis_replicas (yi_spec y),
    yi_controllerImage := yis_controllerImage (yi_spec y),
    yi_certgenImage := yis_certgenImage (yi_spec y)\<rparr>"
  from run have "andThen (removePools env y None (items (getCurrentPools y))) (\<lambda>y2.
      andThen (attempt (updateStatus_yi env y2 True)) (\<lambda>_. ret ())) w = (Ret (), w')"
    unfolding reconcileIngress_def Let_def pools [OF refl] prod.case option.case andThen_ret
    by (simp add: none)
  then obtain y2 w2 where r: "removePools env y None (items (getCurrentPools y)) w = (Ret y2, w2)"
    and fin: "andThen (attempt (updateStatus_yi env y2 True)) (\<lambda>_. ret ()) w2 = (Ret (), w')"
    by (rule andThen_RetD)
  from r obtain y1 u1 where rm: "removeEach env True y (items (getCurrentPools y)) w = (Ret y1, u1)"
    and k: "andThen (isOnlyYurtIngressCR env) (\<lambda>clean.
       if clean then
         andThen (DeleteNginxIngressCommonResource (yie_ku env)) (\<lambda>_.
           ret (y1\<lparr>yi_status := (yi_status y1)\<lparr>yi_readyPools := None, yi_notReadyPools := None,
             yi_readyNum := 0, yi_unreadyNum := 0\<rparr>\<rparr>))
       else ret y1) u1 = (Ret y2, w2)"
    unfolding removePools_def by (simp split del: if_split) (rule andThen_RetD)
  have "y1 = y" by (rule removeEach_all [OF rm])
  with k only [of u1] have y2: "y2 = y"
    by (cases "isOnlyYurtIngressCR env u1") (simp add: andThen_def ret_def)
  have "updateStatus_yi env y True = updateStatus_yi_tries updateRetries_yi env (y\<lparr>yi_status := ?s\<rparr>) None"
    by (simp add: updateStatus_yi_def Let_def)
  moreover have "items (getCurrentPools (y\<lparr>yi_status := ?s\<rparr>)) = items (getCurrentPools y)"
    by (simp add: items_getCurrentPools)
  ultimately show ?thesis
    using fin y2 pools by (intro exI [of _ ?s] exI [of _ w2]) simp
qed

end
