(* ===== verification/NodePool_Webhook.thy ===== *)
theory NodePool_Webhook
  imports NodePool_Events
begin

section \<open>Admission and conversion of node pools\<close>

text \<open>
  \<open>webhook/nodepool\<close> (defaulting, validation of create, update and delete) and the conversion
  between \<open>v1beta1\<close> and \<open>v1alpha1\<close> of \<open>apis/apps/v1beta1/nodepool_conversion.go\<close>.
  An object that is not a \<open>*v1alpha1.NodePool\<close> is \<open>None\<close>. The validation of annotations
  and the listing of nodes belong to the API machinery: the record \<open>npw_env\<close>.
\<close>

datatype field_error_type =
  FieldInvalid | FieldForbidden | FieldRequired | FieldDuplicate | FieldNotSupported

text \<open>The value an error shows to the user is not part of the model.\<close>

record field_error =
  fe_type :: field_error_type
  fe_path :: "string list"
  fe_detail :: string

definition field_Invalid :: "string list \<Rightarrow> string \<Rightarrow> field_error" where
  "field_Invalid p d = \<lparr>fe_type = FieldInvalid, fe_path = p, fe_detail = d\<rparr>"

definition field_Forbidden :: "string list \<Rightarrow> string \<Rightarrow> field_error" where
  "field_Forbidden p d = \<lparr>fe_type = FieldForbidden, fe_path = p, fe_detail = d\<rparr>"

definition field_Required :: "string list \<Rightarrow> string \<Rightarrow> field_error" where
  "field_Required p d = \<lparr>fe_type = FieldRequired, fe_path = p, fe_detail = d\<rparr>"

text \<open>\<open>apierrors.NewBadRequest\<close> and \<open>apierrors.NewInvalid\<close>\<close>

datatype admission_error = BadRequest | Invalid string "field_error list"

record 'w npw_env =
  npw_annotationValidator :: "string gomap \<Rightarrow> go_error option"
  npw_ListNodes :: "string gomap \<Rightarrow> ('w, node list) io"

subsection \<open>Defaulting\<close>

text \<open>\<open>strings.ToLower\<close> on the letters the pool types are made of\<close>

definition lower_char :: "char \<Rightarrow> char" where
  "lower_char c =
     (if CHR ''A'' \<le> c \<and> c \<le> CHR ''Z'' then char_of (of_char c + 32 :: nat) else c)"

definition ToLower :: "string \<Rightarrow> string" where
  "ToLower s = map lower_char s"

definition NodePool_Default :: "nodepool option \<Rightarrow> admission_error + nodepool" where
  "NodePool_Default obj =
     (case obj of
        None \<Rightarrow> Inl BadRequest
      | Some np \<Rightarrow>
          (let np1 = np\<lparr>np_spec := (np_spec np)\<lparr>nps_selector :=
                 Some \<lparr>ls_matchLabels = Some [(LabelCurrentNodePool, m_name np)],
                        ls_matchExpressions = None\<rparr>\<rparr>\<rparr>;
               labels = (if m_labels np1 = None then Some [] else m_labels np1)
           in Inr (np1\<lparr>m_labels :=
                gput NodePoolTypeLabelKey (ToLower (nps_type (np_spec np1))) labels\<rparr>)))"

subsection \<open>Validation\<close>

definition validateNodePoolSpecAnnotations ::
  "'w npw_env \<Rightarrow> string gomap \<Rightarrow> field_error goslice" where
  "validateNodePoolSpecAnnotations env annotations =
     (case npw_annotationValidator env annotations of
        Some e \<Rightarrow> Some [field_Invalid [''spec'', ''annotations''] ''invalid annotations'']
      | None \<Rightarrow> None)"

definition validateNodePoolSpec :: "'w npw_env \<Rightarrow> nodepool_spec \<Rightarrow> field_error goslice" where
  "validateNodePoolSpec env spec =
     (case validateNodePoolSpecAnnotations env (nps_annotations spec) of
        Some allErrs \<Rightarrow> Some allErrs
      | None \<Rightarrow> None)"

definition validateNodePoolSpecUpdate ::
  "'w npw_env \<Rightarrow> nodepool_spec \<Rightarrow> nodepool_spec \<Rightarrow> field_error goslice" where
  "validateNodePoolSpecUpdate env spec oldSpec =
     (case validateNodePoolSpec env spec of
        Some allErrs \<Rightarrow> Some allErrs
      | None \<Rightarrow>
          (if nps_type spec \<noteq> nps_type oldSpec
           then Some [field_Invalid [''spec'', ''type''] ''pool type can't be changed'']
           else None))"

text \<open>A pool without a selector makes the call panic: the code reads the labels through the nil
  pointer.\<close>

definition validateNodePoolDeletion ::
  "'w npw_env \<Rightarrow> nodepool \<Rightarrow> ('w, field_error goslice) io" where
  "validateNodePoolDeletion env np =
     (if m_name np = DefaultCloudNodePoolName \<or> m_name np = DefaultEdgeNodePoolName
      then ret (Some [field_Forbidden [''metadata'', ''name'']
        (''default nodepool '' @ m_name np @ '' forbidden to delete'')])
      else (case nps_selector (np_spec np) of
        None \<Rightarrow> lift (Panic ''nil pointer dereference'')
      | Some sel \<Rightarrow>
          andThen (attempt (npw_ListNodes env (ls_matchLabels sel))) (\<lambda>r. case r of
            Inl e \<Rightarrow> ret (Some [field_Forbidden [''metadata'', ''name'']
              ''fail to get nodes associated to the pool''])
          | Inr nodes \<Rightarrow>
              (if length nodes \<noteq> 0
               then ret (Some [field_Forbidden [''metadata'', ''name'']
                 ''cannot remove nonempty pool, please drain the pool before deleting''])
               else ret None))))"

definition NodePool_ValidateCreate ::
  "'w npw_env \<Rightarrow> nodepool option \<Rightarrow> admission_error + unit" where
  "NodePool_ValidateCreate env obj =
     (case obj of
        None \<Rightarrow> Inl BadRequest
      | Some np \<Rightarrow>
          (let allErrs = items (validateNodePoolSpec env (np_spec np))
           in if length allErrs > 0 then Inl (Invalid (m_name np) allErrs) else Inr ()))"

definition NodePool_ValidateUpdate ::
  "'w npw_env \<Rightarrow> nodepool option \<Rightarrow> nodepool option \<Rightarrow> admission_error + unit" where
  "NodePool_ValidateUpdate env oldObj newObj =
     (case newObj of
        None \<Rightarrow> Inl BadRequest
      | Some newNp \<Rightarrow>
     (case oldObj of
        None \<Rightarrow> Inl BadRequest
      | Some oldNp \<Rightarrow>
          (let allErrs = items (validateNodePoolSpecUpdate env (np_spec newNp) (np_spec oldNp))
           in if length allErrs > 0 then Inl (Invalid (m_name newNp) allErrs) else Inr ())))"

definition NodePool_ValidateDelete ::
  "'w npw_env \<Rightarrow> nodepool option \<Rightarrow> ('w, admission_error + unit) io" where
  "NodePool_ValidateDelete env obj =
     (case obj of
        None \<Rightarrow> ret (Inl BadRequest)
      | Some np \<Rightarrow>
          andThen (validateNodePoolDeletion env np) (\<lambda>errs.
            (if length (items errs) > 0 then ret (Inl (Invalid (m_name np) (items errs)))
             else ret (Inr ()))))"

subsection \<open>Conversion\<close>

record nodepool_spec_v1beta1 =
  nbs_type :: string
  nbs_selector :: "label_selector option"
  nbs_labels :: "string gomap"
  nbs_annotations :: "string gomap"
  nbs_taints :: "taint goslice"

record nodepool_status_v1beta1 =
  nbt_readyNodeNum :: int32
  nbt_unreadyNodeNum :: int32
  nbt_nodes :: "string goslice"

record nodepool_v1beta1 = object_meta +
  nb_spec :: nodepool_spec_v1beta1
  nb_status :: nodepool_status_v1beta1

definition ConvertTo :: "nodepool_v1beta1 \<Rightarrow> nodepool \<Rightarrow> nodepool" where
  "ConvertTo src dst = object_meta.extend (object_meta.truncate src)
     \<lparr>np_spec = (np_spec dst)\<lparr>nps_type := nbs_type (nb_spec src),
        nps_selector := nbs_selector (nb_spec src),
        nps_annotations := nbs_annotations (nb_spec src),
        nps_taints := nbs_taints (nb_spec src)\<rparr>,
      np_status = (np_status dst)\<lparr>nst_readyNodeNum := nbt_readyNodeNum (nb_status src),
        nst_unreadyNodeNum := nbt_unreadyNodeNum (nb_status src),
        nst_nodes := nbt_nodes (nb_status src)\<rparr>\<rparr>"

definition ConvertFrom :: "nodepool \<Rightarrow> nodepool_v1beta1 \<Rightarrow> nodepool_v1beta1" where
  "ConvertFrom src dst = object_meta.extend (object_meta.truncate src)
     \<lparr>nb_spec = (nb_spec dst)\<lparr>nbs_type := nps_type (np_spec src),
        nbs_selector := nps_selector (np_spec src),
        nbs_annotations := nps_annotations (np_spec src),
        nbs_taints := nps_taints (np_spec src)\<rparr>,
      nb_status = (nb_status dst)\<lparr>nbt_readyNodeNum := nst_readyNodeNum (np_status src),
        nbt_unreadyNodeNum := nst_unreadyNodeNum (np_status src),
        nbt_nodes := nst_nodes (np_status src)\<rparr>\<rparr>"

definition empty_nodepool_v1beta1 :: nodepool_v1beta1 where
  "empty_nodepool_v1beta1 = object_meta.extend empty_meta
     \<lparr>nb_spec = \<lparr>nbs_type = [], nbs_selector = None, nbs_labels = None,
        nbs_annotations = None, nbs_taints = None\<rparr>,
      nb_status = \<lparr>nbt_readyNodeNum = 0, nbt_unreadyNodeNum = 0, nbt_nodes = None\<rparr>\<rparr>"

subsection \<open>Properties\<close>

text \<open>C40: deletion of a defaulted pool is admitted exactly when it is not one of the two default
  pools and no stored node carries its owner label, provided the nodes can be listed; it
  never panics.\<close>

theorem delete_only_empty_pools:
  assumes "NodePool_Default (Some np) = Inr np'"
    and lists: "\<And>m u. npw_ListNodes env m u =
      (Ret (filter (\<lambda>n. list_all (\<lambda>(k, v). gget (m_labels n) k = Some v) (entries m)) (st u)), u)"
  shows "fst (NodePool_ValidateDelete env (Some np') w) = Ret (Inr ()) \<longleftrightarrow>
    m_name np \<noteq> ''default-nodepool'' \<and> m_name np \<noteq> ''default-edge-nodepool'' \<and>
    (\<forall>n \<in> set (st w). gget (m_labels n) LabelCurrentNodePool \<noteq> Some (m_name np))"
proof -
  have np': "m_name np' = m_name np" "nps_selector (np_spec np') =
      Some \<lparr>ls_matchLabels = Some [(LabelCurrentNodePool, m_name np)], ls_matchExpressions = None\<rparr>"
    using assms(1) by (auto simp: NodePool_Default_def Let_def)
  show ?thesis
    by (auto simp: NodePool_ValidateDelete_def validateNodePoolDeletion_def np' lists andThen_def
        attempt_def io_simps DefaultCloudNodePoolName_def DefaultEdgeNodePoolName_def
        filter_empty_conv)
qed

text \<open>An update is admitted exactly when the new annotations are valid and the type is
  the old one; once admitted along a chain of updates the type never changes.\<close>

theorem updates_keep_type:
  assumes "\<And>i. Suc i < length nps \<Longrightarrow>
    NodePool_ValidateUpdate env (Some (nps ! i)) (Some (nps ! Suc i)) = Inr ()"
    and "i < length nps"
  shows "nps_type (np_spec (nps ! i)) = nps_type (np_spec (nps ! 0))"
  using assms(2)
proof (induction i)
  case (Suc i)
  with assms(1) [of i] show ?case
    by (auto simp: NodePool_ValidateUpdate_def validateNodePoolSpecUpdate_def
        validateNodePoolSpec_def validateNodePoolSpecAnnotations_def
        split: option.splits if_splits)
qed simp

text \<open>Converting a pool to \<open>v1beta1\<close> and back into an empty object gives the pool back
  except for the labels of its specification, which both conversions leave out.\<close>

theorem conversion_drops_labels:
  "ConvertTo (ConvertFrom np empty_nodepool_v1beta1) empty_nodepool =
     np\<lparr>np_spec := (np_spec np)\<lparr>nps_labels := None\<rparr>\<rparr>"
  by (cases np; cases "np_spec np"; cases "np_status np")
    (simp add: ConvertTo_def ConvertFrom_def empty_nodepool_def empty_nodepool_v1beta1_def
      object_meta.defs nodepool.defs)

definition demo_npw_env :: "cluster npw_env" where
  "demo_npw_env = \<lparr>npw_annotationValidator = (\<lambda>annos. None),
     npw_ListNodes = (\<lambda>m u. (Ret (filter (\<lambda>n. list_all (\<lambda>(k, v).
       gget (m_labels n) k = Some v) (entries m)) (cl_nodes u)), u))\<rparr>"

definition demo_pool_defaulted :: nodepool where
  "demo_pool_defaulted = projr (NodePool_Default (Some demo_pool))"

theorem delete_only_empty_pools_witness:
  "fst (NodePool_ValidateDelete demo_npw_env (Some demo_pool_defaulted) demo_cluster)
     \<noteq> Ret (Inr ())"
proof -
  have run: "NodePool_Default (Some demo_pool) = Inr demo_pool_defaulted"
    by code_simp
  have "gget (m_labels demo_left) LabelCurrentNodePool = Some (m_name demo_pool)"
    and "demo_left \<in> set (cl_nodes demo_cluster)"
    by (code_simp, simp add: demo_cluster_def)
  then show ?thesis
    using delete_only_empty_pools [OF run, of demo_npw_env cl_nodes demo_cluster]
    by (auto simp: demo_npw_env_def)
qed

theorem updates_keep_type_witness:
  "nps_type (np_spec ([demo_pool, demo_pool_changed, demo_pool_empty] ! 2)) = ''Edge''"
proof -
  have admitted:
    "NodePool_ValidateUpdate demo_npw_env (Some demo_pool) (Some demo_pool_changed) = Inr ()"
    "NodePool_ValidateUpdate demo_npw_env (Some demo_pool_changed) (Some demo_pool_empty) = Inr ()"
    and type: "nps_type (np_spec demo_pool) = ''Edge''"
    by code_simp+
  let ?nps = "[demo_pool, demo_pool_changed, demo_pool_empty]"
  have "nps_type (np_spec (?nps ! 2)) = nps_type (np_spec (?nps ! 0))"
    by (rule updates_keep_type [of ?nps demo_npw_env])
      (auto simp: less_Suc_eq admitted)
  with type show ?thesis by simp
qed

end
