(* ===== verification/YI_Webhook.thy ===== *)
theory YI_Webhook
  imports YI_Controller NodePool_Webhook
begin

section \<open>YurtIngress: admission\<close>

text \<open>
  \<open>webhook/yurtingress\<close> and \<open>SetDefaultsYurtIngress\<close> of \<open>apis/apps/v1alpha1/defaults.go\<close>. An
  object of another type is \<open>None\<close>. The client that lists is the record \<open>yiw_env\<close>.

  The last part follows a cluster through admitted requests, one at a time: no node pool is
  given to two YurtIngresses.
\<close>

record 'w yiw_env =
  yiw_ListIngresses :: "('w, yi list) io"
  yiw_ListNodePools :: "('w, nodepool list) io"

subsection \<open>Defaulting\<close>

definition defaultIngressControllerImage :: string where
  "defaultIngressControllerImage = ''registry.k8s.io/ingress-nginx/controller:v0.48.1''"

definition defaultIngressWebhookCertGenImage :: string where
  "defaultIngressWebhookCertGenImage = ''docker.io/jettech/kube-webhook-certgen:v1.5.1''"

definition SetDefaultsYurtIngress :: "yi \<Rightarrow> yi" where
  "SetDefaultsYurtIngress obj =
     (let s = yi_spec obj;
          s1 = (if yis_controllerImage s = [] then s\<lparr>yis_controllerImage := defaultIngressControllerImage\<rparr>
                else s);
          s2 = (if yis_certgenImage s1 = [] then s1\<lparr>yis_certgenImage := defaultIngressWebhookCertGenImage\<rparr>
                else s1);
          s3 = (if yis_replicas s2 = 0 then s2\<lparr>yis_replicas := 1\<rparr> else s2)
      in obj\<lparr>yi_spec := s3\<rparr>)"

definition YurtIngress_Default :: "yi option \<Rightarrow> admission_error + yi" where
  "YurtIngress_Default obj =
     (case obj of None \<Rightarrow> Inl BadRequest | Some ing \<Rightarrow> Inr (SetDefaultsYurtIngress ing))"

subsection \<open>Validation\<close>

definition poolsForbidden :: "string \<Rightarrow> field_error goslice" where
  "poolsForbidden errmsg = Some [field_Forbidden [''spec'', ''pools''] errmsg]"

text \<open>The loops that fill \<open>npIngressMap\<close>: a later YurtIngress takes the place of an earlier one.\<close>

fun enabledPools :: "yi list \<Rightarrow> string gomap \<Rightarrow> string gomap" where
  "enabledPools [] npIngressMap = npIngressMap"
| "enabledPools (ingress # rest) npIngressMap =
     enabledPools rest
       (fold (\<lambda>np. gput (ip_name np) (m_name ingress)) (items (yis_pools (yi_spec ingress))) npIngressMap)"

text \<open>The loop over the pools of the specification. The loop over \<open>npIngressMap\<close> finds at most the
  entry of the pool's name.\<close>

fun validateIngressPools ::
  "string \<Rightarrow> string gomap \<Rightarrow> nodepool list \<Rightarrow> ingress_pool list \<Rightarrow> field_error goslice" where
  "validateIngressPools ingressName npIngressMap nps [] = None"
| "validateIngressPools ingressName npIngressMap nps (snp # pools) =
     (if list_ex (\<lambda>cnp. ip_name snp = m_name cnp) nps then
        (case gget npIngressMap (ip_name snp) of
           Some other \<Rightarrow>
             (if ingressName \<noteq> other
              then poolsForbidden (''Nodepool \"'' @ ip_name snp @ ''\" has been enabled in \"'' @ other
                @ ''\" already!'')
              else validateIngressPools ingressName npIngressMap nps pools)
         | None \<Rightarrow> validateIngressPools ingressName npIngressMap nps pools)
      else poolsForbidden (ip_name snp @ '' does not exist in the cluster!''))"

definition validateYurtIngressSpec ::
  "'w yiw_env \<Rightarrow> string \<Rightarrow> yi_spec \<Rightarrow> bool \<Rightarrow> ('w, field_error goslice) io" where
  "validateYurtIngressSpec env ingressName spec isdelete =
     (if length (items (yis_pools spec)) > 0 then
        andThen (attempt (yiw_ListIngresses env)) (\<lambda>r. case r of
          Inl e \<Rightarrow> ret (poolsForbidden ''List YurtIngressList error!'')
        | Inr ingressList \<Rightarrow>
            (let npIngressMap = (if \<not> isdelete \<and> length ingressList > 0
                                 then enabledPools ingressList (Some []) else Some [])
             in andThen (attempt (yiw_ListNodePools env)) (\<lambda>r'. case r' of
                  Inl e \<Rightarrow> ret (poolsForbidden ''List nodepool list error!'')
                | Inr nps \<Rightarrow>
                    (if length nps > 0
                     then ret (validateIngressPools ingressName npIngressMap nps (items (yis_pools spec)))
                     else ret None))))
      else ret None)"

definition validateYurtIngressSpecUpdate ::
  "'w yiw_env \<Rightarrow> string \<Rightarrow> yi_spec \<Rightarrow> yi_spec \<Rightarrow> ('w, field_error goslice) io" where
  "validateYurtIngressSpecUpdate env ingressName spec oldSpec =
     validateYurtIngressSpec env ingressName spec False"

definition validateYurtIngressSpecDeletion ::
  "'w yiw_env \<Rightarrow> string \<Rightarrow> yi_spec \<Rightarrow> ('w, field_error goslice) io" where
  "validateYurtIngressSpecDeletion env ingressName spec =
     validateYurtIngressSpec env ingressName spec True"

definition admit :: "string \<Rightarrow> field_error goslice \<Rightarrow> admission_error + unit" where
  "admit name allErrs = (if length (items allErrs) > 0 then Inl (Invalid name (items allErrs)) else Inr ())"

definition YurtIngress_ValidateCreate ::
  "'w yiw_env \<Rightarrow> yi option \<Rightarrow> ('w, admission_error + unit) io" where
  "YurtIngress_ValidateCreate env obj =
     (case obj of
        None \<Rightarrow> ret (Inl BadRequest)
      | Some ingress \<Rightarrow>
          andThen (validateYurtIngressSpec env (m_name ingress) (yi_spec ingress) False)
            (\<lambda>allErrs. ret (admit (m_name ingress) allErrs)))"

definition YurtIngress_ValidateUpdate ::
  "'w yiw_env \<Rightarrow> yi option \<Rightarrow> yi option \<Rightarrow> ('w, admission_error + unit) io" where
  "YurtIngress_ValidateUpdate env oldObj newObj =
     (case newObj of
        None \<Rightarrow> ret (Inl BadRequest)
      | Some newIngress \<Rightarrow>
     (case oldObj of
        None \<Rightarrow> ret (Inl BadRequest)
      | Some oldIngress \<Rightarrow>
          andThen (validateYurtIngressSpecUpdate env (m_name newIngress) (yi_spec newIngress)
              (yi_spec oldIngress))
            (\<lambda>allErrs. ret (admit (m_name newIngress) allErrs))))"

definition YurtIngress_ValidateDelete ::
  "'w yiw_env \<Rightarrow> yi option \<Rightarrow> ('w, admission_error + unit) io" where
  "YurtIngress_ValidateDelete env obj =
     (case obj of
        None \<Rightarrow> ret (Inl BadRequest)
      | Some ingress \<Rightarrow>
          andThen (validateYurtIngressSpecDeletion env (m_name ingress) (yi_spec ingress))
            (\<lambda>allErrs. ret (admit (m_name ingress) allErrs)))"

subsection \<open>What the validation decides\<close>

definition ingressPools :: "yi \<Rightarrow> string set" where
  "ingressPools y = poolNames (yis_pools (yi_spec y))"

lemma gget_fold_pools:
  "gget (fold (\<lambda>np. gput (ip_name np) v) ps m) k = (if k \<in> ip_name ` set ps then Some v else gget m k)"
  by (induction ps arbitrary: m) (auto simp: gget_gput)

text \<open>The entry of a name is that of the last YurtIngress that has the pool.\<close>

lemma gget_enabledPools:
  "gget (enabledPools ings m) k =
     (case find (\<lambda>i. k \<in> ingressPools i) (rev ings) of Some i \<Rightarrow> Some (m_name i) | None \<Rightarrow> gget m k)"
proof (induction ings arbitrary: m)
  case (Cons i ings)
  have "find P (xs @ [x]) = (case find P xs of Some z \<Rightarrow> Some z | None \<Rightarrow> if P x then Some x else None)"
    for P and xs :: "yi list" and x
    by (induction xs) auto
  with Cons show ?case
    by (auto simp: gget_fold_pools ingressPools_def poolNames_def split: option.split)
qed simp

lemma validateIngressPools_None:
  "validateIngressPools name m nps ps = None \<longleftrightarrow>
     (\<forall>p \<in> set ps. ip_name p \<in> m_name ` set nps \<and> (\<forall>i. gget m (ip_name p) = Some i \<longrightarrow> i = name))"
proof (induction ps)
  case (Cons p ps)
  have "list_ex (\<lambda>cnp. ip_name p = m_name cnp) nps \<longleftrightarrow> ip_name p \<in> m_name ` set nps"
    by (auto simp: list_ex_iff)
  with Cons show ?case
    by (cases "gget m (ip_name p)") (auto simp: poolsForbidden_def)
qed simp

lemma validateIngressPools_errors:
  "validateIngressPools name m nps ps \<noteq> None \<Longrightarrow> items (validateIngressPools name m nps ps) \<noteq> []"
  by (induction ps) (auto simp: poolsForbidden_def split: option.splits if_splits)

subsection \<open>A cluster through admitted requests\<close>

record cluster =
  cl_ingresses :: "yi list"
  cl_nodePools :: "nodepool list"

text \<open>The client reads the cluster as it is.\<close>

definition cluster_env :: "cluster yiw_env" where
  "cluster_env = \<lparr>
     yiw_ListIngresses = (\<lambda>c. (Ret (cl_ingresses c), c)),
     yiw_ListNodePools = (\<lambda>c. (Ret (cl_nodePools c), c))\<rparr>"

text \<open>The API server admits a request when the handler does, keeps names apart, and an update keeps the
  name. Node pools come and go; one is always there.\<close>

inductive cluster_step :: "cluster \<Rightarrow> cluster \<Rightarrow> bool" where
  create: "\<lbrakk>fst (YurtIngress_ValidateCreate cluster_env (Some y) c) = Ret (Inr ());
            m_name y \<notin> m_name ` set (cl_ingresses c)\<rbrakk>
     \<Longrightarrow> cluster_step c (c\<lparr>cl_ingresses := cl_ingresses c @ [y]\<rparr>)"
| update: "\<lbrakk>fst (YurtIngress_ValidateUpdate cluster_env (Some old) (Some y) c) = Ret (Inr ());
            old \<in> set (cl_ingresses c); m_name y = m_name old\<rbrakk>
     \<Longrightarrow> cluster_step c (c\<lparr>cl_ingresses :=
           map (\<lambda>i. if m_name i = m_name y then y else i) (cl_ingresses c)\<rparr>)"
| delete: "\<lbrakk>fst (YurtIngress_ValidateDelete cluster_env (Some y) c) = Ret (Inr ()); y \<in> set (cl_ingresses c)\<rbrakk>
     \<Longrightarrow> cluster_step c (c\<lparr>cl_ingresses := filter (\<lambda>i. m_name i \<noteq> m_name y) (cl_ingresses c)\<rparr>)"
| pools: "nps \<noteq> [] \<Longrightarrow> cluster_step c (c\<lparr>cl_nodePools := nps\<rparr>)"

inductive cluster_reach :: "cluster \<Rightarrow> bool" where
  start: "nps \<noteq> [] \<Longrightarrow> cluster_reach \<lparr>cl_ingresses = [], cl_nodePools = nps\<rparr>"
| step: "\<lbrakk>cluster_reach c; cluster_step c c'\<rbrakk> \<Longrightarrow> cluster_reach c'"

definition exclusive :: "yi list \<Rightarrow> bool" where
  "exclusive ings \<longleftrightarrow> distinct (map m_name ings) \<and>
     (\<forall>i \<in> set ings. \<forall>j \<in> set ings. \<forall>k \<in> ingressPools i. k \<in> ingressPools j \<longrightarrow> m_name i = m_name j)"

lemma exclusiveD:
  "\<lbrakk>exclusive ings; i \<in> set ings; j \<in> set ings; k \<in> ingressPools i; k \<in> ingressPools j\<rbrakk>
     \<Longrightarrow> m_name i = m_name j"
  unfolding exclusive_def by blast

lemma validateYurtIngressSpec_cluster:
  assumes "cl_nodePools c \<noteq> []"
  shows "validateYurtIngressSpec cluster_env name spec isdelete c =
    (Ret (validateIngressPools name (if isdelete then Some [] else enabledPools (cl_ingresses c) (Some []))
      (cl_nodePools c) (items (yis_pools spec))), c)"
  using assms
  by (cases "cl_ingresses c")
    (auto simp: validateYurtIngressSpec_def cluster_env_def attempt_def andThen_def ret_def Let_def)

lemma admit_ok: "admit name (validateIngressPools n m nps ps) = Inr () \<longleftrightarrow> validateIngressPools n m nps ps = None"
  using validateIngressPools_errors [of n m nps ps] by (cases "validateIngressPools n m nps ps") (auto simp: admit_def)

text \<open>An object that is admitted shares no pool with another one.\<close>

lemma admitted_disjoint:
  assumes "cl_nodePools c \<noteq> []"
    and "fst (andThen (validateYurtIngressSpec cluster_env (m_name y) (yi_spec y) False)
      (\<lambda>allErrs. ret (admit (m_name y) allErrs)) c) = Ret (Inr ())"
    and ex: "exclusive (cl_ingresses c)"
    and i: "i \<in> set (cl_ingresses c)" and ki: "k \<in> ingressPools i" and ky: "k \<in> ingressPools y"
  shows "m_name i = m_name y"
proof -
  let ?m = "enabledPools (cl_ingresses c) (Some [])"
  have "validateIngressPools (m_name y) ?m (cl_nodePools c) (items (yis_pools (yi_spec y))) = None"
    using assms(2) by (simp add: andThen_def validateYurtIngressSpec_cluster [OF assms(1)] ret_def admit_ok)
  with ky have own: "gget ?m k = Some n \<Longrightarrow> n = m_name y" for n
    by (auto simp: validateIngressPools_None ingressPools_def poolNames_def)
  have "find (\<lambda>i. k \<in> ingressPools i) (rev (cl_ingresses c)) \<noteq> None"
    using ki i by (auto simp: find_None_iff)
  then obtain j where j: "find (\<lambda>i. k \<in> ingressPools i) (rev (cl_ingresses c)) = Some j" by blast
  then have "j \<in> set (rev (cl_ingresses c)) \<and> k \<in> ingressPools j"
    unfolding find_Some_iff by (metis nth_mem)
  then have "m_name i = m_name j"
    using exclusiveD [OF ex i _ ki, of j] by simp
  also have "m_name j = m_name y"
    using own j by (simp add: gget_enabledPools)
  finally show ?thesis .
qed

lemma exclusive_snoc:
  assumes "exclusive ings" and "m_name y \<notin> m_name ` set ings"
    and "\<And>i k. \<lbrakk>i \<in> set ings; k \<in> ingressPools i; k \<in> ingressPools y\<rbrakk> \<Longrightarrow> m_name i = m_name y"
  shows "exclusive (ings @ [y])"
  using assms unfolding exclusive_def by simp metis

lemma exclusive_replace:
  assumes ex: "exclusive ings"
    and y: "\<And>i k. \<lbrakk>i \<in> set ings; k \<in> ingressPools i; k \<in> ingressPools y\<rbrakk> \<Longrightarrow> m_name i = m_name y"
  shows "exclusive (map (\<lambda>i. if m_name i = m_name y then y else i) ings)"
proof -
  let ?f = "\<lambda>i. if m_name i = m_name y then y else i"
  have "map m_name (map ?f ings) = map m_name ings" by simp
  moreover have "distinct (map m_name ings)" using ex by (simp add: exclusive_def)
  ultimately have "distinct (map m_name (map ?f ings))" by (rule ssubst)
  moreover have "m_name (?f i) = m_name (?f j)"
    if "i \<in> set ings" "j \<in> set ings" "k \<in> ingressPools (?f i)" "k \<in> ingressPools (?f j)" for i j k
    using y exclusiveD [OF ex that(1,2)] that by (auto split: if_splits)
  ultimately show ?thesis
    unfolding exclusive_def set_map by blast
qed

lemma exclusive_filter: "exclusive ings \<Longrightarrow> exclusive (filter P ings)"
  by (simp add: exclusive_def distinct_map_filter)

text \<open>C13: as long as there is a node pool, a cluster that starts with no YurtIngress and changes through
  the requests the handlers admit never has a node pool in two YurtIngresses.\<close>

theorem ingress_pools_exclusive:
  assumes "cluster_reach c"
    and "i \<in> set (cl_ingresses c)" and "j \<in> set (cl_ingresses c)"
    and "p \<in> ingressPools i" and "p \<in> ingressPools j"
  shows "i = j"
proof -
  have "exclusive (cl_ingresses c) \<and> cl_nodePools c \<noteq> []"
    using assms(1)
  proof induction
    case (start nps)
    then show ?case by (simp add: exclusive_def)
  next
    case (step c c')
    from step(2) show ?case
    proof cases
      case (create y)
      with step have "exclusive (cl_ingresses c @ [y])"
        by (intro exclusive_snoc admitted_disjoint [of c y]) (simp_all add: YurtIngress_ValidateCreate_def)
      with create step show ?thesis by simp
    next
      case (update old y)
      with step have "exclusive (map (\<lambda>i. if m_name i = m_name y then y else i) (cl_ingresses c))"
        by (intro exclusive_replace admitted_disjoint [of c y])
          (simp_all add: YurtIngress_ValidateUpdate_def validateYurtIngressSpecUpdate_def)
      with update step show ?thesis by simp
    next
      case (delete y)
      with step show ?thesis by (auto intro: exclusive_filter)
    next
      case (pools nps)
      with step show ?thesis by simp
    qed
  qed
  then have ex: "exclusive (cl_ingresses c)" by simp
  then have "inj_on m_name (set (cl_ingresses c))" by (simp add: exclusive_def distinct_map)
  then show ?thesis
    using exclusiveD [OF ex assms(2-5)] assms(2,3) by (rule inj_onD)
qed

text \<open>A YurtIngress whose node pool is gone cannot be deleted while other node pools are left, and
  its update is refused too as long as it names the pool.\<close>

theorem deletion_refused:
  assumes "cl_nodePools c \<noteq> []" and "p \<in> ingressPools y" and "p \<notin> m_name ` set (cl_nodePools c)"
  shows "(\<exists>errs. fst (YurtIngress_ValidateDelete cluster_env (Some y) c) = Ret (Inl (Invalid (m_name y) errs))) \<and>
    (\<exists>errs. fst (YurtIngress_ValidateUpdate cluster_env (Some old) (Some y) c)
      = Ret (Inl (Invalid (m_name y) errs)))"
proof -
  have "validateIngressPools (m_name y) m (cl_nodePools c) (items (yis_pools (yi_spec y))) \<noteq> None" for m
    using assms(2,3) by (auto simp: validateIngressPools_None ingressPools_def poolNames_def)
  then have "\<exists>errs. admit (m_name y) (validateIngressPools (m_name y) m (cl_nodePools c)
      (items (yis_pools (yi_spec y)))) = Inl (Invalid (m_name y) errs)" for m
    using validateIngressPools_errors by (fastforce simp: admit_def)
  then show ?thesis
    by (simp add: YurtIngress_ValidateDelete_def YurtIngress_ValidateUpdate_def andThen_def ret_def
        validateYurtIngressSpecDeletion_def validateYurtIngressSpecUpdate_def
        validateYurtIngressSpec_cluster [OF assms(1)])
qed

end
