(* ===== verification/YAS_Conditions.thy ===== *)
theory YAS_Conditions
  imports Workload
begin

section \<open>YurtAppSet: types and conditions\<close>

text \<open>
  The types of \<open>apis/apps/v1alpha1/yurtappset_types.go\<close> and the helpers of
  \<open>controller/yurtappset/yurtappset_controller_utils.go\<close>. The handling of conditions is an
  interface (the locales \<open>condition_store\<close> and \<open>condition_set\<close>): what its clients rely on is stated once and
  discharged for the functions of this package.
\<close>

record condition =
  cd_type :: string
  cd_status :: string
  cd_lastTransitionTime :: string
  cd_reason :: string
  cd_message :: string

definition PoolProvisioned :: string where "PoolProvisioned = ''PoolProvisioned''"
definition PoolUpdated :: string where "PoolUpdated = ''PoolUpdated''"
definition PoolFailure :: string where "PoolFailure = ''PoolFailure''"

lemma condition_types_distinct [simp]:
  "PoolProvisioned \<noteq> PoolUpdated" "PoolUpdated \<noteq> PoolProvisioned"
  "PoolProvisioned \<noteq> PoolFailure" "PoolFailure \<noteq> PoolProvisioned"
  "PoolUpdated \<noteq> PoolFailure" "PoolFailure \<noteq> PoolUpdated"
  by (simp_all add: PoolProvisioned_def PoolUpdated_def PoolFailure_def)

record yas_spec =
  ys_selector :: "label_selector option"
  ys_template :: workload_template
  ys_pools :: "pool_config goslice"
  ys_revisionHistoryLimit :: "int32 option"

record yas_status =
  yt_observedGeneration :: int64
  yt_collisionCount :: "int32 option"
  yt_currentRevision :: string
  yt_conditions :: "condition goslice"
  yt_poolReplicas :: "int32 gomap"
  yt_readyReplicas :: int32
  yt_replicas :: int32
  yt_templateType :: template_type

record yas = object_meta +
  yas_spec :: yas_spec
  yas_status :: yas_status

definition updateRetries :: nat where
  "updateRetries = 5"

subsection \<open>Helpers\<close>

definition getPoolNameFrom :: "'a object_meta_scheme \<Rightarrow> go_error + string" where
  "getPoolNameFrom obj =
     (case gget (m_labels obj) PoolNameLabelKey of
        None \<Rightarrow> Inl (PlainErr (''fail to get pool name from label of pool '' @ m_namespace obj @ ''/''
          @ m_name obj @ '': no label '' @ PoolNameLabelKey @ '' found''))
      | Some name \<Rightarrow>
          (if length name = 0
           then Inl (PlainErr (''fail to get pool name from label of pool '' @ m_namespace obj @ ''/''
             @ m_name obj @ '': label '' @ PoolNameLabelKey @ '' has an empty value''))
           else Inr name))"

text \<open>The time is \<open>metav1.Now()\<close>.\<close>

definition NewYurtAppSetCondition :: "string \<Rightarrow> string \<Rightarrow> string \<Rightarrow> string \<Rightarrow> string \<Rightarrow> condition" where
  "NewYurtAppSetCondition now condType status reason message =
     \<lparr>cd_type = condType, cd_status = status, cd_lastTransitionTime = now, cd_reason = reason,
      cd_message = message\<rparr>"

definition GetYurtAppSetCondition :: "yas_status \<Rightarrow> string \<Rightarrow> condition option" where
  "GetYurtAppSetCondition status condType =
     find (\<lambda>c. cd_type c = condType) (items (yt_conditions status))"

text \<open>The result is nil if nothing is left.\<close>

definition filterOutCondition :: "condition goslice \<Rightarrow> string \<Rightarrow> condition goslice" where
  "filterOutCondition conditions condType =
     (case filter (\<lambda>c. cd_type c \<noteq> condType) (items conditions) of [] \<Rightarrow> None | cs \<Rightarrow> Some cs)"

definition SetYurtAppSetCondition :: "yas_status \<Rightarrow> condition \<Rightarrow> yas_status" where
  "SetYurtAppSetCondition status condition =
     (let currentCond = GetYurtAppSetCondition status (cd_type condition) in
      case currentCond of
        Some cur \<Rightarrow>
          (if cd_status cur = cd_status condition \<and> cd_reason cur = cd_reason condition then status
           else (let condition' = (if cd_status cur = cd_status condition
                   then condition\<lparr>cd_lastTransitionTime := cd_lastTransitionTime cur\<rparr> else condition);
                     newConditions = filterOutCondition (yt_conditions status) (cd_type condition)
                 in status\<lparr>yt_conditions := Some (items newConditions @ [condition'])\<rparr>))
      | None \<Rightarrow>
          (let newConditions = filterOutCondition (yt_conditions status) (cd_type condition)
           in status\<lparr>yt_conditions := Some (items newConditions @ [condition])\<rparr>))"

definition RemoveYurtAppSetCondition :: "yas_status \<Rightarrow> string \<Rightarrow> yas_status" where
  "RemoveYurtAppSetCondition status condType =
     status\<lparr>yt_conditions := filterOutCondition (yt_conditions status) condType\<rparr>"

record yas_patches =
  yp_replicas :: int32
  yp_patch :: string

definition GetNextPatches :: "yas \<Rightarrow> yas_patches gomap" where
  "GetNextPatches y =
     fold (\<lambda>pool next. gput (pc_name pool)
         \<lparr>yp_replicas = (case pc_replicas pool of None \<Rightarrow> 0 | Some r \<Rightarrow> r),
          yp_patch = (case pc_patch pool of None \<Rightarrow> [] | Some p \<Rightarrow> p)\<rparr> next)
       (items (ys_pools (yas_spec y))) (Some [])"

subsection \<open>The interface of the conditions\<close>

text \<open>
  \<open>get\<close>, \<open>set\<close> and \<open>remove\<close> work on a status; \<open>settledCondition\<close> says what a \<open>set\<close> leaves as
  the condition of its type. \<open>types\<close> lists the types present.
\<close>

definition settledCondition :: "condition option \<Rightarrow> condition \<Rightarrow> condition" where
  "settledCondition old new =
     (case old of
        None \<Rightarrow> new
      | Some cur \<Rightarrow>
          (if cd_status cur = cd_status new
           then (if cd_reason cur = cd_reason new then cur
                 else new\<lparr>cd_lastTransitionTime := cd_lastTransitionTime cur\<rparr>)
           else new))"

locale condition_store =
  fixes get :: "'s \<Rightarrow> string \<Rightarrow> condition option"
    and set :: "'s \<Rightarrow> condition \<Rightarrow> 's"
    and types :: "'s \<Rightarrow> string list"
  assumes get_type: "get s t = Some c \<Longrightarrow> cd_type c = t"
    and get_set: "get (set s c) t =
      (if t = cd_type c then Some (settledCondition (get s t) c) else get s t)"
    and types_set: "distinct (types s) \<Longrightarrow> distinct (types (set s c))"
begin

lemma status_set: "map_option cd_status (get (set s c) (cd_type c)) = Some (cd_status c)"
  by (auto simp: get_set settledCondition_def split: option.split)

lemma set_again: "get (set (set s c) c) = get (set s c)"
  by (auto simp: fun_eq_iff get_set settledCondition_def split: option.split)

lemma set_commute:
  "cd_type c \<noteq> cd_type d \<Longrightarrow> get (set (set s c) d) = get (set (set s d) c)"
  by (auto simp: fun_eq_iff get_set)

text \<open>A transition time moves only if the status moves.\<close>

lemma time_kept:
  "get s (cd_type c) = Some cur \<Longrightarrow> cd_status cur = cd_status c \<Longrightarrow>
   map_option cd_lastTransitionTime (get (set s c) (cd_type c)) =
     Some (cd_lastTransitionTime cur)"
  by (auto simp: get_set settledCondition_def)

end

locale condition_set = condition_store +
  fixes remove :: "'s \<Rightarrow> string \<Rightarrow> 's"
  assumes get_remove: "get (remove s t) t' = (if t' = t then None else get s t')"
    and types_remove: "distinct (types s) \<Longrightarrow> distinct (types (remove s t))"
begin

lemma remove_set: "get (remove (set s c) (cd_type c)) = get (remove s (cd_type c))"
  by (auto simp: fun_eq_iff get_set get_remove)

end

subsection \<open>The conditions of a YurtAppSet\<close>

lemma items_filterOutCondition [simp]:
  "items (filterOutCondition cs t) = filter (\<lambda>c. cd_type c \<noteq> t) (items cs)"
  by (simp add: filterOutCondition_def split: list.split)

lemma find_filter_other:
  "find (\<lambda>c. f c = t') (filter (\<lambda>c. f c \<noteq> t) cs) = (if t' = t then None else find (\<lambda>c. f c = t') cs)"
  by (induction cs) auto

lemma find_append: "find p (xs @ ys) = (case find p xs of None \<Rightarrow> find p ys | Some x \<Rightarrow> Some x)"
  by (induction xs) auto

lemma distinct_map_filter_snoc:
  "distinct (map f xs) \<Longrightarrow> distinct (map f (filter (\<lambda>c. f c \<noteq> t) xs) @ [t])"
  by (auto simp: distinct_map_filter)

lemma cd_type_settled [simp]:
  "cd_type cur = cd_type c \<Longrightarrow> cd_type (settledCondition (Some cur) c) = cd_type c"
  by (simp add: settledCondition_def)

text \<open>What setting a condition leaves in a list, for every controller that sets one.\<close>

definition setIn :: "condition list \<Rightarrow> condition \<Rightarrow> condition list" where
  "setIn cs c =
     (case find (\<lambda>d. cd_type d = cd_type c) cs of
        Some cur \<Rightarrow> if cd_status cur = cd_status c \<and> cd_reason cur = cd_reason c then cs
          else filter (\<lambda>d. cd_type d \<noteq> cd_type c) cs @ [settledCondition (Some cur) c]
      | None \<Rightarrow> filter (\<lambda>d. cd_type d \<noteq> cd_type c) cs @ [c])"

lemma find_cd_type: "find (\<lambda>d. cd_type d = t) cs = Some c \<Longrightarrow> cd_type c = t"
  by (auto simp: find_Some_iff)

lemma find_setIn:
  "find (\<lambda>d. cd_type d = t) (setIn cs c) =
     (if t = cd_type c then Some (settledCondition (find (\<lambda>d. cd_type d = t) cs) c)
      else find (\<lambda>d. cd_type d = t) cs)"
proof (cases "find (\<lambda>d. cd_type d = cd_type c) cs")
  case None
  then show ?thesis
    by (auto simp: setIn_def find_append find_filter_other settledCondition_def split: option.split)
next
  case (Some cur)
  note cur = find_cd_type [OF Some]
  from Some show ?thesis
    by (auto simp: setIn_def find_append find_filter_other settledCondition_def cur split: option.split)
qed

lemma distinct_setIn:
  assumes "distinct (map cd_type cs)"
  shows "distinct (map cd_type (setIn cs c))"
  using assms distinct_map_filter_snoc [OF assms, of "cd_type c"]
  by (auto simp: setIn_def split: option.split dest!: find_cd_type)

lemma SetYurtAppSetCondition_items:
  "items (yt_conditions (SetYurtAppSetCondition s c)) = setIn (items (yt_conditions s)) c"
  by (auto simp: SetYurtAppSetCondition_def GetYurtAppSetCondition_def setIn_def settledCondition_def
      Let_def split: option.split)

interpretation yas_conditions: condition_set GetYurtAppSetCondition SetYurtAppSetCondition
  "\<lambda>s. map cd_type (items (yt_conditions s))" RemoveYurtAppSetCondition
  by unfold_locales
    (auto simp: GetYurtAppSetCondition_def SetYurtAppSetCondition_items find_setIn distinct_setIn
      RemoveYurtAppSetCondition_def find_filter_other distinct_map_filter dest: find_cd_type)

text \<open>Setting a condition: afterwards the condition of that type has the status asked for;
  its time is the old one exactly if it had that status before and its message is the old one
  exactly if the reason was the same too; the other types are untouched.\<close>

theorem SetYurtAppSetCondition_spec:
  "GetYurtAppSetCondition (SetYurtAppSetCondition s c) (cd_type c) =
     Some (settledCondition (GetYurtAppSetCondition s (cd_type c)) c) \<and>
   map_option cd_status (GetYurtAppSetCondition (SetYurtAppSetCondition s c) (cd_type c)) =
     Some (cd_status c) \<and>
   (\<forall>t. t = cd_type c \<or> GetYurtAppSetCondition (SetYurtAppSetCondition s c) t =
      GetYurtAppSetCondition s t)"
  using yas_conditions.status_set [of s c] by (simp add: yas_conditions.get_set)

text \<open>A map filled in a loop holds what the last element with a key put there.\<close>

lemma gget_fold_gput:
  "gget (fold (\<lambda>x. gput (f x) (g x)) xs m) k =
     (case find (\<lambda>x. f x = k) (rev xs) of None \<Rightarrow> gget m k | Some x \<Rightarrow> Some (g x))"
  by (induction xs arbitrary: m) (auto simp: gomap_simps find_append split: option.split)

lemma find_distinct: "distinct (map f xs) \<Longrightarrow> x \<in> set xs \<Longrightarrow> find (\<lambda>y. f y = f x) xs = Some x"
  by (induction xs) (auto simp: image_iff)

text \<open>The replicas and the patch asked for a pool are those of its last entry.\<close>

lemma gget_GetNextPatches:
  "gget (GetNextPatches y) name = map_option (\<lambda>pool. \<lparr>yp_replicas = (case pc_replicas pool of None \<Rightarrow> 0 | Some r \<Rightarrow> r),
          yp_patch = (case pc_patch pool of None \<Rightarrow> [] | Some p \<Rightarrow> p)\<rparr>)
       (find (\<lambda>pool. pc_name pool = name) (rev (items (ys_pools (yas_spec y)))))"
  by (simp add: GetNextPatches_def gget_fold_gput gomap_simps split: option.split)

end
