(* ===== verification/YAS_Adapter.thy ===== *)
theory YAS_Adapter
  imports YAS_Conditions
begin

section \<open>YurtAppSet: the adapters\<close>

text \<open>
  \<open>controller/yurtappset/adapter\<close>: how a deployment or a stateful set is made from the
  template of a YurtAppSet for one of its pools, and how its details are read back. An
  \<open>Adapter\<close> is a record of functions, as the Go interface is a table of methods. Applying the
  template edits the object in place, also when it fails half way: the object is the world of
  the operation.

  Outside the repository (the record \<open>ad_env\<close>): the DNS check of names,
  \<open>SetControllerReference\<close>, and the four steps of a strategic merge patch, whose unstructured
  maps are texts here.
\<close>

record ad_env =
  ae_NameIsDNSSubdomain :: "string \<Rightarrow> bool \<Rightarrow> string list"
  ae_SetControllerReference :: "yas \<Rightarrow> workload \<Rightarrow> go_error + workload"
  ae_UnmarshalPatch :: "string \<Rightarrow> go_error + string"
  ae_ToUnstructured :: "workload \<Rightarrow> go_error + string"
  ae_StrategicMergeMapPatch :: "string \<Rightarrow> string \<Rightarrow> go_error + string"
  ae_FromUnstructured :: "string \<Rightarrow> workload \<Rightarrow> go_error + workload"

record replicas_info =
  ri_replicas :: int32
  ri_readyReplicas :: int32

record adapter =
  ad_NewResourceObject :: workload
  ad_isKind :: "workload \<Rightarrow> bool"
  ad_GetStatusObservedGeneration :: "workload \<Rightarrow> int64 outcome"
  ad_GetDetails :: "workload \<Rightarrow> replicas_info outcome"
  ad_GetPoolFailure :: "string option"
  ad_ApplyPoolTemplate :: "yas \<Rightarrow> string \<Rightarrow> string \<Rightarrow> int32 \<Rightarrow> (workload, unit) io"
  ad_IsExpected :: "workload \<Rightarrow> string \<Rightarrow> bool"
  ad_PostUpdate :: "yas \<Rightarrow> workload \<Rightarrow> string \<Rightarrow> go_error option"

subsection \<open>\<open>adapter_util.go\<close>\<close>

definition getPoolPrefix :: "ad_env \<Rightarrow> string \<Rightarrow> string \<Rightarrow> string" where
  "getPoolPrefix env controllerName poolName =
     (let prefix = controllerName @ ''-'' @ poolName @ ''-''
      in if length (ae_NameIsDNSSubdomain env prefix True) \<noteq> 0 then controllerName @ ''-''
         else prefix)"

text \<open>The terms the required affinity has once the nil checks have filled it in.\<close>

definition requiredTerms :: "pod_spec \<Rightarrow> node_selector_term list" where
  "requiredTerms podSpec =
     (let aff = (case ps_affinity podSpec of
            None \<Rightarrow> \<lparr>af_nodeAffinity = None, af_podAffinity = []\<rparr> | Some a \<Rightarrow> a);
          na = (case af_nodeAffinity aff of
            None \<Rightarrow> \<lparr>na_required = None, na_preferred = []\<rparr> | Some n \<Rightarrow> n);
          terms = (case na_required na of None \<Rightarrow> None | Some ts \<Rightarrow> ts)
      in if length (items terms) = 0 then items terms @ [empty_term] else items terms)"

definition setRequiredTerms :: "node_selector_term list \<Rightarrow> pod_spec \<Rightarrow> pod_spec" where
  "setRequiredTerms terms podSpec =
     (let aff = (case ps_affinity podSpec of
            None \<Rightarrow> \<lparr>af_nodeAffinity = None, af_podAffinity = []\<rparr> | Some a \<Rightarrow> a);
          na = (case af_nodeAffinity aff of
            None \<Rightarrow> \<lparr>na_required = None, na_preferred = []\<rparr> | Some n \<Rightarrow> n)
      in podSpec\<lparr>ps_affinity := Some (aff\<lparr>af_nodeAffinity :=
           Some (na\<lparr>na_required := Some (Some terms)\<rparr>)\<rparr>)\<rparr>)"

definition appendExpression :: "label_requirement \<Rightarrow> node_selector_term \<Rightarrow> node_selector_term" where
  "appendExpression e nterm =
     nterm\<lparr>nt_matchExpressions := Some (items (nt_matchExpressions nterm) @ [e])\<rparr>"

definition attachNodeAffinity :: "pod_spec \<Rightarrow> pool_config \<Rightarrow> pod_spec" where
  "attachNodeAffinity podSpec pool =
     setRequiredTerms
       (fold (\<lambda>matchExpression terms. map (appendExpression matchExpression) terms)
         (items (nt_matchExpressions (pc_nodeSelectorTerm pool))) (requiredTerms podSpec))
       podSpec"

definition attachTolerations :: "pod_spec \<Rightarrow> pool_config \<Rightarrow> pod_spec" where
  "attachTolerations podSpec poolConfig =
     (case pc_tolerations poolConfig of
        None \<Rightarrow> podSpec
      | Some tols \<Rightarrow> podSpec\<lparr>ps_tolerations := Some (items (ps_tolerations podSpec) @ tols)\<rparr>)"

definition attachNodeAffinityAndTolerations :: "pod_spec \<Rightarrow> pool_config \<Rightarrow> pod_spec" where
  "attachNodeAffinityAndTolerations podSpec pool =
     attachTolerations (attachNodeAffinity podSpec pool) pool"

definition getCurrentPartition :: "object_meta list \<Rightarrow> string \<Rightarrow> int32" where
  "getCurrentPartition pods revision =
     fold (\<lambda>pod partition. if getRevision pod \<noteq> revision then partition + 1 else partition) pods 0"

text \<open>The errors of the four steps are passed on; the result is the patched object.\<close>

definition StrategicMergeByPatches ::
  "ad_env \<Rightarrow> workload \<Rightarrow> string \<Rightarrow> workload \<Rightarrow> go_error + workload" where
  "StrategicMergeByPatches env oldobj patch newPatched =
     (case ae_UnmarshalPatch env patch of
        Inl e \<Rightarrow> Inl e
      | Inr patchMap \<Rightarrow>
     (case ae_ToUnstructured env oldobj of
        Inl e \<Rightarrow> Inl e
      | Inr originalObjMap \<Rightarrow>
     (case ae_StrategicMergeMapPatch env originalObjMap patchMap of
        Inl e \<Rightarrow> Inl e
      | Inr patchedObjMap \<Rightarrow> ae_FromUnstructured env patchedObjMap newPatched)))"

text \<open>Whether the pool has a patch, and the object, whose patch annotation is emptied if it has
  none (and if the object has any annotations).\<close>

definition PoolHasPatch :: "pool_config \<Rightarrow> workload \<Rightarrow> bool \<times> workload" where
  "PoolHasPatch poolConfig wl =
     (case pc_patch poolConfig of
        None \<Rightarrow> (False, if m_annotations wl \<noteq> None
                  then wl\<lparr>m_annotations := gput AnnotationPatchKey [] (m_annotations wl)\<rparr> else wl)
      | Some _ \<Rightarrow> (True, wl))"

definition CreateNewPatchedObject ::
  "ad_env \<Rightarrow> string \<Rightarrow> workload \<Rightarrow> workload \<Rightarrow> go_error + workload" where
  "CreateNewPatchedObject env patchInfo wl newPatched =
     (case StrategicMergeByPatches env wl patchInfo newPatched of
        Inl e \<Rightarrow> Inl e
      | Inr patched \<Rightarrow>
          Inr (patched\<lparr>m_annotations :=
            (case m_annotations patched of
               None \<Rightarrow> Some [(AnnotationPatchKey, patchInfo)]
             | Some _ \<Rightarrow> gput AnnotationPatchKey patchInfo (m_annotations patched))\<rparr>))"

subsection \<open>What both adapters do to an object\<close>

text \<open>The lines of \<open>ApplyPoolTemplate\<close> that are the same for both kinds of workload: the metadata
  up to the controller reference, and the pod template.\<close>

definition applyPoolMeta ::
  "ad_env \<Rightarrow> yas \<Rightarrow> string \<Rightarrow> string \<Rightarrow> 'a object_meta_scheme \<Rightarrow> string gomap \<Rightarrow> workload \<Rightarrow> workload"
where
  "applyPoolMeta env y poolName revision tmpl matchLabels wl =
     (let labels0 = (if m_labels wl = None then Some [] else m_labels wl);
          labels1 = putAll (entries matchLabels) (putAll (entries (m_labels tmpl)) labels0);
          labels2 = gput PoolNameLabelKey poolName
                      (gput ControllerRevisionHashLabelKey revision labels1);
          annotations0 = (if m_annotations wl = None then Some [] else m_annotations wl);
          annotations1 = putAll (entries (m_annotations tmpl)) annotations0
      in wl\<lparr>m_namespace := m_namespace y, m_labels := labels2, m_annotations := annotations1,
           m_generateName := getPoolPrefix env (m_name y) poolName\<rparr>)"

definition poolPodTemplate :: "string \<Rightarrow> string \<Rightarrow> pool_config \<Rightarrow> pod_template \<Rightarrow> pod_template" where
  "poolPodTemplate poolName revision poolConfig tmpl =
     (let labels = (if m_labels tmpl = None then Some [] else m_labels tmpl)
      in tmpl\<lparr>m_labels := gput ControllerRevisionHashLabelKey revision
             (gput PoolNameLabelKey poolName labels),
           pt_spec := attachNodeAffinityAndTolerations (pt_spec tmpl) poolConfig\<rparr>)"

definition poolConfigOf :: "yas \<Rightarrow> string \<Rightarrow> pool_config option" where
  "poolConfigOf y poolName = find (\<lambda>p. pc_name p = poolName) (items (ys_pools (yas_spec y)))"

text \<open>The last lines: without a patch the object is done, with one the patched object replaces it.\<close>

definition applyPatch :: "ad_env \<Rightarrow> pool_config \<Rightarrow> workload \<Rightarrow> (workload, unit) io" where
  "applyPatch env poolConfig fresh wl =
     (case PoolHasPatch poolConfig wl of
        (False, wl') \<Rightarrow> (Ret (), wl')
      | (True, wl') \<Rightarrow>
          (case pc_patch poolConfig of
             None \<Rightarrow> (Ret (), wl')
           | Some raw \<Rightarrow>
               (case CreateNewPatchedObject env raw wl' fresh of
                  Inl e \<Rightarrow> (Err e, wl')
                | Inr patched \<Rightarrow> (Ret (), patched))))"

subsection \<open>The deployment adapter\<close>

definition emptyDeployment :: workload where
  "emptyDeployment = with_body empty_meta (DeploymentBody empty_deployment_spec empty_workload_status)"

definition Deployment_GetStatusObservedGeneration :: "workload \<Rightarrow> int64 outcome" where
  "Deployment_GetStatusObservedGeneration obj =
     (case w_body obj of
        DeploymentBody spec status \<Rightarrow> Ret (ws_observedGeneration status)
      | StatefulSetBody _ _ \<Rightarrow> Panic ''interface conversion'')"

definition Deployment_GetDetails :: "workload \<Rightarrow> replicas_info outcome" where
  "Deployment_GetDetails obj =
     (case w_body obj of
        DeploymentBody spec status \<Rightarrow>
          Ret \<lparr>ri_replicas = (case ds_replicas spec of None \<Rightarrow> 0 | Some r \<Rightarrow> r),
               ri_readyReplicas = ws_readyReplicas status\<rparr>
      | StatefulSetBody _ _ \<Rightarrow> Panic ''interface conversion'')"

definition Deployment_ApplyPoolTemplate ::
  "ad_env \<Rightarrow> yas \<Rightarrow> string \<Rightarrow> string \<Rightarrow> int32 \<Rightarrow> (workload, unit) io" where
  "Deployment_ApplyPoolTemplate env y poolName revision replicas wl =
     (case w_body wl of
        StatefulSetBody _ _ \<Rightarrow> (Panic ''interface conversion'', wl)
      | DeploymentBody spec status \<Rightarrow>
     (case poolConfigOf y poolName of
        None \<Rightarrow> (Err (PlainErr (''fail to find pool config '' @ poolName)), wl)
      | Some poolConfig \<Rightarrow>
     (case (wt_deployment (ys_template (yas_spec y)), ys_selector (yas_spec y)) of
        (Some tmpl, Some selector) \<Rightarrow>
          (let set1 = applyPoolMeta env y poolName revision tmpl (ls_matchLabels selector) wl in
           case ls_matchLabels selector of
             None \<Rightarrow> (Panic ''assignment to entry in nil map'', set1)
           | Some _ \<Rightarrow>
               (case ae_SetControllerReference env y set1 of
                  Inl e \<Rightarrow> (Err e, set1)
                | Inr set2 \<Rightarrow>
                    (let selectors = selector\<lparr>ls_matchLabels :=
                           gput PoolNameLabelKey poolName (ls_matchLabels selector)\<rparr>;
                         spec' = spec\<lparr>ds_selector := Some selectors,
                           ds_replicas := Some replicas,
                           ds_strategy := ds_strategy (dt_spec tmpl),
                           ds_template := poolPodTemplate poolName revision poolConfig
                             (ds_template (dt_spec tmpl)),
                           ds_revisionHistoryLimit := ys_revisionHistoryLimit (yas_spec y),
                           ds_minReadySeconds := ds_minReadySeconds (dt_spec tmpl),
                           ds_paused := ds_paused (dt_spec tmpl),
                           ds_progressDeadlineSeconds := ds_progressDeadlineSeconds (dt_spec tmpl)\<rparr>
                     in applyPatch env poolConfig emptyDeployment
                          (set2\<lparr>w_body := DeploymentBody spec' status\<rparr>))))
      | _ \<Rightarrow> (Panic ''nil pointer dereference'', wl))))"

definition Deployment_PostUpdate :: "yas \<Rightarrow> workload \<Rightarrow> string \<Rightarrow> go_error option" where
  "Deployment_PostUpdate y obj revision = None"

text \<open>True if the revision label is \<^emph>\<open>not\<close> the given one.\<close>

definition Deployment_IsExpected :: "workload \<Rightarrow> string \<Rightarrow> bool" where
  "Deployment_IsExpected obj revision =
     (gval (m_labels obj) ControllerRevisionHashLabelKey \<noteq> revision)"

definition DeploymentAdapter :: "ad_env \<Rightarrow> adapter" where
  "DeploymentAdapter env = \<lparr>
     ad_NewResourceObject = emptyDeployment,
     ad_isKind = (\<lambda>obj. case w_body obj of DeploymentBody _ _ \<Rightarrow> True | _ \<Rightarrow> False),
     ad_GetStatusObservedGeneration = Deployment_GetStatusObservedGeneration,
     ad_GetDetails = Deployment_GetDetails,
     ad_GetPoolFailure = None,
     ad_ApplyPoolTemplate = Deployment_ApplyPoolTemplate env,
     ad_IsExpected = Deployment_IsExpected,
     ad_PostUpdate = Deployment_PostUpdate\<rparr>"

subsection \<open>The stateful set adapter\<close>

definition emptyStatefulSet :: workload where
  "emptyStatefulSet =
     with_body empty_meta (StatefulSetBody empty_stateful_set_spec empty_workload_status)"

definition StatefulSet_GetStatusObservedGeneration :: "workload \<Rightarrow> int64 outcome" where
  "StatefulSet_GetStatusObservedGeneration obj =
     (case w_body obj of
        StatefulSetBody spec status \<Rightarrow> Ret (ws_observedGeneration status)
      | DeploymentBody _ _ \<Rightarrow> Panic ''interface conversion'')"

definition StatefulSet_GetDetails :: "workload \<Rightarrow> replicas_info outcome" where
  "StatefulSet_GetDetails obj =
     (case w_body obj of
        StatefulSetBody spec status \<Rightarrow>
          Ret \<lparr>ri_replicas = (case ss_replicas spec of None \<Rightarrow> 0 | Some r \<Rightarrow> r),
               ri_readyReplicas = ws_readyReplicas status\<rparr>
      | DeploymentBody _ _ \<Rightarrow> Panic ''interface conversion'')"

definition StatefulSet_ApplyPoolTemplate ::
  "ad_env \<Rightarrow> yas \<Rightarrow> string \<Rightarrow> string \<Rightarrow> int32 \<Rightarrow> (workload, unit) io" where
  "StatefulSet_ApplyPoolTemplate env y poolName revision replicas wl =
     (case w_body wl of
        DeploymentBody _ _ \<Rightarrow> (Panic ''interface conversion'', wl)
      | StatefulSetBody spec status \<Rightarrow>
     (case poolConfigOf y poolName of
        None \<Rightarrow> (Err (PlainErr (''fail to find pool config '' @ poolName)), wl)
      | Some poolConfig \<Rightarrow>
     (case (wt_statefulSet (ys_template (yas_spec y)), ys_selector (yas_spec y)) of
        (Some tmpl, Some selector) \<Rightarrow>
          (let set1 = applyPoolMeta env y poolName revision tmpl (ls_matchLabels selector) wl in
           case ls_matchLabels selector of
             None \<Rightarrow> (Panic ''assignment to entry in nil map'', set1)
           | Some _ \<Rightarrow>
               (case ae_SetControllerReference env y set1 of
                  Inl e \<Rightarrow> (Err e, set1)
                | Inr set2 \<Rightarrow>
                    (let selectors = selector\<lparr>ls_matchLabels :=
                           gput PoolNameLabelKey poolName (ls_matchLabels selector)\<rparr>;
                         spec' = spec\<lparr>ss_selector := Some selectors,
                           ss_replicas := Some replicas,
                           ss_updateStrategy := ss_updateStrategy (st_spec tmpl),
                           ss_template := poolPodTemplate poolName revision poolConfig
                             (ss_template (st_spec tmpl)),
                           ss_revisionHistoryLimit := ys_revisionHistoryLimit (yas_spec y),
                           ss_podManagementPolicy := ss_podManagementPolicy (st_spec tmpl),
                           ss_serviceName := ss_serviceName (st_spec tmpl),
                           ss_volumeClaimTemplates := ss_volumeClaimTemplates (st_spec tmpl)\<rparr>
                     in applyPatch env poolConfig emptyStatefulSet
                          (set2\<lparr>w_body := StatefulSetBody spec' status\<rparr>))))
      | _ \<Rightarrow> (Panic ''nil pointer dereference'', wl))))"

definition StatefulSet_PostUpdate :: "yas \<Rightarrow> workload \<Rightarrow> string \<Rightarrow> go_error option" where
  "StatefulSet_PostUpdate y obj revision = None"

definition StatefulSet_IsExpected :: "workload \<Rightarrow> string \<Rightarrow> bool" where
  "StatefulSet_IsExpected obj revision =
     (gval (m_labels obj) ControllerRevisionHashLabelKey \<noteq> revision)"

definition StatefulSetAdapter :: "ad_env \<Rightarrow> adapter" where
  "StatefulSetAdapter env = \<lparr>
     ad_NewResourceObject = emptyStatefulSet,
     ad_isKind = (\<lambda>obj. case w_body obj of StatefulSetBody _ _ \<Rightarrow> True | _ \<Rightarrow> False),
     ad_GetStatusObservedGeneration = StatefulSet_GetStatusObservedGeneration,
     ad_GetDetails = StatefulSet_GetDetails,
     ad_GetPoolFailure = None,
     ad_ApplyPoolTemplate = StatefulSet_ApplyPoolTemplate env,
     ad_IsExpected = StatefulSet_IsExpected,
     ad_PostUpdate = StatefulSet_PostUpdate\<rparr>"


subsection \<open>Affinity and tolerations\<close>

lemma requiredTerms_not_nil: "requiredTerms spec \<noteq> []"
  by (auto simp: requiredTerms_def Let_def)

lemma requiredTerms_set: "terms \<noteq> [] \<Longrightarrow> requiredTerms (setRequiredTerms terms spec) = terms"
  by (simp add: requiredTerms_def setRequiredTerms_def Let_def)

lemma items_appendExpressions:
  "items (nt_matchExpressions (fold appendExpression es t)) = items (nt_matchExpressions t) @ es"
  by (induction es arbitrary: t) (simp_all add: appendExpression_def)

lemma fields_appendExpressions: "nt_matchFields (fold appendExpression es t) = nt_matchFields t"
  by (induction es arbitrary: t) (simp_all add: appendExpression_def)

lemma fold_map_terms: "fold (\<lambda>e terms. map (f e) terms) es ts = map (fold f es) ts"
  by (induction es arbitrary: ts) (simp_all add: comp_def)

lemma requiredTerms_attach:
  "requiredTerms (attachNodeAffinityAndTolerations spec pool) =
     map (fold appendExpression (items (nt_matchExpressions (pc_nodeSelectorTerm pool))))
       (requiredTerms spec)"
proof -
  have "requiredTerms (attachTolerations spec' pool) = requiredTerms spec'" for spec'
    by (cases "pc_tolerations pool") (simp_all add: attachTolerations_def requiredTerms_def)
  then show ?thesis
    by (simp add: attachNodeAffinityAndTolerations_def attachNodeAffinity_def fold_map_terms
        requiredTerms_set requiredTerms_not_nil)
qed

text \<open>The pods of a pool are bound to its nodes: every required term of the template (one
  empty term if there was none) gets all the match expressions of the pool after its own ones
  and keeps its fields, no term is added or lost, and the pool's tolerations follow those of
  the template. The match fields of the pool's own term are not used.\<close>

theorem attachNodeAffinityAndTolerations_terms:
  "list_all2 (\<lambda>t t'.
      items (nt_matchExpressions t') =
        items (nt_matchExpressions t) @ items (nt_matchExpressions (pc_nodeSelectorTerm pool)) \<and>
      nt_matchFields t' = nt_matchFields t)
     (requiredTerms spec) (requiredTerms (attachNodeAffinityAndTolerations spec pool)) \<and>
   items (ps_tolerations (attachNodeAffinityAndTolerations spec pool)) =
     items (ps_tolerations spec) @ items (pc_tolerations pool) \<and>
   ps_containers (attachNodeAffinityAndTolerations spec pool) = ps_containers spec"
proof (intro conjI)
  show "list_all2 (\<lambda>t t'.
      items (nt_matchExpressions t') =
        items (nt_matchExpressions t) @ items (nt_matchExpressions (pc_nodeSelectorTerm pool)) \<and>
      nt_matchFields t' = nt_matchFields t)
     (requiredTerms spec) (requiredTerms (attachNodeAffinityAndTolerations spec pool))"
    by (simp add: requiredTerms_attach list_all2_map2 items_appendExpressions
        fields_appendExpressions list.rel_refl)
qed (simp_all add: attachNodeAffinityAndTolerations_def attachNodeAffinity_def
    attachTolerations_def setRequiredTerms_def Let_def split: option.split)

subsection \<open>The interface of an adapter\<close>

text \<open>What is used of \<open>SetControllerReference\<close>: it edits the owner references only.\<close>

definition owners_only :: "ad_env \<Rightarrow> bool" where
  "owners_only env \<longleftrightarrow> (\<forall>y obj obj'. ae_SetControllerReference env y obj = Inr obj' \<longrightarrow>
     obj' = obj\<lparr>m_owners := m_owners obj'\<rparr>)"

definition wantedReplicas :: "workload \<Rightarrow> int32 option" where
  "wantedReplicas obj =
     (case w_body obj of
        DeploymentBody spec status \<Rightarrow> ds_replicas spec
      | StatefulSetBody spec status \<Rightarrow> ss_replicas spec)"

text \<open>What the pools of a YurtAppSet look like after their template was applied.\<close>

definition pool_applied ::
  "adapter \<Rightarrow> yas \<Rightarrow> string \<Rightarrow> string \<Rightarrow> int32 \<Rightarrow> workload \<Rightarrow> workload \<Rightarrow> bool" where
  "pool_applied ad y poolName revision replicas obj obj' \<longleftrightarrow>
     ad_isKind ad obj' \<and> m_name obj' = m_name obj \<and> m_namespace obj' = m_namespace y \<and>
     gget (m_labels obj') PoolNameLabelKey = Some poolName \<and>
     gget (m_labels obj') ControllerRevisionHashLabelKey = Some revision \<and>
     gget (m_annotations obj') AnnotationPatchKey = Some [] \<and> wantedReplicas obj' = Some replicas \<and>
     map_option ri_replicas (case ad_GetDetails ad obj' of Ret i \<Rightarrow> Some i | _ \<Rightarrow> None)
       = Some replicas"

locale pool_adapter =
  fixes ad :: "ad_env \<Rightarrow> adapter"
  assumes new_kind: "ad_isKind (ad env) (ad_NewResourceObject (ad env))"
    and details: "ad_isKind (ad env) obj \<Longrightarrow> \<exists>i g. ad_GetDetails (ad env) obj = Ret i \<and>
      ad_GetStatusObservedGeneration (ad env) obj = Ret g"
    and apply_config: "ad_ApplyPoolTemplate (ad env) y p r n obj = (Ret (), obj') \<Longrightarrow>
      poolConfigOf y p \<noteq> None"
    and apply_plain: "owners_only env \<Longrightarrow>
      ad_ApplyPoolTemplate (ad env) y p r n obj = (Ret (), obj') \<Longrightarrow>
      map_option pc_patch (poolConfigOf y p) = Some None \<Longrightarrow> pool_applied (ad env) y p r n obj obj'"
    and apply_labels: "owners_only env \<Longrightarrow>
      ad_ApplyPoolTemplate (ad env) y p r n obj = (Ret (), obj') \<Longrightarrow>
      map_option pc_patch (poolConfigOf y p) = Some None \<Longrightarrow>
      ys_selector (yas_spec y) = Some selector \<Longrightarrow> gomap_ok (ls_matchLabels selector) \<Longrightarrow>
      gget (ls_matchLabels selector) k = Some v \<Longrightarrow> k \<notin> {PoolNameLabelKey, ControllerRevisionHashLabelKey} \<Longrightarrow>
      gget (m_labels obj') k = Some v"
    and apply_owner: "ad_ApplyPoolTemplate (ad env) y p r n obj = (Ret (), obj') \<Longrightarrow>
      map_option pc_patch (poolConfigOf y p) = Some None \<Longrightarrow>
      \<exists>obj1 obj2. ae_SetControllerReference env y obj1 = Inr obj2 \<and> m_owners obj' = m_owners obj2"
    and apply_error: "ad_ApplyPoolTemplate (ad env) y p r n obj = (Err e, obj') \<Longrightarrow>
      map_option pc_patch (poolConfigOf y p) = Some None \<Longrightarrow>
      \<exists>obj1. ae_SetControllerReference env y obj1 = Inl e \<and> m_owners obj1 = m_owners obj"
    and apply_patched: "ad_ApplyPoolTemplate (ad env) y p r n obj = (Ret (), obj') \<Longrightarrow>
      map_option pc_patch (poolConfigOf y p) = Some (Some raw) \<Longrightarrow>
      gget (m_annotations obj') AnnotationPatchKey = Some raw"
    and is_expected: "ad_IsExpected (ad env) obj r \<longleftrightarrow>
      gval (m_labels obj) ControllerRevisionHashLabelKey \<noteq> r"
    and no_failure: "ad_GetPoolFailure (ad env) = None"
    and post_update: "ad_PostUpdate (ad env) y obj r = None"

lemma applyPoolMeta_simps:
  "m_namespace (applyPoolMeta env y p r tmpl ml obj) = m_namespace y"
  "m_name (applyPoolMeta env y p r tmpl ml obj) = m_name obj"
  "gget (m_labels (applyPoolMeta env y p r tmpl ml obj)) PoolNameLabelKey = Some p"
  "gget (m_labels (applyPoolMeta env y p r tmpl ml obj)) ControllerRevisionHashLabelKey = Some r"
  "m_annotations (applyPoolMeta env y p r tmpl ml obj) \<noteq> None"
  "w_body (applyPoolMeta env y p r tmpl ml obj) = w_body obj"
  "m_owners (applyPoolMeta env y p r tmpl ml obj) = m_owners obj"
  by (simp_all add: applyPoolMeta_def Let_def gomap_simps putAll_not_nil del: not_None_eq)

lemma applyPoolMeta_labels:
  "gomap_ok ml \<Longrightarrow> gget ml k = Some v \<Longrightarrow> k \<notin> {PoolNameLabelKey, ControllerRevisionHashLabelKey} \<Longrightarrow>
   gget (m_labels (applyPoolMeta env y p r tmpl ml obj)) k = Some v"
  by (simp add: applyPoolMeta_def Let_def gomap_simps gomap_ok_def gget_def [of ml])

lemma owners_onlyD:
  assumes "owners_only env" and "ae_SetControllerReference env y obj = Inr obj'"
  shows "m_labels obj' = m_labels obj" "m_annotations obj' = m_annotations obj"
    "m_namespace obj' = m_namespace obj" "m_name obj' = m_name obj" "w_body obj' = w_body obj"
proof -
  have "obj' = obj\<lparr>m_owners := m_owners obj'\<rparr>"
    using assms unfolding owners_only_def by blast
  then show "m_labels obj' = m_labels obj" "m_annotations obj' = m_annotations obj"
    "m_namespace obj' = m_namespace obj" "m_name obj' = m_name obj" "w_body obj' = w_body obj"
    by (metis object_meta.surjective object_meta.update_convs object_meta.select_convs
        workload.select_convs workload.surjective)+
qed

lemma applyPatch_plain:
  "pc_patch cfg = None \<Longrightarrow> m_annotations obj \<noteq> None \<Longrightarrow>
   applyPatch env cfg fresh obj =
     (Ret (), obj\<lparr>m_annotations := gput AnnotationPatchKey [] (m_annotations obj)\<rparr>)"
  by (simp add: applyPatch_def PoolHasPatch_def)

lemma applyPatch_patched:
  "applyPatch env cfg fresh obj = (Ret (), obj') \<Longrightarrow> pc_patch cfg = Some raw \<Longrightarrow>
   gget (m_annotations obj') AnnotationPatchKey = Some raw"
  by (auto simp: applyPatch_def PoolHasPatch_def CreateNewPatchedObject_def gomap_simps gget_def
      gput_def update_conv' split: sum.splits option.splits)

lemmas adapter_defs = DeploymentAdapter_def StatefulSetAdapter_def
  Deployment_GetDetails_def StatefulSet_GetDetails_def
  Deployment_GetStatusObservedGeneration_def StatefulSet_GetStatusObservedGeneration_def
  Deployment_IsExpected_def StatefulSet_IsExpected_def
  Deployment_PostUpdate_def StatefulSet_PostUpdate_def
  emptyDeployment_def emptyStatefulSet_def

text \<open>A successful application went through every check.\<close>

lemma Deployment_apply_Ret:
  assumes "Deployment_ApplyPoolTemplate env y p r n obj = (Ret (), obj')"
  obtains cfg m selector obj2 spec status where "poolConfigOf y p = Some cfg"
    and "ys_selector (yas_spec y) = Some selector"
    and "ae_SetControllerReference env y
      (applyPoolMeta env y p r (m :: unit deployment_template_ext object_meta_scheme)
        (ls_matchLabels selector) obj) = Inr obj2"
    and "applyPatch env cfg emptyDeployment (obj2\<lparr>w_body := DeploymentBody spec status\<rparr>)
      = (Ret (), obj')"
    and "ds_replicas spec = Some n"
  using assms
  by (auto simp: Deployment_ApplyPoolTemplate_def Let_def
      split: workload_body.splits option.splits sum.splits)

lemma StatefulSet_apply_Ret:
  assumes "StatefulSet_ApplyPoolTemplate env y p r n obj = (Ret (), obj')"
  obtains cfg m selector obj2 spec status where "poolConfigOf y p = Some cfg"
    and "ys_selector (yas_spec y) = Some selector"
    and "ae_SetControllerReference env y
      (applyPoolMeta env y p r (m :: unit stateful_set_template_ext object_meta_scheme)
        (ls_matchLabels selector) obj) = Inr obj2"
    and "applyPatch env cfg emptyStatefulSet (obj2\<lparr>w_body := StatefulSetBody spec status\<rparr>)
      = (Ret (), obj')"
    and "ss_replicas spec = Some n"
  using assms
  by (auto simp: StatefulSet_ApplyPoolTemplate_def Let_def
      split: workload_body.splits option.splits sum.splits)

text \<open>What an application without a patch has made of the object, whatever its kind.\<close>

lemma applied_plain:
  assumes only: "owners_only env"
    and ref: "ae_SetControllerReference env y (applyPoolMeta env y p r tmpl ml obj) = Inr obj2"
    and run: "applyPatch env cfg fresh (obj2\<lparr>w_body := body\<rparr>) = (Ret (), obj')"
    and plain: "pc_patch cfg = None"
  shows "m_name obj' = m_name obj" and "m_namespace obj' = m_namespace y" and "w_body obj' = body"
    and "m_labels obj' = m_labels (applyPoolMeta env y p r tmpl ml obj)"
    and "gget (m_annotations obj') AnnotationPatchKey = Some []"
proof -
  note o = owners_onlyD [OF only ref]
  have "obj' = (obj2\<lparr>w_body := body\<rparr>)\<lparr>m_annotations := gput AnnotationPatchKey [] (m_annotations obj2)\<rparr>"
    using run plain o by (simp add: applyPatch_plain applyPoolMeta_simps del: not_None_eq)
  then show "m_name obj' = m_name obj" and "m_namespace obj' = m_namespace y" and "w_body obj' = body"
    and "m_labels obj' = m_labels (applyPoolMeta env y p r tmpl ml obj)"
    and "gget (m_annotations obj') AnnotationPatchKey = Some []"
    using o by (simp_all add: applyPoolMeta_simps gomap_simps)
qed

lemma applied_owner:
  "applyPatch env cfg fresh (obj2\<lparr>w_body := body\<rparr>) = (Ret (), obj') \<Longrightarrow> pc_patch cfg = None \<Longrightarrow>
   m_owners obj' = m_owners obj2"
  by (auto simp: applyPatch_def PoolHasPatch_def split: if_splits)

lemma applied_error:
  "applyPatch env cfg fresh obj = (Err e, obj') \<Longrightarrow> pc_patch cfg \<noteq> None"
  by (cases "pc_patch cfg") (simp_all add: applyPatch_def PoolHasPatch_def)

interpretation deployment: pool_adapter DeploymentAdapter
proof (unfold_locales, goal_cases)
  case (3 env y p r n obj obj')
  then show ?case
    by (auto simp: adapter_defs elim: Deployment_apply_Ret)
next
  case (4 env y p r n obj obj')
  then have "Deployment_ApplyPoolTemplate env y p r n obj = (Ret (), obj')"
    by (simp add: DeploymentAdapter_def)
  then show ?case
  proof (rule Deployment_apply_Ret)
    fix cfg m selector obj2 spec status
    assume "poolConfigOf y p = Some cfg" "ds_replicas spec = Some n"
      and ref: "ae_SetControllerReference env y (applyPoolMeta env y p r m (ls_matchLabels selector) obj)
        = Inr obj2"
      and run: "applyPatch env cfg emptyDeployment
        (obj2\<lparr>w_body := DeploymentBody spec status\<rparr>) = (Ret (), obj')"
    with 4(3) applied_plain [OF 4(1) ref run] show ?thesis
      by (simp add: pool_applied_def adapter_defs applyPoolMeta_simps wantedReplicas_def)
  qed
next
  case (5 env y p r n obj obj' selector k v)
  then have "Deployment_ApplyPoolTemplate env y p r n obj = (Ret (), obj')"
    by (simp add: DeploymentAdapter_def)
  then show ?case
    by (rule Deployment_apply_Ret) (use 5 applied_plain(4) [OF 5(1)] applyPoolMeta_labels in fastforce)
next
  case (6 env y p r n obj obj')
  then have "Deployment_ApplyPoolTemplate env y p r n obj = (Ret (), obj')"
    by (simp add: DeploymentAdapter_def)
  then show ?case
    by (rule Deployment_apply_Ret) (use 6(2) applied_owner in fastforce)
next
  case (7 env y p r n obj e obj')
  then show ?case
    by (auto simp: DeploymentAdapter_def Deployment_ApplyPoolTemplate_def Let_def applyPoolMeta_simps
        intro!: exI split: workload_body.splits option.splits sum.splits dest: applied_error)
next
  case (8 env y p r n obj obj' raw)
  then show ?case
    by (auto simp: adapter_defs elim!: Deployment_apply_Ret dest: applyPatch_patched)
qed (auto simp: adapter_defs split: workload_body.splits)

interpretation statefulSet: pool_adapter StatefulSetAdapter
proof (unfold_locales, goal_cases)
  case (3 env y p r n obj obj')
  then show ?case
    by (auto simp: adapter_defs elim: StatefulSet_apply_Ret)
next
  case (4 env y p r n obj obj')
  then have "StatefulSet_ApplyPoolTemplate env y p r n obj = (Ret (), obj')"
    by (simp add: StatefulSetAdapter_def)
  then show ?case
  proof (rule StatefulSet_apply_Ret)
    fix cfg m selector obj2 spec status
    assume "poolConfigOf y p = Some cfg" "ss_replicas spec = Some n"
      and ref: "ae_SetControllerReference env y (applyPoolMeta env y p r m (ls_matchLabels selector) obj)
        = Inr obj2"
      and run: "applyPatch env cfg emptyStatefulSet
        (obj2\<lparr>w_body := StatefulSetBody spec status\<rparr>) = (Ret (), obj')"
    with 4(3) applied_plain [OF 4(1) ref run] show ?thesis
      by (simp add: pool_applied_def adapter_defs applyPoolMeta_simps wantedReplicas_def)
  qed
next
  case (5 env y p r n obj obj' selector k v)
  then have "StatefulSet_ApplyPoolTemplate env y p r n obj = (Ret (), obj')"
    by (simp add: StatefulSetAdapter_def)
  then show ?case
    by (rule StatefulSet_apply_Ret) (use 5 applied_plain(4) [OF 5(1)] applyPoolMeta_labels in fastforce)
next
  case (6 env y p r n obj obj')
  then have "StatefulSet_ApplyPoolTemplate env y p r n obj = (Ret (), obj')"
    by (simp add: StatefulSetAdapter_def)
  then show ?case
    by (rule StatefulSet_apply_Ret) (use 6(2) applied_owner in fastforce)
next
  case (7 env y p r n obj e obj')
  then show ?case
    by (auto simp: StatefulSetAdapter_def StatefulSet_ApplyPoolTemplate_def Let_def applyPoolMeta_simps
        intro!: exI split: workload_body.splits option.splits sum.splits dest: applied_error)
next
  case (8 env y p r n obj obj' raw)
  then show ?case
    by (auto simp: adapter_defs elim!: StatefulSet_apply_Ret dest: applyPatch_patched)
qed (auto simp: adapter_defs split: workload_body.splits)

end
