(* ===== verification/YAS_PoolControl.thy ===== *)
theory YAS_PoolControl
  imports YAS_Adapter Ref_Manager
begin

section \<open>YurtAppSet: pools and their control\<close>

text \<open>
  \<open>controller/yurtappset/pool.go\<close> and \<open>pool_control.go\<close>. A \<open>ControlInterface\<close> is a record
  of functions; \<open>PoolControl\<close> builds one from an adapter. The API server is the record
  \<open>pc_env\<close>; the kind of the objects a call works on, which the Go code passes as an empty
  object or list, is a predicate.
\<close>

record 'w pc_env =
  pce_ad :: ad_env
  pce_rm :: "('w, unit workload_ext) rm_env"
  pce_List :: "(workload \<Rightarrow> bool) \<Rightarrow> (string gomap \<Rightarrow> bool) \<Rightarrow> ('w, workload list) io"
  pce_Get :: "(workload \<Rightarrow> bool) \<Rightarrow> string \<Rightarrow> string \<Rightarrow> ('w, workload) io"
  pce_Create :: "workload \<Rightarrow> ('w, workload) io"
  pce_Update :: "workload \<Rightarrow> ('w, workload) io"
  pce_Delete :: "workload \<Rightarrow> ('w, unit) io"

record pool =
  p_name :: string
  p_namespace :: string
  p_ref :: workload
  p_observedGeneration :: int64
  p_replicas :: int32
  p_readyReplicas :: int32
  p_patchInfo :: string

record 'w control =
  c_GetAllPools :: "yas \<Rightarrow> ('w, pool list) io"
  c_CreatePool :: "yas \<Rightarrow> string \<Rightarrow> string \<Rightarrow> int32 \<Rightarrow> ('w, unit) io"
  c_UpdatePool :: "pool \<Rightarrow> yas \<Rightarrow> string \<Rightarrow> int32 \<Rightarrow> ('w, unit) io"
  c_DeletePool :: "pool \<Rightarrow> ('w, unit) io"
  c_GetPoolFailure :: "pool \<Rightarrow> string option"
  c_IsExpected :: "pool \<Rightarrow> string \<Rightarrow> bool"

subsection \<open>Operations\<close>

definition convertToPool :: "adapter \<Rightarrow> workload \<Rightarrow> pool outcome" where
  "convertToPool ad wl =
     (case getPoolNameFrom wl of
        Inl e \<Rightarrow> Err e
      | Inr poolName \<Rightarrow>
     (case ad_GetDetails ad wl of
        Err e \<Rightarrow> Err e
      | Panic p \<Rightarrow> Panic p
      | Ret specReplicas \<Rightarrow>
     (case ad_GetStatusObservedGeneration ad wl of
        Err e \<Rightarrow> Err e
      | Panic p \<Rightarrow> Panic p
      | Ret observed \<Rightarrow>
          Ret \<lparr>p_name = poolName, p_namespace = m_namespace wl, p_ref = wl,
               p_observedGeneration = observed, p_replicas = ri_replicas specReplicas,
               p_readyReplicas = ri_readyReplicas specReplicas,
               p_patchInfo = gval (m_annotations wl) AnnotationPatchKey\<rparr>)))"

fun convertAll :: "adapter \<Rightarrow> workload list \<Rightarrow> pool list outcome" where
  "convertAll ad [] = Ret []"
| "convertAll ad (wl # wls) =
     (case convertToPool ad wl of
        Ret pool \<Rightarrow> (case convertAll ad wls of Ret pools \<Rightarrow> Ret (pool # pools) | r \<Rightarrow> r)
      | Err e \<Rightarrow> Err e
      | Panic p \<Rightarrow> Panic p)"

definition objectKey :: "pool \<Rightarrow> string \<times> string" where
  "objectKey pool = (p_namespace pool, m_name (p_ref pool))"

definition GetAllPools :: "'w pc_env \<Rightarrow> adapter \<Rightarrow> yas \<Rightarrow> ('w, pool list) io" where
  "GetAllPools env ad y =
     (case rm_AsSelector (pce_rm env) (ys_selector (yas_spec y)) of
        Inl e \<Rightarrow> fail e
      | Inr selector \<Rightarrow>
          andThen (pce_List env (ad_isKind ad) selector) (\<lambda>wls.
          (case RefManager_New (pce_rm env) (ys_selector (yas_spec y)) (object_meta.truncate y) True of
             Inl e \<Rightarrow> fail e
           | Inr manager \<Rightarrow>
               andThen (ClaimOwnedObjects (pce_rm env) manager wls []) (\<lambda>(claimedSets, err).
                 case err of Some e \<Rightarrow> fail e | None \<Rightarrow> lift (convertAll ad claimedSets)))))"

text \<open>The result of \<open>ApplyPoolTemplate\<close> is not looked at.\<close>

definition CreatePool ::
  "'w pc_env \<Rightarrow> adapter \<Rightarrow> yas \<Rightarrow> string \<Rightarrow> string \<Rightarrow> int32 \<Rightarrow> ('w, unit) io" where
  "CreatePool env ad y poolName revision replicas =
     (case ad_ApplyPoolTemplate ad y poolName revision replicas (ad_NewResourceObject ad) of
        (Panic p, wl) \<Rightarrow> lift (Panic p)
      | (_, wl) \<Rightarrow> andThen (pce_Create env wl) (\<lambda>_. ret ()))"

text \<open>\<open>tries\<close> attempts left, with the error of the last update and the object it was given.\<close>

fun UpdatePool_tries ::
  "nat \<Rightarrow> 'w pc_env \<Rightarrow> adapter \<Rightarrow> pool \<Rightarrow> yas \<Rightarrow> string \<Rightarrow> int32 \<Rightarrow> go_error option \<Rightarrow> workload
   \<Rightarrow> ('w, workload) io" where
  "UpdatePool_tries 0 env ad pool y revision replicas updateError wl =
     (case updateError of Some e \<Rightarrow> fail e | None \<Rightarrow> ret wl)"
| "UpdatePool_tries (Suc tries) env ad pool y revision replicas updateError wl =
     (case objectKey pool of (ns, name) \<Rightarrow>
      andThen (pce_Get env (ad_isKind ad) ns name) (\<lambda>got.
        case ad_ApplyPoolTemplate ad y (p_name pool) revision replicas got of
          (Err e, wl') \<Rightarrow> fail e
        | (Panic p, wl') \<Rightarrow> lift (Panic p)
        | (Ret _, wl') \<Rightarrow>
            andThen (attempt (pce_Update env wl')) (\<lambda>r. case r of
              Inl e \<Rightarrow> UpdatePool_tries tries env ad pool y revision replicas (Some e) wl'
            | Inr stored \<Rightarrow> ret stored)))"

definition UpdatePool ::
  "'w pc_env \<Rightarrow> adapter \<Rightarrow> pool \<Rightarrow> yas \<Rightarrow> string \<Rightarrow> int32 \<Rightarrow> ('w, unit) io" where
  "UpdatePool env ad pool y revision replicas =
     andThen (UpdatePool_tries updateRetries env ad pool y revision replicas None
         (ad_NewResourceObject ad)) (\<lambda>wl.
       case ad_PostUpdate ad y wl revision of Some e \<Rightarrow> fail e | None \<Rightarrow> ret ())"

definition DeletePool :: "'w pc_env \<Rightarrow> pool \<Rightarrow> ('w, unit) io" where
  "DeletePool env pool = pce_Delete env (p_ref pool)"

definition GetPoolFailure :: "adapter \<Rightarrow> pool \<Rightarrow> string option" where
  "GetPoolFailure ad pool = ad_GetPoolFailure ad"

definition IsExpected :: "adapter \<Rightarrow> pool \<Rightarrow> string \<Rightarrow> bool" where
  "IsExpected ad pool revision = ad_IsExpected ad (p_ref pool) revision"

definition PoolControl :: "'w pc_env \<Rightarrow> adapter \<Rightarrow> 'w control" where
  "PoolControl env ad = \<lparr>
     c_GetAllPools = GetAllPools env ad,
     c_CreatePool = CreatePool env ad,
     c_UpdatePool = UpdatePool env ad,
     c_DeletePool = DeletePool env,
     c_GetPoolFailure = GetPoolFailure ad,
     c_IsExpected = IsExpected ad\<rparr>"

subsection \<open>What the clients of an adapter rely on\<close>

text \<open>A pool needs no update if it shows the revision, the replicas and the patch asked for.\<close>

definition pool_settled :: "adapter \<Rightarrow> string \<Rightarrow> yas_patches \<Rightarrow> pool \<Rightarrow> bool" where
  "pool_settled ad revision next pool \<longleftrightarrow>
     \<not> IsExpected ad pool revision \<and> p_replicas pool = yp_replicas next \<and>
     p_patchInfo pool = yp_patch next"

context pool_adapter
begin

lemma applied_settled:
  assumes applied: "pool_applied (ad env) y p r n obj obj'" and name: "p \<noteq> []"
  obtains pool where "convertToPool (ad env) obj' = Ret pool" and "p_name pool = p"
    and "p_namespace pool = m_namespace y" and "p_ref pool = obj'"
    and "pool_settled (ad env) r \<lparr>yp_replicas = n, yp_patch = []\<rparr> pool"
proof -
  obtain i g where d: "ad_GetDetails (ad env) obj' = Ret i"
    "ad_GetStatusObservedGeneration (ad env) obj' = Ret g"
    using details [of env obj'] applied by (auto simp: pool_applied_def)
  from applied d name have "getPoolNameFrom obj' = Inr p" "ri_replicas i = n"
    "gval (m_annotations obj') AnnotationPatchKey = []"
    "gval (m_labels obj') ControllerRevisionHashLabelKey = r" "m_namespace obj' = m_namespace y"
    by (simp_all add: pool_applied_def getPoolNameFrom_def gval_def)
  with d is_expected [of env obj' r] that show thesis
    by (auto simp: convertToPool_def pool_settled_def IsExpected_def)
qed

lemma convert_kind:
  "ad_isKind (ad env) obj \<Longrightarrow> convertToPool (ad env) obj = Ret pool \<longleftrightarrow>
   (\<exists>name i g. getPoolNameFrom obj = Inr name \<and> ad_GetDetails (ad env) obj = Ret i \<and>
      ad_GetStatusObservedGeneration (ad env) obj = Ret g \<and>
      pool = \<lparr>p_name = name, p_namespace = m_namespace obj, p_ref = obj,
        p_observedGeneration = g, p_replicas = ri_replicas i,
        p_readyReplicas = ri_readyReplicas i,
        p_patchInfo = gval (m_annotations obj) AnnotationPatchKey\<rparr>)"
  using details [of env obj] by (auto simp: convertToPool_def split: sum.splits)

text \<open>What a creation or an update that succeeds has sent to the server last.\<close>

lemma create_sends:
  assumes only: "owners_only aenv" and cfg: "map_option pc_patch (poolConfigOf y p) = Some None"
    and name: "p \<noteq> []"
    and applied: "fst (ad_ApplyPoolTemplate (ad aenv) y p r n (ad_NewResourceObject (ad aenv))) = Ret ()"
    and run: "CreatePool env (ad aenv) y p r n w = (Ret (), w')"
  shows "\<exists>wl stored pool. pce_Create env wl w = (Ret stored, w') \<and>
    convertToPool (ad aenv) wl = Ret pool \<and> p_name pool = p \<and> p_namespace pool = m_namespace y \<and>
    p_ref pool = wl \<and> pool_settled (ad aenv) r \<lparr>yp_replicas = n, yp_patch = []\<rparr> pool"
proof -
  obtain wl where wl: "ad_ApplyPoolTemplate (ad aenv) y p r n (ad_NewResourceObject (ad aenv))
      = (Ret (), wl)"
    using applied by (metis prod.collapse)
  then have "andThen (pce_Create env wl) (\<lambda>_. ret ()) w = (Ret (), w')"
    using run by (simp add: CreatePool_def)
  then obtain stored where "pce_Create env wl w = (Ret stored, w')"
    by (auto simp: io_simps elim!: andThen_RetD)
  moreover have "pool_applied (ad aenv) y p r n (ad_NewResourceObject (ad aenv)) wl"
    using only wl cfg by (rule apply_plain)
  ultimately show ?thesis
    using name by (elim applied_settled) blast+
qed

lemma update_sends:
  assumes only: "owners_only aenv"
    and cfg: "map_option pc_patch (poolConfigOf y (p_name pool)) = Some None"
    and name: "p_name pool \<noteq> []"
    and run: "UpdatePool env (ad aenv) pool y r n w = (Ret (), w')"
  shows "\<exists>wl stored pool' u. pce_Update env wl u = (Ret stored, w') \<and>
    convertToPool (ad aenv) wl = Ret pool' \<and> p_name pool' = p_name pool \<and>
    p_namespace pool' = m_namespace y \<and>
    p_ref pool' = wl \<and> pool_settled (ad aenv) r \<lparr>yp_replicas = n, yp_patch = []\<rparr> pool'"
proof -
  have tries: "\<exists>wl got u. pce_Update env wl u = (Ret stored, w') \<and>
      ad_ApplyPoolTemplate (ad aenv) y (p_name pool) r n got = (Ret (), wl)"
    if "UpdatePool_tries k env (ad aenv) pool y r n e wl0 w = (Ret stored, w')" "k > 0 \<or> e \<noteq> None"
    for k e wl0 w stored
    using that
  proof (induction k arbitrary: e wl0 w)
    case (Suc k)
    from Suc.prems(1) show ?case
      by (auto simp: io_simps elim!: andThen_RetD attempt_RetD split: prod.splits outcome.splits
          dest!: Suc.IH) blast+
  qed (auto simp: fail_def)
  obtain stored where ran: "UpdatePool_tries updateRetries env (ad aenv) pool y r n None
      (ad_NewResourceObject (ad aenv)) w = (Ret stored, w')"
    using run by (auto simp: UpdatePool_def post_update io_simps elim!: andThen_RetD)
  have "updateRetries > 0 \<or> (None :: go_error option) \<noteq> None"
    by (simp add: updateRetries_def)
  with ran obtain wl got u where upd: "pce_Update env wl u = (Ret stored, w')"
    and "ad_ApplyPoolTemplate (ad aenv) y (p_name pool) r n got = (Ret (), wl)"
    using tries by blast
  with only cfg have "pool_applied (ad aenv) y (p_name pool) r n got wl"
    by (intro apply_plain)
  then show ?thesis
    using name upd by (elim applied_settled) blast+
qed

end

text \<open>A pool whose patch cannot be applied, or whose owner reference is refused, is created all
  the same, as the object is at that point.\<close>

lemma CreatePool_ignores_error:
  assumes "ad_ApplyPoolTemplate ad y p r n (ad_NewResourceObject ad) = (Err e, wl)"
  shows "CreatePool env ad y p r n = andThen (pce_Create env wl) (\<lambda>_. ret ())"
  using assms by (simp add: CreatePool_def)

subsection \<open>Properties\<close>

text \<open>A pool without a patch that \<open>CreatePool\<close> stored is read back with its name, in the
  namespace of the YurtAppSet, and needs no update as long as the revision and the replicas
  asked for stay the same; this holds for both kinds of workload.\<close>

theorem CreatePool_settles:
  assumes "ad = DeploymentAdapter (pce_ad env) \<or> ad = StatefulSetAdapter (pce_ad env)"
    and "owners_only (pce_ad env)"
    and "map_option pc_patch (poolConfigOf y p) = Some None" and "p \<noteq> []"
    and "fst (ad_ApplyPoolTemplate ad y p r n (ad_NewResourceObject ad)) = Ret ()"
    and "CreatePool env ad y p r n w = (Ret (), w')"
  shows "\<exists>wl stored pool. pce_Create env wl w = (Ret stored, w') \<and>
    convertToPool ad wl = Ret pool \<and> p_name pool = p \<and> p_namespace pool = m_namespace y \<and>
    p_ref pool = wl \<and> pool_settled ad r \<lparr>yp_replicas = n, yp_patch = []\<rparr> pool"
  using assms(1)
proof
  assume ad: "ad = DeploymentAdapter (pce_ad env)"
  show ?thesis unfolding ad by (rule deployment.create_sends [OF assms(2-) [unfolded ad]])
next
  assume ad: "ad = StatefulSetAdapter (pce_ad env)"
  show ?thesis unfolding ad by (rule statefulSet.create_sends [OF assms(2-) [unfolded ad]])
qed

text \<open>The same for \<open>UpdatePool\<close>: the last object it wrote, if it succeeds, is settled, even if
  earlier attempts failed and the object was read again in between.\<close>

theorem UpdatePool_settles:
  assumes "ad = DeploymentAdapter (pce_ad env) \<or> ad = StatefulSetAdapter (pce_ad env)"
    and "owners_only (pce_ad env)"
    and "map_option pc_patch (poolConfigOf y (p_name pool)) = Some None" and "p_name pool \<noteq> []"
    and "UpdatePool env ad pool y r n w = (Ret (), w')"
  shows "\<exists>wl stored pool' u. pce_Update env wl u = (Ret stored, w') \<and>
    convertToPool ad wl = Ret pool' \<and> p_name pool' = p_name pool \<and>
    p_namespace pool' = m_namespace y \<and> p_ref pool' = wl \<and>
    pool_settled ad r \<lparr>yp_replicas = n, yp_patch = []\<rparr> pool'"
  using assms(1)
proof
  assume ad: "ad = DeploymentAdapter (pce_ad env)"
  show ?thesis unfolding ad by (rule deployment.update_sends [OF assms(2-) [unfolded ad]])
next
  assume ad: "ad = StatefulSetAdapter (pce_ad env)"
  show ?thesis unfolding ad by (rule statefulSet.update_sends [OF assms(2-) [unfolded ad]])
qed

text \<open>An update asks the server at most five times.\<close>

theorem UpdatePool_bound:
  assumes upd: "\<And>wl u. (cnt (snd (pce_Update env wl u)) :: nat) = Suc (cnt u)"
    and get: "\<And>k ns name u. cnt (snd (pce_Get env k ns name u)) = cnt u"
  shows "cnt (snd (UpdatePool env ad pool y r n w)) \<le> cnt w + 5"
proof -
  have tries: "cnt (snd (UpdatePool_tries k env ad pool y r n e wl0 w)) \<le> cnt w + k" for k e wl0 w
  proof (induction k arbitrary: e wl0 w)
    case (Suc k)
    obtain ns name where key: "objectKey pool = (ns, name)" by fastforce
    obtain g w1 where g: "pce_Get env (ad_isKind ad) ns name w = (g, w1)" by fastforce
    have w1: "cnt w1 = cnt w" using get [of "ad_isKind ad" ns name w] g by simp
    show ?case
    proof (cases g)
      case (Ret got)
      obtain a wl' where a: "ad_ApplyPoolTemplate ad y (p_name pool) r n got = (a, wl')"
        by fastforce
      obtain b w2 where b: "pce_Update env wl' w1 = (b, w2)" by fastforce
      have w2: "cnt w2 = Suc (cnt w)" using upd [of wl' w1] b w1 by simp
      show ?thesis
        using key g Ret a b w1 w2 Suc.IH [of "Some e'" wl' w2 for e']
        by (cases a; cases b) (simp_all add: andThen_def attempt_def io_simps)
    qed (use key g w1 in \<open>simp_all add: andThen_def\<close>)
  qed (auto simp: io_simps split: option.split)
  obtain q w' where "UpdatePool_tries updateRetries env ad pool y r n None
      (ad_NewResourceObject ad) w = (q, w')" by fastforce
  with tries [of updateRetries None "ad_NewResourceObject ad" w] show ?thesis
    by (cases q) (auto simp: UpdatePool_def andThen_def updateRetries_def io_simps split: option.split)
qed

end
