(* ===== verification/Tools.thy ===== *)
theory Tools
  imports K8s
begin

section \<open>The helpers of \<open>pkg/yurtappmanager/util\<close>\<close>

text \<open>
  \<open>SlowStartBatch\<close>, \<open>CheckDuplicate\<close>, \<open>ContainsString\<close>, \<open>RemoveString\<close>,
  \<open>GetPodNames\<close> and \<open>MergePods\<close>.

  The goroutines of one batch run in an order the Go scheduler chooses: the parameter
  \<open>sched\<close> permutes the indices of a batch, and each call of \<open>fn\<close> is one step. The batch is
  over when all its calls are (\<open>wg.Wait()\<close>), whatever they returned.
\<close>

subsection \<open>What every controller has\<close>

text \<open>The order in which the goroutines of a batch run, the event recorder, the clock and
  \<open>NewAggregate\<close> of apimachinery.\<close>

record 'w runtime =
  rt_sched :: "nat list \<Rightarrow> nat list"
  rt_Event :: "string \<Rightarrow> string \<Rightarrow> 'w \<Rightarrow> 'w"
  rt_Now :: "'w \<Rightarrow> string"
  rt_NewAggregate :: "go_error list \<Rightarrow> go_error option"

definition event :: "('w, 'z) runtime_scheme \<Rightarrow> string \<Rightarrow> string \<Rightarrow> ('w, unit) io" where
  "event env reason message w = (Ret (), rt_Event env reason message w)"

definition now :: "('w, 'z) runtime_scheme \<Rightarrow> ('w, string) io" where
  "now env w = (Ret (rt_Now env w), w)"

subsection \<open>\<open>SlowStartBatch\<close>\<close>

text \<open>The errors of a batch in the order they were sent to the channel.\<close>

fun runBatch :: "(nat \<Rightarrow> ('w, unit) io) \<Rightarrow> nat list \<Rightarrow> ('w, go_error list) io" where
  "runBatch fn [] = ret []"
| "runBatch fn (i # is) =
     andThen (attempt (fn i)) (\<lambda>r.
     andThen (runBatch fn is) (\<lambda>es.
       ret (case r of Inl e \<Rightarrow> e # es | Inr _ \<Rightarrow> es)))"

text \<open>\<open>want\<close> is the size the next batch would have if enough calls remained.\<close>

function SlowStartBatch_loop ::
  "(nat list \<Rightarrow> nat list) \<Rightarrow> (nat \<Rightarrow> ('w, unit) io) \<Rightarrow> int \<Rightarrow> int \<Rightarrow> int \<Rightarrow> nat
   \<Rightarrow> ('w, int \<times> go_error option) io" where
  "SlowStartBatch_loop sched fn want remaining successes index =
     (let batchSize = min want remaining
      in if batchSize > 0 then
           andThen (runBatch fn (sched [index..<index + nat batchSize])) (\<lambda>errs.
             (let successes' = successes + (batchSize - int (length errs))
              in case errs of
                   e # _ \<Rightarrow> ret (successes', Some e)
                 | [] \<Rightarrow> SlowStartBatch_loop sched fn (2 * batchSize) (remaining - batchSize)
                           successes' (index + nat batchSize)))
         else ret (successes, None))"
  by pat_completeness auto
termination
  by (relation "measure (\<lambda>(sched, fn, want, remaining, successes, index). nat remaining)") auto

definition SlowStartBatch ::
  "(nat list \<Rightarrow> nat list) \<Rightarrow> int \<Rightarrow> int \<Rightarrow> (nat \<Rightarrow> ('w, unit) io)
   \<Rightarrow> ('w, int \<times> go_error option) io" where
  "SlowStartBatch sched calls initialBatchSize fn =
     SlowStartBatch_loop sched fn initialBatchSize calls 0 0"

declare SlowStartBatch_loop.simps [simp del]

lemma runBatch_append:
  "runBatch fn (is @ js) =
     andThen (runBatch fn is) (\<lambda>es. andThen (runBatch fn js) (\<lambda>es'. ret (es @ es')))"
proof (induction "is")
  case Nil
  show ?case by (auto simp: fun_eq_iff andThen_def ret_def split: prod.split outcome.split)
next
  case (Cons i "is")
  show ?case
    by (simp add: Cons andThen_assoc, intro arg_cong2 [where f = andThen] refl ext)
      (simp split: sum.split)
qed

lemma length_runBatch: "runBatch fn is w = (Ret es, w') \<Longrightarrow> length es \<le> length is"
  by (induction "is" arbitrary: w es)
    (auto simp: io_simps elim!: andThen_RetD split: sum.splits, fastforce+)

lemma runBatch_no_errors:
  "runBatch fn is w = (Ret [], w') \<longleftrightarrow> forEach fn is w = (Ret (), w')"
proof (induction "is" arbitrary: w)
  case (Cons i "is")
  show ?case
  proof (cases "fn i w")
    case (Pair r u)
    then show ?thesis
      by (cases r) (auto simp: andThen_def attempt_def ret_def Cons.IH [symmetric]
          split: outcome.splits prod.splits)
  qed
qed (simp add: ret_def)

text \<open>
  What the loop has run when it returns, in order: every index from \<open>index\<close> on up to some
  end, each once; all of them if there was no error.
\<close>

lemma SlowStartBatch_loop_run:
  assumes sched: "\<And>xs. mset (sched xs) = mset xs" and "want > 0" and "remaining \<ge> 0"
    and run: "SlowStartBatch_loop sched fn want remaining successes index w = (Ret (s, err), w')"
  shows "\<exists>n is es. mset is = mset [index..<index + n] \<and> n \<le> nat remaining \<and>
    runBatch fn is w = (Ret es, w') \<and> s = successes + int n - int (length es) \<and>
    (case err of None \<Rightarrow> es = [] \<and> n = nat remaining | Some e \<Rightarrow> es \<noteq> [] \<and> e = hd es)"
  using assms(2-)
proof (induction "nat remaining" arbitrary: want remaining successes index w rule: less_induct)
  case less
  let ?b = "min want remaining" and ?js = "sched [index..<index + nat (min want remaining)]"
  show ?case
  proof (cases "?b > 0")
    case False
    with less.prems have "s = successes" "err = None" "w' = w" "remaining = 0"
      by (auto simp: SlowStartBatch_loop.simps [of _ _ want] Let_def ret_def split: if_splits)
    then show ?thesis
      by (intro exI [of _ 0] exI [of _ "[]"]) (simp add: ret_def)
  next
    case True
    with less.prems(3) obtain errs w1 where b: "runBatch fn ?js w = (Ret errs, w1)"
      and rest: "(case errs of e # _ \<Rightarrow> ret (successes + (?b - int (length errs)), Some e)
         | [] \<Rightarrow> SlowStartBatch_loop sched fn (2 * ?b) (remaining - ?b)
             (successes + (?b - int (length errs))) (index + nat ?b)) w1 = (Ret (s, err), w')"
      by (subst (asm) SlowStartBatch_loop.simps) (auto simp: Let_def elim!: andThen_RetD)
    have js: "mset ?js = mset [index..<index + nat ?b]" by (rule sched)
    show ?thesis
    proof (cases errs)
      case (Cons e es)
      with rest b js True show ?thesis
        by (intro exI [of _ "nat ?b"] exI [of _ ?js] exI [of _ errs]) (auto simp: ret_def)
    next
      case Nil
      with rest True less.prems less.hyps [of "remaining - ?b" "2 * ?b" "successes + ?b"
          "index + nat ?b" w1]
      obtain n ks es where IH: "mset ks = mset [index + nat ?b..<index + nat ?b + n]"
        "n \<le> nat (remaining - ?b)" "runBatch fn ks w1 = (Ret es, w')"
        "s = successes + ?b + int n - int (length es)"
        "case err of None \<Rightarrow> es = [] \<and> n = nat (remaining - ?b) | Some e \<Rightarrow> es \<noteq> [] \<and> e = hd es"
        by auto
      have "runBatch fn (?js @ ks) w = (Ret es, w')"
        using b IH(3) Nil by (simp add: runBatch_append andThen_def ret_def)
      moreover have "mset (?js @ ks) = mset [index..<index + (nat ?b + n)]"
        using js IH(1) upt_add_eq_append [of index "index + nat ?b" n]
        by (simp only: mset_append add.assoc [symmetric])
      ultimately show ?thesis
        using IH True
        by (intro exI [of _ "nat ?b + n"] exI [of _ "?js @ ks"] exI [of _ es])
          (auto split: option.splits)
    qed
  qed
qed

text \<open>A batch of calls each of which is recorded records them in the order they ran.\<close>

lemma runBatch_trace:
  assumes call: "\<And>i u r u'. i \<in> set is \<Longrightarrow> fn i u = (r, u') \<Longrightarrow> tr u' = tr u @ [f i]"
  shows "runBatch fn is w = (Ret es, w') \<Longrightarrow> tr w' = tr w @ map f is"
  using call
proof (induction "is" arbitrary: w es)
  case (Cons i "is")
  from Cons.prems(1) obtain r w1 es1 where r: "attempt (fn i) w = (Ret r, w1)"
    and rest: "runBatch fn is w1 = (Ret es1, w')"
    by (auto simp: io_simps elim!: andThen_RetD)
  from r have "tr w1 = tr w @ [f i]"
    by (auto elim!: attempt_RetD dest: Cons.prems(2) [rotated])
  moreover have "tr w' = tr w1 @ map f is"
    using Cons.prems(2) by (intro Cons.IH [OF rest]) simp_all
  ultimately show ?case by simp
qed (simp add: io_simps)

lemma SlowStartBatch_trace:
  assumes sched: "\<And>xs. mset (sched xs) = mset xs" and init: "initial > 0"
    and call: "\<And>i u r u'. i < length xs \<Longrightarrow> fn i u = (r, u') \<Longrightarrow> tr u' = tr u @ [f (xs ! i)]"
    and run: "SlowStartBatch sched (int (length xs)) initial fn w
      = (Ret (s, err), w')"
  shows "\<exists>ys. mset ys \<subseteq># mset xs \<and> tr w' = tr w @ map f ys \<and> (err = None \<longrightarrow> mset ys = mset xs)"
proof -
  obtain n "is" es where r: "mset is = mset [0..<0 + n]" "n \<le> nat (int (length xs))"
    "runBatch fn is w = (Ret es, w')"
    "case err of None \<Rightarrow> es = [] \<and> n = nat (int (length xs)) | Some e \<Rightarrow> es \<noteq> [] \<and> e = hd es"
    using SlowStartBatch_loop_run [OF sched, of initial "int (length xs)" fn 0 0
        w s err w'] run
    init by (auto simp: SlowStartBatch_def)
  have idx: "set is = {..<n}" using arg_cong [OF r(1), of set_mset] by (simp add: atLeast0LessThan)
  have "tr w' = tr w @ map (\<lambda>i. f (xs ! i)) is"
    using r(2) idx by (intro runBatch_trace [OF _ r(3)] call) auto
  moreover have "mset (map ((!) xs) is) = mset (take n xs)"
  proof -
    have "mset (map ((!) xs) is) = mset (map ((!) xs) [0..<n])"
      using r(1) by (simp only: mset_map) simp
    also have "map ((!) xs) [0..<n] = take n xs"
      using r(2) by (intro nth_equalityI) auto
    finally show ?thesis .
  qed
  moreover have "mset (take n xs) \<subseteq># mset xs"
    by (metis append_take_drop_id mset_append mset_subset_eq_add_left)
  ultimately show ?thesis
    using r(4) by (intro exI [of _ "map ((!) xs) is"]) (auto simp: comp_def)
qed


text \<open>What is used of the library and of the scheduler.\<close>

definition batch_ok :: "('w, 'z) runtime_scheme \<Rightarrow> bool" where
  "batch_ok env \<longleftrightarrow> (\<forall>xs. mset (rt_sched env xs) = mset xs) \<and>
     (\<forall>es. rt_NewAggregate env es = None \<longleftrightarrow> es = [])"

subsection \<open>Loops that go on after an error, and the phases built from them\<close>

text \<open>The errors of a loop that calls \<open>f\<close> on each element whatever the calls before returned.\<close>

fun attemptAll ::
  "('a \<Rightarrow> ('w, unit) io) \<Rightarrow> ('a \<Rightarrow> go_error \<Rightarrow> go_error) \<Rightarrow> 'a list \<Rightarrow> ('w, go_error list) io" where
  "attemptAll f wrap [] = ret []"
| "attemptAll f wrap (x # xs) =
     andThen (attempt (f x)) (\<lambda>r.
     andThen (attemptAll f wrap xs) (\<lambda>errs.
       ret (case r of Inl e \<Rightarrow> wrap x e # errs | Inr _ \<Rightarrow> errs)))"

lemma attemptAll_trace:
  assumes call: "\<And>x u r u'. x \<in> set xs \<Longrightarrow> f x u = (r, u') \<Longrightarrow> tr u' = tr u @ [g x]"
  shows "attemptAll f wrap xs w = (Ret errs, w') \<Longrightarrow> tr w' = tr w @ map g xs"
  using call
proof (induction xs arbitrary: w errs)
  case (Cons x xs)
  from Cons.prems(1) obtain r w1 errs1 where r: "attempt (f x) w = (Ret r, w1)"
    and rest: "attemptAll f wrap xs w1 = (Ret errs1, w')"
    by (auto simp: io_simps elim!: andThen_RetD)
  from r have "tr w1 = tr w @ [g x]"
    by (auto elim!: attempt_RetD dest: Cons.prems(2) [rotated])
  moreover have "tr w' = tr w1 @ map g xs"
    using Cons.prems(2) by (intro Cons.IH [OF rest]) simp_all
  ultimately show ?case by simp
qed (simp add: io_simps)

lemma event_trace:
  "(\<And>a b u. tr (rt_Event env a b u) = tr u) \<Longrightarrow> event env reason message w = (q, w') \<Longrightarrow> tr w' = tr w"
  by (auto simp: event_def)

lemma attemptAll_phase:
  assumes ev: "\<And>a b u. tr (rt_Event env a b u) = tr u"
    and call: "\<And>x u r u'. x \<in> set xs \<Longrightarrow> f x u = (r, u') \<Longrightarrow> tr u' = tr u @ [g x]"
    and run: "(if length xs > 0 then
          andThen (attemptAll f wrap xs) (\<lambda>es.
            if length es > 0 then ret es
            else andThen (event env reason msg) (\<lambda>_. ret []))
        else ret []) w = (Ret (errs :: go_error list), w')"
  shows "tr w' = tr w @ map g xs"
proof (cases "length xs > 0")
  case True
  with run obtain es w1 where d: "attemptAll f wrap xs w = (Ret es, w1)"
    and k: "(if length es > 0 then ret es else andThen (event env reason msg) (\<lambda>_. ret [])) w1
      = (Ret errs, w')"
    by (auto elim!: andThen_RetD)
  have "tr w' = tr w1"
    using k event_trace [of tr, OF ev] by (auto simp: io_simps elim!: andThen_RetD split: if_splits)
  with attemptAll_trace [OF call d] show ?thesis by simp
next
  case False
  with run show ?thesis by (simp add: io_simps)
qed

lemma batch_phase:
  assumes "batch_ok env" and "initial > 0"
    and call: "\<And>i u r u'. i < length xs \<Longrightarrow> fn i u = (r, u') \<Longrightarrow> tr u' = tr u @ [g (xs ! i)]"
    and run: "(if length xs > 0 then
          andThen (SlowStartBatch (rt_sched env) (int (length xs)) initial fn) (\<lambda>(_, err). ret err)
        else ret None) w = (Ret err, w')"
  shows "\<exists>ys. mset ys \<subseteq># mset xs \<and> tr w' = tr w @ map g ys \<and> (err = None \<longrightarrow> mset ys = mset xs)"
proof (cases "length xs > 0")
  case True
  with run obtain s where "SlowStartBatch (rt_sched env) (int (length xs)) initial fn w
      = (Ret (s, err), w')"
    by (auto simp: io_simps elim!: andThen_RetD split: prod.splits)
  from SlowStartBatch_trace [where tr = tr and f = g, OF _ assms(2) _ this] call assms(1)
  show ?thesis by (simp add: batch_ok_def)
qed (use run in \<open>auto simp: io_simps\<close>)

lemma batch_phase_event:
  assumes ok: "batch_ok env" and init: "initial > 0"
    and ev: "\<And>a b u. tr (rt_Event env a b u) = tr u"
    and call: "\<And>i u r u'. i < length xs \<Longrightarrow> fn i u = (r, u') \<Longrightarrow> tr u' = tr u @ [g (xs ! i)]"
    and run: "(if length xs > 0 then
          andThen (SlowStartBatch (rt_sched env) (int (length xs)) initial fn) (\<lambda>(n, err).
            case err of
              None \<Rightarrow> andThen (event env reason (msg n)) (\<lambda>_. ret [])
            | Some e \<Rightarrow> ret [e])
        else ret []) w = (Ret (errs :: go_error list), w')"
  shows "\<exists>ys. mset ys \<subseteq># mset xs \<and> tr w' = tr w @ map g ys \<and> (errs = [] \<longrightarrow> mset ys = mset xs)"
proof (cases "length xs > 0")
  case True
  with run obtain s err w1 where b: "SlowStartBatch (rt_sched env) (int (length xs)) initial fn w
      = (Ret (s, err), w1)"
    and k: "(case err of
              None \<Rightarrow> andThen (event env reason (msg s)) (\<lambda>_. ret [])
            | Some e \<Rightarrow> ret [e]) w1 = (Ret errs, w')"
    by (auto elim!: andThen_RetD)
  have "tr w' = tr w1" "errs = [] \<longrightarrow> err = None"
    using k event_trace [of tr, OF ev] by (auto simp: io_simps elim!: andThen_RetD split: option.splits)
  with SlowStartBatch_trace [where tr = tr and f = g, OF _ init _ b] call ok show ?thesis
    by (auto simp: batch_ok_def)
qed (use run in \<open>auto simp: io_simps\<close>)



subsection \<open>Lists of names\<close>

fun CheckDuplicate_from :: "string list \<Rightarrow> string list \<Rightarrow> string list" where
  "CheckDuplicate_from seen [] = []"
| "CheckDuplicate_from seen (name # names) =
     (if name \<in> set seen then name # CheckDuplicate_from seen names
      else CheckDuplicate_from (name # seen) names)"

definition CheckDuplicate :: "string list \<Rightarrow> string list" where
  "CheckDuplicate list = CheckDuplicate_from [] list"

definition ContainsString :: "string list \<Rightarrow> string \<Rightarrow> bool" where
  "ContainsString xs s = list_ex (\<lambda>item. item = s) xs"

definition RemoveString :: "string list \<Rightarrow> string \<Rightarrow> string list" where
  "RemoveString xs s = filter (\<lambda>item. item \<noteq> s) xs"

definition GetPodNames :: "object_meta list \<Rightarrow> string set" where
  "GetPodNames pods = set (map m_name pods)"

fun MergePods_from :: "string list \<Rightarrow> object_meta list \<Rightarrow> object_meta list" where
  "MergePods_from names [] = []"
| "MergePods_from names (pod # pods) =
     (if m_name pod \<in> set names then MergePods_from names pods
      else pod # MergePods_from (m_name pod # names) pods)"

definition MergePods :: "object_meta list \<Rightarrow> object_meta list \<Rightarrow> object_meta list" where
  "MergePods pods1 pods2 = MergePods_from [] (pods1 @ pods2)"

lemma CheckDuplicate_from_count:
  "count (mset (CheckDuplicate_from seen xs)) x =
     (if x \<in> set seen then count (mset xs) x else count (mset xs) x - 1)"
  by (induction seen xs rule: CheckDuplicate_from.induct) auto

lemma CheckDuplicate_count: "count (mset (CheckDuplicate xs)) x = count (mset xs) x - 1"
  by (simp add: CheckDuplicate_def CheckDuplicate_from_count)

lemma CheckDuplicate_nil: "CheckDuplicate xs = [] \<longleftrightarrow> distinct xs"
proof -
  have "CheckDuplicate xs = [] \<longleftrightarrow> (\<forall>x. count (mset (CheckDuplicate xs)) x = 0)"
    by (metis count_empty mset_zero_iff multiset_eq_iff)
  also have "\<dots> \<longleftrightarrow> distinct xs"
    unfolding CheckDuplicate_count distinct_count_atmost_1
    by (metis (no_types) One_nat_def count_eq_zero_iff diff_is_0_eq diff_self_eq_0 le_Suc_eq
        le_zero_eq set_mset_mset zero_le)
  finally show ?thesis .
qed

lemma MergePods_from_names:
  "distinct (map m_name (MergePods_from names xs))"
  "m_name ` set (MergePods_from names xs) = m_name ` set xs - set names"
  by (induction names xs rule: MergePods_from.induct) auto

lemma MergePods_from_find:
  "p \<in> set (MergePods_from names xs) \<Longrightarrow> find (\<lambda>q. m_name q = m_name p) xs = Some p"
proof (induction names xs rule: MergePods_from.induct)
  case (2 names pod pods)
  then have "m_name p \<in> m_name ` set (MergePods_from names (pod # pods))" by blast
  then have "m_name p \<notin> set names" by (simp only: MergePods_from_names) simp
  moreover have "m_name q \<noteq> m_name pod" if "q \<in> set (MergePods_from (m_name pod # names) pods)" for q
    using that MergePods_from_names(2) [of "m_name pod # names" pods]
    by (metis DiffD2 image_eqI list.set_intros(1))
  ultimately show ?case
    using 2 by (fastforce split: if_splits)
qed simp

text \<open>Merging two lists of pods keeps one pod of every name, the first one of that name.\<close>

lemma MergePods_first_of_each_name:
  "distinct (map m_name (MergePods pods1 pods2)) \<and>
   GetPodNames (MergePods pods1 pods2) = GetPodNames pods1 \<union> GetPodNames pods2 \<and>
   (\<forall>p \<in> set (MergePods pods1 pods2).
      find (\<lambda>q. m_name q = m_name p) (pods1 @ pods2) = Some p)"
  using MergePods_from_names [of "[]" "pods1 @ pods2"] MergePods_from_find [of _ "[]"]
  by (auto simp: MergePods_def GetPodNames_def)

end
