(* ===== verification/YAS_Update.thy ===== *)
theory YAS_Update
  imports YAS_PoolControl Tools
begin

section \<open>YurtAppSet: managing the pools\<close>

text \<open>
  \<open>controller/yurtappset/yurtappset_update.go\<close>: \<open>managePoolProvision\<close> creates the pools that
  are missing, deletes those that are no longer wanted and those of the other kind of workload;
  \<open>managePools\<close> then updates the pools that stay and sets the conditions.

  The reconciler is the record \<open>yas_env\<close>: its map from the kind of template to the control
  (\<open>ye_poolControls\<close>) beside what every controller has (\<open>runtime\<close>).
\<close>

record 'w yas_env = "'w runtime" +
  ye_poolControls :: "(template_type \<times> 'w control) list"

definition slowStartInitialBatchSize :: int where
  "slowStartInitialBatchSize = 1"

definition newReconciler_controls :: "'w pc_env \<Rightarrow> (template_type \<times> 'w control) list" where
  "newReconciler_controls env =
     [(StatefulSetTemplateType, PoolControl env (StatefulSetAdapter (pce_ad env))),
      (DeploymentTemplateType, PoolControl env (DeploymentAdapter (pce_ad env)))]"

definition templateTypeText :: "template_type \<Rightarrow> string" where
  "templateTypeText t =
     (case t of StatefulSetTemplateType \<Rightarrow> ''StatefulSet''
      | DeploymentTemplateType \<Rightarrow> ''Deployment'' | NoTemplateType \<Rightarrow> [])"

definition zeroPatches :: yas_patches where
  "zeroPatches = \<lparr>yp_replicas = 0, yp_patch = []\<rparr>"

definition patchesOf :: "yas_patches gomap \<Rightarrow> string \<Rightarrow> yas_patches" where
  "patchesOf next name = (case gget next name of None \<Rightarrow> zeroPatches | Some p \<Rightarrow> p)"

subsection \<open>\<open>managePoolProvision\<close>\<close>

definition expectedPools :: "yas \<Rightarrow> string set" where
  "expectedPools y = set (map pc_name (items (ys_pools (yas_spec y))))"

definition gotPools :: "pool gomap \<Rightarrow> string set" where
  "gotPools nameToPool = set (map fst (entries nameToPool))"

text \<open>One call of the creating batch; a timeout counts as success.\<close>

definition createOne ::
  "'w control \<Rightarrow> template_type \<Rightarrow> yas \<Rightarrow> yas_patches gomap \<Rightarrow> string \<Rightarrow> string list \<Rightarrow> nat
   \<Rightarrow> ('w, unit) io" where
  "createOne ctl workloadType y next revision createdPools idx =
     (let poolName = createdPools ! idx in
      andThen (attempt (c_CreatePool ctl y poolName revision
          (yp_replicas (patchesOf next poolName)))) (\<lambda>r. case r of
        Inl e \<Rightarrow>
          (if \<not> isTimeout e
           then fail (PlainErr (''fail to create Pool ('' @ templateTypeText workloadType @ '') ''
                  @ poolName @ '': '' @ error_text e))
           else ret ())
      | Inr _ \<Rightarrow> ret ()))"

definition deletePoolError :: "template_type \<Rightarrow> pool \<Rightarrow> string \<Rightarrow> go_error \<Rightarrow> go_error" where
  "deletePoolError workloadType pool poolName e =
     PlainErr (''fail to delete Pool ('' @ templateTypeText workloadType @ '') '' @ p_namespace pool
       @ ''/'' @ p_name pool @ '' for '' @ poolName @ '': '' @ error_text e)"

text \<open>The errors of the deleting loop, which goes on after an error.\<close>

definition deleteAll ::
  "'w control \<Rightarrow> template_type \<Rightarrow> (string \<times> pool) list \<Rightarrow> ('w, go_error list) io" where
  "deleteAll ctl workloadType =
     attemptAll (\<lambda>(poolName, pool). c_DeletePool ctl pool)
       (\<lambda>(poolName, pool) e. deletePoolError workloadType pool poolName e)"

definition otherTypeError :: "string \<Rightarrow> template_type \<Rightarrow> yas \<Rightarrow> go_error \<Rightarrow> go_error" where
  "otherTypeError what t y e =
     PlainErr (what @ '' of other type '' @ templateTypeText t @ '' for YurtAppSet ''
       @ m_namespace y @ ''/'' @ m_name y @ '': '' @ error_text e)"

definition deleteOthers :: "'w control \<Rightarrow> template_type \<Rightarrow> yas \<Rightarrow> pool list \<Rightarrow> ('w, go_error list) io" where
  "deleteOthers ctl t y =
     attemptAll (c_DeletePool ctl)
       (\<lambda>pool e. otherTypeError (''fail to delete Pool '' @ p_name pool) t y e)"

text \<open>The loop over the controls of the other kinds: whether there was anything to clean, and
  the errors.\<close>

fun cleanOthers ::
  "template_type \<Rightarrow> yas \<Rightarrow> (template_type \<times> 'w control) list \<Rightarrow> ('w, bool \<times> go_error list) io" where
  "cleanOthers workloadType y [] = ret (False, [])"
| "cleanOthers workloadType y ((t, ctl) # rest) =
     (if t = workloadType then cleanOthers workloadType y rest
      else andThen (attempt (c_GetAllPools ctl y)) (\<lambda>r. case r of
        Inl e \<Rightarrow>
          andThen (cleanOthers workloadType y rest) (\<lambda>(cleaned, errs).
            ret (cleaned, otherTypeError ''fail to list Pool'' t y e # errs))
      | Inr pools \<Rightarrow>
          andThen (deleteOthers ctl t y pools) (\<lambda>errs1.
          andThen (cleanOthers workloadType y rest) (\<lambda>(cleaned, errs2).
            ret (pools \<noteq> [] \<or> cleaned, errs1 @ errs2)))))"

definition countMessage :: "string \<Rightarrow> int \<Rightarrow> template_type \<Rightarrow> string" where
  "countMessage verb n workloadType =
     verb @ decimal n @ '' Pool ('' @ templateTypeText workloadType @ '')''"

definition managePoolProvision ::
  "'w yas_env \<Rightarrow> yas \<Rightarrow> pool gomap \<Rightarrow> yas_patches gomap \<Rightarrow> string \<Rightarrow> template_type
   \<Rightarrow> ('w, string set \<times> bool \<times> go_error option) io" where
  "managePoolProvision env y nameToPool next revision workloadType =
     (let expected = expectedPools y; got = gotPools nameToPool;
          creates = sorted_list_of_set (expected - got);
          deletes = sorted_list_of_set (got - expected)
      in case map_of (ye_poolControls env) workloadType of
           None \<Rightarrow> lift (Panic ''nil pointer dereference'')
         | Some ctl \<Rightarrow>
      andThen (if length creates > 0 then
          andThen (SlowStartBatch (rt_sched env) (int (length creates)) slowStartInitialBatchSize
              (createOne ctl workloadType y next revision creates)) (\<lambda>(createdNum, createdErr).
            case createdErr of
              None \<Rightarrow> andThen (event env ''SuccessfulUpdatePool''
                  (countMessage ''Create '' createdNum workloadType)) (\<lambda>_. ret [])
            | Some e \<Rightarrow> ret [e])
        else ret []) (\<lambda>errs1.
      andThen (if length deletes > 0 then
          andThen (deleteAll ctl workloadType
              (map (\<lambda>poolName. (poolName, the (gget nameToPool poolName))) deletes)) (\<lambda>deleteErrs.
            if length deleteErrs > 0 then ret deleteErrs
            else andThen (event env ''SuccessfulUpdatePool''
                  (countMessage ''Delete '' (int (length deletes)) workloadType)) (\<lambda>_. ret []))
        else ret []) (\<lambda>errs2.
      andThen (cleanOthers workloadType y (ye_poolControls env)) (\<lambda>(cleaned, errs3).
        ret (expected \<inter> got, length creates > 0 \<or> length deletes > 0 \<or> cleaned,
          rt_NewAggregate env (errs1 @ errs2 @ errs3))))))"

subsection \<open>\<open>managePools\<close>\<close>

definition needsUpdate ::
  "'w control \<Rightarrow> pool gomap \<Rightarrow> yas_patches gomap \<Rightarrow> string \<Rightarrow> string \<Rightarrow> bool" where
  "needsUpdate ctl nameToPool next revision name =
     (let pool = the (gget nameToPool name) in
      c_IsExpected ctl pool revision \<or>
      p_replicas pool \<noteq> yp_replicas (patchesOf next name) \<or>
      p_patchInfo pool \<noteq> yp_patch (patchesOf next name))"

definition updateOne ::
  "'w yas_env \<Rightarrow> 'w control \<Rightarrow> template_type \<Rightarrow> yas \<Rightarrow> pool gomap \<Rightarrow> yas_patches gomap \<Rightarrow> string
   \<Rightarrow> string list \<Rightarrow> nat \<Rightarrow> ('w, unit) io" where
  "updateOne env ctl poolType y nameToPool next revision needUpdate index =
     (let cell = needUpdate ! index; pool = the (gget nameToPool cell);
          replicas = yp_replicas (patchesOf next cell) in
      andThen (attempt (c_UpdatePool ctl pool y revision replicas)) (\<lambda>r. case r of
        Inl e \<Rightarrow> andThen (event env ''FailedUpdatePool''
            (''Error updating PodSet ('' @ templateTypeText poolType @ '') '' @ p_name pool
             @ '' when updating: '' @ error_text e)) (\<lambda>_. fail e)
      | Inr _ \<Rightarrow> ret ()))"

definition setConditionNow ::
  "'w yas_env \<Rightarrow> yas_status \<Rightarrow> string \<Rightarrow> string \<Rightarrow> string \<Rightarrow> string \<Rightarrow> ('w, yas_status) io" where
  "setConditionNow env status condType cstatus reason message =
     andThen (now env) (\<lambda>t.
       ret (SetYurtAppSetCondition status
         (NewYurtAppSetCondition t condType cstatus reason message)))"

text \<open>The new status and the error are both returned.\<close>

definition managePools ::
  "'w yas_env \<Rightarrow> yas \<Rightarrow> pool gomap \<Rightarrow> yas_patches gomap \<Rightarrow> string \<Rightarrow> template_type
   \<Rightarrow> ('w, yas_status \<times> go_error option) io" where
  "managePools env y nameToPool next revision poolType =
     andThen (managePoolProvision env y nameToPool next revision poolType)
       (\<lambda>(exists, provisioned, err). case err of
          Some e \<Rightarrow>
            andThen (setConditionNow env (yas_status y) PoolProvisioned ''False'' ''Error''
                (error_text e)) (\<lambda>newStatus.
              ret (newStatus, Some (PlainErr (''fail to manage Pool provision: '' @ error_text e))))
        | None \<Rightarrow>
            andThen (if provisioned
                then setConditionNow env (yas_status y) PoolProvisioned ''True'' [] []
                else ret (yas_status y)) (\<lambda>status1.
            case map_of (ye_poolControls env) poolType of
              None \<Rightarrow> lift (Panic ''nil pointer dereference'')
            | Some ctl \<Rightarrow>
            (let needUpdate = filter (needsUpdate ctl nameToPool next revision)
                   (sorted_list_of_set exists) in
             andThen (if length needUpdate > 0 then
                 andThen (SlowStartBatch (rt_sched env) (int (length needUpdate))
                     slowStartInitialBatchSize
                     (updateOne env ctl poolType y nameToPool next revision needUpdate))
                   (\<lambda>(_, updateErr). ret updateErr)
               else ret None) (\<lambda>updateErr.
             andThen (case updateErr of
                 None \<Rightarrow> setConditionNow env status1 PoolUpdated ''True'' [] []
               | Some e \<Rightarrow> setConditionNow env status1 PoolUpdated ''False'' ''Error'' (error_text e))
               (\<lambda>newStatus. ret (newStatus, updateErr))))))"

subsection \<open>The calls that are made\<close>

text \<open>
  The calls of a control that change pools. \<open>traced\<close>: a view of the world records every such
  call, whether it succeeds or not, and nothing else moves the record. Any control can be
  instrumented so (\<open>logged\<close> below).
\<close>

datatype pool_call =
  CreateCall template_type string string int32
| UpdateCall template_type pool string int32
| DeleteCall template_type pool

definition traced :: "'w yas_env \<Rightarrow> yas \<Rightarrow> ('w \<Rightarrow> pool_call list) \<Rightarrow> bool" where
  "traced env y tr \<longleftrightarrow>
     (\<forall>(t, c) \<in> set (ye_poolControls env).
       (\<forall>w. tr (snd (c_GetAllPools c y w)) = tr w) \<and>
       (\<forall>p r n w. tr (snd (c_CreatePool c y p r n w)) = tr w @ [CreateCall t p r n]) \<and>
       (\<forall>pool r n w. tr (snd (c_UpdatePool c pool y r n w)) = tr w @ [UpdateCall t pool r n]) \<and>
       (\<forall>pool w. tr (snd (c_DeletePool c pool w)) = tr w @ [DeleteCall t pool])) \<and>
     (\<forall>reason message w. tr (rt_Event env reason message w) = tr w)"

lemma tracedD:
  assumes "traced env y tr" and "(t, c) \<in> set (ye_poolControls env)"
  shows "c_GetAllPools c y w = (q, w') \<Longrightarrow> tr w' = tr w"
    and "c_CreatePool c y p r n w = (q1, w') \<Longrightarrow> tr w' = tr w @ [CreateCall t p r n]"
    and "c_UpdatePool c pool y r n w = (q1, w') \<Longrightarrow> tr w' = tr w @ [UpdateCall t pool r n]"
    and "c_DeletePool c pool w = (q1, w') \<Longrightarrow> tr w' = tr w @ [DeleteCall t pool]"
proof -
  have facts: "tr (snd (c_GetAllPools c y w)) = tr w"
    "tr (snd (c_CreatePool c y p r n w)) = tr w @ [CreateCall t p r n]"
    "tr (snd (c_UpdatePool c pool y r n w)) = tr w @ [UpdateCall t pool r n]"
    "tr (snd (c_DeletePool c pool w)) = tr w @ [DeleteCall t pool]"
    using assms by (auto simp: traced_def)
  show "c_GetAllPools c y w = (q, w') \<Longrightarrow> tr w' = tr w" using facts(1) by simp
  show "c_CreatePool c y p r n w = (q1, w') \<Longrightarrow> tr w' = tr w @ [CreateCall t p r n]"
    using facts(2) by simp
  show "c_UpdatePool c pool y r n w = (q1, w') \<Longrightarrow> tr w' = tr w @ [UpdateCall t pool r n]"
    using facts(3) by simp
  show "c_DeletePool c pool w = (q1, w') \<Longrightarrow> tr w' = tr w @ [DeleteCall t pool]"
    using facts(4) by simp
qed

lemma traced_event: "traced env y tr \<Longrightarrow> event env reason message w = (q, w') \<Longrightarrow> tr w' = tr w"
  by (auto simp: traced_def event_def)

lemma createOne_trace:
  assumes "traced env y tr" and "(t, ctl) \<in> set (ye_poolControls env)"
    and "createOne ctl t y next revision names i u = (q, u')"
  shows "tr u' = tr u @ [CreateCall t (names ! i) revision
    (yp_replicas (patchesOf next (names ! i)))]"
proof -
  obtain r u1 where c: "c_CreatePool ctl y (names ! i) revision
      (yp_replicas (patchesOf next (names ! i))) u = (r, u1)" by fastforce
  have "u' = u1"
    using assms(3) c by (cases r) (auto simp: createOne_def Let_def andThen_def attempt_def io_simps
        split: if_splits)
  with tracedD(2) [OF assms(1,2) c] show ?thesis by simp
qed

lemma updateOne_trace:
  assumes "traced env y tr" and "(t, ctl) \<in> set (ye_poolControls env)"
    and "updateOne env ctl t y nameToPool next revision names i u = (q, u')"
  shows "tr u' = tr u @ [UpdateCall t (the (gget nameToPool (names ! i))) revision
    (yp_replicas (patchesOf next (names ! i)))]"
proof -
  obtain r u1 where c: "c_UpdatePool ctl (the (gget nameToPool (names ! i))) y revision
      (yp_replicas (patchesOf next (names ! i))) u = (r, u1)" by fastforce
  have "tr u' = tr u1"
    using assms(1,3) c
    by (cases r) (auto simp: updateOne_def Let_def andThen_def attempt_def io_simps event_def
        traced_def)
  with tracedD(3) [OF assms(1,2) c] show ?thesis by simp
qed

lemma deleteOthers_trace:
  assumes "traced env y tr" and "(t, ctl) \<in> set (ye_poolControls env)"
  shows "deleteOthers ctl t y ps w = (Ret errs, w') \<Longrightarrow> tr w' = tr w @ map (DeleteCall t) ps"
  unfolding deleteOthers_def
  by (rule attemptAll_trace [of ps _ tr "DeleteCall t"]) (auto dest: tracedD(4) [OF assms])

text \<open>Cleaning the other kinds deletes pools of other kinds only, and reports whether it found any.\<close>

lemma cleanOthers_trace:
  assumes "traced env y tr"
  shows "cleanOthers t y cs w = (Ret (cleaned, errs), w') \<Longrightarrow> set cs \<subseteq> set (ye_poolControls env) \<Longrightarrow>
    \<exists>ds. tr w' = tr w @ map (\<lambda>(t', pool). DeleteCall t' pool) ds \<and>
      (\<forall>d \<in> set ds. fst d \<noteq> t) \<and> (cleaned \<longleftrightarrow> ds \<noteq> [])"
proof (induction cs arbitrary: w cleaned errs)
  case (Cons tc rest)
  obtain t' ctl where tc: "tc = (t', ctl)" by fastforce
  note prems = Cons.prems [unfolded tc]
  show ?case unfolding tc
  proof (cases "t' = t")
    case True
    with Cons.IH prems show ?thesis by simp
  next
    case False
    obtain r w1 where r: "attempt (c_GetAllPools ctl y) w = (Ret r, w1)"
      and k: "(case r of Inl e \<Rightarrow>
          andThen (cleanOthers t y rest) (\<lambda>(cleaned, errs).
            ret (cleaned, otherTypeError ''fail to list Pool'' t' y e # errs))
        | Inr pools \<Rightarrow>
          andThen (deleteOthers ctl t' y pools) (\<lambda>errs1.
          andThen (cleanOthers t y rest) (\<lambda>(cleaned, errs2).
            ret (pools \<noteq> [] \<or> cleaned, errs1 @ errs2)))) w1 = (Ret (cleaned, errs), w')"
      using prems(1) unfolding cleanOthers.simps if_not_P [OF False] by (rule andThen_RetD)
    have mem: "(t', ctl) \<in> set (ye_poolControls env)" using prems(2) by simp
    have w1: "tr w1 = tr w"
      using r by (auto elim!: attempt_RetD dest: tracedD(1) [OF assms mem])
    show ?thesis
    proof (cases r)
      case (Inl e)
      with k obtain c es where c: "cleanOthers t y rest w1 = (Ret (c, es), w')" "cleaned = c"
        by (auto simp: io_simps elim!: andThen_RetD)
      with Cons.IH [OF c(1)] prems(2) w1 show ?thesis by simp
    next
      case (Inr pools)
      with k obtain es1 w2 c es2 where d: "deleteOthers ctl t' y pools w1 = (Ret es1, w2)"
        and c: "cleanOthers t y rest w2 = (Ret (c, es2), w')" "cleaned \<longleftrightarrow> pools \<noteq> [] \<or> c"
        by (auto simp: io_simps elim!: andThen_RetD)
      obtain ds where ds: "tr w' = tr w2 @ map (\<lambda>(t', pool). DeleteCall t' pool) ds"
        "\<forall>d \<in> set ds. fst d \<noteq> t" "c \<longleftrightarrow> ds \<noteq> []"
        using Cons.IH [OF c(1)] prems(2) by auto
      with deleteOthers_trace [OF assms mem d] w1 c(2) False show ?thesis
        by (intro exI [of _ "map (Pair t') pools @ ds"]) (auto simp: comp_def)
    qed
  qed
qed (simp add: io_simps)


subsection \<open>Properties\<close>

definition createCalls ::
  "template_type \<Rightarrow> yas_patches gomap \<Rightarrow> string \<Rightarrow> string list \<Rightarrow> pool_call list" where
  "createCalls t next revision names =
     map (\<lambda>name. CreateCall t name revision (yp_replicas (patchesOf next name))) names"

definition updateCalls ::
  "template_type \<Rightarrow> pool gomap \<Rightarrow> yas_patches gomap \<Rightarrow> string \<Rightarrow> string list \<Rightarrow> pool_call list" where
  "updateCalls t nameToPool next revision names =
     map (\<lambda>name. UpdateCall t (the (gget nameToPool name)) revision
       (yp_replicas (patchesOf next name))) names"

text \<open>The phases of \<open>managePoolProvision\<close>: creations, deletions, cleaning.\<close>

lemma managePoolProvision_phases:
  assumes run: "managePoolProvision env y nameToPool next revision t w
      = (Ret (exists, provisioned, err), w')"
  obtains ctl errs1 w1 errs2 w2 cleaned errs3 where
    "map_of (ye_poolControls env) t = Some ctl"
    "(let cs = sorted_list_of_set (expectedPools y - gotPools nameToPool) in
      if length cs > 0 then
        andThen (SlowStartBatch (rt_sched env) (int (length cs)) slowStartInitialBatchSize
            (createOne ctl t y next revision cs)) (\<lambda>(createdNum, createdErr).
          case createdErr of
            None \<Rightarrow> andThen (event env ''SuccessfulUpdatePool''
                (countMessage ''Create '' createdNum t)) (\<lambda>_. ret [])
          | Some e \<Rightarrow> ret [e])
      else ret []) w = (Ret errs1, w1)"
    "(let ds = sorted_list_of_set (gotPools nameToPool - expectedPools y) in
      if length ds > 0 then
        andThen (deleteAll ctl t (map (\<lambda>poolName. (poolName, the (gget nameToPool poolName))) ds))
          (\<lambda>deleteErrs. if length deleteErrs > 0 then ret deleteErrs
            else andThen (event env ''SuccessfulUpdatePool''
                (countMessage ''Delete '' (int (length ds)) t)) (\<lambda>_. ret []))
      else ret []) w1 = (Ret errs2, w2)"
    "cleanOthers t y (ye_poolControls env) w2 = (Ret (cleaned, errs3), w')"
    "exists = expectedPools y \<inter> gotPools nameToPool"
    "provisioned \<longleftrightarrow> length (sorted_list_of_set (expectedPools y - gotPools nameToPool)) > 0 \<or>
      length (sorted_list_of_set (gotPools nameToPool - expectedPools y)) > 0 \<or> cleaned"
    "err = rt_NewAggregate env (errs1 @ errs2 @ errs3)"
proof -
  obtain ctl where m: "map_of (ye_poolControls env) t = Some ctl"
    using run by (auto simp: managePoolProvision_def Let_def lift_def split: option.splits)
  let ?cs = "sorted_list_of_set (expectedPools y - gotPools nameToPool)"
    and ?ds = "sorted_list_of_set (gotPools nameToPool - expectedPools y)"
  from run obtain errs1 w1 errs2 w2 cleaned errs3 where
    c: "(if length ?cs > 0 then
          andThen (SlowStartBatch (rt_sched env) (int (length ?cs)) slowStartInitialBatchSize
              (createOne ctl t y next revision ?cs)) (\<lambda>(createdNum, createdErr).
            case createdErr of
              None \<Rightarrow> andThen (event env ''SuccessfulUpdatePool''
                  (countMessage ''Create '' createdNum t)) (\<lambda>_. ret [])
            | Some e \<Rightarrow> ret [e])
        else ret []) w = (Ret errs1, w1)" and
    d: "(if length ?ds > 0 then
          andThen (deleteAll ctl t (map (\<lambda>poolName. (poolName, the (gget nameToPool poolName))) ?ds))
            (\<lambda>deleteErrs. if length deleteErrs > 0 then ret deleteErrs
              else andThen (event env ''SuccessfulUpdatePool''
                  (countMessage ''Delete '' (int (length ?ds)) t)) (\<lambda>_. ret []))
        else ret []) w1 = (Ret errs2, w2)" and
    "cleanOthers t y (ye_poolControls env) w2 = (Ret (cleaned, errs3), w')"
    "exists = expectedPools y \<inter> gotPools nameToPool"
    "provisioned \<longleftrightarrow> length ?cs > 0 \<or> length ?ds > 0 \<or> cleaned"
    "err = rt_NewAggregate env (errs1 @ errs2 @ errs3)"
    unfolding managePoolProvision_def Let_def m option.case
    by (elim andThen_RetD) (auto simp: io_simps split: prod.splits)
  with that [OF m, of errs1 w1 errs2 w2 cleaned errs3] show thesis by (simp only: Let_def)
qed

text \<open>The calls of \<open>managePoolProvision\<close>.\<close>

lemma managePoolProvision_trace:
  assumes tr: "traced env y tr" and ok: "batch_ok env"
    and run: "managePoolProvision env y nameToPool next revision t w
      = (Ret (exists, provisioned, err), w')"
  shows "\<exists>cs ds. mset cs \<subseteq># mset_set (expectedPools y - gotPools nameToPool) \<and>
    (err = None \<longrightarrow> mset cs = mset_set (expectedPools y - gotPools nameToPool)) \<and>
    tr w' = tr w @ createCalls t next revision cs
      @ map (\<lambda>name. DeleteCall t (the (gget nameToPool name)))
          (sorted_list_of_set (gotPools nameToPool - expectedPools y))
      @ map (\<lambda>(t', pool). DeleteCall t' pool) ds \<and>
    (\<forall>d \<in> set ds. fst d \<noteq> t) \<and>
    exists = expectedPools y \<inter> gotPools nameToPool \<and>
    (provisioned \<longleftrightarrow> expectedPools y \<noteq> gotPools nameToPool \<or> ds \<noteq> [])"
proof -
  let ?E = "expectedPools y" and ?G = "gotPools nameToPool"
  have fin: "finite ?E" "finite ?G" by (simp_all add: expectedPools_def gotPools_def)
  have ev: "tr (rt_Event env a b u) = tr u" for a b u using tr by (simp add: traced_def)
  let ?cs = "sorted_list_of_set (?E - ?G)" and ?ds = "sorted_list_of_set (?G - ?E)"
  obtain ctl errs1 w1 errs2 w2 cleaned errs3 where m: "map_of (ye_poolControls env) t = Some ctl"
    and c: "(if length ?cs > 0 then
          andThen (SlowStartBatch (rt_sched env) (int (length ?cs)) slowStartInitialBatchSize
              (createOne ctl t y next revision ?cs)) (\<lambda>(createdNum, createdErr).
            case createdErr of
              None \<Rightarrow> andThen (event env ''SuccessfulUpdatePool''
                  (countMessage ''Create '' createdNum t)) (\<lambda>_. ret [])
            | Some e \<Rightarrow> ret [e])
        else ret []) w = (Ret errs1, w1)"
    and d: "(if length ?ds > 0 then
          andThen (deleteAll ctl t (map (\<lambda>poolName. (poolName, the (gget nameToPool poolName))) ?ds))
            (\<lambda>deleteErrs. if length deleteErrs > 0 then ret deleteErrs
              else andThen (event env ''SuccessfulUpdatePool''
                  (countMessage ''Delete '' (int (length ?ds)) t)) (\<lambda>_. ret []))
        else ret []) w1 = (Ret errs2, w2)"
    and o: "cleanOthers t y (ye_poolControls env) w2 = (Ret (cleaned, errs3), w')"
    and res: "exists = ?E \<inter> ?G" "provisioned \<longleftrightarrow> length ?cs > 0 \<or> length ?ds > 0 \<or> cleaned"
      "err = rt_NewAggregate env (errs1 @ errs2 @ errs3)"
    using run by (rule managePoolProvision_phases) (simp only: Let_def)
  have ctl: "(t, ctl) \<in> set (ye_poolControls env)" using m by (rule map_of_SomeD)
  obtain cs where cs: "mset cs \<subseteq># mset ?cs" "tr w1 = tr w @ createCalls t next revision cs"
    "errs1 = [] \<longrightarrow> mset cs = mset ?cs"
    using batch_phase_event [OF ok _ ev _ c, of "\<lambda>name. CreateCall t name revision
        (yp_replicas (patchesOf next name))"] createOne_trace [OF tr ctl]
    by (auto simp: createCalls_def slowStartInitialBatchSize_def)
  have ds: "tr w2 = tr w1 @ map (\<lambda>name. DeleteCall t (the (gget nameToPool name))) ?ds"
    using attemptAll_phase [of tr env "map (\<lambda>name. (name, the (gget nameToPool name))) ?ds",
        unfolded length_map, OF ev _ d [unfolded deleteAll_def], of "\<lambda>(n, pool). DeleteCall t pool"]
    by (auto simp: comp_def dest: tracedD(4) [OF tr ctl])
  obtain os where os: "tr w' = tr w2 @ map (\<lambda>(t', pool). DeleteCall t' pool) os"
    "\<forall>d \<in> set os. fst d \<noteq> t" "cleaned \<longleftrightarrow> os \<noteq> []"
    using cleanOthers_trace [OF tr o subset_refl] by blast
  have "err = None \<longrightarrow> errs1 = []" using res(3) ok by (simp add: batch_ok_def)
  moreover have "mset ?cs = mset_set (?E - ?G)"
    by (metis mset_sorted_list_of_multiset sorted_list_of_mset_set)
  moreover have "length ?cs > 0 \<or> length ?ds > 0 \<longleftrightarrow> ?E \<noteq> ?G"
    using fin by (auto simp: card_gt_0_iff)
  ultimately show ?thesis
    using cs ds os res by (intro exI [of _ cs] exI [of _ os]) auto
qed


lemma setConditionNow_eq:
  "setConditionNow env s ct cs reason msg w =
     (Ret (SetYurtAppSetCondition s (NewYurtAppSetCondition (rt_Now env w) ct cs reason msg)), w)"
  by (simp add: setConditionNow_def now_def io_simps)

definition condStatus :: "yas_status \<Rightarrow> string \<Rightarrow> string option" where
  "condStatus s t = map_option cd_status (GetYurtAppSetCondition s t)"

lemma condStatus_set:
  "condStatus (SetYurtAppSetCondition s (NewYurtAppSetCondition n t st r m)) t' =
     (if t' = t then Some st else condStatus s t')"
  using yas_conditions.status_set [of s "NewYurtAppSetCondition n t st r m"]
  by (auto simp: condStatus_def yas_conditions.get_set NewYurtAppSetCondition_def)

text \<open>The two ways \<open>managePools\<close> returns.\<close>

lemma managePools_run:
  assumes run: "managePools env y nameToPool next revision t w = (Ret (newStatus, err), w')"
  obtains (provision) exists provisioned e where
      "managePoolProvision env y nameToPool next revision t w = (Ret (exists, provisioned, Some e), w')"
      "err \<noteq> None" "condStatus newStatus PoolProvisioned = Some ''False''"
  | (updates) exists provisioned ctl w1 where
      "managePoolProvision env y nameToPool next revision t w = (Ret (exists, provisioned, None), w1)"
      "map_of (ye_poolControls env) t = Some ctl"
      "(let needUpdate = filter (needsUpdate ctl nameToPool next revision) (sorted_list_of_set exists)
        in if length needUpdate > 0 then
          andThen (SlowStartBatch (rt_sched env) (int (length needUpdate)) slowStartInitialBatchSize
              (updateOne env ctl t y nameToPool next revision needUpdate)) (\<lambda>(_, updateErr). ret updateErr)
        else ret None) w1 = (Ret err, w')"
      "condStatus newStatus PoolUpdated = Some (if err = None then ''True'' else ''False'')"
      "condStatus newStatus PoolProvisioned =
        (if provisioned then Some ''True'' else condStatus (yas_status y) PoolProvisioned)"
proof -
  obtain exists provisioned perr w1 where p: "managePoolProvision env y nameToPool next revision t w
      = (Ret (exists, provisioned, perr), w1)" and k: "(case perr of
          Some e \<Rightarrow>
            andThen (setConditionNow env (yas_status y) PoolProvisioned ''False'' ''Error''
                (error_text e)) (\<lambda>newStatus.
              ret (newStatus, Some (PlainErr (''fail to manage Pool provision: '' @ error_text e))))
        | None \<Rightarrow>
            andThen (if provisioned
                then setConditionNow env (yas_status y) PoolProvisioned ''True'' [] []
                else ret (yas_status y)) (\<lambda>status1.
            case map_of (ye_poolControls env) t of
              None \<Rightarrow> lift (Panic ''nil pointer dereference'')
            | Some ctl \<Rightarrow>
            (let needUpdate = filter (needsUpdate ctl nameToPool next revision)
                   (sorted_list_of_set exists) in
             andThen (if length needUpdate > 0 then
                 andThen (SlowStartBatch (rt_sched env) (int (length needUpdate))
                     slowStartInitialBatchSize
                     (updateOne env ctl t y nameToPool next revision needUpdate))
                   (\<lambda>(_, updateErr). ret updateErr)
               else ret None) (\<lambda>updateErr.
             andThen (case updateErr of
                 None \<Rightarrow> setConditionNow env status1 PoolUpdated ''True'' [] []
               | Some e \<Rightarrow> setConditionNow env status1 PoolUpdated ''False'' ''Error'' (error_text e))
               (\<lambda>newStatus. ret (newStatus, updateErr)))))) w1 = (Ret (newStatus, err), w')"
    using run unfolding managePools_def by (rule andThen_RetD3)
  show thesis
  proof (cases perr)
    case (Some e)
    with k p provision show thesis
      by (auto simp: andThen_def setConditionNow_eq ret_def condStatus_set)
  next
    case None
    obtain status1 where s1: "(if provisioned
          then setConditionNow env (yas_status y) PoolProvisioned ''True'' [] []
          else ret (yas_status y)) w1 = (Ret status1, w1)"
      "condStatus status1 PoolProvisioned =
        (if provisioned then Some ''True'' else condStatus (yas_status y) PoolProvisioned)"
      by (cases provisioned) (simp_all add: setConditionNow_eq ret_def condStatus_set)
    have step: "andThen (if provisioned
          then setConditionNow env (yas_status y) PoolProvisioned ''True'' [] []
          else ret (yas_status y)) k' w1 = k' status1 w1"
      for k' :: "yas_status \<Rightarrow> ('a, yas_status \<times> go_error option) io"
      using s1(1) by (simp add: andThen_def)
    obtain ctl where ctl: "map_of (ye_poolControls env) t = Some ctl"
      using k None s1(1) by (auto simp: andThen_def lift_def split: option.splits)
    let ?need = "filter (needsUpdate ctl nameToPool next revision) (sorted_list_of_set exists)"
    obtain uerr w2 where
      u: "(if length ?need > 0 then
            andThen (SlowStartBatch (rt_sched env) (int (length ?need)) slowStartInitialBatchSize
                (updateOne env ctl t y nameToPool next revision ?need)) (\<lambda>(_, updateErr). ret updateErr)
          else ret None) w1 = (Ret uerr, w2)"
      and s: "andThen (case uerr of
                 None \<Rightarrow> setConditionNow env status1 PoolUpdated ''True'' [] []
               | Some e \<Rightarrow> setConditionNow env status1 PoolUpdated ''False'' ''Error'' (error_text e))
               (\<lambda>newStatus. ret (newStatus, uerr)) w2 = (Ret (newStatus, err), w')"
      using k unfolding None option.case step ctl Let_def by (rule andThen_RetD)
    have s': "err = uerr" "w' = w2"
      "condStatus newStatus PoolUpdated = Some (if err = None then ''True'' else ''False'')"
      "condStatus newStatus PoolProvisioned = condStatus status1 PoolProvisioned"
      using s by (cases uerr; auto simp: andThen_def setConditionNow_eq ret_def condStatus_set)+
    from updates [OF p [unfolded None] ctl] u s' s1(2) show thesis by (simp add: Let_def)
  qed
qed

lemma managePools_cases:
  assumes tr: "traced env y tr" and ok: "batch_ok env"
    and run: "managePools env y nameToPool next revision t w = (Ret (newStatus, err), w')"
  obtains (provision) exists provisioned e where
      "managePoolProvision env y nameToPool next revision t w = (Ret (exists, provisioned, Some e), w')"
      "err \<noteq> None" "condStatus newStatus PoolProvisioned = Some ''False''"
  | (updates) exists provisioned ctl w1 us where
      "managePoolProvision env y nameToPool next revision t w = (Ret (exists, provisioned, None), w1)"
      "map_of (ye_poolControls env) t = Some ctl"
      "mset us \<subseteq># mset (filter (needsUpdate ctl nameToPool next revision) (sorted_list_of_set exists))"
      "err = None \<longrightarrow>
        mset us = mset (filter (needsUpdate ctl nameToPool next revision) (sorted_list_of_set exists))"
      "tr w' = tr w1 @ updateCalls t nameToPool next revision us"
      "condStatus newStatus PoolUpdated = Some (if err = None then ''True'' else ''False'')"
      "condStatus newStatus PoolProvisioned =
        (if provisioned then Some ''True'' else condStatus (yas_status y) PoolProvisioned)"
proof -
  from run show thesis
  proof (cases rule: managePools_run)
    case (provision exists provisioned e)
    with that(1) show thesis by blast
  next
    case (updates exists provisioned ctl w1)
    let ?need = "filter (needsUpdate ctl nameToPool next revision) (sorted_list_of_set exists)"
    obtain us where us: "mset us \<subseteq># mset ?need" "tr w' = tr w1 @ updateCalls t nameToPool next revision us"
      "err = None \<longrightarrow> mset us = mset ?need"
      using batch_phase [OF ok _ _ updates(3) [unfolded Let_def], of tr "\<lambda>name. UpdateCall t
          (the (gget nameToPool name)) revision (yp_replicas (patchesOf next name))"]
        updateOne_trace [OF tr map_of_SomeD [OF updates(2)]]
      by (auto simp: updateCalls_def slowStartInitialBatchSize_def)
    show thesis by (rule that(2) [OF updates(1,2) us(1,3,2) updates(4,5)])
  qed
qed


text \<open>\<open>managePoolProvision\<close> creates each missing pool once, with the replicas asked for, and
  nothing else (all of them unless it reports an error); it deletes every pool that is no
  longer wanted, in the order of the names, whatever happened before; then it deletes pools of
  the other kind of workload only. It answers with the pools that stay and with whether the
  set of pools was touched.\<close>

theorem managePoolProvision_calls:
  assumes "traced env y tr" and "batch_ok env"
    and "managePoolProvision env y nameToPool next revision t w
      = (Ret (exists, provisioned, err), w')"
  shows "\<exists>cs ds. distinct cs \<and> set cs \<subseteq> expectedPools y - gotPools nameToPool \<and>
    (err = None \<longrightarrow> set cs = expectedPools y - gotPools nameToPool) \<and>
    tr w' = tr w @ createCalls t next revision cs
      @ map (\<lambda>name. DeleteCall t (the (gget nameToPool name)))
          (sorted_list_of_set (gotPools nameToPool - expectedPools y))
      @ map (\<lambda>(t', pool). DeleteCall t' pool) ds \<and>
    (\<forall>d \<in> set ds. fst d \<noteq> t) \<and>
    exists = expectedPools y \<inter> gotPools nameToPool \<and>
    (provisioned \<longleftrightarrow> expectedPools y \<noteq> gotPools nameToPool \<or> ds \<noteq> [])"
proof -
  let ?M = "expectedPools y - gotPools nameToPool"
  have fin: "finite ?M" by (simp add: expectedPools_def)
  obtain cs ds where cs: "mset cs \<subseteq># mset_set ?M" "err = None \<longrightarrow> mset cs = mset_set ?M"
    and rest: "tr w' = tr w @ createCalls t next revision cs
      @ map (\<lambda>name. DeleteCall t (the (gget nameToPool name)))
          (sorted_list_of_set (gotPools nameToPool - expectedPools y))
      @ map (\<lambda>(t', pool). DeleteCall t' pool) ds" "\<forall>d \<in> set ds. fst d \<noteq> t"
      "exists = expectedPools y \<inter> gotPools nameToPool"
      "provisioned \<longleftrightarrow> expectedPools y \<noteq> gotPools nameToPool \<or> ds \<noteq> []"
    using managePoolProvision_trace [OF assms] by blast
  have "distinct cs"
  proof -
    have "count (mset cs) x \<le> 1" for x
    proof -
      have "count (mset cs) x \<le> count (mset_set ?M) x"
        using cs(1) by (rule mset_subset_eq_count)
      also have "\<dots> \<le> 1" by (simp add: count_mset_set')
      finally show ?thesis .
    qed
    then show ?thesis
      by (metis (no_types, lifting) One_nat_def count_mset_0_iff count_greater_zero_iff
          distinct_count_atmost_1 le_Suc_eq le_zero_eq set_mset_mset)
  qed
  moreover have "set cs \<subseteq> ?M"
    using set_mset_mono [OF cs(1)] fin by simp
  moreover have "err = None \<longrightarrow> set cs = ?M"
    using cs(2) fin by (metis finite_set_mset_mset_set set_mset_mset)
  ultimately show ?thesis using rest by blast
qed

text \<open>C7: when \<open>managePools\<close> reports no error, every missing pool was created, every unwanted one
  deleted, and of the pools that stay exactly those were updated that show another revision,
  other replicas or another patch than asked for; the condition \<open>PoolUpdated\<close> is true. When it
  reports an error, \<open>PoolProvisioned\<close> or \<open>PoolUpdated\<close> is false.\<close>

theorem managePools_calls:
  assumes tr: "traced env y tr" and ok: "batch_ok env"
    and run: "managePools env y nameToPool next revision t w = (Ret (newStatus, err), w')"
  shows "if err = None
    then \<exists>ctl cs ds us. map_of (ye_poolControls env) t = Some ctl \<and>
      mset cs = mset_set (expectedPools y - gotPools nameToPool) \<and>
      mset us = mset_set {name \<in> expectedPools y \<inter> gotPools nameToPool.
        needsUpdate ctl nameToPool next revision name} \<and>
      tr w' = tr w @ createCalls t next revision cs
        @ map (\<lambda>name. DeleteCall t (the (gget nameToPool name)))
            (sorted_list_of_set (gotPools nameToPool - expectedPools y))
        @ map (\<lambda>(t', pool). DeleteCall t' pool) ds
        @ updateCalls t nameToPool next revision us \<and>
      (\<forall>d \<in> set ds. fst d \<noteq> t) \<and> condStatus newStatus PoolUpdated = Some ''True''
    else condStatus newStatus PoolProvisioned = Some ''False'' \<or>
      condStatus newStatus PoolUpdated = Some ''False''"
  using tr ok run
proof (cases rule: managePools_cases)
  case (provision exists provisioned e)
  then show ?thesis by (cases err) simp_all
next
  case (updates exists provisioned ctl w1 us)
  obtain cs ds where p: "mset cs = mset_set (expectedPools y - gotPools nameToPool)"
    "tr w1 = tr w @ createCalls t next revision cs
      @ map (\<lambda>name. DeleteCall t (the (gget nameToPool name)))
          (sorted_list_of_set (gotPools nameToPool - expectedPools y))
      @ map (\<lambda>(t', pool). DeleteCall t' pool) ds"
    "\<forall>d \<in> set ds. fst d \<noteq> t" "exists = expectedPools y \<inter> gotPools nameToPool"
    using managePoolProvision_trace [OF tr ok updates(1)] by blast
  have fin: "finite exists" using p(4) by (simp add: expectedPools_def)
  have need: "mset (filter (needsUpdate ctl nameToPool next revision) (sorted_list_of_set exists))
      = mset_set {name \<in> exists. needsUpdate ctl nameToPool next revision name}"
    using fin by (metis filter_mset_mset_set mset_filter mset_sorted_list_of_multiset
        sorted_list_of_mset_set)
  show ?thesis
  proof (cases err)
    case None
    with updates p need show ?thesis
      by (simp only: simp_thms if_True)
        (intro exI [of _ ctl] exI [of _ cs] exI [of _ ds] exI [of _ us], simp)
  next
    case (Some e)
    with updates show ?thesis by simp
  qed
qed

text \<open>A YurtAppSet whose pools are those asked for, each with the revision, replicas and patch
  asked for, and that has no pools of the other kind, is left alone.\<close>

lemma managePools_quiet:
  assumes tr: "traced env y tr" and ok: "batch_ok env"
    and pools: "gotPools nameToPool = expectedPools y"
    and settled: "\<And>ctl name. map_of (ye_poolControls env) t = Some ctl \<Longrightarrow>
      name \<in> expectedPools y \<Longrightarrow> \<not> needsUpdate ctl nameToPool next revision name"
    and others: "\<And>t' ctl. (t', ctl) \<in> set (ye_poolControls env) \<Longrightarrow> t' \<noteq> t \<Longrightarrow>
      c_GetAllPools ctl y w = (Ret [], w)"
    and known: "map_of (ye_poolControls env) t \<noteq> None"
  shows "\<exists>newStatus w'. managePools env y nameToPool next revision t w = (Ret (newStatus, None), w') \<and>
    tr w' = tr w \<and> condStatus newStatus PoolUpdated = Some ''True'' \<and>
    condStatus newStatus PoolProvisioned = condStatus (yas_status y) PoolProvisioned"
proof -
  have clean: "cleanOthers t y cs w = (Ret (False, []), w)"
    if "set cs \<subseteq> set (ye_poolControls env)" for cs
    using that
  proof (induction cs)
    case (Cons tc cs)
    obtain t' c where tc: "tc = (t', c)" by fastforce
    show ?case
    proof (cases "t' = t")
      case True
      with Cons tc show ?thesis by simp
    next
      case False
      then have "c_GetAllPools c y w = (Ret [], w)"
        using others [of t' c] Cons.prems tc by auto
      with Cons False tc show ?thesis by (simp add: deleteOthers_def andThen_def attempt_def ret_def)
    qed
  qed (simp add: ret_def)
  obtain ctl where ctl: "map_of (ye_poolControls env) t = Some ctl" using known by blast
  have w1: "cleanOthers t y (ye_poolControls env) w = (Ret (False, []), w)"
    using clean by blast
  with ctl have p: "managePoolProvision env y nameToPool next revision t w
      = (Ret (expectedPools y, False, None), w)"
    using ctl pools ok by (simp add: managePoolProvision_def Let_def io_simps batch_ok_def)
  have "filter (needsUpdate ctl nameToPool next revision) (sorted_list_of_set (expectedPools y)) = []"
    using settled [OF ctl] by (auto simp: filter_empty_conv expectedPools_def)
  then have run: "managePools env y nameToPool next revision t w
      = (Ret (SetYurtAppSetCondition (yas_status y)
          (NewYurtAppSetCondition (rt_Now env w) PoolUpdated ''True'' [] []), None), w)"
    using p ctl by (simp add: managePools_def Let_def io_simps setConditionNow_eq)
  then show ?thesis by (simp add: condStatus_set)
qed

end
