(* ===== verification/YAS_Revision.thy ===== *)
theory YAS_Revision
  imports YAS_Conditions Ref_Manager
begin

section \<open>YurtAppSet: revisions\<close>

text \<open>
  \<open>controller/yurtappset/revision.go\<close>: the history of templates of a YurtAppSet, kept as
  controller revisions. Outside the repository (the record \<open>rev_env\<close>): the API server, the
  package \<open>history\<close> of Kubernetes (sorting, hashing, naming, making and comparing revisions)
  and the encoding of the template as a patch.

  \<open>FindEqualRevisions\<close> returns pointers into the list it is given, in its order: the model
  keeps their positions, so that renumbering an equal revision is seen in the list as well.
\<close>

record 'w rev_env =
  re_rm :: "('w, unit controller_revision_ext) rm_env"
  re_List :: "(string gomap \<Rightarrow> bool) \<Rightarrow> ('w, controller_revision list) io"
  re_Get :: "string \<Rightarrow> string \<Rightarrow> ('w, controller_revision) io"
  re_Create :: "controller_revision \<Rightarrow> ('w, controller_revision) io"
  re_Update :: "controller_revision \<Rightarrow> ('w, controller_revision) io"
  re_Delete :: "controller_revision \<Rightarrow> ('w, unit) io"
  re_MarshalTemplate :: "workload_template \<Rightarrow> go_error + string"
  re_GVKForObject :: "string \<Rightarrow> go_error + string"
  re_Sort :: "controller_revision list \<Rightarrow> controller_revision list"
  re_EqualRevision :: "controller_revision \<Rightarrow> controller_revision \<Rightarrow> bool"
  re_NewControllerRevision :: "object_meta \<Rightarrow> string \<Rightarrow> string gomap \<Rightarrow> string \<Rightarrow> int64 \<Rightarrow> int32
    \<Rightarrow> go_error + controller_revision"
  re_Hash :: "controller_revision \<Rightarrow> int32 \<Rightarrow> string"
  re_RevisionName :: "string \<Rightarrow> string \<Rightarrow> string"

subsection \<open>Operations\<close>

definition controlledHistories :: "'w rev_env \<Rightarrow> yas \<Rightarrow> ('w, controller_revision list) io" where
  "controlledHistories env y =
     (case rm_AsSelector (re_rm env) (ys_selector (yas_spec y)) of
        Inl e \<Rightarrow> fail e
      | Inr selector \<Rightarrow>
          andThen (re_List env selector) (\<lambda>histories.
          (case RefManager_New (re_rm env) (ys_selector (yas_spec y)) (object_meta.truncate y) True of
             Inl e \<Rightarrow> fail e
           | Inr cm \<Rightarrow>
               andThen (ClaimOwnedObjects (re_rm env) cm histories []) (\<lambda>(claims, err).
                 case err of Some e \<Rightarrow> fail e | None \<Rightarrow> ret claims))))"

text \<open>The patch is a function of the workload template alone.\<close>

definition getYurtAppSetPatch :: "'w rev_env \<Rightarrow> yas \<Rightarrow> go_error + string" where
  "getYurtAppSetPatch env y = re_MarshalTemplate env (ys_template (yas_spec y))"

definition nextRevision :: "controller_revision list \<Rightarrow> int64" where
  "nextRevision revisions =
     (if length revisions \<le> 0 then 1 else cr_revision (last revisions) + 1)"

definition newRevision ::
  "'w rev_env \<Rightarrow> yas \<Rightarrow> int64 \<Rightarrow> int32 \<Rightarrow> go_error + controller_revision" where
  "newRevision env y revision collisionCount =
     (case getYurtAppSetPatch env y of
        Inl e \<Rightarrow> Inl e
      | Inr patch \<Rightarrow>
     (case re_GVKForObject env ''YurtAppSet'' of
        Inl e \<Rightarrow> Inl e
      | Inr gvk \<Rightarrow>
     (case (case wt_statefulSet (ys_template (yas_spec y)) of
              Some t \<Rightarrow> Inr (m_labels t)
            | None \<Rightarrow> (case wt_deployment (ys_template (yas_spec y)) of
                Some t \<Rightarrow> Inr (m_labels t)
              | None \<Rightarrow> Inl (PlainErr (''YurtAppSet('' @ m_namespace y @ ''/'' @ m_name y
                  @ '') need specific WorkloadTemplate'')))) of
        Inl e \<Rightarrow> Inl e
      | Inr selectedLabels \<Rightarrow>
     (case re_NewControllerRevision env (object_meta.truncate y) gvk selectedLabels patch revision
             collisionCount of
        Inl e \<Rightarrow> Inl e
      | Inr cr \<Rightarrow> Inr (cr\<lparr>m_namespace := m_namespace y\<rparr>)))))"

text \<open>
  The loop of \<open>cleanExpiredRevision\<close>, from position \<open>i\<close> on: it stops at the first revision at
  or after \<open>exceedNum\<close> that is not live.
\<close>

fun deleteExpired ::
  "'w rev_env \<Rightarrow> string \<Rightarrow> int \<Rightarrow> int \<Rightarrow> controller_revision list \<Rightarrow> ('w, unit) io" where
  "deleteExpired env live exceedNum i [] = ret ()"
| "deleteExpired env live exceedNum i (revision # rest) =
     (if m_name revision = live then deleteExpired env live exceedNum (i + 1) rest
      else if i \<ge> exceedNum then ret ()
      else andThen (re_Delete env revision) (\<lambda>_. deleteExpired env live exceedNum (i + 1) rest))"

definition cleanExpiredRevision ::
  "'w rev_env \<Rightarrow> yas \<Rightarrow> controller_revision list \<Rightarrow> ('w, controller_revision list) io" where
  "cleanExpiredRevision env y sortedRevisions =
     (case ys_revisionHistoryLimit (yas_spec y) of
        None \<Rightarrow> lift (Panic ''nil pointer dereference'')
      | Some limit \<Rightarrow>
          (let exceedNum = int (length sortedRevisions) - sint limit in
           if exceedNum \<le> 0 then ret sortedRevisions
           else andThen (deleteExpired env (yt_currentRevision (yas_status y)) exceedNum 0
               sortedRevisions) (\<lambda>_.
             if exceedNum > int (length sortedRevisions)
             then lift (Panic ''slice bounds out of range'')
             else ret (drop (nat exceedNum) sortedRevisions))))"

text \<open>
  The loop that looks for a free name has no bound of its own: \<open>fuel\<close> iterations are run, and
  \<open>None\<close> says that they were not enough. The collision count is returned with the result.
\<close>

fun createControllerRevision ::
  "nat \<Rightarrow> 'w rev_env \<Rightarrow> yas \<Rightarrow> controller_revision \<Rightarrow> int32
   \<Rightarrow> ('w, ((go_error + controller_revision) \<times> int32) option) io" where
  "createControllerRevision 0 env parent revision collisionCount = ret None"
| "createControllerRevision (Suc fuel) env parent revision collisionCount =
     (let hash = re_Hash env revision collisionCount;
          clone = revision\<lparr>m_name := re_RevisionName env (m_name parent) hash\<rparr> in
      andThen (attempt (re_Create env clone)) (\<lambda>r. case r of
        Inr stored \<Rightarrow> ret (Some (Inr stored, collisionCount))
      | Inl e \<Rightarrow>
          (if isAlreadyExists e then
             andThen (attempt (re_Get env (m_namespace parent) (m_name clone))) (\<lambda>g. case g of
               Inl e' \<Rightarrow> ret (Some (Inl e', collisionCount))
             | Inr exists \<Rightarrow>
                 (if cr_data exists = cr_data clone then ret (Some (Inr exists, collisionCount))
                  else createControllerRevision fuel env parent revision (collisionCount + 1)))
           else ret (Some (Inl e, collisionCount)))))"

definition equalPositions ::
  "'w rev_env \<Rightarrow> controller_revision list \<Rightarrow> controller_revision \<Rightarrow> nat list" where
  "equalPositions env revisions needle =
     filter (\<lambda>i. re_EqualRevision env (revisions ! i) needle) [0..<length revisions]"

definition collisionsOf :: "yas \<Rightarrow> int32" where
  "collisionsOf y = (case yt_collisionCount (yas_status y) of None \<Rightarrow> 0 | Some c \<Rightarrow> c)"

text \<open>
  The last lines: the current revision is the last of the list that has the name the status
  holds. The result is the collision count with the error or with both revisions.
\<close>

definition finishRevisions ::
  "yas \<Rightarrow> controller_revision list \<Rightarrow> int32 \<Rightarrow> controller_revision \<Rightarrow>
   ('w, (int32 \<times> (go_error + (controller_revision \<times> controller_revision))) option) io" where
  "finishRevisions y revisions cnt updated =
     (let current = find (\<lambda>r. m_name r = yt_currentRevision (yas_status y)) (rev revisions)
      in ret (Some (cnt, Inr (case current of None \<Rightarrow> updated | Some r \<Rightarrow> r, updated))))"

text \<open>From the cleaned history on; the outer \<open>None\<close> is the fuel of \<open>createControllerRevision\<close>.\<close>

definition constructFrom ::
  "nat \<Rightarrow> 'w rev_env \<Rightarrow> yas \<Rightarrow> controller_revision list \<Rightarrow>
   ('w, (int32 \<times> (go_error + (controller_revision \<times> controller_revision))) option) io" where
  "constructFrom fuel env y revisions =
     (let count0 = collisionsOf y in
      case newRevision env y (nextRevision revisions) count0 of
        Inl e \<Rightarrow> ret (Some (count0, Inl e))
      | Inr update0 \<Rightarrow>
          (let equals = equalPositions env revisions update0 in
           if equals \<noteq> [] \<and> re_EqualRevision env (last revisions) (revisions ! last equals)
           then finishRevisions y revisions count0 (last revisions)
           else if equals \<noteq> [] then
             andThen (attempt (re_Update env
                 ((revisions ! last equals)\<lparr>cr_revision := cr_revision update0\<rparr>))) (\<lambda>u. case u of
               Inl e \<Rightarrow> ret (Some (count0, Inl e))
             | Inr stored \<Rightarrow> finishRevisions y (revisions[last equals := stored]) count0 stored)
           else
             andThen (createControllerRevision fuel env y update0 count0) (\<lambda>k. case k of
               None \<Rightarrow> ret None
             | Some (Inl e, cnt) \<Rightarrow> ret (Some (cnt, Inl e))
             | Some (Inr created, cnt) \<Rightarrow> finishRevisions y revisions cnt created)))"

definition constructYurtAppSetRevisions ::
  "nat \<Rightarrow> 'w rev_env \<Rightarrow> yas \<Rightarrow>
   ('w, (int32 \<times> (go_error + (controller_revision \<times> controller_revision))) option) io" where
  "constructYurtAppSetRevisions fuel env y =
     andThen (attempt (controlledHistories env y)) (\<lambda>h. case h of
       Inl e \<Rightarrow> ret (Some (collisionsOf y, Inl e))
     | Inr histories \<Rightarrow>
     andThen (attempt (cleanExpiredRevision env y (re_Sort env histories))) (\<lambda>c. case c of
       Inl e \<Rightarrow> ret (Some (collisionsOf y, Inl e))
     | Inr revisions \<Rightarrow> constructFrom fuel env y revisions))"

subsection \<open>Finding a free name\<close>

text \<open>
  The loop ends as soon as a name is free or taken by a revision with the same data: if the
  names for the next \<open>k\<close> collision counts are taken by other data and the one after is not,
  \<open>k + 1\<close> iterations are enough, and the count has moved by \<open>k\<close>.
\<close>

text \<open>What is used of the API server, for a view \<open>st\<close> of the stored revisions: creating a taken
  name answers \<open>AlreadyExists\<close>, a free one is stored as sent; reading finds what is stored.\<close>

definition revision_store :: "'w rev_env \<Rightarrow> yas \<Rightarrow> ('w \<Rightarrow> controller_revision list) \<Rightarrow> bool" where
  "revision_store env y st \<longleftrightarrow>
     (\<forall>cr w r. find (\<lambda>r. m_name r = m_name cr) (st w) = Some r \<longrightarrow>
        (\<exists>msg w'. re_Create env cr w = (Err (StatusErr AlreadyExists msg), w') \<and> st w' = st w)) \<and>
     (\<forall>cr w. find (\<lambda>r. m_name r = m_name cr) (st w) = None \<longrightarrow>
        (\<exists>w'. re_Create env cr w = (Ret cr, w') \<and> st w' = st w @ [cr])) \<and>
     (\<forall>name w r. find (\<lambda>r. m_name r = name) (st w) = Some r \<longrightarrow>
        (\<exists>w'. re_Get env (m_namespace y) name w = (Ret r, w') \<and> st w' = st w))"

definition revisionName :: "'w rev_env \<Rightarrow> yas \<Rightarrow> controller_revision \<Rightarrow> int32 \<Rightarrow> string" where
  "revisionName env y cr cnt = re_RevisionName env (m_name y) (re_Hash env cr cnt)"

definition name_taken ::
  "'w rev_env \<Rightarrow> yas \<Rightarrow> controller_revision \<Rightarrow> controller_revision list \<Rightarrow> int32 \<Rightarrow> bool" where
  "name_taken env y cr stored cnt \<longleftrightarrow>
     (case find (\<lambda>r. m_name r = revisionName env y cr cnt) stored of
        None \<Rightarrow> False | Some r \<Rightarrow> cr_data r \<noteq> cr_data cr)"

lemma revision_storeD:
  assumes "revision_store env y st"
  shows "find (\<lambda>r. m_name r = m_name cr) (st w) = Some r \<Longrightarrow>
      \<exists>msg w'. re_Create env cr w = (Err (StatusErr AlreadyExists msg), w') \<and> st w' = st w"
    and "find (\<lambda>r. m_name r = m_name cr) (st w) = None \<Longrightarrow>
      \<exists>w'. re_Create env cr w = (Ret cr, w') \<and> st w' = st w @ [cr]"
    and "find (\<lambda>r. m_name r = name) (st w) = Some r \<Longrightarrow>
      \<exists>w'. re_Get env (m_namespace y) name w = (Ret r, w') \<and> st w' = st w"
  using assms by (simp_all add: revision_store_def)

text \<open>C32: looking for a name ends: if only the names of the first \<open>k\<close> collision counts are taken by
  revisions with other data, then \<open>k + 1\<close> iterations return a stored revision that has the data
  and the name asked for, and the collision count has moved by \<open>k\<close>; the store has gained at
  most that revision.\<close>

theorem createControllerRevision_returns:
  assumes store: "revision_store env y st"
    and taken: "\<And>i. i < k \<Longrightarrow> name_taken env y cr (st w) (cnt + of_nat i)"
    and free: "\<not> name_taken env y cr (st w) (cnt + of_nat k)" and fuel: "k < fuel"
  shows "\<exists>created w'. createControllerRevision fuel env y cr cnt w
      = (Ret (Some (Inr created, cnt + of_nat k)), w') \<and>
    created \<in> set (st w') \<and> cr_data created = cr_data cr \<and>
    m_name created = revisionName env y cr (cnt + of_nat k) \<and>
    (st w' = st w \<or> st w' = st w @ [created])"
  using taken free fuel
proof (induction k arbitrary: fuel cnt w)
  case 0
  obtain f where f: "fuel = Suc f" using "0.prems"(3) by (cases fuel) auto
  let ?clone = "cr\<lparr>m_name := re_RevisionName env (m_name y) (re_Hash env cr cnt)\<rparr>"
  show ?case
  proof (cases "find (\<lambda>r. m_name r = m_name ?clone) (st w)")
    case None
    obtain w' where "re_Create env ?clone w = (Ret ?clone, w')" "st w' = st w @ [?clone]"
      using revision_storeD(2) [OF store None] by blast
    with f show ?thesis
      by (simp add: Let_def andThen_def attempt_def ret_def revisionName_def)
  next
    case (Some r)
    then have r: "r \<in> set (st w)" "m_name r = revisionName env y cr cnt"
      by (auto simp: find_Some_iff revisionName_def)
    have data: "cr_data r = cr_data cr"
      using Some "0.prems"(2) by (simp add: name_taken_def revisionName_def)
    obtain msg w1 where c: "re_Create env ?clone w = (Err (StatusErr AlreadyExists msg), w1)"
      "st w1 = st w"
      using revision_storeD(1) [OF store Some] by blast
    obtain w2 where g: "re_Get env (m_namespace y) (m_name ?clone) w1 = (Ret r, w2)" "st w2 = st w1"
      using revision_storeD(3) [OF store, where w = w1 and name = "m_name ?clone"] Some c(2) by auto
    show ?thesis
      using f c g r data
      by (simp add: Let_def andThen_def attempt_def ret_def revisionName_def)
  qed
next
  case (Suc k)
  obtain f where f: "fuel = Suc f" "k < f" using Suc.prems(3) by (cases fuel) auto
  let ?clone = "cr\<lparr>m_name := re_RevisionName env (m_name y) (re_Hash env cr cnt)\<rparr>"
  have "name_taken env y cr (st w) cnt" using Suc.prems(1) [of 0] by simp
  then obtain r where r: "find (\<lambda>r. m_name r = m_name ?clone) (st w) = Some r"
    and data: "cr_data r \<noteq> cr_data cr"
    by (auto simp: name_taken_def revisionName_def split: option.splits)
  obtain msg w1 where c: "re_Create env ?clone w = (Err (StatusErr AlreadyExists msg), w1)"
    "st w1 = st w"
    using revision_storeD(1) [OF store r] by blast
  obtain w2 where g: "re_Get env (m_namespace y) (m_name ?clone) w1 = (Ret r, w2)" "st w2 = st w1"
    using revision_storeD(3) [OF store, where w = w1 and name = "m_name ?clone"] r c(2) by auto
  have "createControllerRevision fuel env y cr cnt w
      = createControllerRevision f env y cr (cnt + 1) w2"
    using f c g data by (simp add: Let_def andThen_def attempt_def)
  moreover have "name_taken env y cr (st w2) (cnt + 1 + of_nat i)" if "i < k" for i
    using Suc.prems(1) [of "Suc i"] that c(2) g(2) by (simp add: add.assoc)
  moreover have "\<not> name_taken env y cr (st w2) (cnt + 1 + of_nat k)"
    using Suc.prems(2) c(2) g(2) by (simp add: add.assoc)
  ultimately show ?case
    using Suc.IH [of w2 "cnt + 1" f] f(2) c(2) g(2) by (simp add: add.assoc)
qed


subsection \<open>Expired revisions\<close>

lemma deleteExpired_trace:
  assumes del: "\<And>cr u u'. re_Delete env cr u = (Ret (), u') \<Longrightarrow> del u' = del u @ [m_name cr]"
  shows "deleteExpired env live n i rs w = (Ret (), w') \<Longrightarrow> 0 \<le> i \<Longrightarrow>
    del w' = del w @ filter (\<lambda>name. name \<noteq> live) (map m_name (take (nat (n - i)) rs))"
proof (induction rs arbitrary: i w)
  case (Cons r rs)
  show ?case
  proof (cases "m_name r = live")
    case True
    show ?thesis
    proof (cases "i < n")
      case True
      then have "nat (n - i) = Suc (nat (n - (i + 1)))" by simp
      with \<open>m_name r = live\<close> Cons.IH [of "i + 1" w] Cons.prems show ?thesis by simp
    next
      case False
      with \<open>m_name r = live\<close> Cons.IH [of "i + 1" w] Cons.prems show ?thesis by simp
    qed
  next
    case False
    show ?thesis
    proof (cases "i < n")
      case True
      then have n: "nat (n - i) = Suc (nat (n - (i + 1)))" by simp
      from Cons.prems False True obtain w1 where w1: "re_Delete env r w = (Ret (), w1)"
        "deleteExpired env live n (i + 1) rs w1 = (Ret (), w')"
        by (auto elim!: andThen_RetD)
      from Cons.IH [OF w1(2)] Cons.prems(2) del [OF w1(1)] False n show ?thesis by simp
    next
      case False
      with \<open>m_name r \<noteq> live\<close> Cons.prems show ?thesis by (simp add: ret_def)
    qed
  qed
qed (simp add: ret_def)

text \<open>C33: the history is cut to its limit: of the oldest revisions in excess all are deleted but
  the current one, and the list that is kept has the newest ones, at most as many as the limit.
  (A current revision among the oldest is thus neither deleted nor kept in the list.)\<close>

theorem cleanExpiredRevision_cuts:
  assumes del: "\<And>cr u u'. re_Delete env cr u = (Ret (), u') \<Longrightarrow> del u' = del u @ [m_name cr]"
    and limit: "ys_revisionHistoryLimit (yas_spec y) = Some limit" "0 \<le> sint limit"
    and run: "cleanExpiredRevision env y rs w = (Ret kept, w')"
  shows "kept = drop (length rs - nat (sint limit)) rs \<and> length kept \<le> nat (sint limit) \<and>
    del w' = del w @ filter (\<lambda>name. name \<noteq> yt_currentRevision (yas_status y))
      (map m_name (take (length rs - nat (sint limit)) rs))"
proof -
  let ?n = "int (length rs) - sint limit"
  have n: "nat ?n = length rs - nat (sint limit)" using limit(2) by simp
  show ?thesis
  proof (cases "?n \<le> 0")
    case True
    with run limit show ?thesis by (auto simp: cleanExpiredRevision_def Let_def ret_def)
  next
    case False
    obtain w1 where w1: "deleteExpired env (yt_currentRevision (yas_status y)) ?n 0 rs w = (Ret (), w1)"
      and k: "kept = drop (nat ?n) rs" "w' = w1"
      using run False limit
      by (auto simp: cleanExpiredRevision_def Let_def ret_def lift_def elim!: andThen_RetD
          split: if_splits)
    from deleteExpired_trace [where del = del, OF del w1] k n show ?thesis by simp
  qed
qed

subsection \<open>The updated revision\<close>

text \<open>What is used of the package \<open>history\<close> and of the server.\<close>

definition history_ok :: "'w rev_env \<Rightarrow> bool" where
  "history_ok env \<longleftrightarrow>
     (\<forall>a b. re_EqualRevision env a b \<longrightarrow> cr_data a = cr_data b) \<and>
     (\<forall>m gvk ls patch n c cr. re_NewControllerRevision env m gvk ls patch n c = Inr cr \<longrightarrow> cr_data cr = patch) \<and>
     (\<forall>cr w stored w'. re_Create env cr w = (Ret stored, w') \<longrightarrow> cr_data stored = cr_data cr) \<and>
     (\<forall>cr w stored w'. re_Update env cr w = (Ret stored, w') \<longrightarrow>
        cr_data stored = cr_data cr \<and> m_name stored = m_name cr)"

lemma history_ok_Update:
  "history_ok env \<Longrightarrow> re_Update env cr w = (Ret stored, w') \<Longrightarrow> cr_data stored = cr_data cr"
  unfolding history_ok_def by blast

lemma createControllerRevision_data:
  assumes "history_ok env"
  shows "createControllerRevision fuel env y cr cnt w = (Ret (Some (Inr created, cnt')), w') \<Longrightarrow>
    cr_data created = cr_data cr"
proof (induction fuel arbitrary: cnt w)
  case (Suc fuel)
  let ?clone = "cr\<lparr>m_name := re_RevisionName env (m_name y) (re_Hash env cr cnt)\<rparr>"
  have create: "cr_data stored = cr_data cr" if "re_Create env ?clone u = (Ret stored, u')" for stored u u'
    using assms that unfolding history_ok_def by fastforce
  obtain r w1 where r: "attempt (re_Create env ?clone) w = (Ret r, w1)"
    and k: "(case r of
        Inr stored \<Rightarrow> ret (Some (Inr stored, cnt))
      | Inl e \<Rightarrow>
          (if isAlreadyExists e then
             andThen (attempt (re_Get env (m_namespace y) (m_name ?clone))) (\<lambda>g. case g of
               Inl e' \<Rightarrow> ret (Some (Inl e', cnt))
             | Inr exists \<Rightarrow>
                 (if cr_data exists = cr_data ?clone then ret (Some (Inr exists, cnt))
                  else createControllerRevision fuel env y cr (cnt + 1)))
           else ret (Some (Inl e, cnt)))) w1 = (Ret (Some (Inr created, cnt')), w')"
    using Suc.prems unfolding createControllerRevision.simps Let_def by (rule andThen_RetD)
  show ?case
  proof (cases r)
    case (Inr stored)
    with k r create show ?thesis by (auto simp: ret_def elim: attempt_RetD)
  next
    case (Inl e)
    with k show ?thesis
      by (auto simp: io_simps elim!: andThen_RetD attempt_RetD dest: Suc.IH
          split: if_splits)
  qed
qed (simp add: ret_def)

lemma newRevision_data:
  assumes "history_ok env" and "newRevision env y n c = Inr cr"
  shows "getYurtAppSetPatch env y = Inr (cr_data cr)"
proof -
  from assms(2) obtain patch m gvk ls cr0 where "getYurtAppSetPatch env y = Inr patch"
    and new: "re_NewControllerRevision env m gvk ls patch n c = Inr cr0"
    and "cr = cr0\<lparr>m_namespace := m_namespace y\<rparr>"
    by (auto simp: newRevision_def split: sum.splits)
  moreover have "cr_data cr0 = patch"
    using assms(1) new unfolding history_ok_def by blast
  ultimately show ?thesis by simp
qed

text \<open>How a successful run found its result.\<close>

lemma constructRevisions_run:
  assumes "constructYurtAppSetRevisions fuel env y w = (Ret (Some (cnt, Inr (current, updated))), w')"
  obtains histories revisions update0 revs w1 w2 where
      "controlledHistories env y w = (Ret histories, w1)"
      "cleanExpiredRevision env y (re_Sort env histories) w1 = (Ret revisions, w2)"
      "newRevision env y (nextRevision revisions) (collisionsOf y) = Inr update0"
      "current = (case find (\<lambda>r. m_name r = yt_currentRevision (yas_status y)) (rev revs) of
         None \<Rightarrow> updated | Some r \<Rightarrow> r)"
      "revs = revisions \<and> revisions \<noteq> [] \<and> updated = last revisions \<and> w' = w2 \<and>
         equalPositions env revisions update0 \<noteq> [] \<and>
         re_EqualRevision env (last revisions) (revisions ! last (equalPositions env revisions update0))
       \<or> equalPositions env revisions update0 \<noteq> [] \<and>
         revs = revisions[last (equalPositions env revisions update0) := updated] \<and>
         re_Update env ((revisions ! last (equalPositions env revisions update0))
           \<lparr>cr_revision := cr_revision update0\<rparr>) w2 = (Ret updated, w')
       \<or> equalPositions env revisions update0 = [] \<and> revs = revisions \<and>
         createControllerRevision fuel env y update0 (collisionsOf y) w2
           = (Ret (Some (Inr updated, cnt)), w')"
proof -
  let ?eqs = "\<lambda>revisions. equalPositions env revisions"
  obtain h w1 where h: "attempt (controlledHistories env y) w = (Ret h, w1)"
    and k1: "(case h of Inl e \<Rightarrow> ret (Some (collisionsOf y, Inl e))
      | Inr histories \<Rightarrow>
      andThen (attempt (cleanExpiredRevision env y (re_Sort env histories))) (\<lambda>c. case c of
        Inl e \<Rightarrow> ret (Some (collisionsOf y, Inl e))
      | Inr revisions \<Rightarrow> constructFrom fuel env y revisions)) w1
      = (Ret (Some (cnt, Inr (current, updated))), w')"
    using assms unfolding constructYurtAppSetRevisions_def Let_def by (rule andThen_RetD)
  obtain histories where hist: "controlledHistories env y w = (Ret histories, w1)"
    and k2: "andThen (attempt (cleanExpiredRevision env y (re_Sort env histories))) (\<lambda>c. case c of
        Inl e \<Rightarrow> ret (Some (collisionsOf y, Inl e))
      | Inr revisions \<Rightarrow> constructFrom fuel env y revisions) w1
      = (Ret (Some (cnt, Inr (current, updated))), w')"
    using h k1 by (cases h) (auto simp: ret_def elim: attempt_RetD)
  obtain c w2 where c: "attempt (cleanExpiredRevision env y (re_Sort env histories)) w1 = (Ret c, w2)"
    and k3: "(case c of Inl e \<Rightarrow> ret (Some (collisionsOf y, Inl e))
      | Inr revisions \<Rightarrow> constructFrom fuel env y revisions) w2
      = (Ret (Some (cnt, Inr (current, updated))), w')"
    using k2 by (rule andThen_RetD)
  obtain revisions where clean: "cleanExpiredRevision env y (re_Sort env histories) w1 = (Ret revisions, w2)"
    and k4: "constructFrom fuel env y revisions w2 = (Ret (Some (cnt, Inr (current, updated))), w')"
    using c k3 by (cases c) (auto simp: ret_def elim: attempt_RetD)
  obtain update0 where new: "newRevision env y (nextRevision revisions) (collisionsOf y) = Inr update0"
    using k4 by (auto simp: constructFrom_def Let_def ret_def split: sum.splits)
  note run = k4 [unfolded constructFrom_def new sum.case Let_def]
  consider (same) "?eqs revisions update0 \<noteq> []"
      "re_EqualRevision env (last revisions) (revisions ! last (?eqs revisions update0))"
    | (rollback) "?eqs revisions update0 \<noteq> []"
      "\<not> re_EqualRevision env (last revisions) (revisions ! last (?eqs revisions update0))"
    | (new) "?eqs revisions update0 = []" by blast
  then show thesis
  proof cases
    case same
    then have "revisions \<noteq> []" by (auto simp: equalPositions_def)
    with run same have "updated = last revisions" "w' = w2" "current = (case find (\<lambda>r. m_name r =
        yt_currentRevision (yas_status y)) (rev revisions) of None \<Rightarrow> updated | Some r \<Rightarrow> r)"
      by (auto simp: finishRevisions_def ret_def)
    with hist clean new same \<open>revisions \<noteq> []\<close> show thesis
      by (intro that [of histories w1 revisions w2 update0 revisions]) auto
  next
    case rollback
    let ?k = "last (?eqs revisions update0)"
    obtain u w3 where u: "attempt (re_Update env ((revisions ! ?k)
        \<lparr>cr_revision := cr_revision update0\<rparr>)) w2 = (Ret u, w3)"
      and fin: "(case u of Inl e \<Rightarrow> ret (Some (collisionsOf y, Inl e))
        | Inr stored \<Rightarrow> finishRevisions y (revisions[?k := stored]) (collisionsOf y) stored) w3
        = (Ret (Some (cnt, Inr (current, updated))), w')"
      using run rollback by (auto elim!: andThen_RetD)
    have "re_Update env ((revisions ! ?k)\<lparr>cr_revision := cr_revision update0\<rparr>) w2 = (Ret updated, w')"
      "current = (case find (\<lambda>r. m_name r = yt_currentRevision (yas_status y))
        (rev (revisions[?k := updated])) of None \<Rightarrow> updated | Some r \<Rightarrow> r)"
      using u fin by (cases u; auto simp: finishRevisions_def ret_def elim!: attempt_RetD)+
    with hist clean new rollback show thesis
      by (intro that [of histories w1 revisions w2 update0 "revisions[?k := updated]"]) auto
  next
    case new': new
    obtain k w3 where k: "createControllerRevision fuel env y update0 (collisionsOf y) w2 = (Ret k, w3)"
      and fin: "(case k of None \<Rightarrow> ret None
            | Some (Inl e, cnt) \<Rightarrow> ret (Some (cnt, Inl e))
            | Some (Inr created, cnt) \<Rightarrow> finishRevisions y revisions cnt created) w3
        = (Ret (Some (cnt, Inr (current, updated))), w')"
      using run new' by (auto elim!: andThen_RetD)
    have "createControllerRevision fuel env y update0 (collisionsOf y) w2
        = (Ret (Some (Inr updated, cnt)), w')"
      "current = (case find (\<lambda>r. m_name r = yt_currentRevision (yas_status y)) (rev revisions) of
         None \<Rightarrow> updated | Some r \<Rightarrow> r)"
      using k fin
      by (auto simp: finishRevisions_def ret_def split: option.splits sum.splits prod.splits)
    with hist clean new new' show thesis
      by (intro that [of histories w1 revisions w2 update0 revisions]) auto
  qed
qed


end
