(* ===== verification/YAS_Controller.thy ===== *)
theory YAS_Controller
  imports YAS_Update YAS_Revision
begin

section \<open>YurtAppSet: the reconciliation\<close>

text \<open>
  \<open>controller/yurtappset/yurtappset_controller.go\<close>. One reconciliation fetches the YurtAppSet,
  determines its revisions, collects its pools by name (deleting duplicates), manages them and
  writes the status. \<open>fuel\<close> bounds the search for a revision name (see \<open>YAS_Revision\<close>);
  \<open>None\<close> as a result says it was not enough.

  Go compares the two \<open>CollisionCount\<close> fields of the statuses as pointers. The old status is a
  deep copy and the new one points to a local variable, so they are equal only if both are
  nil: \<open>samePointer\<close>.
\<close>

record 'w yc_env =
  yc_upd :: "'w yas_env"
  yc_rev :: "'w rev_env"
  yc_Get :: "string \<Rightarrow> string \<Rightarrow> ('w, yas) io"
  yc_UpdateStatus :: "yas \<Rightarrow> ('w, yas) io"

subsection \<open>The pools by name\<close>

definition getPoolTemplateType :: "yas \<Rightarrow> template_type" where
  "getPoolTemplateType y =
     (if wt_statefulSet (ys_template (yas_spec y)) \<noteq> None then StatefulSetTemplateType
      else if wt_deployment (ys_template (yas_spec y)) \<noteq> None then DeploymentTemplateType
      else NoTemplateType)"

definition getPoolControls :: "'w yas_env \<Rightarrow> yas \<Rightarrow> go_error + 'w control option \<times> template_type" where
  "getPoolControls env y =
     (if wt_statefulSet (ys_template (yas_spec y)) \<noteq> None
      then Inr (map_of (ye_poolControls env) StatefulSetTemplateType, StatefulSetTemplateType)
      else if wt_deployment (ys_template (yas_spec y)) \<noteq> None
      then Inr (map_of (ye_poolControls env) DeploymentTemplateType, DeploymentTemplateType)
      else Inl (PlainErr ''The appropriate WorkloadTemplate was not found, Now Support(StatefulSet/Deployment)''))"

definition classifyPoolByPoolName :: "pool list \<Rightarrow> pool list gomap" where
  "classifyPoolByPoolName pools =
     fold (\<lambda>ss mapping. gput (p_name ss)
         ((case gget mapping (p_name ss) of None \<Rightarrow> [] | Some ps \<Rightarrow> ps) @ [ss]) mapping)
       pools (Some [])"

text \<open>The pools after the first one of a name; one that is gone already is passed over.\<close>

fun deleteDups :: "'w control \<Rightarrow> pool list \<Rightarrow> ('w, unit) io" where
  "deleteDups ctl [] = ret ()"
| "deleteDups ctl (pool # rest) =
     andThen (attempt (c_DeletePool ctl pool)) (\<lambda>r. case r of
       Inl e \<Rightarrow> (if isNotFound e then deleteDups ctl rest else fail e)
     | Inr _ \<Rightarrow> deleteDups ctl rest)"

fun deleteDupPool_from ::
  "'w control \<Rightarrow> (string \<times> pool list) list \<Rightarrow> pool gomap \<Rightarrow> ('w, pool gomap) io" where
  "deleteDupPool_from ctl [] nameToPool = ret nameToPool"
| "deleteDupPool_from ctl ((name, pools) # rest) nameToPool =
     andThen (deleteDups ctl (tl pools)) (\<lambda>_.
       deleteDupPool_from ctl rest
         (case pools of [] \<Rightarrow> nameToPool | pool # _ \<Rightarrow> gput name pool nameToPool))"

definition deleteDupPool :: "'w control \<Rightarrow> pool list gomap \<Rightarrow> ('w, pool gomap) io" where
  "deleteDupPool ctl nameToPools = deleteDupPool_from ctl (entries nameToPools) (Some [])"

definition getNameToPool :: "'w yas_env \<Rightarrow> yas \<Rightarrow> 'w control \<Rightarrow> ('w, pool gomap) io" where
  "getNameToPool env y ctl =
     andThen (attempt (c_GetAllPools ctl y)) (\<lambda>r. case r of
       Inl e \<Rightarrow>
         andThen (event env ''FailedFindPools'' (error_text e)) (\<lambda>_.
           fail (PlainErr (''fail to get all Pools for YurtAppSet '' @ m_namespace y @ ''/'' @ m_name y
             @ '': '' @ error_text e)))
     | Inr pools \<Rightarrow>
     andThen (attempt (deleteDupPool ctl (classifyPoolByPoolName pools))) (\<lambda>d. case d of
       Inl e \<Rightarrow>
         andThen (event env ''FailedDeleteDuplicatedPools'' (error_text e)) (\<lambda>_.
           fail (PlainErr (''fail to manage duplicate Pool of YurtAppSet '' @ m_namespace y @ ''/''
             @ m_name y @ '': '' @ error_text e)))
     | Inr nameToPool \<Rightarrow> ret nameToPool))"

subsection \<open>The status\<close>

text \<open>The failure message of the first pool that has one.\<close>

definition firstFailure :: "'w control \<Rightarrow> pool gomap \<Rightarrow> string option" where
  "firstFailure ctl nameToPool =
     (case filter (\<lambda>m. m \<noteq> None) (map (\<lambda>(k, pool). c_GetPoolFailure ctl pool) (entries nameToPool)) of
        [] \<Rightarrow> None | m # _ \<Rightarrow> m)"

definition calculateStatus ::
  "'w yas_env \<Rightarrow> yas \<Rightarrow> yas_status \<Rightarrow> pool gomap \<Rightarrow> controller_revision \<Rightarrow> int32 \<Rightarrow> 'w control
   \<Rightarrow> ('w, yas_status) io" where
  "calculateStatus env y newStatus nameToPool currentRevision collisionCount ctl =
     (let s1 = newStatus\<lparr>yt_collisionCount := Some collisionCount\<rparr>;
          s2 = (if yt_currentRevision s1 = []
                then s1\<lparr>yt_currentRevision := m_name currentRevision\<rparr> else s1);
          s3 = s2\<lparr>yt_poolReplicas := Some [], yt_readyReplicas := 0, yt_replicas := 0\<rparr>;
          s4 = fold (\<lambda>(k, pool) s. s\<lparr>
                 yt_poolReplicas := gput (p_name pool) (p_replicas pool) (yt_poolReplicas s),
                 yt_replicas := yt_replicas s + p_replicas pool,
                 yt_readyReplicas := yt_readyReplicas s + p_readyReplicas pool\<rparr>)
               (entries nameToPool) s3;
          s5 = s4\<lparr>yt_templateType := getPoolTemplateType y\<rparr>
      in case firstFailure ctl nameToPool of
           None \<Rightarrow> ret (RemoveYurtAppSetCondition s5 PoolFailure)
         | Some msg \<Rightarrow> setConditionNow env s5 PoolFailure ''True'' ''Error'' msg)"

definition samePointer :: "'a option \<Rightarrow> 'a option \<Rightarrow> bool" where
  "samePointer p q = (p = None \<and> q = None)"

text \<open>\<open>retries\<close> further attempts after the next one.\<close>

fun updateStatus_tries :: "nat \<Rightarrow> 'w yc_env \<Rightarrow> yas \<Rightarrow> yas_status \<Rightarrow> ('w, yas) io" where
  "updateStatus_tries 0 env obj newStatus = yc_UpdateStatus env (obj\<lparr>yas_status := newStatus\<rparr>)"
| "updateStatus_tries (Suc retries) env obj newStatus =
     andThen (attempt (yc_UpdateStatus env (obj\<lparr>yas_status := newStatus\<rparr>))) (\<lambda>r. case r of
       Inr stored \<Rightarrow> ret stored
     | Inl e \<Rightarrow>
         andThen (yc_Get env (m_namespace obj) (m_name obj)) (\<lambda>tmpObj.
           updateStatus_tries retries env tmpObj newStatus))"

definition updateYurtAppSet :: "'w yc_env \<Rightarrow> yas \<Rightarrow> yas_status \<Rightarrow> yas_status \<Rightarrow> ('w, yas) io" where
  "updateYurtAppSet env y oldStatus newStatus =
     (if yt_currentRevision oldStatus = yt_currentRevision newStatus
       \<and> samePointer (yt_collisionCount oldStatus) (yt_collisionCount newStatus)
       \<and> yt_replicas oldStatus = yt_replicas newStatus
       \<and> yt_readyReplicas oldStatus = yt_readyReplicas newStatus
       \<and> m_generation y = yt_observedGeneration newStatus
       \<and> map_DeepEqual (yt_poolReplicas oldStatus) (yt_poolReplicas newStatus)
       \<and> slice_DeepEqual (yt_conditions oldStatus) (yt_conditions newStatus)
      then ret y
      else updateStatus_tries updateRetries env y
             (newStatus\<lparr>yt_observedGeneration := m_generation y\<rparr>))"

definition updateStatus ::
  "'w yc_env \<Rightarrow> yas \<Rightarrow> yas_status \<Rightarrow> yas_status \<Rightarrow> pool gomap \<Rightarrow> controller_revision \<Rightarrow> int32
   \<Rightarrow> 'w control \<Rightarrow> ('w, unit) io" where
  "updateStatus env y newStatus oldStatus nameToPool currentRevision collisionCount ctl =
     andThen (calculateStatus (yc_upd env) y newStatus nameToPool currentRevision collisionCount ctl)
       (\<lambda>newStatus'. andThen (updateYurtAppSet env y oldStatus newStatus') (\<lambda>_. ret ()))"

subsection \<open>\<open>Reconcile\<close>\<close>

text \<open>From the control on, when the revisions are known.\<close>

definition reconcilePools ::
  "'w yc_env \<Rightarrow> yas \<Rightarrow> controller_revision \<Rightarrow> controller_revision \<Rightarrow> int32 \<Rightarrow> ('w, unit) io" where
  "reconcilePools env y currentRevision updatedRevision collisionCount =
     (let upd = yc_upd env in
      case getPoolControls upd y of
        Inl e \<Rightarrow> andThen (event upd ''FailedTemplateController'' (error_text e)) (\<lambda>_. fail e)
      | Inr (None, poolType) \<Rightarrow> lift (Panic ''nil pointer dereference'')
      | Inr (Some ctl, poolType) \<Rightarrow>
      andThen (attempt (getNameToPool upd y ctl)) (\<lambda>n. case n of
        Inl e \<Rightarrow> andThen (event upd ''Failed FindPools'' (error_text e)) (\<lambda>_. ret ())
      | Inr nameToPool \<Rightarrow>
      andThen (managePools upd y nameToPool (GetNextPatches y) (m_name updatedRevision) poolType)
        (\<lambda>(newStatus, err).
      andThen (case err of
          None \<Rightarrow> ret ()
        | Some e \<Rightarrow> event upd ''FailedUpdatePool'' (error_text e)) (\<lambda>_.
      updateStatus env y newStatus (yas_status y) nameToPool currentRevision collisionCount ctl))))"

definition Reconcile_yas :: "nat \<Rightarrow> 'w yc_env \<Rightarrow> string \<Rightarrow> string \<Rightarrow> ('w, unit option) io" where
  "Reconcile_yas fuel env ns name =
     andThen (attempt (yc_Get env ns name)) (\<lambda>g. case g of
       Inl e \<Rightarrow> (if isNotFound e then ret (Some ()) else fail e)
     | Inr y \<Rightarrow>
         (if m_deletionTimestamp y \<noteq> None then ret (Some ())
          else andThen (constructYurtAppSetRevisions fuel (yc_rev env) y) (\<lambda>c. case c of
            None \<Rightarrow> ret None
          | Some (collisionCount, Inl e) \<Rightarrow>
              andThen (event (yc_upd env) ''FailedRevisionProvision'' (error_text e)) (\<lambda>_. fail e)
          | Some (collisionCount, Inr (currentRevision, updatedRevision)) \<Rightarrow>
              andThen (reconcilePools env y currentRevision updatedRevision collisionCount)
                (\<lambda>_. ret (Some ())))))"

subsection \<open>One pool for each name\<close>

lemma classify_step:
  "gget (fold (\<lambda>ss mapping. gput (p_name ss)
       ((case gget mapping (p_name ss) of None \<Rightarrow> [] | Some ps \<Rightarrow> ps) @ [ss]) mapping) pools m) name =
   (if filter (\<lambda>p. p_name p = name) pools = [] then gget m name
    else Some ((case gget m name of None \<Rightarrow> [] | Some ps \<Rightarrow> ps) @ filter (\<lambda>p. p_name p = name) pools))"
  for m :: "pool list gomap"
  by (induction pools arbitrary: m) (auto simp: gomap_simps)

lemma gget_classify:
  "gget (classifyPoolByPoolName pools) name =
     (case filter (\<lambda>p. p_name p = name) pools of [] \<Rightarrow> None | ps \<Rightarrow> Some ps)"
  by (simp add: classifyPoolByPoolName_def classify_step gomap_simps split: list.split)

lemma find_filter_hd:
  "find p xs = (case filter p xs of [] \<Rightarrow> None | x # _ \<Rightarrow> Some x)"
  by (induction xs) auto

lemma gomap_ok_classify: "gomap_ok (classifyPoolByPoolName pools)"
proof -
  have "gomap_ok m \<Longrightarrow> gomap_ok (fold (\<lambda>ss mapping. gput (p_name ss)
       ((case gget mapping (p_name ss) of None \<Rightarrow> [] | Some ps \<Rightarrow> ps) @ [ss]) mapping) pools m)"
    for m :: "pool list gomap"
    by (induction pools arbitrary: m) auto
  then show ?thesis by (simp add: classifyPoolByPoolName_def)
qed

lemma deleteDups_trace:
  assumes "traced env y tr" and "(t, ctl) \<in> set (ye_poolControls env)"
  shows "deleteDups ctl ps w = (Ret (), w') \<Longrightarrow> tr w' = tr w @ map (DeleteCall t) ps"
proof (induction ps arbitrary: w)
  case (Cons p ps)
  from Cons.prems obtain r w1 where r: "attempt (c_DeletePool ctl p) w = (Ret r, w1)"
    and rest: "deleteDups ctl ps w1 = (Ret (), w')"
    by (auto simp: io_simps elim!: andThen_RetD split: sum.splits if_splits)
  from r have "tr w1 = tr w @ [DeleteCall t p]"
    by (auto elim!: attempt_RetD dest: tracedD(4) [OF assms])
  with Cons.IH [OF rest] show ?case by simp
qed (simp add: io_simps)

lemma deleteDups_append:
  "deleteDups ctl (ps @ qs) = andThen (deleteDups ctl ps) (\<lambda>_. deleteDups ctl qs)"
  by (induction ps)
    (auto simp: andThen_assoc fun_eq_iff andThen_def attempt_def fail_def
      split: prod.split outcome.split)

lemma deleteDupPool_from_run:
  "deleteDupPool_from ctl kvs m w = (Ret m', w') \<Longrightarrow> distinct (map fst kvs) \<Longrightarrow>
    deleteDups ctl (concat (map (tl \<circ> snd) kvs)) w = (Ret (), w') \<and>
    (\<forall>k. gget m' k = (case map_of kvs k of Some (p # ps) \<Rightarrow> Some p | _ \<Rightarrow> gget m k))"
proof (induction kvs arbitrary: m w)
  case (Cons kv kvs)
  obtain name pools where kv: "kv = (name, pools)" by fastforce
  with Cons.prems(1) obtain w1 where d: "deleteDups ctl (tl pools) w = (Ret (), w1)"
    and rest: "deleteDupPool_from ctl kvs
      (case pools of [] \<Rightarrow> m | pool # _ \<Rightarrow> gput name pool m) w1 = (Ret m', w')"
    by (auto elim!: andThen_RetD)
  have notin: "map_of kvs name = None"
    using Cons.prems(2) kv by (auto simp: map_of_eq_None_iff)
  show ?case
    using Cons.IH [OF rest] Cons.prems(2) d kv notin
    by (auto simp: gomap_simps deleteDups_append andThen_Ret split: list.splits option.splits)
qed (simp add: io_simps)

text \<open>The pools kept are the first ones of their names, the others are deleted.\<close>

lemma getNameToPool_run:
  assumes run: "getNameToPool env y ctl w = (Ret nameToPool, w')"
  obtains pools w1 ds where "c_GetAllPools ctl y w = (Ret pools, w1)"
    and "\<And>name. gget nameToPool name = find (\<lambda>p. p_name p = name) pools"
    and "deleteDups ctl ds w1 = (Ret (), w')"
    and "\<And>p. p \<in> set ds \<longleftrightarrow> p \<in> set (tl (filter (\<lambda>q. p_name q = p_name p) pools))"
proof -
  from run obtain pools w1 where g: "c_GetAllPools ctl y w = (Ret pools, w1)"
    and d: "deleteDupPool ctl (classifyPoolByPoolName pools) w1 = (Ret nameToPool, w')"
    by (auto simp: getNameToPool_def io_simps elim!: andThen_RetD attempt_RetD)
  let ?c = "classifyPoolByPoolName pools"
  have ok: "distinct (map fst (entries ?c))"
    using gomap_ok_classify by (simp add: gomap_ok_def)
  from deleteDupPool_from_run [OF d [unfolded deleteDupPool_def] ok]
  have t: "deleteDups ctl (concat (map (tl \<circ> snd) (entries ?c))) w1 = (Ret (), w')"
    and m: "gget nameToPool k = (case gget ?c k of Some (p # ps) \<Rightarrow> Some p | _ \<Rightarrow> None)" for k
    by (auto simp: gget_def split: option.split list.split)
  have "gget nameToPool k = find (\<lambda>p. p_name p = k) pools" for k
    by (simp add: m gget_classify find_filter_hd split: list.split)
  moreover have "p \<in> set (concat (map (tl \<circ> snd) (entries ?c))) \<longleftrightarrow>
      p \<in> set (tl (filter (\<lambda>q. p_name q = p_name p) pools))" for p
  proof -
    have mem: "(k, ps) \<in> set (entries ?c) \<longleftrightarrow>
        ps \<noteq> [] \<and> ps = filter (\<lambda>q. p_name q = k) pools" for k ps
      using gget_Some_iff [OF gomap_ok_classify, of pools k ps]
      by (auto simp: gget_classify split: list.splits)
    have "p \<in> set (concat (map (tl \<circ> snd) (entries ?c))) \<longleftrightarrow>
        (\<exists>k ps. (k, ps) \<in> set (entries ?c) \<and> p \<in> set (tl ps))"
      by (simp add: Bex_def split_paired_Ex)
    also have "\<dots> \<longleftrightarrow> (\<exists>k. p \<in> set (tl (filter (\<lambda>q. p_name q = k) pools)))"
      unfolding mem by (metis list.sel(2) list.set(1) empty_iff)
    also have "\<dots> \<longleftrightarrow> p \<in> set (tl (filter (\<lambda>q. p_name q = p_name p) pools))"
    proof -
      have "k = p_name p" if "p \<in> set (tl (filter (\<lambda>q. p_name q = k) pools))" for k
        using list.set_sel(2) [of "filter (\<lambda>q. p_name q = k) pools" p] that
        by (cases "filter (\<lambda>q. p_name q = k) pools = []") auto
      then show ?thesis by blast
    qed
    finally show ?thesis .
  qed
  ultimately show thesis using that [OF g _ t] by blast
qed

text \<open>C15: of the pools that share a name the first is kept, all others are deleted; the result
  has exactly the names of the pools found, each bound to the first pool of that name.\<close>

theorem getNameToPool_unique:
  assumes tr: "traced env y tr" and ctl: "(t, ctl) \<in> set (ye_poolControls env)"
    and run: "getNameToPool env y ctl w = (Ret nameToPool, w')"
  shows "\<exists>pools w1 ds. c_GetAllPools ctl y w = (Ret pools, w1) \<and>
    (\<forall>name. gget nameToPool name = find (\<lambda>p. p_name p = name) pools) \<and>
    tr w' = tr w @ map (DeleteCall t) ds \<and>
    (\<forall>p. p \<in> set ds \<longleftrightarrow> p \<in> set (tl (filter (\<lambda>q. p_name q = p_name p) pools)))"
proof -
  from run obtain pools w1 ds where g: "c_GetAllPools ctl y w = (Ret pools, w1)"
    and rest: "\<And>name. gget nameToPool name = find (\<lambda>p. p_name p = name) pools"
      "deleteDups ctl ds w1 = (Ret (), w')"
      "\<And>p. p \<in> set ds \<longleftrightarrow> p \<in> set (tl (filter (\<lambda>q. p_name q = p_name p) pools))"
    by (rule getNameToPool_run) blast
  with deleteDups_trace [OF tr ctl rest(2)] tracedD(1) [OF tr ctl g] show ?thesis
    by (intro exI [of _ pools] exI [of _ w1] exI [of _ ds]) simp
qed


subsection \<open>The status that is written\<close>

lemma statusFold:
  "fold (\<lambda>(k, pool) s. s\<lparr>
       yt_poolReplicas := gput (p_name pool) (p_replicas pool) (yt_poolReplicas s),
       yt_replicas := yt_replicas s + p_replicas pool,
       yt_readyReplicas := yt_readyReplicas s + p_readyReplicas pool\<rparr>) kvs s =
   s\<lparr>yt_poolReplicas := putAll (map (\<lambda>(k, pool). (p_name pool, p_replicas pool)) kvs) (yt_poolReplicas s),
     yt_replicas := yt_replicas s + sum_list (map (\<lambda>(k, pool). p_replicas pool) kvs),
     yt_readyReplicas := yt_readyReplicas s + sum_list (map (\<lambda>(k, pool). p_readyReplicas pool) kvs)\<rparr>"
proof (induction kvs arbitrary: s)
  case (Cons kv kvs)
  obtain k pool where kv: "kv = (k, pool)" by fastforce
  show ?case by (cases s) (simp add: kv Cons.IH add.assoc)
qed simp

text \<open>C30: the status of a YurtAppSet whose control reports no failure: the replicas are the sums
  over its pools (as 32-bit integers), each pool is listed with its replicas, the current
  revision is set once and then kept, and the condition \<open>PoolFailure\<close> is gone while the others
  are as they were.\<close>

theorem calculateStatus_sums:
  assumes pools: "gomap_ok nameToPool" "\<And>name pool. gget nameToPool name = Some pool \<Longrightarrow> p_name pool = name"
    and fine: "\<And>pool. c_GetPoolFailure ctl pool = None"
  shows "\<exists>s. calculateStatus env y newStatus nameToPool cur cnt ctl w = (Ret s, w) \<and>
    yt_replicas s = sum_list (map (\<lambda>(k, pool). p_replicas pool) (entries nameToPool)) \<and>
    yt_readyReplicas s = sum_list (map (\<lambda>(k, pool). p_readyReplicas pool) (entries nameToPool)) \<and>
    (\<forall>name. gget (yt_poolReplicas s) name = map_option p_replicas (gget nameToPool name)) \<and>
    yt_collisionCount s = Some cnt \<and> yt_templateType s = getPoolTemplateType y \<and>
    yt_currentRevision s = (if yt_currentRevision newStatus = [] then m_name cur
      else yt_currentRevision newStatus) \<and>
    (\<forall>t. GetYurtAppSetCondition s t =
      (if t = PoolFailure then None else GetYurtAppSetCondition newStatus t))"
proof -
  have none: "firstFailure ctl nameToPool = None"
    by (simp add: firstFailure_def fine filter_empty_conv case_prod_beta split: list.split)
  have keys: "map (\<lambda>(k, pool). (p_name pool, p_replicas pool)) (entries nameToPool)
      = map (\<lambda>(k, pool). (k, p_replicas pool)) (entries nameToPool)"
    using pools by (auto simp: gget_Some_iff)
  have dist: "distinct (map fst (map (\<lambda>(k, pool). (k, p_replicas pool)) (entries nameToPool)))"
    using pools(1) by (simp add: gomap_ok_def comp_def case_prod_beta)
  have look: "gget (putAll (map (\<lambda>(k, pool). (k, p_replicas pool)) (entries nameToPool)) (Some [])) name
      = map_option p_replicas (gget nameToPool name)" for name
    by (simp add: gget_putAll [OF dist] map_of_map gomap_simps gget_def [of nameToPool]
        split: option.split)
  have cond: "GetYurtAppSetCondition (RemoveYurtAppSetCondition s PoolFailure) t =
      (if t = PoolFailure then None else find (\<lambda>c. cd_type c = t) (items (yt_conditions s)))" for s t
    by (simp add: GetYurtAppSetCondition_def RemoveYurtAppSetCondition_def find_filter_other)
  show ?thesis
    by (cases newStatus)
      (simp add: calculateStatus_def Let_def none ret_def statusFold keys look cond
        RemoveYurtAppSetCondition_def [of s PoolFailure for s] GetYurtAppSetCondition_def
        find_filter_other)
qed



subsection \<open>A settled YurtAppSet\<close>

lemma preserves_setConditionNow [preserves_intros]:
  "preserves P (setConditionNow env s ct cs reason msg)"
  by (simp add: preserves_def setConditionNow_eq)

lemma preserves_updateStatus:
  assumes upd: "\<And>obj. preserves P (yc_UpdateStatus env obj)"
    and get: "\<And>ns name. preserves P (yc_Get env ns name)"
  shows "preserves P (updateStatus env y newStatus oldStatus nameToPool cur cnt ctl)"
proof -
  have tries: "preserves P (updateStatus_tries k env obj s)" for k obj s
  proof (induction k arbitrary: obj)
    case (Suc k)
    show ?case
      unfolding updateStatus_tries.simps by (intro preserves_intros upd get Suc.IH)
  qed (simp add: upd)
  show ?thesis
    unfolding updateStatus_def updateYurtAppSet_def calculateStatus_def Let_def
    by (intro preserves_intros tries)
qed

text \<open>What the pools found have to look like: the names asked for, each once, with the replicas,
  the patch and the revision asked for.\<close>

definition pools_settled :: "'w control \<Rightarrow> yas \<Rightarrow> string \<Rightarrow> pool list \<Rightarrow> bool" where
  "pools_settled ctl y revision pools \<longleftrightarrow>
     distinct (map p_name pools) \<and> set (map p_name pools) = expectedPools y \<and>
     (\<forall>pool \<in> set pools. \<not> c_IsExpected ctl pool revision \<and>
        p_replicas pool = yp_replicas (patchesOf (GetNextPatches y) (p_name pool)) \<and>
        p_patchInfo pool = yp_patch (patchesOf (GetNextPatches y) (p_name pool)))"

lemma settled_needs_no_update:
  assumes "pools_settled ctl y revision pools" and "name \<in> expectedPools y"
    and "gget m name = find (\<lambda>p. p_name p = name) pools"
  shows "\<not> needsUpdate ctl m (GetNextPatches y) revision name"
proof -
  have "name \<in> p_name ` set pools" using assms(1,2) by (simp add: pools_settled_def)
  then obtain p where p: "find (\<lambda>p. p_name p = name) pools = Some p"
    by (cases "find (\<lambda>p. p_name p = name) pools") (auto simp: find_None_iff)
  then have "p \<in> set pools" "p_name p = name" by (auto simp: find_Some_iff)
  with p assms show ?thesis by (auto simp: needsUpdate_def Let_def pools_settled_def)
qed

lemma getNameToPool_distinct:
  assumes "distinct (map p_name pools)" and "c_GetAllPools ctl y w = (Ret pools, w')"
  obtains m where "getNameToPool env y ctl w = (Ret m, w')" and "gotPools m = set (map p_name pools)"
    and "\<And>name. gget m name = find (\<lambda>p. p_name p = name) pools"
proof -
  have single: "filter (\<lambda>p. p_name p = p_name q) pools = [q]" if "q \<in> set pools" for q
    using assms(1) that
  proof (induction pools)
    case (Cons a xs)
    then have "p_name a \<notin> p_name ` set xs" and "q \<in> set xs \<longrightarrow> p_name q \<in> p_name ` set xs"
      by simp_all
    moreover have "filter (\<lambda>p. p_name p = p_name a) xs = []"
      using calculation(1) by (metis (mono_tags, lifting) filter_False imageI)
    ultimately show ?case using Cons by (cases "a = q") auto
  qed simp
  let ?c = "classifyPoolByPoolName pools"
  have one: "\<exists>q. ps = [q] \<and> k = p_name q" if "(k, ps) \<in> set (entries ?c)" for k ps
  proof -
    have "gget ?c k = Some ps" using that gget_Some_iff [OF gomap_ok_classify] by blast
    then have ps: "filter (\<lambda>p. p_name p = k) pools = ps" "ps \<noteq> []"
      by (auto simp: gget_classify split: list.splits)
    then have q: "hd ps \<in> set (filter (\<lambda>p. p_name p = k) pools)" by simp
    then have "hd ps \<in> set pools" "p_name (hd ps) = k" by simp_all
    with single [of "hd ps"] ps(1) show ?thesis by auto
  qed
  have "deleteDupPool_from ctl kvs m w' = (Ret (fold (\<lambda>(k, ps). gput k (hd ps)) kvs m), w')"
    if "\<forall>(k, ps) \<in> set kvs. \<exists>q. ps = [q]" for kvs m
    using that by (induction kvs arbitrary: m) (auto simp: andThen_def ret_def)
  from this [of "entries ?c" "Some []"] one
  have d: "deleteDupPool ctl ?c w' = (Ret (fold (\<lambda>(k, ps). gput k (hd ps)) (entries ?c) (Some [])), w')"
    by (fastforce simp: deleteDupPool_def)
  let ?m = "putAll (map (\<lambda>(k, ps). (k, hd ps)) (entries ?c)) (Some [])"
  have m: "fold (\<lambda>(k, ps). gput k (hd ps)) kvs n = putAll (map (\<lambda>(k, ps). (k, hd ps)) kvs) n" for kvs n
    by (induction kvs arbitrary: n) auto
  have dist: "distinct (map fst (map (\<lambda>(k, ps). (k, hd ps)) (entries ?c)))"
    using gomap_ok_classify by (simp add: gomap_ok_def comp_def case_prod_beta)
  have look: "gget ?m name = find (\<lambda>p. p_name p = name) pools" for name
    by (simp add: gget_putAll [OF dist] map_of_map gomap_simps find_filter_hd
        gget_classify [unfolded gget_def] split: option.split list.split)
  have "gotPools ?m = {name. gget ?m name \<noteq> None}"
    by (auto simp: gotPools_def gget_None_iff image_iff)
  also have "\<dots> = set (map p_name pools)"
    by (auto simp: look find_None_iff image_iff)
  finally have "gotPools ?m = set (map p_name pools)" .
  moreover have "getNameToPool env y ctl w = (Ret ?m, w')"
    using assms(2) d m by (simp add: getNameToPool_def andThen_def attempt_def ret_def)
  ultimately show thesis using that look by blast
qed

text \<open>C8: reconciling a YurtAppSet whose pools are settled makes no change to any pool, whatever
  becomes of the update of its status.\<close>

theorem reconcilePools_quiet:
  assumes tr: "traced (yc_upd env) y tr" and ok: "batch_ok (yc_upd env)"
    and ctl: "getPoolControls (yc_upd env) y = Inr (Some ctl, t)"
    and got: "c_GetAllPools ctl y w = (Ret pools, w1)"
    and settled: "pools_settled ctl y (m_name updated) pools"
    and others: "\<And>t' c. (t', c) \<in> set (ye_poolControls (yc_upd env)) \<Longrightarrow> t' \<noteq> t \<Longrightarrow>
      c_GetAllPools c y w1 = (Ret [], w1)"
    and status: "\<And>obj u. tr (snd (yc_UpdateStatus env obj u)) = tr u"
      "\<And>ns name u. tr (snd (yc_Get env ns name u)) = tr u"
  shows "tr (snd (reconcilePools env y current updated cnt w)) = tr w"
proof -
  have known: "map_of (ye_poolControls (yc_upd env)) t = Some ctl"
    using ctl by (auto simp: getPoolControls_def split: if_splits)
  have w1: "tr w1 = tr w"
    using tracedD(1) [OF tr map_of_SomeD [OF known] got] .
  obtain m where m: "getNameToPool (yc_upd env) y ctl w = (Ret m, w1)"
    "gotPools m = set (map p_name pools)" "\<And>name. gget m name = find (\<lambda>p. p_name p = name) pools"
    using getNameToPool_distinct [OF _ got] settled by (auto simp: pools_settled_def)
  have "\<not> needsUpdate c m (GetNextPatches y) (m_name updated) name"
    if "map_of (ye_poolControls (yc_upd env)) t = Some c" and "name \<in> expectedPools y" for c name
    using settled_needs_no_update [OF settled that(2) m(3)] that(1) known by simp
  with m(2) settled known others
  obtain s w2 where pools: "managePools (yc_upd env) y m (GetNextPatches y) (m_name updated) t w1
      = (Ret (s, None), w2)" "tr w2 = tr w1"
    using managePools_quiet [OF tr ok, of m t "GetNextPatches y" "m_name updated" w1]
    by (auto simp: pools_settled_def)
  have "reconcilePools env y current updated cnt w =
      updateStatus env y s (yas_status y) m current cnt ctl w2"
    using ctl m(1) pools(1) by (simp add: reconcilePools_def Let_def andThen_def attempt_def ret_def)
  moreover have "preserves (\<lambda>u. tr u = tr w2) (updateStatus env y s (yas_status y) m current cnt ctl)"
    by (intro preserves_updateStatus) (simp_all add: preserves_def status)
  ultimately show ?thesis
    using pools(2) w1 by (simp add: preserves_def)
qed

end
