(* ===== verification/Traces.thy ===== *)
theory Traces
  imports K8s
begin

section \<open>Sequences of recorded calls\<close>

text \<open>
  \<open>records tr S m\<close>: the calls \<open>m\<close> makes, as the view \<open>tr\<close> of the world records them, are the
  beginning of a list in \<open>S\<close>, and all of it if \<open>m\<close> returns. The rules follow the structure of code
  that stops at the first error.
\<close>

definition records :: "('w \<Rightarrow> 'l list) \<Rightarrow> ('l list \<Rightarrow> bool) \<Rightarrow> ('w, 'a) io \<Rightarrow> bool" where
  "records tr S m \<longleftrightarrow> (\<forall>w. \<exists>ss n. S ss \<and> tr (snd (m w)) = tr w @ take n ss \<and>
     ((\<exists>x. fst (m w) = Ret x) \<longrightarrow> n = length ss))"

lemma recordsI:
  "(\<And>w r w'. m w = (r, w') \<Longrightarrow> \<exists>ss n. S ss \<and> tr w' = tr w @ take n ss \<and> ((\<exists>x. r = Ret x) \<longrightarrow> n = length ss)) \<Longrightarrow>
   records tr S m"
  unfolding records_def by (metis prod.collapse)

lemma recordsE:
  assumes "records tr S m" and "m w = (r, w')"
  obtains ss n where "S ss" and "tr w' = tr w @ take n ss" and "\<And>x. r = Ret x \<Longrightarrow> n = length ss"
  using assms unfolding records_def by (metis fst_conv snd_conv)

lemma records_weaken: "records tr S m \<Longrightarrow> (\<And>ss. S ss \<Longrightarrow> T ss) \<Longrightarrow> records tr T m"
  by (fastforce simp: records_def)

lemma records_nothing: "(\<And>w. tr (snd (m w)) = tr w) \<Longrightarrow> records tr ((=) []) m"
  by (auto simp: records_def)

lemma records_basic: "records tr ((=) []) (ret x)" "records tr ((=) []) (fail e)"
  by (simp_all add: records_nothing io_basic)

lemma records_call: "(\<And>w. tr (snd (m w)) = tr w @ [s]) \<Longrightarrow> records tr ((=) [s]) m"
  unfolding records_def by (intro allI exI [of _ "[s]"] exI [of _ 1]) simp

text \<open>One after the other: an operation that was not reached has made none of its calls.\<close>

definition followed :: "('l list \<Rightarrow> bool) \<Rightarrow> ('l list \<Rightarrow> bool) \<Rightarrow> 'l list \<Rightarrow> bool" where
  "followed S T ss \<longleftrightarrow> (\<exists>s t. ss = s @ t \<and> S s \<and> T t)"

lemma followed_eq [simp]: "followed ((=) s) ((=) t) = (=) (s @ t)"
  by (auto simp: followed_def fun_eq_iff)

lemma records_andThen:
  assumes m: "records tr S m" and k: "\<And>x. records tr T (k x)"
  shows "records tr (followed S T) (andThen m k)"
proof (rule recordsI)
  fix w r w' assume run: "andThen m k w = (r, w')"
  obtain q u where q: "m w = (q, u)" by fastforce
  from m q obtain ss n where ss: "S ss" "tr u = tr w @ take n ss" "\<And>x. q = Ret x \<Longrightarrow> n = length ss"
    by (rule recordsE) blast
  show "\<exists>ss n. followed S T ss \<and> tr w' = tr w @ take n ss \<and> ((\<exists>x. r = Ret x) \<longrightarrow> n = length ss)"
  proof (cases q)
    case (Ret x)
    with run q have "k x u = (r, w')" by (simp add: andThen_def)
    with k obtain ts j where "T ts" "tr w' = tr u @ take j ts" "\<And>y. r = Ret y \<Longrightarrow> j = length ts"
      by (rule recordsE) blast
    with ss Ret show ?thesis
      by (intro exI [of _ "ss @ ts"] exI [of _ "length ss + j"]) (auto simp: followed_def)
  next
    case (Err e)
    obtain ts where "T ts" using k unfolding records_def by blast
    with ss run q Err show ?thesis
      by (intro exI [of _ "ss @ ts"] exI [of _ "min n (length ss)"]) (auto simp: followed_def andThen_def min_def)
  next
    case (Panic p)
    obtain ts where "T ts" using k unfolding records_def by blast
    with ss run q Panic show ?thesis
      by (intro exI [of _ "ss @ ts"] exI [of _ "min n (length ss)"]) (auto simp: followed_def andThen_def min_def)
  qed
qed

lemma records_attempt:
  assumes "records tr S m"
  shows "records tr (\<lambda>ss. \<exists>full n. S full \<and> ss = take n full) (attempt m)"
proof (rule recordsI)
  fix w r w' assume run: "attempt m w = (r, w')"
  obtain q u where q: "m w = (q, u)" by fastforce
  from assms q obtain ss n where "S ss" "tr u = tr w @ take n ss"
    by (rule recordsE) blast
  moreover have "u = w'" using run q by (cases q) (auto simp: attempt_def)
  moreover have "take n ss = take (length (take n ss)) (take n ss)" by (rule take_all [symmetric]) simp
  ultimately show "\<exists>ss n. (\<exists>full n. S full \<and> ss = take n full) \<and> tr w' = tr w @ take n ss \<and>
      ((\<exists>x. r = Ret x) \<longrightarrow> n = length ss)"
    by (intro exI [of _ "take n ss"] exI [of _ "length (take n ss)"]) (auto simp del: length_take take_take)
qed

lemma records_forEach:
  assumes "\<And>x. records tr ((=) (g x)) (f x)"
  shows "records tr ((=) (concat (map g xs))) (forEach f xs)"
proof (induction xs)
  case (Cons x xs)
  show ?case
    using records_andThen [OF assms [of x] Cons] by simp
qed (simp add: records_basic)

text \<open>A loop each of whose rounds has calls of its own\<close>

lemma records_forEach_rounds:
  "list_all2 (\<lambda>p x. records tr (S p) (f x)) ps xs \<Longrightarrow>
   records tr (\<lambda>ss. \<exists>parts. ss = concat parts \<and> list_all2 S ps parts) (forEach f xs)"
proof (induction ps xs rule: list_all2_induct)
  case Nil
  then show ?case by (auto intro: records_weaken [OF records_basic(1)])
next
  case (Cons p ps x xs)
  then have "records tr (followed (S p) (\<lambda>ss. \<exists>parts. ss = concat parts \<and> list_all2 S ps parts))
      (andThen (f x) (\<lambda>_. forEach f xs))"
    by (intro records_andThen) simp_all
  then show ?case
    unfolding forEach.simps
  proof (rule records_weaken)
    fix ss assume "followed (S p) (\<lambda>ss. \<exists>parts. ss = concat parts \<and> list_all2 S ps parts) ss"
    then obtain s parts where "ss = s @ concat parts" "S p s" "list_all2 S ps parts"
      by (auto simp: followed_def)
    then show "\<exists>parts. ss = concat parts \<and> list_all2 S (p # ps) parts"
      by (intro exI [of _ "s # parts"]) simp
  qed
qed

text \<open>An operation whose error is replaced by another, or by a return\<close>

lemma records_rethrow:
  assumes "records tr S m"
  shows "records tr S (andThen (attempt m) (\<lambda>r. case r of Inl e \<Rightarrow> fail (g e) | Inr x \<Rightarrow> ret (h x)))"
proof (rule recordsI)
  fix w r w'
  assume run: "andThen (attempt m) (\<lambda>r. case r of Inl e \<Rightarrow> fail (g e) | Inr x \<Rightarrow> ret (h x)) w = (r, w')"
  obtain q u where q: "m w = (q, u)" by fastforce
  from assms q obtain ss n where ss: "S ss" "tr u = tr w @ take n ss" "\<And>x. q = Ret x \<Longrightarrow> n = length ss"
    by (rule recordsE) blast
  have "u = w'" "(\<exists>x. r = Ret x) \<longrightarrow> (\<exists>x. q = Ret x)"
    using run q by (cases q; auto simp: andThen_def attempt_def ret_def fail_def)+
  with ss show "\<exists>ss n. S ss \<and> tr w' = tr w @ take n ss \<and> ((\<exists>x. r = Ret x) \<longrightarrow> n = length ss)"
    by blast
qed

lemma records_caught:
  assumes "records tr S m" and "\<And>r. records tr ((=) []) (k r)"
  shows "records tr (\<lambda>ss. \<exists>full n. S full \<and> ss = take n full) (andThen (attempt m) k)"
  by (rule records_weaken [OF records_andThen [OF records_attempt [OF assms(1)] assms(2)]])
    (auto simp: followed_def)

end
