(* ===== verification/YAS_Pods.thy ===== *)
theory YAS_Pods
  imports YAS_Conditions Ref_Manager Traces
begin

section \<open>Pods of a stateful set\<close>

text \<open>
  \<open>controller/util/statefulset_utils.go\<close> reads the ordinal of a pod out of its name;
  \<open>statefulset_adapter.go\<close> deletes the pods that block a rolling update. Outside the repository
  (the record \<open>pods_env\<close>): the API server, \<open>IsPodReadyConditionTrue\<close>, which reads the status of
  a pod (a text here), and what the reference manager asks for.

  \<open>deleteStuckPods\<close> is called by nothing in the repository.
\<close>

record pod = object_meta +
  pd_status :: string

record stateful_set = object_meta +
  sts_spec :: stateful_set_spec

record 'w pods_env =
  pe_rm :: "('w, unit pod_ext) rm_env"
  pe_List :: "(string gomap \<Rightarrow> bool) \<Rightarrow> ('w, pod list) io"
  pe_Delete :: "pod \<Rightarrow> ('w, unit) io"
  pe_IsPodReadyConditionTrue :: "string \<Rightarrow> bool"

subsection \<open>The ordinal of a pod\<close>

definition isDigit :: "char \<Rightarrow> bool" where
  "isDigit c \<longleftrightarrow> 48 \<le> (of_char c :: int) \<and> (of_char c :: int) \<le> 57"

text \<open>\<open>FindStringSubmatch\<close> of \<open>(.*)-([0-9]+)$\<close>: the digits at the end, the last dash before them,
  and what is before it on the same line, which is as far as \<open>.*\<close> reaches back.\<close>

definition matchStatefulPod :: "string \<Rightarrow> (string \<times> string) option" where
  "matchStatefulPod name =
     (let digits = takeWhile isDigit (rev name) in
      case dropWhile isDigit (rev name) of
        [] \<Rightarrow> None
      | c # before \<Rightarrow>
          (if digits \<noteq> [] \<and> c = CHR ''-''
           then Some (rev (takeWhile (\<lambda>c. c \<noteq> CHR 0x0A) before), rev digits) else None))"

text \<open>\<open>strconv.ParseInt(s, 10, 32)\<close> of digits: an error from \<open>2\<^sup>3\<^sup>1\<close> on\<close>

definition digitsValue :: "string \<Rightarrow> int" where
  "digitsValue s = fold (\<lambda>c n. 10 * n + (of_char c - 48)) s 0"

definition ParseInt32 :: "string \<Rightarrow> int32 option" where
  "ParseInt32 s = (if digitsValue s < 2147483648 then Some (of_int (digitsValue s)) else None)"

definition getParentNameAndOrdinal :: "'a object_meta_scheme \<Rightarrow> string \<times> int32" where
  "getParentNameAndOrdinal pod =
     (case matchStatefulPod (m_name pod) of
        None \<Rightarrow> ([], - 1)
      | Some (parent, digits) \<Rightarrow>
          (parent, case ParseInt32 digits of None \<Rightarrow> - 1 | Some i \<Rightarrow> i))"

definition GetOrdinal :: "'a object_meta_scheme \<Rightarrow> int32" where
  "GetOrdinal pod = snd (getParentNameAndOrdinal pod)"

subsection \<open>Stuck pods\<close>

definition getStatefulSetPods :: "'w pods_env \<Rightarrow> stateful_set \<Rightarrow> ('w, pod list) io" where
  "getStatefulSetPods env sset =
     (case rm_AsSelector (pe_rm env) (ss_selector (sts_spec sset)) of
        Inl e \<Rightarrow> fail e
      | Inr selector \<Rightarrow>
          andThen (pe_List env selector) (\<lambda>pods.
          (case RefManager_New (pe_rm env) (ss_selector (sts_spec sset)) (object_meta.truncate sset) True of
             Inl e \<Rightarrow> fail e
           | Inr manager \<Rightarrow>
               andThen (ClaimOwnedObjects (pe_rm env) manager pods []) (\<lambda>(claimed, err).
                 case err of Some e \<Rightarrow> fail e | None \<Rightarrow> ret claimed))))"

definition isPodStuckForRollingUpdate :: "'w pods_env \<Rightarrow> pod \<Rightarrow> string \<Rightarrow> int32 \<Rightarrow> bool" where
  "isPodStuckForRollingUpdate env pod revision part =
     (if sint (GetOrdinal pod) < sint part then False
      else if getRevision pod = revision then False
      else \<not> pe_IsPodReadyConditionTrue env (pd_status pod))"

definition deleteStuckPods :: "'w pods_env \<Rightarrow> stateful_set \<Rightarrow> string \<Rightarrow> int32 \<Rightarrow> ('w, unit) io" where
  "deleteStuckPods env sset revision part =
     andThen (getStatefulSetPods env sset) (\<lambda>pods.
       forEach (\<lambda>pod. if isPodStuckForRollingUpdate env pod revision part
         then pe_Delete env pod else ret ()) pods)"

subsection \<open>Reading the name of a pod\<close>

lemma digit_code: "m < 10 \<Longrightarrow> (of_char (char_of (48 + m)) :: int) = 48 + int m" for m :: nat
proof -
  assume "m < 10"
  then have "(of_char (char_of (48 + m)) :: nat) = 48 + m" by simp
  then have "int (of_char (char_of (48 + m))) = 48 + int m" by presburger
  then show ?thesis by (simp only: of_nat_of_char)
qed

lemma isDigit_char_of: "m < 10 \<Longrightarrow> isDigit (char_of (48 + m))" for m :: nat
  by (simp add: isDigit_def digit_code)

lemma decimal_nat_digits: "list_all isDigit (decimal_nat n)" and decimal_nat_not_nil: "decimal_nat n \<noteq> []"
proof (induction n rule: decimal_nat.induct)
  case (1 n)
  {
    case 1
    show ?case
      using "1.IH" by (subst decimal_nat.simps) (auto simp: isDigit_char_of)
  next
    case 2
    show ?case by (subst decimal_nat.simps) simp
  }
qed

lemma digitsValue_decimal: "digitsValue (decimal_nat n) = int n"
proof (induction n rule: decimal_nat.induct)
  case (1 n)
  moreover have "10 * int (n div 10) + int (n mod 10) = int n" by presburger
  ultimately show ?case
    by (subst decimal_nat.simps) (auto simp: digitsValue_def digit_code)
qed

lemma takeWhile_all: "list_all P xs \<Longrightarrow> takeWhile P (xs @ ys) = xs @ takeWhile P ys"
  by (induction xs) auto

lemma dropWhile_all: "list_all P xs \<Longrightarrow> dropWhile P (xs @ ys) = dropWhile P ys"
  by (induction xs) auto

text \<open>C24: the name a stateful set gives to its pod number \<open>i\<close> is read back as the name of the set
  and \<open>i\<close>, for every number an \<open>int32\<close> holds; a number beyond, or a name of another form,
  has the ordinal -1.\<close>

theorem getParentNameAndOrdinal_pod:
  assumes "CHR 0x0A \<notin> set parent" and "0 \<le> i" and "m_name pod = parent @ ''-'' @ decimal i"
  shows "getParentNameAndOrdinal pod =
    (parent, if i < 2147483648 then of_int i else - 1) \<and>
    sint (GetOrdinal pod) = (if i < 2147483648 then i else - 1)"
proof -
  let ?d = "decimal_nat (nat i)"
  have digits: "list_all isDigit (rev ?d)" "rev ?d \<noteq> []"
    using decimal_nat_digits [of "nat i"] decimal_nat_not_nil [of "nat i"] by simp_all
  have dash: "\<not> isDigit (CHR ''-'')" by (simp add: isDigit_def)
  have line: "takeWhile (\<lambda>c. c \<noteq> CHR 0x0A) (rev parent) = rev parent"
    using assms(1) by (intro takeWhile_eq_all_conv [THEN iffD2]) auto
  have "matchStatefulPod (m_name pod) = Some (parent, ?d)"
    using assms(2,3) digits dash
    by (simp only: matchStatefulPod_def decimal_def rev_append append_assoc)
      (simp add: takeWhile_all dropWhile_all line)
  then have both: "getParentNameAndOrdinal pod = (parent, if i < 2147483648 then of_int i else - 1)"
    using assms(2) by (auto simp: getParentNameAndOrdinal_def ParseInt32_def digitsValue_decimal)
  moreover have "sint (of_int i :: int32) = i" if "i < 2147483648"
    using that assms(2) by (simp add: signed_of_int signed_take_bit_int_eq_self)
  ultimately show ?thesis by (simp add: GetOrdinal_def)
qed

subsection \<open>Which pods are deleted\<close>

text \<open>C25: of the pods that are claimed, those at or above the partition that show another revision and
  are not ready are deleted, in their order, each once, and no other; an error stops the
  loop after the pod it was for.\<close>

theorem deleteStuckPods_deletes:
  assumes log: "\<And>pod u r u'. pe_Delete env pod u = (r, u') \<Longrightarrow> tr u' = tr u @ [m_name pod]"
    and quiet: "\<And>sel. preserves (\<lambda>u. tr u = tr w) (pe_List env sel)"
      "\<And>ns name. preserves (\<lambda>u. tr u = tr w) (rm_GetOwner (pe_rm env) ns name)"
      "\<And>pod. preserves (\<lambda>u. tr u = tr w) (rm_Update (pe_rm env) pod)"
    and run: "deleteStuckPods env sset revision part w = (r, w')"
  shows "case getStatefulSetPods env sset w of
      (Ret pods, w1) \<Rightarrow> (let stuck = filter (\<lambda>pod. sint part \<le> sint (GetOrdinal pod) \<and>
          getRevision pod \<noteq> revision \<and> \<not> pe_IsPodReadyConditionTrue env (pd_status pod)) pods
        in \<exists>n. tr w' = tr w @ map m_name (take n stuck) \<and> (r = Ret () \<longrightarrow> n = length stuck))
    | (_, w1) \<Rightarrow> tr w' = tr w \<and> r \<noteq> Ret ()"
proof -
  let ?P = "\<lambda>u. tr u = tr w"
  have "preserves ?P (ClaimOwnedObjects (pe_rm env) mgr pods [])" for mgr pods
  proof (rule preservesI)
    fix u assume u: "?P u"
    have "preserves (\<lambda>s. ?P (fst s)) (claimAll (pe_rm env) mgr (matchObject mgr []) pods)"
      by (rule preserves_claimAll [OF quiet(2,3) subset_refl])
    from preservesD [OF this, of "(u, None)"] u
    have "?P (fst (snd (claimAll (pe_rm env) mgr (matchObject mgr []) pods (u, None))))" by simp
    then show "?P (snd (ClaimOwnedObjects (pe_rm env) mgr pods [] u))"
      by (auto simp: ClaimOwnedObjects_def split: prod.splits outcome.splits)
  qed
  then have "preserves ?P (getStatefulSetPods env sset)"
    unfolding getStatefulSetPods_def by (intro preserves_intros quiet)
  then have w1: "tr (snd (getStatefulSetPods env sset w)) = tr w"
    by (rule preservesD) simp
  have stuck: "isPodStuckForRollingUpdate env pod revision part \<longleftrightarrow> sint part \<le> sint (GetOrdinal pod) \<and>
      getRevision pod \<noteq> revision \<and> \<not> pe_IsPodReadyConditionTrue env (pd_status pod)" for pod
    by (auto simp: isPodStuckForRollingUpdate_def)
  let ?stuck = "\<lambda>pod. isPodStuckForRollingUpdate env pod revision part"
  have "records tr ((=) (if ?stuck pod then [m_name pod] else []))
      (if ?stuck pod then pe_Delete env pod else ret ())" for pod
    using log [of pod] by (auto intro!: records_call records_basic) (metis prod.collapse)
  note deleted = records_forEach [OF this]
  show ?thesis
  proof (cases "getStatefulSetPods env sset w")
    case (Pair q w1)
    show ?thesis
    proof (cases q)
      case (Ret pods)
      with run Pair have "forEach (\<lambda>pod. if isPodStuckForRollingUpdate env pod revision part
          then pe_Delete env pod else ret ()) pods w1 = (r, w')"
        by (simp add: deleteStuckPods_def andThen_def)
      with deleted obtain ss n where ss: "concat (map (\<lambda>pod. if ?stuck pod then [m_name pod] else []) pods) = ss"
        "tr w' = tr w1 @ take n ss" "\<And>x. r = Ret x \<Longrightarrow> n = length ss"
        by (rule recordsE) blast
      have "concat (map (\<lambda>pod. if ?stuck pod then [m_name pod] else []) pods) =
          map m_name (filter ?stuck pods)"
        by (induction pods) simp_all
      with ss have "tr w' = tr w1 @ take n (map m_name (filter ?stuck pods))"
        "\<And>x. r = Ret x \<Longrightarrow> n = length (filter ?stuck pods)" by auto
      with w1 Pair Ret show ?thesis
        by (auto simp: stuck Let_def take_map)
    qed (use run w1 Pair in \<open>auto simp: deleteStuckPods_def andThen_def\<close>)
  qed
qed

end
