(* ===== verification/YAS_Examples.thy ===== *)
theory YAS_Examples
  imports YAS_Controller YAS_Pods
begin

section \<open>YurtAppSet: a concrete cluster\<close>

text \<open>
  A server in memory on which the properties of the YurtAppSet are applied: the stored workloads
  and revisions, with every write of a pool recorded by \<open>logged\<close>. A YurtAppSet with the pools
  \<open>hangzhou\<close> and \<open>beijing\<close> replaces one that had \<open>hangzhou\<close> and \<open>shanghai\<close>.
\<close>

subsection \<open>Recording the calls of a control\<close>

definition on_snd :: "('w, 'a) io \<Rightarrow> ('l \<times> 'w, 'a) io" where
  "on_snd m lw = (case m (snd lw) of (r, w) \<Rightarrow> (r, (fst lw, w)))"

definition log :: "'c \<Rightarrow> ('w, 'a) io \<Rightarrow> ('c list \<times> 'w, 'a) io" where
  "log c m lw = (case m (snd lw) of (r, w) \<Rightarrow> (r, (fst lw @ [c], w)))"

definition logged :: "template_type \<Rightarrow> 'w control \<Rightarrow> (pool_call list \<times> 'w) control" where
  "logged t c = \<lparr>
     c_GetAllPools = (\<lambda>y. on_snd (c_GetAllPools c y)),
     c_CreatePool = (\<lambda>y p r n. log (CreateCall t p r n) (c_CreatePool c y p r n)),
     c_UpdatePool = (\<lambda>pool y r n. log (UpdateCall t pool r n) (c_UpdatePool c pool y r n)),
     c_DeletePool = (\<lambda>pool. log (DeleteCall t pool) (c_DeletePool c pool)),
     c_GetPoolFailure = c_GetPoolFailure c,
     c_IsExpected = c_IsExpected c\<rparr>"

definition logged_env :: "(template_type \<times> 'w control) list \<Rightarrow> (pool_call list \<times> 'w) yas_env" where
  "logged_env ctls = \<lparr>
     rt_sched = rev,
     rt_Event = (\<lambda>reason message w. w),
     rt_Now = (\<lambda>w. ''now''),
     rt_NewAggregate = (\<lambda>es. case es of [] \<Rightarrow> None | e # _ \<Rightarrow> Some e),
     ye_poolControls = map (\<lambda>(t, c). (t, logged t c)) ctls\<rparr>"

lemma traced_logged: "traced (logged_env ctls) y fst"
  by (auto simp: traced_def logged_env_def logged_def on_snd_def log_def split: prod.split)

lemma batch_ok_logged: "batch_ok (logged_env ctls)"
  by (auto simp: batch_ok_def logged_env_def split: list.splits)

subsection \<open>The server\<close>

definition demo_ad :: ad_env where
  "demo_ad = \<lparr>
     ae_NameIsDNSSubdomain = (\<lambda>name prefix. []),
     ae_SetControllerReference = (\<lambda>y obj. Inr (obj\<lparr>m_owners :=
       Some [(demo_ref (m_uid y))]\<rparr>)),
     ae_UnmarshalPatch = Inr, ae_ToUnstructured = (\<lambda>obj. Inr []),
     ae_StrategicMergeMapPatch = (\<lambda>a b. Inr b), ae_FromUnstructured = (\<lambda>m obj. Inr obj)\<rparr>"

definition demo_selects :: "label_selector option \<Rightarrow> string gomap \<Rightarrow> bool" where
  "demo_selects sel ls =
     (case sel of None \<Rightarrow> False
      | Some s \<Rightarrow> list_all (\<lambda>(k, v). gget ls k = Some v) (entries (ls_matchLabels s)))"

definition demo_rm :: "('w, 'a) rm_env" where
  "demo_rm = \<lparr>
     rm_AsSelector = (\<lambda>sel. Inr (demo_selects sel)), rm_NewOwner = None,
     rm_GetOwner = (\<lambda>ns name w. (Ret demo_owner, w)),
     rm_Update = (\<lambda>obj w. (Ret obj, w)),
     rm_SetControllerReference = (\<lambda>own obj. Inr (obj\<lparr>m_owners :=
       Some (items (m_owners obj) @ [demo_ref (m_uid own)])\<rparr>)),
     rm_GetControllerOf = (\<lambda>obj. find (\<lambda>r. or_controller r = Some True) (items (m_owners obj))),
     rm_NewAggregate = (\<lambda>es. case es of [] \<Rightarrow> None | e # _ \<Rightarrow> Some e)\<rparr>"

definition demo_pc :: "workload list pc_env" where
  "demo_pc = \<lparr>
     pce_ad = demo_ad, pce_rm = demo_rm,
     pce_List = (\<lambda>kind sel w. (Ret (filter (\<lambda>wl. kind wl \<and> sel (m_labels wl)) w), w)),
     pce_Get = (\<lambda>kind ns name w.
       (case find (\<lambda>wl. kind wl \<and> m_namespace wl = ns \<and> m_name wl = name) w of
          None \<Rightarrow> Err (StatusErr NotFound name) | Some wl \<Rightarrow> Ret wl, w)),
     pce_Create = (\<lambda>wl w. let wl' = wl\<lparr>m_name := m_generateName wl @ ''x''\<rparr> in (Ret wl', w @ [wl'])),
     pce_Update = (\<lambda>wl w. (Ret wl, map (\<lambda>v. if m_name v = m_name wl then wl else v) w)),
     pce_Delete = (\<lambda>wl w. (Ret (), filter (\<lambda>v. m_name v \<noteq> m_name wl) w))\<rparr>"

abbreviation demo_ctls :: "(template_type \<times> workload list control) list" where
  "demo_ctls \<equiv> newReconciler_controls demo_pc"

abbreviation demo_env :: "(pool_call list \<times> workload list) yas_env" where
  "demo_env \<equiv> logged_env demo_ctls"

subsection \<open>The YurtAppSet\<close>

definition demo_selector :: label_selector where
  "demo_selector = \<lparr>ls_matchLabels = Some [(''app'', ''web'')], ls_matchExpressions = None\<rparr>"

definition demo_pool :: "string \<Rightarrow> int32 \<Rightarrow> pool_config" where
  "demo_pool name n = \<lparr>pc_name = name,
     pc_nodeSelectorTerm = \<lparr>nt_matchExpressions = Some [\<lparr>lr_key = LabelCurrentNodePool,
       lr_operator = ''In'', lr_values = Some [name]\<rparr>], nt_matchFields = None\<rparr>,
     pc_tolerations = None, pc_replicas = Some n, pc_patch = None\<rparr>"

definition demo_yas :: "(string \<times> int32) list \<Rightarrow> yas" where
  "demo_yas pools = object_meta.extend
     (demo_owner\<lparr>m_generation := 2\<rparr>)
     \<lparr>yas_spec = \<lparr>ys_selector = Some demo_selector,
        ys_template = \<lparr>wt_statefulSet = None, wt_deployment = Some (object_meta.extend
          (empty_meta\<lparr>m_labels := Some [(''app'', ''web'')]\<rparr>) \<lparr>dt_spec = empty_deployment_spec\<rparr>)\<rparr>,
        ys_pools = Some (map (\<lambda>(name, n). demo_pool name n) pools),
        ys_revisionHistoryLimit = Some 2\<rparr>,
      yas_status = \<lparr>yt_observedGeneration = 1, yt_collisionCount = None,
        yt_currentRevision = ''web-1'', yt_conditions = None, yt_poolReplicas = None,
        yt_readyReplicas = 0, yt_replicas = 0, yt_templateType = DeploymentTemplateType\<rparr>\<rparr>"

definition old_yas :: yas where
  "old_yas = demo_yas [(''hangzhou'', 2), (''shanghai'', 1)]"

definition new_yas :: yas where
  "new_yas = demo_yas [(''hangzhou'', 2), (''beijing'', 3)]"

text \<open>The stored deployment of a pool\<close>

definition demo_wl :: "yas \<Rightarrow> string \<Rightarrow> string \<Rightarrow> int32 \<Rightarrow> workload" where
  "demo_wl y p r n = (snd (Deployment_ApplyPoolTemplate demo_ad y p r n emptyDeployment))
     \<lparr>m_name := ''web-'' @ p @ ''-x''\<rparr>"

definition demo_stored :: "workload list" where
  "demo_stored = [demo_wl old_yas ''hangzhou'' ''web-1'' 2, demo_wl old_yas ''shanghai'' ''web-1'' 1]"

definition demo_got :: "yas \<Rightarrow> workload list \<Rightarrow> pool gomap" where
  "demo_got y stored = (case getNameToPool demo_env y
     (logged DeploymentTemplateType (PoolControl demo_pc (DeploymentAdapter demo_ad))) ([], stored)
     of (Ret m, w) \<Rightarrow> m | _ \<Rightarrow> None)"

lemma owners_only_demo: "owners_only demo_ad"
  by (simp add: owners_only_def demo_ad_def)

subsection \<open>The properties applied\<close>


text \<open>The server of the revisions: what was deleted and what is stored.\<close>

definition demo_rev :: "(string list \<times> controller_revision list) rev_env" where
  "demo_rev = \<lparr>
     re_rm = demo_rm,
     re_List = (\<lambda>sel w. (Ret (filter (\<lambda>r. sel (m_labels r)) (snd w)), w)),
     re_Get = (\<lambda>ns name w. (case find (\<lambda>r. m_name r = name) (snd w) of
        None \<Rightarrow> Err (StatusErr NotFound name) | Some r \<Rightarrow> Ret r, w)),
     re_Create = (\<lambda>cr w. if find (\<lambda>r. m_name r = m_name cr) (snd w) \<noteq> None
        then (Err (StatusErr AlreadyExists (m_name cr)), w)
        else (Ret cr, (fst w, snd w @ [cr]))),
     re_Update = (\<lambda>cr w.
       (Ret cr, (fst w, map (\<lambda>r. if m_name r = m_name cr then cr else r) (snd w)))),
     re_Delete = (\<lambda>cr w.
       (Ret (), (fst w @ [m_name cr], filter (\<lambda>r. m_name r \<noteq> m_name cr) (snd w)))),
     re_MarshalTemplate = (\<lambda>t. Inr ''template''),
     re_GVKForObject = Inr,
     re_Sort = (\<lambda>rs. rs),
     re_EqualRevision = (\<lambda>a b. cr_data a = cr_data b),
     re_NewControllerRevision = (\<lambda>m gvk ls patch n c. Inr (object_meta.extend
       (empty_meta\<lparr>m_labels := ls\<rparr>) \<lparr>cr_data = patch, cr_revision = n\<rparr>)),
     re_Hash = (\<lambda>cr c. if c = 0 then ''0'' else if c = 1 then ''1'' else ''2''),
     re_RevisionName = (\<lambda>name hash. name @ ''-'' @ hash)\<rparr>"

definition demo_cr :: "string \<Rightarrow> string \<Rightarrow> int64 \<Rightarrow> controller_revision" where
  "demo_cr name data n = object_meta.extend
     (empty_meta\<lparr>m_name := name, m_labels := Some [(''app'', ''web'')]\<rparr>)
     \<lparr>cr_data = data, cr_revision = n\<rparr>"

text \<open>Four old revisions, the second one current.\<close>

definition demo_crs :: "controller_revision list" where
  "demo_crs = [demo_cr ''web-0'' ''old'' 1, demo_cr ''web-1'' ''older'' 2,
     demo_cr ''web-a'' ''a'' 3, demo_cr ''web-b'' ''b'' 4]"

lemma revision_store_demo: "revision_store demo_rev y snd"
  by (auto simp: revision_store_def demo_rev_def)

lemma history_ok_demo: "history_ok demo_rev"
  by (auto simp: history_ok_def demo_rev_def object_meta.defs split: if_splits)

theorem createControllerRevision_returns_witness:
  "\<exists>created w'. createControllerRevision 3 demo_rev new_yas (demo_cr [] ''template'' 5) 0 ([], demo_crs)
      = (Ret (Some (Inr created, 2)), w') \<and> m_name created = ''web-2'' \<and>
    created \<in> set (snd w')"
proof -
  let ?cr = "demo_cr [] ''template'' 5"
  have "name_taken demo_rev new_yas ?cr (snd ([] :: string list, demo_crs)) (0 + of_nat i)"
    if "i < 2" for i
  proof -
    have "i = 0 \<or> i = 1" using that by auto
    moreover have "name_taken demo_rev new_yas ?cr demo_crs 0" "name_taken demo_rev new_yas ?cr demo_crs 1"
      by code_simp+
    ultimately show ?thesis by auto
  qed
  moreover have "\<not> name_taken demo_rev new_yas ?cr (snd ([] :: string list, demo_crs)) (0 + of_nat 2)"
    by code_simp
  moreover have "revisionName demo_rev new_yas ?cr (0 + of_nat 2) = ''web-2''" by code_simp
  ultimately show ?thesis
    using createControllerRevision_returns [OF revision_store_demo, of 2 new_yas ?cr "([], demo_crs)" 0 3]
    by auto
qed

theorem cleanExpiredRevision_cuts_witness:
  "\<exists>kept w'. cleanExpiredRevision demo_rev new_yas demo_crs ([], demo_crs) = (Ret kept, w') \<and>
    map m_name kept = [''web-a'', ''web-b''] \<and> fst w' = [''web-0'']"
proof -
  let ?run = "cleanExpiredRevision demo_rev new_yas demo_crs ([], demo_crs)"
  have "(case fst ?run of Ret kept \<Rightarrow> True | _ \<Rightarrow> False)" by code_simp
  then obtain kept w' where run: "?run = (Ret kept, w')"
    by (cases ?run) (auto split: outcome.splits)
  have del: "re_Delete demo_rev cr u = (Ret (), u') \<Longrightarrow> fst u' = fst u @ [m_name cr]" for cr u u'
    by (auto simp: demo_rev_def)
  have lim: "ys_revisionHistoryLimit (yas_spec new_yas) = Some 2" by code_simp
  have "map m_name (drop (length demo_crs - 2) demo_crs) = [''web-a'', ''web-b'']"
    "filter (\<lambda>name. name \<noteq> yt_currentRevision (yas_status new_yas))
      (map m_name (take (length demo_crs - 2) demo_crs)) = [''web-0'']" by code_simp+
  with run cleanExpiredRevision_cuts [where del = fst, OF del lim _ run] show ?thesis by auto
qed


theorem CreatePool_settles_witness:
  "\<exists>w' wl pool. CreatePool demo_pc (DeploymentAdapter demo_ad) new_yas ''beijing'' ''web-2'' 3 []
      = (Ret (), w') \<and> length w' = 1 \<and>
    convertToPool (DeploymentAdapter demo_ad) wl = Ret pool \<and> p_name pool = ''beijing'' \<and>
    pool_settled (DeploymentAdapter demo_ad) ''web-2'' \<lparr>yp_replicas = 3, yp_patch = []\<rparr> pool"
proof -
  let ?run = "CreatePool demo_pc (DeploymentAdapter demo_ad) new_yas ''beijing'' ''web-2'' 3 []"
  have cfg: "map_option pc_patch (poolConfigOf new_yas ''beijing'') = Some None" by code_simp
  have ap: "fst (ad_ApplyPoolTemplate (DeploymentAdapter demo_ad) new_yas ''beijing'' ''web-2'' 3
      (ad_NewResourceObject (DeploymentAdapter demo_ad))) = Ret ()" by code_simp
  have "fst ?run = Ret () \<and> length (snd ?run) = 1" by code_simp
  then obtain w' where run: "?run = (Ret (), w')" "length w' = 1" by (metis prod.collapse)
  have "pce_ad demo_pc = demo_ad" by (simp add: demo_pc_def)
  with CreatePool_settles [OF _ _ cfg _ ap run(1)] owners_only_demo run show ?thesis by auto
qed

theorem UpdatePool_settles_witness:
  "\<exists>wl pool. fst (UpdatePool demo_pc (DeploymentAdapter demo_ad)
      (the (gget (demo_got new_yas demo_stored) ''hangzhou'')) new_yas ''web-2'' 2 demo_stored)
      = Ret () \<and>
    convertToPool (DeploymentAdapter demo_ad) wl = Ret pool \<and> p_name pool = ''hangzhou'' \<and>
    pool_settled (DeploymentAdapter demo_ad) ''web-2'' \<lparr>yp_replicas = 2, yp_patch = []\<rparr> pool"
proof -
  let ?pool = "the (gget (demo_got new_yas demo_stored) ''hangzhou'')"
  let ?run = "UpdatePool demo_pc (DeploymentAdapter demo_ad) ?pool new_yas ''web-2'' 2 demo_stored"
  have cfg: "map_option pc_patch (poolConfigOf new_yas (p_name ?pool)) = Some None" by code_simp
  have name: "p_name ?pool = ''hangzhou''" by code_simp
  have ran: "fst ?run = Ret ()" by code_simp
  then obtain w' where run: "?run = (Ret (), w')" by (metis prod.collapse)
  have "pce_ad demo_pc = demo_ad" by (simp add: demo_pc_def)
  with UpdatePool_settles [OF _ _ cfg _ run] owners_only_demo name ran show ?thesis by auto
qed

text \<open>A server that stores nothing and refuses every write with a conflict counts the writes.\<close>

definition busy_pc :: "nat pc_env" where
  "busy_pc = \<lparr>
     pce_ad = demo_ad, pce_rm = demo_rm, pce_List = (\<lambda>kind sel w. (Ret [], w)),
     pce_Get = (\<lambda>kind ns name w. (Ret (demo_wl new_yas ''hangzhou'' ''web-1'' 2), w)),
     pce_Create = (\<lambda>wl w. (Err (StatusErr Conflict ''busy''), Suc w)),
     pce_Update = (\<lambda>wl w. (Err (StatusErr Conflict ''busy''), Suc w)),
     pce_Delete = (\<lambda>wl w. (Err (StatusErr Conflict ''busy''), Suc w))\<rparr>"

theorem UpdatePool_bound_witness:
  "fst (UpdatePool busy_pc (DeploymentAdapter demo_ad)
      (the (gget (demo_got new_yas demo_stored) ''hangzhou'')) new_yas ''web-2'' 2 0)
      = Err (StatusErr Conflict ''busy'') \<and>
   snd (UpdatePool busy_pc (DeploymentAdapter demo_ad)
      (the (gget (demo_got new_yas demo_stored) ''hangzhou'')) new_yas ''web-2'' 2 0) \<le> 5"
proof
  show "snd (UpdatePool busy_pc (DeploymentAdapter demo_ad)
      (the (gget (demo_got new_yas demo_stored) ''hangzhou'')) new_yas ''web-2'' 2 0) \<le> 5"
    using UpdatePool_bound [where cnt = "\<lambda>n. n" and env = busy_pc and w = 0] by (simp add: busy_pc_def)
qed code_simp

text \<open>What \<open>managePools\<close> finds when the YurtAppSet has been replaced\<close>

lemma demo_names:
  "gotPools (demo_got new_yas demo_stored) = {''hangzhou'', ''shanghai''}"
  "expectedPools new_yas = {''hangzhou'', ''beijing''}"
proof -
  have "map fst (entries (demo_got new_yas demo_stored)) = [''hangzhou'', ''shanghai'']" by code_simp
  then show "gotPools (demo_got new_yas demo_stored) = {''hangzhou'', ''shanghai''}"
    by (simp add: gotPools_def)
  have "map pc_name (items (ys_pools (yas_spec new_yas))) = [''hangzhou'', ''beijing'']" by code_simp
  then show "expectedPools new_yas = {''hangzhou'', ''beijing''}" by (simp add: expectedPools_def)
qed

theorem managePoolProvision_calls_witness:
  "\<exists>w' cs ds. managePoolProvision demo_env new_yas (demo_got new_yas demo_stored)
      (GetNextPatches new_yas) ''web-2'' DeploymentTemplateType ([], demo_stored)
      = (Ret ({''hangzhou''}, True, None), w') \<and> set cs = {''beijing''} \<and>
    fst w' = createCalls DeploymentTemplateType (GetNextPatches new_yas) ''web-2'' cs
      @ [DeleteCall DeploymentTemplateType (the (gget (demo_got new_yas demo_stored) ''shanghai''))]
      @ map (\<lambda>(t', pool). DeleteCall t' pool) ds"
proof -
  let ?run = "managePoolProvision demo_env new_yas (demo_got new_yas demo_stored)
      (GetNextPatches new_yas) ''web-2'' DeploymentTemplateType ([], demo_stored)"
  have "fst ?run = Ret ({''hangzhou''}, True, None)" by code_simp
  then obtain w' where run: "?run = (Ret ({''hangzhou''}, True, None), w')" by (metis prod.collapse)
  have d: "{''hangzhou'', ''beijing''} - {''hangzhou'', ''shanghai''} = {''beijing''}"
    "{''hangzhou'', ''shanghai''} - {''hangzhou'', ''beijing''} = {''shanghai''}" by auto
  obtain cs ds where "set cs = {''beijing''}"
    "fst w' = createCalls DeploymentTemplateType (GetNextPatches new_yas) ''web-2'' cs
      @ map (\<lambda>name. DeleteCall DeploymentTemplateType (the (gget (demo_got new_yas demo_stored) name)))
          (sorted_list_of_set {''shanghai''})
      @ map (\<lambda>(t', pool). DeleteCall t' pool) ds"
    using managePoolProvision_calls [OF traced_logged batch_ok_logged run]
    unfolding demo_names d by auto
  with run show ?thesis by auto
qed

theorem managePools_calls_witness:
  "\<exists>s w' cs ds us. managePools demo_env new_yas (demo_got new_yas demo_stored)
      (GetNextPatches new_yas) ''web-2'' DeploymentTemplateType ([], demo_stored)
      = (Ret (s, None), w') \<and> mset cs = {#''beijing''#} \<and>
    fst w' = createCalls DeploymentTemplateType (GetNextPatches new_yas) ''web-2'' cs
      @ [DeleteCall DeploymentTemplateType (the (gget (demo_got new_yas demo_stored) ''shanghai''))]
      @ map (\<lambda>(t', pool). DeleteCall t' pool) ds
      @ updateCalls DeploymentTemplateType (demo_got new_yas demo_stored) (GetNextPatches new_yas)
          ''web-2'' us"
proof -
  let ?run = "managePools demo_env new_yas (demo_got new_yas demo_stored)
      (GetNextPatches new_yas) ''web-2'' DeploymentTemplateType ([], demo_stored)"
  have "(case fst ?run of Ret (s, e) \<Rightarrow> e = None | _ \<Rightarrow> False)" by code_simp
  then obtain s w' where run: "?run = (Ret (s, None), w')"
    by (cases ?run) (auto split: outcome.splits)
  have d: "{''hangzhou'', ''beijing''} - {''hangzhou'', ''shanghai''} = {''beijing''}"
    "{''hangzhou'', ''shanghai''} - {''hangzhou'', ''beijing''} = {''shanghai''}" by auto
  obtain cs ds us where "mset cs = mset_set {''beijing''}"
    "fst w' = createCalls DeploymentTemplateType (GetNextPatches new_yas) ''web-2'' cs
      @ map (\<lambda>name. DeleteCall DeploymentTemplateType (the (gget (demo_got new_yas demo_stored) name)))
          (sorted_list_of_set {''shanghai''})
      @ map (\<lambda>(t', pool). DeleteCall t' pool) ds
      @ updateCalls DeploymentTemplateType (demo_got new_yas demo_stored) (GetNextPatches new_yas)
          ''web-2'' us"
    using managePools_calls [OF traced_logged batch_ok_logged run] unfolding demo_names d by auto
  with run show ?thesis by auto
qed

text \<open>Two stored deployments claim to be the pool \<open>hangzhou\<close>.\<close>

theorem getNameToPool_unique_witness:
  "\<exists>nameToPool w' p. getNameToPool demo_env new_yas
      (logged DeploymentTemplateType (PoolControl demo_pc (DeploymentAdapter demo_ad)))
      ([], demo_stored @ [(demo_wl old_yas ''hangzhou'' ''web-1'' 2)\<lparr>m_name := ''web-other''\<rparr>])
      = (Ret nameToPool, w') \<and>
    (\<exists>q ds. gget nameToPool ''hangzhou'' = Some q \<and> m_name (p_ref q) = ''web-hangzhou-x'' \<and>
      p \<in> set ds \<and> m_name (p_ref p) = ''web-other'' \<and>
      fst w' = map (DeleteCall DeploymentTemplateType) ds)"
proof -
  let ?ctl = "logged DeploymentTemplateType (PoolControl demo_pc (DeploymentAdapter demo_ad))"
  let ?w = "([], demo_stored @ [(demo_wl old_yas ''hangzhou'' ''web-1'' 2)\<lparr>m_name := ''web-other''\<rparr>])"
  have ctl: "(DeploymentTemplateType, ?ctl) \<in> set (ye_poolControls demo_env)"
    by (simp add: logged_env_def newReconciler_controls_def demo_pc_def)
  have "(case fst (getNameToPool demo_env new_yas ?ctl ?w) of Ret s \<Rightarrow> True | _ \<Rightarrow> False)" by code_simp
  then obtain m w' where run: "getNameToPool demo_env new_yas ?ctl ?w = (Ret m, w')"
    by (cases "getNameToPool demo_env new_yas ?ctl ?w") (auto split: outcome.splits)
  obtain pools w1 ds where p: "c_GetAllPools ?ctl new_yas ?w = (Ret pools, w1)"
    "\<forall>name. gget m name = find (\<lambda>p. p_name p = name) pools"
    "fst w' = fst ?w @ map (DeleteCall DeploymentTemplateType) ds"
    "\<forall>p. p \<in> set ds \<longleftrightarrow> p \<in> set (tl (filter (\<lambda>q. p_name q = p_name p) pools))"
    using getNameToPool_unique [OF traced_logged ctl run] by blast
  have "(case fst (c_GetAllPools ?ctl new_yas ?w) of
      Ret pools \<Rightarrow> map (\<lambda>p. (p_name p, m_name (p_ref p))) pools = [(''hangzhou'', ''web-hangzhou-x''),
        (''shanghai'', ''web-shanghai-x''), (''hangzhou'', ''web-other'')] | _ \<Rightarrow> False)" by code_simp
  with p(1) obtain a b c where abc: "pools = [a, b, c]" "p_name a = ''hangzhou''"
    "m_name (p_ref a) = ''web-hangzhou-x''" "p_name b = ''shanghai''" "p_name c = ''hangzhou''"
    "m_name (p_ref c) = ''web-other''"
    by auto
  then have "c \<in> set ds" "gget m ''hangzhou'' = Some a" using p(2,4) by auto
  with run abc p(3) show ?thesis by auto
qed

theorem calculateStatus_sums_witness:
  "\<exists>s. calculateStatus demo_env new_yas (yas_status new_yas) (demo_got new_yas demo_stored)
      (demo_cr ''web-2'' ''t'' 2) 0
      (logged DeploymentTemplateType (PoolControl demo_pc (DeploymentAdapter demo_ad))) ([], [])
      = (Ret s, ([], [])) \<and>
    yt_replicas s = 3 \<and> gget (yt_poolReplicas s) ''shanghai'' = Some 1"
proof -
  let ?m = "demo_got new_yas demo_stored"
  have "map (\<lambda>(k, p). (k, p_name p, p_replicas p)) (entries ?m)
      = [(''hangzhou'', ''hangzhou'', 2), (''shanghai'', ''shanghai'', 1)]" by code_simp
  then obtain p q where e: "entries ?m = [(''hangzhou'', p), (''shanghai'', q)]"
    and pq: "p_name p = ''hangzhou''" "p_name q = ''shanghai''" "p_replicas p = 2" "p_replicas q = 1"
    by (auto simp: map_eq_Cons_conv)
  have ok: "gomap_ok ?m" using e by (simp add: gomap_ok_def)
  have get: "gget ?m name = Some pool \<Longrightarrow> p_name pool = name" for name pool
    using e pq by (auto simp: gget_def split: if_splits)
  have fine: "c_GetPoolFailure (logged DeploymentTemplateType
      (PoolControl demo_pc (DeploymentAdapter demo_ad))) pool = None" for pool
    by (simp add: logged_def PoolControl_def GetPoolFailure_def DeploymentAdapter_def)
  have "gget ?m ''shanghai'' = Some q" using e by (simp add: gget_def)
  with e pq show ?thesis
    using calculateStatus_sums [OF ok get fine, of demo_env new_yas "yas_status new_yas"
        "demo_cr ''web-2'' ''t'' 2" 0 "([], [])"] by auto
qed

text \<open>A server of revisions that is down\<close>

definition down_rev :: "'w rev_env" where
  "down_rev = \<lparr>
     re_rm = demo_rm, re_List = (\<lambda>sel. fail (PlainErr ''down'')),
     re_Get = (\<lambda>ns name. fail (PlainErr ''down'')), re_Create = (\<lambda>cr. fail (PlainErr ''down'')),
     re_Update = (\<lambda>cr. fail (PlainErr ''down'')), re_Delete = (\<lambda>cr. fail (PlainErr ''down'')),
     re_MarshalTemplate = (\<lambda>t. Inr ''template''), re_GVKForObject = Inr,
     re_Sort = (\<lambda>rs. rs), re_EqualRevision = (\<lambda>a b. cr_data a = cr_data b),
     re_NewControllerRevision = (\<lambda>m gvk ls patch n c. Inl (PlainErr ''down'')),
     re_Hash = (\<lambda>cr c. []), re_RevisionName = (\<lambda>name hash. name)\<rparr>"

text \<open>The status is written \<open>n\<close> times if the server refuses it with a conflict.\<close>

definition busy_yc :: "nat yc_env" where
  "busy_yc = \<lparr>
     yc_upd = \<lparr>rt_sched = rev,
       rt_Event = (\<lambda>reason message w. w), rt_Now = (\<lambda>w. ''now''),
       rt_NewAggregate = (\<lambda>es. case es of [] \<Rightarrow> None | e # _ \<Rightarrow> Some e),
       ye_poolControls = newReconciler_controls busy_pc\<rparr>,
     yc_rev = down_rev, yc_Get = (\<lambda>ns name w. (Ret new_yas, w)),
     yc_UpdateStatus = (\<lambda>obj w. (Err (StatusErr Conflict ''busy''), Suc w))\<rparr>"


definition demo_yc :: "(pool_call list \<times> workload list) yc_env" where
  "demo_yc = \<lparr>yc_upd = demo_env, yc_rev = down_rev, yc_Get = (\<lambda>ns name w. (Ret new_yas, w)),
     yc_UpdateStatus = (\<lambda>obj w. (Ret obj, w))\<rparr>"

definition settled_stored :: "workload list" where
  "settled_stored = [demo_wl new_yas ''hangzhou'' ''web-2'' 2, demo_wl new_yas ''beijing'' ''web-2'' 3]"

theorem reconcilePools_quiet_witness:
  "fst (snd (reconcilePools demo_yc new_yas (demo_cr ''web-1'' ''a'' 1) (demo_cr ''web-2'' ''t'' 2) 0
     ([], settled_stored))) = [] \<and>
   fst (reconcilePools demo_yc new_yas (demo_cr ''web-1'' ''a'' 1) (demo_cr ''web-2'' ''t'' 2) 0
     ([], settled_stored)) = Ret ()"
proof
  let ?ctl = "logged DeploymentTemplateType (PoolControl demo_pc (DeploymentAdapter demo_ad))"
  let ?w = "([] :: pool_call list, settled_stored)"
  have upd: "yc_upd demo_yc = demo_env" by (simp add: demo_yc_def)
  have ctl: "getPoolControls demo_env new_yas = Inr (Some ?ctl, DeploymentTemplateType)"
    by (simp add: getPoolControls_def logged_env_def newReconciler_controls_def new_yas_def
        demo_yas_def object_meta.defs demo_pc_def)
  have "(case c_GetAllPools ?ctl new_yas ?w of (Ret pools, w1) \<Rightarrow> w1 = ?w \<and>
      pools_settled ?ctl new_yas ''web-2'' pools | _ \<Rightarrow> False)"
    by code_simp
  then obtain pools where got: "c_GetAllPools ?ctl new_yas ?w = (Ret pools, ?w)"
    and settled: "pools_settled ?ctl new_yas ''web-2'' pools"
    by (auto split: prod.splits outcome.splits)
  have name: "m_name (demo_cr ''web-2'' ''t'' 2) = ''web-2''" by (simp add: demo_cr_def object_meta.defs)
  have none: "c_GetAllPools (logged StatefulSetTemplateType (PoolControl demo_pc
      (StatefulSetAdapter demo_ad))) new_yas ?w = (Ret [], ?w)" by code_simp
  have others: "c_GetAllPools c new_yas ?w = (Ret [], ?w)"
    if "(t', c) \<in> set (ye_poolControls demo_env)" "t' \<noteq> DeploymentTemplateType" for t' c
    using that none by (auto simp: logged_env_def newReconciler_controls_def demo_pc_def)
  show "fst (snd (reconcilePools demo_yc new_yas (demo_cr ''web-1'' ''a'' 1)
      (demo_cr ''web-2'' ''t'' 2) 0 ([], settled_stored))) = []"
    using reconcilePools_quiet [where env = demo_yc and tr = fst and updated = "demo_cr ''web-2'' ''t'' 2",
        unfolded upd name, OF traced_logged batch_ok_logged ctl got settled others]
    by (simp add: demo_yc_def)
qed code_simp

text \<open>Four pods of a stateful set with a partition: one below it, one ready, one current, one stuck\<close>

definition demo_pod :: "string \<Rightarrow> string \<Rightarrow> string \<Rightarrow> pod" where
  "demo_pod name revision st = object_meta.extend
     (empty_meta\<lparr>m_name := name, m_labels := Some [(''app'', ''web''), (ControllerRevisionHashLabelKey, revision)],
        m_owners := Some [demo_ref ''uid-1'']\<rparr>) \<lparr>pd_status = st\<rparr>"

definition demo_pods :: "string list pods_env" where
  "demo_pods = \<lparr>
     pe_rm = demo_rm,
     pe_List = (\<lambda>sel w. (Ret (filter (\<lambda>pod. sel (m_labels pod))
       [demo_pod ''web-0'' ''r1'' ''Pending'', demo_pod ''web-1'' ''r1'' ''Ready'',
        demo_pod ''web-2'' ''r2'' ''Pending'', demo_pod ''web-3'' ''r1'' ''Pending'']), w)),
     pe_Delete = (\<lambda>pod w. (Ret (), w @ [m_name pod])),
     pe_IsPodReadyConditionTrue = (\<lambda>st. st = ''Ready'')\<rparr>"

definition demo_sts :: stateful_set where
  "demo_sts = object_meta.extend (empty_meta\<lparr>m_name := ''web'', m_uid := ''uid-1''\<rparr>)
     \<lparr>sts_spec = empty_stateful_set_spec\<lparr>ss_selector := Some demo_selector\<rparr>\<rparr>"

theorem getParentNameAndOrdinal_pod_witness:
  "getParentNameAndOrdinal (demo_pod (''web-beijing-x'' @ ''-'' @ decimal 12) ''r1'' ''Ready'')
     = (''web-beijing-x'', 12) \<and>
   sint (GetOrdinal (demo_pod (''web-beijing-x'' @ ''-'' @ decimal 12) ''r1'' ''Ready'')) = 12"
  using getParentNameAndOrdinal_pod [of "''web-beijing-x''" 12
      "demo_pod (''web-beijing-x'' @ ''-'' @ decimal 12) ''r1'' ''Ready''"]
  by (simp add: demo_pod_def object_meta.defs)

theorem deleteStuckPods_deletes_witness:
  "\<exists>n. snd (deleteStuckPods demo_pods demo_sts ''r2'' 1 []) = take n [''web-3''] \<and> n = 1"
proof -
  let ?run = "deleteStuckPods demo_pods demo_sts ''r2'' 1 []"
  obtain w' where run: "?run = (Ret (), w')" "w' = [''web-3'']"
    by (rule that [of "[''web-3'']"]) code_simp+
  have log: "pe_Delete demo_pods pod u = (r, u') \<Longrightarrow> u' = u @ [m_name pod]" for pod u r u'
    by (simp add: demo_pods_def)
  have quiet: "preserves (\<lambda>u. u = []) (pe_List demo_pods sel)"
    "preserves (\<lambda>u. u = []) (rm_GetOwner (pe_rm demo_pods) ns name)"
    "preserves (\<lambda>u. u = []) (rm_Update (pe_rm demo_pods) pod)" for sel ns name pod
    by (simp_all add: preserves_def demo_pods_def demo_rm_def)
  have "case getStatefulSetPods demo_pods demo_sts [] of (Ret pods, w1) \<Rightarrow>
      map m_name (filter (\<lambda>pod. sint (1 :: int32) \<le> sint (GetOrdinal pod) \<and> getRevision pod \<noteq> ''r2'' \<and>
        \<not> pe_IsPodReadyConditionTrue demo_pods (pd_status pod)) pods) = [''web-3''] | _ \<Rightarrow> False"
    by code_simp
  with deleteStuckPods_deletes [where tr = "\<lambda>u. u" and w = "[]", OF log quiet run(1)] run
  show ?thesis by (auto simp: Let_def split: prod.splits outcome.splits)
qed

end
