(* ===== verification/YAD_Types.thy ===== *)
theory YAD_Types
  imports YAS_Conditions
begin

section \<open>YurtAppDaemon: types and conditions\<close>

text \<open>
  \<open>apis/apps/v1alpha1/yurtappdaemon_types.go\<close> and \<open>controller/yurtappdaemon/util.go\<close>. A condition
  has the fields of one of a YurtAppSet, so the record \<open>condition\<close> serves both; this package has
  functions of its own on them, which are a second instance of the interface
  \<open>condition_store\<close>.
\<close>

definition WorkLoadProvisioned :: string where "WorkLoadProvisioned = ''WorkLoadProvisioned''"
definition WorkLoadUpdated :: string where "WorkLoadUpdated = ''WorkLoadUpdated''"

lemma workload_conditions_distinct [simp]:
  "WorkLoadProvisioned \<noteq> WorkLoadUpdated" "WorkLoadUpdated \<noteq> WorkLoadProvisioned"
  by (simp_all add: WorkLoadProvisioned_def WorkLoadUpdated_def)

record yad_spec =
  yd_selector :: "label_selector option"
  yd_template :: workload_template
  yd_nodePoolSelector :: "label_selector option"
  yd_revisionHistoryLimit :: "int32 option"

record yad_status =
  dt_observedGeneration :: int64
  dt_collisionCount :: "int32 option"
  dt_currentRevision :: string
  dt_conditions :: "condition goslice"
  dt_templateType :: template_type
  dt_nodePools :: "string goslice"

record yad = object_meta +
  yad_spec :: yad_spec
  yad_status :: yad_status

definition updateRetries_yad :: nat where
  "updateRetries_yad = 5"

text \<open>\<open>TolerationsTolerateTaint\<close> of \<open>component-helpers\<close> is a parameter.\<close>

definition IsTolerationsAllTaints ::
  "(toleration list \<Rightarrow> taint \<Rightarrow> bool) \<Rightarrow> toleration goslice \<Rightarrow> taint goslice \<Rightarrow> bool" where
  "IsTolerationsAllTaints tolerates tolerations taints =
     list_all (\<lambda>t. tolerates (items tolerations) t) (items taints)"

definition NewYurtAppDaemonCondition :: "string \<Rightarrow> string \<Rightarrow> string \<Rightarrow> string \<Rightarrow> string \<Rightarrow> condition" where
  "NewYurtAppDaemonCondition now condType status reason message =
     \<lparr>cd_type = condType, cd_status = status, cd_lastTransitionTime = now, cd_reason = reason,
      cd_message = message\<rparr>"

definition GetYurtAppDaemonCondition :: "yad_status \<Rightarrow> string \<Rightarrow> condition option" where
  "GetYurtAppDaemonCondition status condType =
     find (\<lambda>c. cd_type c = condType) (items (dt_conditions status))"

definition filterOutCondition_yad :: "condition goslice \<Rightarrow> string \<Rightarrow> condition goslice" where
  "filterOutCondition_yad conditions condType =
     (case filter (\<lambda>c. cd_type c \<noteq> condType) (items conditions) of [] \<Rightarrow> None | cs \<Rightarrow> Some cs)"

definition SetYurtAppDaemonCondition :: "yad_status \<Rightarrow> condition \<Rightarrow> yad_status" where
  "SetYurtAppDaemonCondition status condition =
     (case GetYurtAppDaemonCondition status (cd_type condition) of
        Some cur \<Rightarrow>
          (if cd_status cur = cd_status condition \<and> cd_reason cur = cd_reason condition then status
           else (let condition' = (if cd_status cur = cd_status condition
                   then condition\<lparr>cd_lastTransitionTime := cd_lastTransitionTime cur\<rparr> else condition);
                     newConditions = filterOutCondition_yad (dt_conditions status) (cd_type condition)
                 in status\<lparr>dt_conditions := Some (items newConditions @ [condition'])\<rparr>))
      | None \<Rightarrow>
          (let newConditions = filterOutCondition_yad (dt_conditions status) (cd_type condition)
           in status\<lparr>dt_conditions := Some (items newConditions @ [condition])\<rparr>))"

lemma items_filterOutCondition_yad [simp]:
  "items (filterOutCondition_yad cs t) = filter (\<lambda>c. cd_type c \<noteq> t) (items cs)"
  by (simp add: filterOutCondition_yad_def split: list.split)

lemma SetYurtAppDaemonCondition_items:
  "items (dt_conditions (SetYurtAppDaemonCondition s c)) = setIn (items (dt_conditions s)) c"
  by (auto simp: SetYurtAppDaemonCondition_def GetYurtAppDaemonCondition_def setIn_def
      settledCondition_def Let_def split: option.split)

interpretation yad_conditions: condition_store GetYurtAppDaemonCondition SetYurtAppDaemonCondition
  "\<lambda>s. map cd_type (items (dt_conditions s))"
  by unfold_locales
    (auto simp: GetYurtAppDaemonCondition_def SetYurtAppDaemonCondition_items find_setIn
      distinct_setIn dest: find_cd_type)

definition condStatus_yad :: "yad_status \<Rightarrow> string \<Rightarrow> string option" where
  "condStatus_yad s t = map_option cd_status (GetYurtAppDaemonCondition s t)"

lemma condStatus_yad_set:
  "condStatus_yad (SetYurtAppDaemonCondition s (NewYurtAppDaemonCondition n t st r m)) t' =
     (if t' = t then Some st else condStatus_yad s t')"
  using yad_conditions.status_set [of s "NewYurtAppDaemonCondition n t st r m"]
  by (auto simp: condStatus_yad_def yad_conditions.get_set NewYurtAppDaemonCondition_def)

lemma nodePools_SetCondition [simp]:
  "dt_nodePools (SetYurtAppDaemonCondition s c) = dt_nodePools s"
  by (simp add: SetYurtAppDaemonCondition_def Let_def split: option.split)

end
