(* ===== verification/YAD_Workload.thy ===== *)
theory YAD_Workload
  imports YAD_Types Ref_Manager
begin

section \<open>YurtAppDaemon: workloads\<close>

text \<open>
  \<open>controller/yurtappdaemon/workloadcontroller\<close>: one deployment for each node pool. The
  interface \<open>WorkloadControllor\<close> is the record \<open>wl_control\<close>, which \<open>DeploymentControllor\<close>
  implements; \<open>StatefulSetControllor\<close> has no methods and is not used.

  The record \<open>wl_env\<close> is what is outside: the API server for deployments, the reference
  manager, the DNS check of names and \<open>SetControllerReference\<close>. The kind of a workload is
  used in log messages only and left out.
\<close>

record 'w wl_env =
  wle_rm :: "('w, unit workload_ext) rm_env"
  wle_NameIsDNSSubdomain :: "string \<Rightarrow> bool \<Rightarrow> string list"
  wle_SetControllerReference :: "yad \<Rightarrow> workload \<Rightarrow> go_error + workload"
  wle_List :: "(string gomap \<Rightarrow> bool) \<Rightarrow> ('w, workload list) io"
  wle_Get :: "string \<Rightarrow> string \<Rightarrow> ('w, workload) io"
  wle_Create :: "workload \<Rightarrow> ('w, workload) io"
  wle_Update :: "workload \<Rightarrow> ('w, workload) io"
  wle_Delete :: "workload \<Rightarrow> ('w, unit) io"

record yad_load =
  ld_name :: string
  ld_namespace :: string
  ld_ref :: workload
  ld_toleration :: "toleration goslice"
  ld_nodeSelector :: "string gomap"

record 'w wl_control =
  wc_GetTemplateType :: template_type
  wc_GetAllWorkloads :: "yad \<Rightarrow> ('w, yad_load list) io"
  wc_CreateWorkload :: "yad \<Rightarrow> nodepool \<Rightarrow> string \<Rightarrow> ('w, unit) io"
  wc_UpdateWorkload :: "yad_load \<Rightarrow> yad \<Rightarrow> nodepool \<Rightarrow> string \<Rightarrow> ('w, unit) io"
  wc_DeleteWorkload :: "yad \<Rightarrow> yad_load \<Rightarrow> ('w, unit) io"

subsection \<open>\<open>workload.go\<close> and \<open>util.go\<close>\<close>

definition GetRevision :: "yad_load \<Rightarrow> string" where
  "GetRevision w = gval (m_labels (ld_ref w)) ControllerRevisionHashLabelKey"

definition GetNodePoolName :: "yad_load \<Rightarrow> string" where
  "GetNodePoolName w = gval (m_annotations (ld_ref w)) AnnotationRefNodePool"

definition GetToleration :: "yad_load \<Rightarrow> toleration goslice" where
  "GetToleration w = ld_toleration w"

definition GetNodeSelector :: "yad_load \<Rightarrow> string gomap" where
  "GetNodeSelector w = ld_nodeSelector w"

definition getWorkloadPrefix :: "'w wl_env \<Rightarrow> string \<Rightarrow> string \<Rightarrow> string" where
  "getWorkloadPrefix env controllerName nodepoolName =
     (let prefix = controllerName @ ''-'' @ nodepoolName @ ''-''
      in if length (wle_NameIsDNSSubdomain env prefix True) \<noteq> 0 then controllerName @ ''-''
         else prefix)"

definition CreateNodeSelectorByNodepoolName :: "string \<Rightarrow> string gomap" where
  "CreateNodeSelectorByNodepoolName nodepool = Some [(LabelCurrentNodePool, nodepool)]"

definition TaintsToTolerations :: "taint goslice \<Rightarrow> toleration list" where
  "TaintsToTolerations taints =
     map (\<lambda>t. \<lparr>tol_key = t_key t, tol_operator = ''Exists'', tol_value = [], tol_effect = t_effect t,
         tol_seconds = None\<rparr>) (items taints)"

subsection \<open>\<open>applyTemplate\<close>\<close>

text \<open>The metadata; \<open>tmpl\<close> is the deployment template and \<open>matchLabels\<close> the labels of the selector.\<close>

definition applyLoadMeta ::
  "'w wl_env \<Rightarrow> yad \<Rightarrow> string \<Rightarrow> string \<Rightarrow> deployment_template \<Rightarrow> string gomap \<Rightarrow> workload \<Rightarrow> workload" where
  "applyLoadMeta env d npName revision tmpl matchLabels wl =
     (let labels0 = (if m_labels wl = None then Some [] else m_labels wl);
          labels1 = putAll (entries matchLabels) (putAll (entries (m_labels tmpl)) labels0);
          labels2 = gput PoolNameLabelKey npName (gput ControllerRevisionHashLabelKey revision labels1);
          annotations0 = (if m_annotations wl = None then Some [] else m_annotations wl);
          annotations1 = putAll (entries (m_annotations tmpl)) annotations0
      in wl\<lparr>m_labels := labels2, m_annotations := gput AnnotationRefNodePool npName annotations1,
           m_namespace := m_namespace d,
           m_generateName := getWorkloadPrefix env (m_name d) npName\<rparr>)"

text \<open>\<open>append(dst, src...)\<close>\<close>

definition appendSlice :: "'a goslice \<Rightarrow> 'a list \<Rightarrow> 'a goslice" where
  "appendSlice dst src = (if src = [] then dst else Some (items dst @ src))"

text \<open>The pod specification; an affinity without a node affinity makes the code panic.\<close>

definition loadPodSpec :: "pod_spec \<Rightarrow> nodepool \<Rightarrow> pod_spec outcome" where
  "loadPodSpec spec np =
     (let finish = (\<lambda>aff. spec\<lparr>ps_affinity := aff,
             ps_nodeSelector := CreateNodeSelectorByNodepoolName (m_name np),
             ps_tolerations := appendSlice (ps_tolerations spec)
               (TaintsToTolerations (nps_taints (np_spec np)))\<rparr>)
      in case ps_affinity spec of
           None \<Rightarrow> Ret (finish None)
         | Some aff \<Rightarrow>
             (case af_nodeAffinity aff of
                None \<Rightarrow> Panic ''nil pointer dereference''
              | Some na \<Rightarrow>
                  Ret (finish (Some (if na_required na \<noteq> None
                    then aff\<lparr>af_nodeAffinity := Some (na\<lparr>na_required := None\<rparr>)\<rparr> else aff)))))"

definition loadDeploymentSpec :: "deployment_spec \<Rightarrow> nodepool \<Rightarrow> string \<Rightarrow> deployment_spec outcome" where
  "loadDeploymentSpec spec np revision =
     (case ds_selector spec of
        None \<Rightarrow> Panic ''nil pointer dereference''
      | Some sel \<Rightarrow>
     (case ls_matchLabels sel of
        None \<Rightarrow> Panic ''assignment to entry in nil map''
      | Some _ \<Rightarrow>
     (case loadPodSpec (pt_spec (ds_template spec)) np of
        Panic p \<Rightarrow> Panic p
      | Err e \<Rightarrow> Err e
      | Ret podSpec \<Rightarrow>
          (let tmpl = ds_template spec;
               labels = (if m_labels tmpl = None then Some [] else m_labels tmpl)
           in Ret (spec\<lparr>
                ds_selector := Some (sel\<lparr>ls_matchLabels :=
                  gput PoolNameLabelKey (m_name np) (ls_matchLabels sel)\<rparr>),
                ds_template := tmpl\<lparr>
                  m_labels := gput ControllerRevisionHashLabelKey revision
                    (gput PoolNameLabelKey (m_name np) labels),
                  pt_spec := podSpec\<rparr>\<rparr>)))))"

definition bodyStatus :: "workload \<Rightarrow> workload_status" where
  "bodyStatus wl = (case w_body wl of DeploymentBody _ st \<Rightarrow> st | StatefulSetBody _ st \<Rightarrow> st)"

definition applyTemplate ::
  "'w wl_env \<Rightarrow> yad \<Rightarrow> nodepool \<Rightarrow> string \<Rightarrow> workload \<Rightarrow> workload outcome" where
  "applyTemplate env d np revision wl =
     (case (wt_deployment (yd_template (yad_spec d)), yd_selector (yad_spec d)) of
        (Some tmpl, Some sel) \<Rightarrow>
          (case loadDeploymentSpec (dt_spec tmpl) np revision of
             Panic p \<Rightarrow> Panic p
           | Err e \<Rightarrow> Err e
           | Ret spec \<Rightarrow>
               (case wle_SetControllerReference env d
                  ((applyLoadMeta env d (m_name np) revision tmpl (ls_matchLabels sel) wl)
                    \<lparr>w_body := DeploymentBody spec (bodyStatus wl)\<rparr>) of
                  Inl e \<Rightarrow> Err e
                | Inr wl' \<Rightarrow> Ret wl'))
      | _ \<Rightarrow> Panic ''nil pointer dereference'')"

subsection \<open>The operations of \<open>DeploymentControllor\<close>\<close>

definition newDeployment :: workload where
  "newDeployment = with_body empty_meta (DeploymentBody empty_deployment_spec empty_workload_status)"

definition DeleteWorkload :: "'w wl_env \<Rightarrow> yad \<Rightarrow> yad_load \<Rightarrow> ('w, unit) io" where
  "DeleteWorkload env d load = wle_Delete env (ld_ref load)"

text \<open>\<open>tries\<close> attempts left, with the error of the last update.\<close>

fun UpdateWorkload_tries ::
  "nat \<Rightarrow> 'w wl_env \<Rightarrow> yad_load \<Rightarrow> yad \<Rightarrow> nodepool \<Rightarrow> string \<Rightarrow> go_error option \<Rightarrow> ('w, unit) io" where
  "UpdateWorkload_tries 0 env load d np revision updateError =
     (case updateError of Some e \<Rightarrow> fail e | None \<Rightarrow> ret ())"
| "UpdateWorkload_tries (Suc tries) env load d np revision updateError =
     andThen (wle_Get env (ld_namespace load) (ld_name load)) (\<lambda>deploy.
     andThen (lift (applyTemplate env d np revision deploy)) (\<lambda>deploy'.
     andThen (attempt (wle_Update env deploy')) (\<lambda>r. case r of
       Inl e \<Rightarrow> UpdateWorkload_tries tries env load d np revision (Some e)
     | Inr _ \<Rightarrow> ret ())))"

definition UpdateWorkload :: "'w wl_env \<Rightarrow> yad_load \<Rightarrow> yad \<Rightarrow> nodepool \<Rightarrow> string \<Rightarrow> ('w, unit) io" where
  "UpdateWorkload env load d np revision =
     UpdateWorkload_tries updateRetries_yad env load d np revision None"

definition CreateWorkload :: "'w wl_env \<Rightarrow> yad \<Rightarrow> nodepool \<Rightarrow> string \<Rightarrow> ('w, unit) io" where
  "CreateWorkload env d np revision =
     andThen (lift (applyTemplate env d np revision newDeployment)) (\<lambda>deploy.
     andThen (wle_Create env deploy) (\<lambda>_. ret ()))"

definition toLoad :: "workload \<Rightarrow> yad_load outcome" where
  "toLoad o' =
     (case w_body o' of
        StatefulSetBody _ _ \<Rightarrow> Panic ''interface conversion''
      | DeploymentBody spec _ \<Rightarrow>
          Ret \<lparr>ld_name = m_name o', ld_namespace = m_namespace o', ld_ref = o',
               ld_toleration = ps_tolerations (pt_spec (ds_template spec)),
               ld_nodeSelector = ps_nodeSelector (pt_spec (ds_template spec))\<rparr>)"

fun toLoads :: "workload list \<Rightarrow> yad_load list outcome" where
  "toLoads [] = Ret []"
| "toLoads (o' # os) =
     (case toLoad o' of
        Ret w \<Rightarrow> (case toLoads os of Ret ws \<Rightarrow> Ret (w # ws) | r \<Rightarrow> r)
      | Err e \<Rightarrow> Err e
      | Panic p \<Rightarrow> Panic p)"

definition GetAllWorkloads :: "'w wl_env \<Rightarrow> yad \<Rightarrow> ('w, yad_load list) io" where
  "GetAllWorkloads env d =
     (case rm_AsSelector (wle_rm env) (yd_selector (yad_spec d)) of
        Inl e \<Rightarrow> fail e
      | Inr selector \<Rightarrow>
          andThen (wle_List env selector) (\<lambda>allDeployments.
          (case RefManager_New (wle_rm env) (yd_selector (yad_spec d)) (object_meta.truncate d) True of
             Inl e \<Rightarrow> fail e
           | Inr manager \<Rightarrow>
               andThen (ClaimOwnedObjects (wle_rm env) manager allDeployments []) (\<lambda>(objs, err).
                 case err of Some e \<Rightarrow> fail e | None \<Rightarrow> lift (toLoads objs)))))"

definition DeploymentControllor :: "'w wl_env \<Rightarrow> 'w wl_control" where
  "DeploymentControllor env = \<lparr>
     wc_GetTemplateType = DeploymentTemplateType,
     wc_GetAllWorkloads = GetAllWorkloads env,
     wc_CreateWorkload = CreateWorkload env,
     wc_UpdateWorkload = UpdateWorkload env,
     wc_DeleteWorkload = DeleteWorkload env\<rparr>"

end
