(* ===== verification/YAD_Revision.thy ===== *)
theory YAD_Revision
  imports YAD_Types YAS_Revision
begin

section \<open>YurtAppDaemon: revisions\<close>

text \<open>
  \<open>controller/yurtappdaemon/revision.go\<close>, a copy of \<open>controller/yurtappset/revision.go\<close> for
  another type: its functions are modelled on their own, over the same \<open>rev_env\<close>, and then
  shown to be the same program through the view \<open>yad_view\<close> of a YurtAppDaemon as a YurtAppSet.
\<close>

subsection \<open>Operations\<close>

definition controlledHistories_yad :: "'w rev_env \<Rightarrow> yad \<Rightarrow> ('w, controller_revision list) io" where
  "controlledHistories_yad env d =
     (case rm_AsSelector (re_rm env) (yd_selector (yad_spec d)) of
        Inl e \<Rightarrow> fail e
      | Inr selector \<Rightarrow>
          andThen (re_List env selector) (\<lambda>histories.
          (case RefManager_New (re_rm env) (yd_selector (yad_spec d)) (object_meta.truncate d) True of
             Inl e \<Rightarrow> fail e
           | Inr cm \<Rightarrow>
               andThen (ClaimOwnedObjects (re_rm env) cm histories []) (\<lambda>(claims, err).
                 case err of Some e \<Rightarrow> fail e | None \<Rightarrow> ret claims))))"

definition getYurtAppDaemonPatch :: "'w rev_env \<Rightarrow> yad \<Rightarrow> go_error + string" where
  "getYurtAppDaemonPatch env d = re_MarshalTemplate env (yd_template (yad_spec d))"

definition nextRevision_yad :: "controller_revision list \<Rightarrow> int64" where
  "nextRevision_yad revisions =
     (if length revisions \<le> 0 then 1 else cr_revision (last revisions) + 1)"

definition newRevision_yad ::
  "'w rev_env \<Rightarrow> yad \<Rightarrow> int64 \<Rightarrow> int32 \<Rightarrow> go_error + controller_revision" where
  "newRevision_yad env d revision collisionCount =
     (case getYurtAppDaemonPatch env d of
        Inl e \<Rightarrow> Inl e
      | Inr patch \<Rightarrow>
     (case re_GVKForObject env ''YurtAppDaemon'' of
        Inl e \<Rightarrow> Inl e
      | Inr gvk \<Rightarrow>
     (case (case wt_statefulSet (yd_template (yad_spec d)) of
              Some t \<Rightarrow> Inr (m_labels t)
            | None \<Rightarrow> (case wt_deployment (yd_template (yad_spec d)) of
                Some t \<Rightarrow> Inr (m_labels t)
              | None \<Rightarrow> Inl (PlainErr (''YurtAppDaemon('' @ m_namespace d @ ''/'' @ m_name d
                  @ '') need specific WorkloadTemplate'')))) of
        Inl e \<Rightarrow> Inl e
      | Inr selectedLabels \<Rightarrow>
     (case re_NewControllerRevision env (object_meta.truncate d) gvk selectedLabels patch revision
             collisionCount of
        Inl e \<Rightarrow> Inl e
      | Inr cr \<Rightarrow> Inr (cr\<lparr>m_namespace := m_namespace d\<rparr>)))))"

fun deleteExpired_yad ::
  "'w rev_env \<Rightarrow> string \<Rightarrow> int \<Rightarrow> int \<Rightarrow> controller_revision list \<Rightarrow> ('w, unit) io" where
  "deleteExpired_yad env live exceedNum i [] = ret ()"
| "deleteExpired_yad env live exceedNum i (revision # rest) =
     (if m_name revision = live then deleteExpired_yad env live exceedNum (i + 1) rest
      else if i \<ge> exceedNum then ret ()
      else andThen (re_Delete env revision) (\<lambda>_. deleteExpired_yad env live exceedNum (i + 1) rest))"

definition cleanExpiredRevision_yad ::
  "'w rev_env \<Rightarrow> yad \<Rightarrow> controller_revision list \<Rightarrow> ('w, controller_revision list) io" where
  "cleanExpiredRevision_yad env d sortedRevisions =
     (case yd_revisionHistoryLimit (yad_spec d) of
        None \<Rightarrow> lift (Panic ''nil pointer dereference'')
      | Some limit \<Rightarrow>
          (let exceedNum = int (length sortedRevisions) - sint limit in
           if exceedNum \<le> 0 then ret sortedRevisions
           else andThen (deleteExpired_yad env (dt_currentRevision (yad_status d)) exceedNum 0
               sortedRevisions) (\<lambda>_.
             if exceedNum > int (length sortedRevisions)
             then lift (Panic ''slice bounds out of range'')
             else ret (drop (nat exceedNum) sortedRevisions))))"

text \<open>The loop has no bound of its own: see \<open>createControllerRevision\<close>.\<close>

fun createControllerRevision_yad ::
  "nat \<Rightarrow> 'w rev_env \<Rightarrow> yad \<Rightarrow> controller_revision \<Rightarrow> int32
   \<Rightarrow> ('w, ((go_error + controller_revision) \<times> int32) option) io" where
  "createControllerRevision_yad 0 env parent revision collisionCount = ret None"
| "createControllerRevision_yad (Suc fuel) env parent revision collisionCount =
     (let hash = re_Hash env revision collisionCount;
          clone = revision\<lparr>m_name := re_RevisionName env (m_name parent) hash\<rparr> in
      andThen (attempt (re_Create env clone)) (\<lambda>r. case r of
        Inr stored \<Rightarrow> ret (Some (Inr stored, collisionCount))
      | Inl e \<Rightarrow>
          (if isAlreadyExists e then
             andThen (attempt (re_Get env (m_namespace parent) (m_name clone))) (\<lambda>g. case g of
               Inl e' \<Rightarrow> ret (Some (Inl e', collisionCount))
             | Inr exists \<Rightarrow>
                 (if cr_data exists = cr_data clone then ret (Some (Inr exists, collisionCount))
                  else createControllerRevision_yad fuel env parent revision (collisionCount + 1)))
           else ret (Some (Inl e, collisionCount)))))"

definition collisionsOf_yad :: "yad \<Rightarrow> int32" where
  "collisionsOf_yad d = (case dt_collisionCount (yad_status d) of None \<Rightarrow> 0 | Some c \<Rightarrow> c)"

definition finishRevisions_yad ::
  "yad \<Rightarrow> controller_revision list \<Rightarrow> int32 \<Rightarrow> controller_revision \<Rightarrow>
   ('w, (int32 \<times> (go_error + (controller_revision \<times> controller_revision))) option) io" where
  "finishRevisions_yad d revisions cnt updated =
     (let current = find (\<lambda>r. m_name r = dt_currentRevision (yad_status d)) (rev revisions)
      in ret (Some (cnt, Inr (case current of None \<Rightarrow> updated | Some r \<Rightarrow> r, updated))))"

definition constructFrom_yad ::
  "nat \<Rightarrow> 'w rev_env \<Rightarrow> yad \<Rightarrow> controller_revision list \<Rightarrow>
   ('w, (int32 \<times> (go_error + (controller_revision \<times> controller_revision))) option) io" where
  "constructFrom_yad fuel env d revisions =
     (let count0 = collisionsOf_yad d in
      case newRevision_yad env d (nextRevision_yad revisions) count0 of
        Inl e \<Rightarrow> ret (Some (count0, Inl e))
      | Inr update0 \<Rightarrow>
          (let equals = equalPositions env revisions update0 in
           if equals \<noteq> [] \<and> re_EqualRevision env (last revisions) (revisions ! last equals)
           then finishRevisions_yad d revisions count0 (last revisions)
           else if equals \<noteq> [] then
             andThen (attempt (re_Update env
                 ((revisions ! last equals)\<lparr>cr_revision := cr_revision update0\<rparr>))) (\<lambda>u. case u of
               Inl e \<Rightarrow> ret (Some (count0, Inl e))
             | Inr stored \<Rightarrow> finishRevisions_yad d (revisions[last equals := stored]) count0 stored)
           else
             andThen (createControllerRevision_yad fuel env d update0 count0) (\<lambda>k. case k of
               None \<Rightarrow> ret None
             | Some (Inl e, cnt) \<Rightarrow> ret (Some (cnt, Inl e))
             | Some (Inr created, cnt) \<Rightarrow> finishRevisions_yad d revisions cnt created)))"

definition constructYurtAppDaemonRevisions ::
  "nat \<Rightarrow> 'w rev_env \<Rightarrow> yad \<Rightarrow>
   ('w, (int32 \<times> (go_error + (controller_revision \<times> controller_revision))) option) io" where
  "constructYurtAppDaemonRevisions fuel env d =
     andThen (attempt (controlledHistories_yad env d)) (\<lambda>h. case h of
       Inl e \<Rightarrow> ret (Some (collisionsOf_yad d, Inl e))
     | Inr histories \<Rightarrow>
     andThen (attempt (cleanExpiredRevision_yad env d (re_Sort env histories))) (\<lambda>c. case c of
       Inl e \<Rightarrow> ret (Some (collisionsOf_yad d, Inl e))
     | Inr revisions \<Rightarrow> constructFrom_yad fuel env d revisions))"

subsection \<open>The same program\<close>

definition yad_view :: "yad \<Rightarrow> yas" where
  "yad_view d = object_meta.extend (object_meta.truncate d)
     \<lparr>yas_spec = \<lparr>ys_selector = yd_selector (yad_spec d), ys_template = yd_template (yad_spec d),
        ys_pools = None, ys_revisionHistoryLimit = yd_revisionHistoryLimit (yad_spec d)\<rparr>,
      yas_status = \<lparr>yt_observedGeneration = dt_observedGeneration (yad_status d),
        yt_collisionCount = dt_collisionCount (yad_status d),
        yt_currentRevision = dt_currentRevision (yad_status d),
        yt_conditions = dt_conditions (yad_status d), yt_poolReplicas = None,
        yt_readyReplicas = 0, yt_replicas = 0, yt_templateType = dt_templateType (yad_status d)\<rparr>\<rparr>"

lemma yad_view_simps [simp]:
  "object_meta.truncate (yad_view d) = object_meta.truncate d"
  "m_name (yad_view d) = m_name d" "m_namespace (yad_view d) = m_namespace d"
  "ys_selector (yas_spec (yad_view d)) = yd_selector (yad_spec d)"
  "ys_template (yas_spec (yad_view d)) = yd_template (yad_spec d)"
  "ys_revisionHistoryLimit (yas_spec (yad_view d)) = yd_revisionHistoryLimit (yad_spec d)"
  "yt_collisionCount (yas_status (yad_view d)) = dt_collisionCount (yad_status d)"
  "yt_currentRevision (yas_status (yad_view d)) = dt_currentRevision (yad_status d)"
  by (simp_all add: yad_view_def object_meta.defs)

text \<open>The two packages ask the scheme for the kind of their own type.\<close>

definition asDaemon :: "'w rev_env \<Rightarrow> 'w rev_env" where
  "asDaemon env = env\<lparr>re_GVKForObject := \<lambda>_. re_GVKForObject env ''YurtAppDaemon''\<rparr>"

lemma asDaemon_simps [simp]:
  "re_rm (asDaemon env) = re_rm env" "re_List (asDaemon env) = re_List env"
  "re_Get (asDaemon env) = re_Get env" "re_Create (asDaemon env) = re_Create env"
  "re_Update (asDaemon env) = re_Update env" "re_Delete (asDaemon env) = re_Delete env"
  "re_MarshalTemplate (asDaemon env) = re_MarshalTemplate env"
  "re_GVKForObject (asDaemon env) t = re_GVKForObject env ''YurtAppDaemon''"
  "re_Sort (asDaemon env) = re_Sort env" "re_EqualRevision (asDaemon env) = re_EqualRevision env"
  "re_NewControllerRevision (asDaemon env) = re_NewControllerRevision env"
  "re_Hash (asDaemon env) = re_Hash env" "re_RevisionName (asDaemon env) = re_RevisionName env"
  by (simp_all add: asDaemon_def)

lemma deleteExpired_yad_eq: "deleteExpired_yad env = deleteExpired (asDaemon env)"
proof (intro ext)
  fix live exceedNum i rs w
  show "deleteExpired_yad env live exceedNum i rs w
      = deleteExpired (asDaemon env) live exceedNum i rs w"
    by (induction rs arbitrary: i w) (simp_all add: andThen_def split: prod.split outcome.split)
qed

lemma createControllerRevision_yad_eq:
  "createControllerRevision_yad fuel env d cr cnt =
     createControllerRevision fuel (asDaemon env) (yad_view d) cr cnt"
  by (induction fuel arbitrary: cnt)
    (simp_all add: Let_def cong del: sum.case_cong_weak if_weak_cong)

lemma newRevision_yad_eq:
  assumes "wt_statefulSet (yd_template (yad_spec d)) \<noteq> None \<or>
    wt_deployment (yd_template (yad_spec d)) \<noteq> None"
  shows "newRevision_yad env d n cnt = newRevision (asDaemon env) (yad_view d) n cnt"
  using assms
  by (auto simp: newRevision_yad_def newRevision_def getYurtAppDaemonPatch_def
      getYurtAppSetPatch_def split: sum.split option.split)

lemmas revision_yad_defs =
  controlledHistories_yad_def cleanExpiredRevision_yad_def collisionsOf_yad_def
  finishRevisions_yad_def nextRevision_yad_def constructFrom_yad_def

lemmas revision_yas_defs =
  controlledHistories_def cleanExpiredRevision_def collisionsOf_def finishRevisions_def
  nextRevision_def constructFrom_def

lemma equalPositions_asDaemon [simp]: "equalPositions (asDaemon env) = equalPositions env"
  by (simp add: equalPositions_def fun_eq_iff)

lemma revision_yad_eqs:
  "finishRevisions_yad d = finishRevisions (yad_view d)"
  "collisionsOf_yad d = collisionsOf (yad_view d)"
  "nextRevision_yad = nextRevision"
  "controlledHistories_yad env d = controlledHistories (asDaemon env) (yad_view d)"
  "cleanExpiredRevision_yad env d = cleanExpiredRevision (asDaemon env) (yad_view d)"
  by (simp_all add: fun_eq_iff revision_yad_defs revision_yas_defs deleteExpired_yad_eq
      cong del: sum.case_cong_weak option.case_cong_weak if_weak_cong)

text \<open>The revisions of a YurtAppDaemon are determined by the same program as those of a
  YurtAppSet with its selector, template, limit and status: for every server and every fuel both
  make the same calls, leave the same world and return the same result, once the kind the scheme
  answers is the same. (Without a template both fail, with a text that names their type.)\<close>

theorem constructYurtAppDaemonRevisions_eq:
  assumes "wt_statefulSet (yd_template (yad_spec d)) \<noteq> None \<or>
    wt_deployment (yd_template (yad_spec d)) \<noteq> None"
  shows "constructYurtAppDaemonRevisions fuel env d =
    constructYurtAppSetRevisions fuel (asDaemon env) (yad_view d)"
  by (simp add: constructYurtAppDaemonRevisions_def constructYurtAppSetRevisions_def
      constructFrom_yad_def constructFrom_def newRevision_yad_eq [OF assms] revision_yad_eqs
      createControllerRevision_yad_eq Let_def
      cong del: sum.case_cong_weak option.case_cong_weak if_weak_cong)

end
