(* ===== verification/YAD_Controller.thy ===== *)
theory YAD_Controller
  imports YAD_Workload YAD_Revision Tools
begin

section \<open>YurtAppDaemon: the reconciliation\<close>

text \<open>
  \<open>controller/yurtappdaemon/yurtappdaemon_controller.go\<close> and \<open>nodepool_enqueue_handlers.go\<close>. One
  reconciliation fetches the YurtAppDaemon, determines its revisions, collects its workloads and the
  node pools it selects, creates a workload for each node pool without one, deletes the
  workloads of node pools that are not selected, updates those that do not match, and writes the
  status.

  \<open>fuel\<close> bounds the search for a revision name (see \<open>YAS_Revision\<close>); \<open>None\<close> as a result says
  it was not enough. The reconciler is the record \<open>yad_env\<close>: its map from kinds of templates to
  controls, the client, \<open>LabelSelectorAsSelector\<close> and \<open>TolerationsTolerateTaint\<close>.
\<close>

record 'w yad_env = "'w runtime" +
  yde_controls :: "(template_type \<times> 'w wl_control) list"
  yde_rev :: "'w rev_env"
  yde_AsSelector :: "label_selector option \<Rightarrow> go_error + (string gomap \<Rightarrow> bool)"
  yde_ListNodePools :: "(string gomap \<Rightarrow> bool) \<Rightarrow> ('w, nodepool list) io"
  yde_tolerates :: "toleration list \<Rightarrow> taint \<Rightarrow> bool"
  yde_Get :: "string \<Rightarrow> string \<Rightarrow> ('w, yad) io"
  yde_UpdateStatus :: "yad \<Rightarrow> ('w, yad) io"
  yde_ListDaemons :: "('w, yad list) io"

definition slowStartInitialBatchSize_yad :: int where
  "slowStartInitialBatchSize_yad = 1"

text \<open>A control for stateful sets is commented out in \<open>newReconciler\<close>.\<close>

definition newReconciler_yad :: "'w wl_env \<Rightarrow> (template_type \<times> 'w wl_control) list" where
  "newReconciler_yad env = [(DeploymentTemplateType, DeploymentControllor env)]"

definition typeText :: "template_type \<Rightarrow> string" where
  "typeText t =
     (case t of StatefulSetTemplateType \<Rightarrow> ''StatefulSet''
      | DeploymentTemplateType \<Rightarrow> ''Deployment'' | NoTemplateType \<Rightarrow> [])"

subsection \<open>What there is\<close>

definition getTemplateControls ::
  "'w yad_env \<Rightarrow> yad \<Rightarrow> go_error + 'w wl_control option \<times> template_type" where
  "getTemplateControls env d =
     (if wt_statefulSet (yd_template (yad_spec d)) \<noteq> None
      then Inr (map_of (yde_controls env) StatefulSetTemplateType, StatefulSetTemplateType)
      else if wt_deployment (yd_template (yad_spec d)) \<noteq> None
      then Inr (map_of (yde_controls env) DeploymentTemplateType, DeploymentTemplateType)
      else Inl (PlainErr ''The appropriate WorkloadTemplate was not found, Now Support(StatefulSet/Deployment)''))"

text \<open>Of the workloads of one node pool the last is taken; one without a node pool is passed over.\<close>

definition getNodePoolToWorkLoad :: "yad \<Rightarrow> 'w wl_control \<Rightarrow> ('w, yad_load gomap) io" where
  "getNodePoolToWorkLoad d c =
     andThen (wc_GetAllWorkloads c d) (\<lambda>workloads.
       ret (fold (\<lambda>w m. if GetNodePoolName w \<noteq> [] then gput (GetNodePoolName w) w m else m)
         workloads (Some [])))"

text \<open>An error of the list is logged and \<open>nil, nil\<close> is returned.\<close>

definition getNameToNodePools :: "'w yad_env \<Rightarrow> yad \<Rightarrow> ('w, nodepool gomap) io" where
  "getNameToNodePools env d =
     (case yde_AsSelector env (yd_nodePoolSelector (yad_spec d)) of
        Inl e \<Rightarrow> fail e
      | Inr nodepoolSelector \<Rightarrow>
          andThen (attempt (yde_ListNodePools env nodepoolSelector)) (\<lambda>r. case r of
            Inl e \<Rightarrow> ret None
          | Inr nodepools \<Rightarrow> ret (fold (\<lambda>v m. gput (m_name v) v m) nodepools (Some []))))"

subsection \<open>What has to be done\<close>

definition workloadMatches ::
  "(toleration list \<Rightarrow> taint \<Rightarrow> bool) \<Rightarrow> string \<Rightarrow> nodepool \<Rightarrow> yad_load \<Rightarrow> string \<Rightarrow> bool" where
  "workloadMatches tolerates npName np load expectedRevision =
     (map_DeepEqual (GetNodeSelector load) (CreateNodeSelectorByNodepoolName npName)
      \<and> IsTolerationsAllTaints tolerates (GetToleration load) (nps_taints (np_spec np))
      \<and> GetRevision load = expectedRevision)"

text \<open>The loads to delete, the loads to update and the node pools to create one for.\<close>

definition classifyWorkloads ::
  "(toleration list \<Rightarrow> taint \<Rightarrow> bool) \<Rightarrow> yad_load gomap \<Rightarrow> nodepool gomap \<Rightarrow> string
   \<Rightarrow> yad_load list \<times> yad_load list \<times> string list" where
  "classifyWorkloads tolerates current all expectedRevision =
     (map snd (filter (\<lambda>(npName, load). gget all npName = None) (entries current)),
      map snd (filter (\<lambda>(npName, load). case gget all npName of
          None \<Rightarrow> False
        | Some np \<Rightarrow> \<not> workloadMatches tolerates npName np load expectedRevision) (entries current)),
      filter (\<lambda>vnp. gget current vnp = None) (map fst (entries all)))"

subsection \<open>\<open>manageWorkloadsProvision\<close>\<close>

definition poolOf :: "nodepool gomap \<Rightarrow> string \<Rightarrow> nodepool" where
  "poolOf all name = (case gget all name of None \<Rightarrow> empty_nodepool | Some np \<Rightarrow> np)"

definition createLoad ::
  "'w wl_control \<Rightarrow> template_type \<Rightarrow> yad \<Rightarrow> nodepool gomap \<Rightarrow> string \<Rightarrow> string list \<Rightarrow> nat
   \<Rightarrow> ('w, unit) io" where
  "createLoad ctl templateType d all revision needCreate idx =
     (let nodepoolName = needCreate ! idx in
      andThen (attempt (wc_CreateWorkload ctl d (poolOf all nodepoolName) revision)) (\<lambda>r. case r of
        Inl e \<Rightarrow>
          (if \<not> isTimeout e
           then fail (PlainErr (''YurtAppDaemon['' @ m_namespace d @ ''/'' @ m_name d
             @ ''] templatetype '' @ typeText templateType @ '' create workload by nodepool ''
             @ nodepoolName @ '' error: '' @ error_text e))
           else ret ())
      | Inr _ \<Rightarrow> ret ()))"

definition deleteLoads ::
  "'w wl_control \<Rightarrow> template_type \<Rightarrow> yad \<Rightarrow> yad_load list \<Rightarrow> ('w, go_error list) io" where
  "deleteLoads ctl templateType d =
     attemptAll (wc_DeleteWorkload ctl d)
       (\<lambda>load e. PlainErr (''YurtAppDaemon['' @ m_namespace d @ ''/'' @ m_name d
          @ ''] delete workload['' @ typeText templateType @ ''/'' @ ld_namespace load @ ''/''
          @ ld_name load @ ''] error '' @ error_text e))"

definition loadMessage :: "string \<Rightarrow> int \<Rightarrow> template_type \<Rightarrow> string" where
  "loadMessage verb n templateType =
     verb @ decimal n @ '' Workload type('' @ typeText templateType @ '')''"

definition manageWorkloadsProvision ::
  "'w yad_env \<Rightarrow> yad \<Rightarrow> nodepool gomap \<Rightarrow> string \<Rightarrow> template_type \<Rightarrow> yad_load list \<Rightarrow> string list
   \<Rightarrow> ('w, bool \<times> go_error option) io" where
  "manageWorkloadsProvision env d all revision templateType needDeleted needCreate =
     (case map_of (yde_controls env) templateType of
        None \<Rightarrow> lift (Panic ''nil pointer dereference'')
      | Some ctl \<Rightarrow>
      andThen (if length needCreate > 0 then
          andThen (SlowStartBatch (rt_sched env) (int (length needCreate))
              slowStartInitialBatchSize_yad
              (createLoad ctl templateType d all revision needCreate)) (\<lambda>(createdNum, createdErr).
            case createdErr of
              None \<Rightarrow> andThen (event env ''Successful CreateWorkload''
                  (loadMessage ''Create '' createdNum templateType)) (\<lambda>_. ret [])
            | Some e \<Rightarrow> ret [e])
        else ret []) (\<lambda>errs1.
      andThen (if length needDeleted > 0 then
          andThen (deleteLoads ctl templateType d needDeleted) (\<lambda>deleteErrs.
            if length deleteErrs > 0 then ret deleteErrs
            else andThen (event env ''Successful DeleteWorkload''
                  (loadMessage ''Delete '' (int (length needDeleted)) templateType)) (\<lambda>_. ret []))
        else ret []) (\<lambda>errs2.
      ret (length needCreate > 0 \<or> length needDeleted > 0, rt_NewAggregate env (errs1 @ errs2)))))"

subsection \<open>\<open>manageWorkloads\<close>\<close>

definition updateLoad ::
  "'w yad_env \<Rightarrow> 'w wl_control \<Rightarrow> template_type \<Rightarrow> yad \<Rightarrow> nodepool gomap \<Rightarrow> string \<Rightarrow> yad_load list
   \<Rightarrow> nat \<Rightarrow> ('w, unit) io" where
  "updateLoad env ctl templateType d all revision needUpdate index =
     (let u = needUpdate ! index in
      andThen (attempt (wc_UpdateWorkload ctl u d (poolOf all (GetNodePoolName u)) revision))
        (\<lambda>r. case r of
          Inl e \<Rightarrow> andThen (event env ''Failed UpdateWorkload''
              (''Error updating workload type('' @ typeText templateType @ '') '' @ ld_name u
               @ '' when updating: '' @ error_text e)) (\<lambda>_. fail e)
        | Inr _ \<Rightarrow> ret ()))"

definition setCondition_yad ::
  "'w yad_env \<Rightarrow> yad_status \<Rightarrow> string \<Rightarrow> string \<Rightarrow> string \<Rightarrow> string \<Rightarrow> ('w, yad_status) io" where
  "setCondition_yad env status condType cstatus reason message =
     andThen (now env) (\<lambda>t.
       ret (SetYurtAppDaemonCondition status
         (NewYurtAppDaemonCondition t condType cstatus reason message)))"

text \<open>The new status and the error are both returned.\<close>

definition manageWorkloads ::
  "'w yad_env \<Rightarrow> yad \<Rightarrow> yad_load gomap \<Rightarrow> nodepool gomap \<Rightarrow> string \<Rightarrow> template_type
   \<Rightarrow> ('w, yad_status \<times> go_error option) io" where
  "manageWorkloads env d current all revision templateType =
     (let status0 = (yad_status d)\<lparr>dt_nodePools := Some (map fst (entries all))\<rparr>;
          (needDeleted, needUpdate, needCreate) =
            classifyWorkloads (yde_tolerates env) current all revision in
      andThen (manageWorkloadsProvision env d all revision templateType needDeleted needCreate)
        (\<lambda>(provision, err). case err of
          Some e \<Rightarrow>
            andThen (setCondition_yad env status0 WorkLoadProvisioned ''False'' ''Error''
                (error_text e)) (\<lambda>newStatus.
              ret (newStatus,
                Some (PlainErr (''fail to manage workload provision: '' @ error_text e))))
        | None \<Rightarrow>
            andThen (if provision
                then setCondition_yad env status0 WorkLoadProvisioned ''True'' [] []
                else ret status0) (\<lambda>status1.
            case map_of (yde_controls env) templateType of
              None \<Rightarrow> lift (Panic ''nil pointer dereference'')
            | Some ctl \<Rightarrow>
            andThen (if length needUpdate > 0 then
                andThen (SlowStartBatch (rt_sched env) (int (length needUpdate))
                    slowStartInitialBatchSize_yad
                    (updateLoad env ctl templateType d all revision needUpdate))
                  (\<lambda>(_, updateErr). ret updateErr)
              else ret None) (\<lambda>updateErr.
            andThen (case updateErr of
                None \<Rightarrow> setCondition_yad env status1 WorkLoadUpdated ''True'' [] []
              | Some e \<Rightarrow> setCondition_yad env status1 WorkLoadUpdated ''False'' ''Error''
                  (error_text e))
              (\<lambda>newStatus. ret (newStatus, updateErr))))))"

subsection \<open>The status\<close>

definition calculateStatus_yad ::
  "yad_status \<Rightarrow> controller_revision \<Rightarrow> int32 \<Rightarrow> template_type \<Rightarrow> yad_status" where
  "calculateStatus_yad newStatus currentRevision collisionCount templateType =
     (let s1 = newStatus\<lparr>dt_collisionCount := Some collisionCount\<rparr>;
          s2 = (if dt_currentRevision s1 = []
                then s1\<lparr>dt_currentRevision := m_name currentRevision\<rparr> else s1)
      in s2\<lparr>dt_templateType := templateType\<rparr>)"

fun updateStatus_yad_tries :: "nat \<Rightarrow> 'w yad_env \<Rightarrow> yad \<Rightarrow> yad_status \<Rightarrow> ('w, yad) io" where
  "updateStatus_yad_tries 0 env obj newStatus =
     yde_UpdateStatus env (obj\<lparr>yad_status := newStatus\<rparr>)"
| "updateStatus_yad_tries (Suc retries) env obj newStatus =
     andThen (attempt (yde_UpdateStatus env (obj\<lparr>yad_status := newStatus\<rparr>))) (\<lambda>r. case r of
       Inr stored \<Rightarrow> ret stored
     | Inl e \<Rightarrow>
         andThen (yde_Get env (m_namespace obj) (m_name obj)) (\<lambda>tmpObj.
           updateStatus_yad_tries retries env tmpObj newStatus))"

text \<open>The collision counts are read through their pointers, if the revisions are equal.\<close>

definition updateYurtAppDaemon ::
  "'w yad_env \<Rightarrow> yad \<Rightarrow> yad_status \<Rightarrow> yad_status \<Rightarrow> ('w, yad) io" where
  "updateYurtAppDaemon env d oldStatus newStatus =
     (let write = updateStatus_yad_tries updateRetries_yad env d
            (newStatus\<lparr>dt_observedGeneration := m_generation d\<rparr>) in
      if dt_currentRevision oldStatus = dt_currentRevision newStatus then
        (case (dt_collisionCount oldStatus, dt_collisionCount newStatus) of
           (Some c1, Some c2) \<Rightarrow>
             (if c1 = c2 \<and> dt_templateType oldStatus = dt_templateType newStatus
               \<and> m_generation d = dt_observedGeneration newStatus
               \<and> slice_DeepEqual (dt_nodePools oldStatus) (dt_nodePools newStatus)
               \<and> slice_DeepEqual (dt_conditions oldStatus) (dt_conditions newStatus)
              then ret d else write)
         | _ \<Rightarrow> lift (Panic ''nil pointer dereference''))
      else write)"

definition updateStatus_yad ::
  "'w yad_env \<Rightarrow> yad \<Rightarrow> yad_status \<Rightarrow> yad_status \<Rightarrow> controller_revision \<Rightarrow> int32 \<Rightarrow> template_type
   \<Rightarrow> ('w, unit) io" where
  "updateStatus_yad env d newStatus oldStatus currentRevision collisionCount templateType =
     andThen (updateYurtAppDaemon env d oldStatus
         (calculateStatus_yad newStatus currentRevision collisionCount templateType)) (\<lambda>_. ret ())"

subsection \<open>\<open>Reconcile\<close>\<close>

text \<open>From the control on, when the revisions are known.\<close>

definition reconcileWorkloads ::
  "'w yad_env \<Rightarrow> yad \<Rightarrow> controller_revision \<Rightarrow> controller_revision \<Rightarrow> int32 \<Rightarrow> ('w, unit) io" where
  "reconcileWorkloads env d currentRevision updatedRevision collisionCount =
     (case getTemplateControls env d of
        Inl e \<Rightarrow> andThen (event env ''FailedTemplateController'' (error_text e)) (\<lambda>_. fail e)
      | Inr (None, templateType) \<Rightarrow>
          andThen (event env (''YurtAppDaemon['' @ m_namespace d @ ''/'' @ m_name d
              @ ''] Fail to get control'') ''fail to find control'') (\<lambda>_.
            fail (PlainErr ''fail to find control''))
      | Inr (Some ctl, templateType) \<Rightarrow>
      andThen (getNodePoolToWorkLoad d ctl) (\<lambda>current.
      andThen (getNameToNodePools env d) (\<lambda>all.
      andThen (manageWorkloads env d current all (m_name updatedRevision) templateType)
        (\<lambda>(newStatus, err). case err of
           Some e \<Rightarrow> fail e
         | None \<Rightarrow> updateStatus_yad env d newStatus (yad_status d) currentRevision collisionCount
             templateType))))"

definition Reconcile_yad :: "nat \<Rightarrow> 'w yad_env \<Rightarrow> string \<Rightarrow> string \<Rightarrow> ('w, unit option) io" where
  "Reconcile_yad fuel env ns name =
     andThen (attempt (yde_Get env ns name)) (\<lambda>g. case g of
       Inl e \<Rightarrow> (if isNotFound e then ret (Some ()) else fail e)
     | Inr d \<Rightarrow>
         (if m_deletionTimestamp d \<noteq> None then ret (Some ())
          else andThen (constructYurtAppDaemonRevisions fuel (yde_rev env) d) (\<lambda>c. case c of
            None \<Rightarrow> ret None
          | Some (collisionCount, Inl e) \<Rightarrow>
              andThen (event env ''FailedRevisionProvision'' (error_text e)) (\<lambda>_. fail e)
          | Some (collisionCount, Inr (currentRevision, updatedRevision)) \<Rightarrow>
              andThen (reconcileWorkloads env d currentRevision updatedRevision collisionCount)
                (\<lambda>_. ret (Some ())))))"

subsection \<open>Which YurtAppDaemons a node pool event wakes up\<close>

text \<open>The queue holds namespaces and names.\<close>

definition addYurtAppDaemonToWorkQueue ::
  "string \<Rightarrow> string \<Rightarrow> (string \<times> string) list \<Rightarrow> (string \<times> string) list" where
  "addYurtAppDaemonToWorkQueue ns name q = q @ [(ns, name)]"

definition addAllYurtAppDaemonToWorkQueue ::
  "'w yad_env \<Rightarrow> (string \<times> string) list \<Rightarrow> ('w, (string \<times> string) list) io" where
  "addAllYurtAppDaemonToWorkQueue env q =
     andThen (attempt (yde_ListDaemons env)) (\<lambda>r. case r of
       Inl e \<Rightarrow> ret q
     | Inr ydas \<Rightarrow> ret (fold (\<lambda>d. addYurtAppDaemonToWorkQueue (m_namespace d) (m_name d)) ydas q))"

datatype nodepool_event = CreateEvent | UpdateEvent | DeleteEvent | GenericEvent

definition EnqueueYurtAppDaemonForNodePool ::
  "'w yad_env \<Rightarrow> nodepool_event \<Rightarrow> (string \<times> string) list \<Rightarrow> ('w, (string \<times> string) list) io" where
  "EnqueueYurtAppDaemonForNodePool env ev q =
     (case ev of
        GenericEvent \<Rightarrow> ret q
      | _ \<Rightarrow> addAllYurtAppDaemonToWorkQueue env q)"

end
