(* ===== verification/YAD_Calls.thy ===== *)
theory YAD_Calls
  imports YAD_Controller
begin

section \<open>YurtAppDaemon: what a reconciliation does\<close>

text \<open>
  The calls that change workloads, as a record of the world, and the facts about them: which are
  made for given workloads and node pools, that a workload written from the template needs no
  further update, and that nothing is done once everything matches.
\<close>

datatype load_call =
  CreateLoad nodepool string
| UpdateLoad yad_load nodepool string
| DeleteLoad yad_load

definition traced_yad :: "'w yad_env \<Rightarrow> yad \<Rightarrow> ('w \<Rightarrow> load_call list) \<Rightarrow> bool" where
  "traced_yad env d tr \<longleftrightarrow>
     (\<forall>(t, c) \<in> set (yde_controls env).
       (\<forall>np r w. tr (snd (wc_CreateWorkload c d np r w)) = tr w @ [CreateLoad np r]) \<and>
       (\<forall>load np r w. tr (snd (wc_UpdateWorkload c load d np r w)) = tr w @ [UpdateLoad load np r]) \<and>
       (\<forall>load w. tr (snd (wc_DeleteWorkload c d load w)) = tr w @ [DeleteLoad load])) \<and>
     (\<forall>reason message w. tr (rt_Event env reason message w) = tr w)"

lemma traced_yadD:
  assumes "traced_yad env d tr" and "(t, c) \<in> set (yde_controls env)"
  shows "wc_CreateWorkload c d np r w = (q, w') \<Longrightarrow> tr w' = tr w @ [CreateLoad np r]"
    and "wc_UpdateWorkload c load d np r w = (q, w') \<Longrightarrow> tr w' = tr w @ [UpdateLoad load np r]"
    and "wc_DeleteWorkload c d load w = (q, w') \<Longrightarrow> tr w' = tr w @ [DeleteLoad load]"
proof -
  have facts: "tr (snd (wc_CreateWorkload c d np r w)) = tr w @ [CreateLoad np r]"
    "tr (snd (wc_UpdateWorkload c load d np r w)) = tr w @ [UpdateLoad load np r]"
    "tr (snd (wc_DeleteWorkload c d load w)) = tr w @ [DeleteLoad load]"
    using assms by (auto simp: traced_yad_def)
  show "wc_CreateWorkload c d np r w = (q, w') \<Longrightarrow> tr w' = tr w @ [CreateLoad np r]"
    using facts(1) by simp
  show "wc_UpdateWorkload c load d np r w = (q, w') \<Longrightarrow> tr w' = tr w @ [UpdateLoad load np r]"
    using facts(2) by simp
  show "wc_DeleteWorkload c d load w = (q, w') \<Longrightarrow> tr w' = tr w @ [DeleteLoad load]"
    using facts(3) by simp
qed

lemma createLoad_trace:
  assumes "traced_yad env d tr" and "(t, ctl) \<in> set (yde_controls env)"
    and "createLoad ctl t d all revision names i u = (q, u')"
  shows "tr u' = tr u @ [CreateLoad (poolOf all (names ! i)) revision]"
proof -
  obtain r u1 where c: "wc_CreateWorkload ctl d (poolOf all (names ! i)) revision u = (r, u1)"
    by fastforce
  have "u' = u1"
    using assms(3) c by (cases r) (auto simp: createLoad_def Let_def andThen_def attempt_def io_simps
        split: if_splits)
  with traced_yadD(1) [OF assms(1,2) c] show ?thesis by simp
qed

lemma updateLoad_trace:
  assumes "traced_yad env d tr" and "(t, ctl) \<in> set (yde_controls env)"
    and "updateLoad env ctl t d all revision loads i u = (q, u')"
  shows "tr u' = tr u @ [UpdateLoad (loads ! i) (poolOf all (GetNodePoolName (loads ! i))) revision]"
proof -
  obtain r u1 where c: "wc_UpdateWorkload ctl (loads ! i) d
      (poolOf all (GetNodePoolName (loads ! i))) revision u = (r, u1)" by fastforce
  have "tr u' = tr u1"
    using assms(1,3) c
    by (cases r) (auto simp: updateLoad_def Let_def andThen_def attempt_def io_simps event_def
        traced_yad_def)
  with traced_yadD(2) [OF assms(1,2) c] show ?thesis by simp
qed

lemma setCondition_yad_eq:
  "setCondition_yad env s ct cs reason msg w =
     (Ret (SetYurtAppDaemonCondition s (NewYurtAppDaemonCondition (rt_Now env w) ct cs reason msg)), w)"
  by (simp add: setCondition_yad_def now_def io_simps)

subsection \<open>Which workloads belong to which list\<close>

lemma getNodePoolToWorkLoad_run:
  assumes "getNodePoolToWorkLoad d c w = (Ret m, w')"
  obtains loads where "wc_GetAllWorkloads c d w = (Ret loads, w')" and "gomap_ok m"
    and "\<And>name. gget m name = (if name = [] then None
      else find (\<lambda>l. GetNodePoolName l = name) (rev loads))"
proof -
  from assms obtain loads where g: "wc_GetAllWorkloads c d w = (Ret loads, w')"
    and m: "m = fold (\<lambda>w m. if GetNodePoolName w \<noteq> [] then gput (GetNodePoolName w) w m else m)
      loads (Some [])"
    unfolding getNodePoolToWorkLoad_def by (auto simp: io_simps elim!: andThen_RetD)
  have "gomap_ok (fold (\<lambda>w m. if GetNodePoolName w \<noteq> [] then gput (GetNodePoolName w) w m else m)
      loads m0)" if "gomap_ok m0" for m0
    using that by (induction loads arbitrary: m0) auto
  moreover have "gget (fold (\<lambda>w m. if GetNodePoolName w \<noteq> [] then gput (GetNodePoolName w) w m else m)
      loads m0) name = (case (if name = [] then None
        else find (\<lambda>l. GetNodePoolName l = name) (rev loads)) of None \<Rightarrow> gget m0 name | r \<Rightarrow> r)"
    for m0 name
    by (induction loads arbitrary: m0) (auto simp: gomap_simps find_append split: option.splits)
  ultimately show thesis
    using m by (intro that [OF g]) (simp_all add: gomap_simps split: option.split)
qed

definition keyed :: "yad_load gomap \<Rightarrow> bool" where
  "keyed current \<longleftrightarrow>
     gomap_ok current \<and> (\<forall>(name, load) \<in> set (entries current). GetNodePoolName load = name)"

lemma getNodePoolToWorkLoad_keyed:
  assumes "getNodePoolToWorkLoad d c w = (Ret m, w')"
  shows "keyed m"
proof -
  obtain loads where "gomap_ok m" and "\<And>name. gget m name = (if name = [] then None
      else find (\<lambda>l. GetNodePoolName l = name) (rev loads))"
    using getNodePoolToWorkLoad_run [OF assms] by metis
  then show ?thesis
    unfolding keyed_def
    by (auto simp: gget_Some_iff [symmetric] find_Some_iff split: if_splits)
qed

text \<open>The workloads are classified by the node pools that are selected: each workload under the name
  of its node pool, a workload is deleted if and only if its node pool is not selected, updated if
  and only if its node pool is selected and it does not match, and a workload is created for a
  node pool if and only if there is none; nothing is in two lists or twice in one.\<close>

theorem classifyWorkloads_partition:
  assumes "keyed current" and "gomap_ok all"
    and "classifyWorkloads tolerates current all revision = (dels, upds, creates)"
  shows "set dels = {load. \<exists>name. gget current name = Some load \<and> gget all name = None} \<and>
    set upds = {load. \<exists>name np. gget current name = Some load \<and> gget all name = Some np \<and>
      \<not> workloadMatches tolerates name np load revision} \<and>
    set creates = {name. gget all name \<noteq> None \<and> gget current name = None} \<and>
    distinct creates \<and> distinct (dels @ upds)"
proof -
  have ok: "gomap_ok current" and key: "\<And>n l. (n, l) \<in> set (entries current) \<Longrightarrow> GetNodePoolName l = n"
    using assms(1) by (auto simp: keyed_def)
  have lists: "dels = map snd (filter (\<lambda>(n, load). gget all n = None) (entries current))"
    "upds = map snd (filter (\<lambda>(n, load). case gget all n of None \<Rightarrow> False
        | Some np \<Rightarrow> \<not> workloadMatches tolerates n np load revision) (entries current))"
    "creates = filter (\<lambda>n. gget current n = None) (map fst (entries all))"
    using assms(3) by (simp_all add: classifyWorkloads_def)
  have "inj_on snd (set (entries current))"
    by (auto simp: inj_on_def dest!: key)
  moreover have "distinct (entries current)"
    using ok by (simp add: gomap_ok_def distinct_map)
  ultimately have "distinct (map snd (entries current))"
    by (simp add: distinct_map)
  then have "distinct dels" "distinct upds"
    by (simp_all add: lists distinct_map_filter)
  moreover have "set dels = {load. \<exists>name. gget current name = Some load \<and> gget all name = None}"
    by (force simp: lists gget_Some_iff [OF ok])
  moreover have "set upds = {load. \<exists>name np. gget current name = Some load \<and>
      gget all name = Some np \<and> \<not> workloadMatches tolerates name np load revision}"
    by (force simp: lists gget_Some_iff [OF ok] split: option.splits)
  moreover have "set creates = {name. gget all name \<noteq> None \<and> gget current name = None}"
    by (auto simp: lists gget_None_iff image_iff)
  moreover have "distinct creates"
    using assms(2) by (simp add: lists gomap_ok_def)
  moreover have "\<forall>x \<in> set dels. gget all (GetNodePoolName x) = None"
    "\<forall>x \<in> set upds. gget all (GetNodePoolName x) \<noteq> None"
    by (auto simp: lists dest!: key split: option.splits)
  then have "set dels \<inter> set upds = {}" by blast
  ultimately show ?thesis by simp
qed

subsection \<open>The calls of \<open>manageWorkloads\<close>\<close>

definition createLoads :: "nodepool gomap \<Rightarrow> string \<Rightarrow> string list \<Rightarrow> load_call list" where
  "createLoads all revision names = map (\<lambda>n. CreateLoad (poolOf all n) revision) names"

definition updateLoads :: "nodepool gomap \<Rightarrow> string \<Rightarrow> yad_load list \<Rightarrow> load_call list" where
  "updateLoads all revision loads =
     map (\<lambda>l. UpdateLoad l (poolOf all (GetNodePoolName l)) revision) loads"

lemma manageWorkloadsProvision_trace:
  assumes tr: "traced_yad env d tr" and ok: "batch_ok env"
    and run: "manageWorkloadsProvision env d all revision t dels creates w
      = (Ret (provision, err), w')"
  shows "\<exists>cs. mset cs \<subseteq># mset creates \<and> (err = None \<longrightarrow> mset cs = mset creates) \<and>
    tr w' = tr w @ createLoads all revision cs @ map DeleteLoad dels \<and>
    (provision \<longleftrightarrow> creates \<noteq> [] \<or> dels \<noteq> [])"
proof -
  have ev: "tr (rt_Event env a b u) = tr u" for a b u using tr by (simp add: traced_yad_def)
  obtain ctl where m: "map_of (yde_controls env) t = Some ctl"
    using run by (auto simp: manageWorkloadsProvision_def lift_def split: option.splits)
  then have ctl: "(t, ctl) \<in> set (yde_controls env)" by (rule map_of_SomeD)
  from run m obtain errs1 w1 errs2 where
    c: "(if length creates > 0 then
          andThen (SlowStartBatch (rt_sched env) (int (length creates))
              slowStartInitialBatchSize_yad (createLoad ctl t d all revision creates))
            (\<lambda>(createdNum, createdErr). case createdErr of
              None \<Rightarrow> andThen (event env ''Successful CreateWorkload''
                  (loadMessage ''Create '' createdNum t)) (\<lambda>_. ret [])
            | Some e \<Rightarrow> ret [e])
        else ret []) w = (Ret errs1, w1)" and
    d: "(if length dels > 0 then
          andThen (deleteLoads ctl t d dels) (\<lambda>deleteErrs.
            if length deleteErrs > 0 then ret deleteErrs
            else andThen (event env ''Successful DeleteWorkload''
                  (loadMessage ''Delete '' (int (length dels)) t)) (\<lambda>_. ret []))
        else ret []) w1 = (Ret errs2, w')" and
    res: "provision \<longleftrightarrow> length creates > 0 \<or> length dels > 0" "err = rt_NewAggregate env (errs1 @ errs2)"
    unfolding manageWorkloadsProvision_def m option.case
    by (elim andThen_RetD) (auto simp: io_simps)
  obtain cs where "mset cs \<subseteq># mset creates"
    "tr w1 = tr w @ map (\<lambda>n. CreateLoad (poolOf all n) revision) cs" "errs1 = [] \<longrightarrow> mset cs = mset creates"
    using batch_phase_event [OF ok _ ev _ c, of "\<lambda>n. CreateLoad (poolOf all n) revision"]
      createLoad_trace [OF tr ctl]
    by (auto simp: slowStartInitialBatchSize_yad_def)
  moreover have "tr w' = tr w1 @ map DeleteLoad dels"
    using attemptAll_phase [of tr, OF ev _ d [unfolded deleteLoads_def], of DeleteLoad]
    by (auto dest: traced_yadD(3) [OF tr ctl])
  moreover have "err = None \<longrightarrow> errs1 = []" using res(2) ok by (simp add: batch_ok_def)
  ultimately show ?thesis
    using res(1) by (intro exI [of _ cs]) (auto simp: createLoads_def)
qed

text \<open>C10: one run of \<open>manageWorkloads\<close> on classified workloads. Workloads are created for node pools
  that have none, in an order the scheduler chooses, for all of them unless an error is
  returned; every workload of a node pool that is not selected is deleted, whatever happened before;
  after an error nothing is updated and the condition says so; else only workloads that do not match
  are updated, all of them unless an error is returned, and the condition tells which. The
  status lists the names of the node pools selected.\<close>

theorem manageWorkloads_calls:
  assumes tr: "traced_yad env d tr" and ok: "batch_ok env"
    and cls: "classifyWorkloads (yde_tolerates env) current all revision = (dels, upds, creates)"
    and run: "manageWorkloads env d current all revision t w = (Ret (status, err), w')"
  shows "\<exists>cs us. tr w' = tr w @ createLoads all revision cs @ map DeleteLoad dels
        @ updateLoads all revision us \<and>
    mset cs \<subseteq># mset creates \<and> mset us \<subseteq># mset upds \<and>
    (err = None \<longrightarrow> mset cs = mset creates \<and> mset us = mset upds \<and>
      condStatus_yad status WorkLoadUpdated = Some ''True'' \<and>
      (creates \<noteq> [] \<or> dels \<noteq> [] \<longrightarrow> condStatus_yad status WorkLoadProvisioned = Some ''True'')) \<and>
    (err \<noteq> None \<longrightarrow> condStatus_yad status WorkLoadUpdated = Some ''False'' \<or>
      condStatus_yad status WorkLoadProvisioned = Some ''False'' \<and> us = []) \<and>
    dt_nodePools status = Some (map fst (entries all))"
proof -
  let ?s0 = "(yad_status d)\<lparr>dt_nodePools := Some (map fst (entries all))\<rparr>"
  obtain provision perr w1 where p: "manageWorkloadsProvision env d all revision t dels creates w
      = (Ret (provision, perr), w1)" and k: "(case perr of
          Some e \<Rightarrow>
            andThen (setCondition_yad env ?s0 WorkLoadProvisioned ''False'' ''Error''
                (error_text e)) (\<lambda>newStatus.
              ret (newStatus,
                Some (PlainErr (''fail to manage workload provision: '' @ error_text e))))
        | None \<Rightarrow>
            andThen (if provision
                then setCondition_yad env ?s0 WorkLoadProvisioned ''True'' [] []
                else ret ?s0) (\<lambda>status1.
            case map_of (yde_controls env) t of
              None \<Rightarrow> lift (Panic ''nil pointer dereference'')
            | Some ctl \<Rightarrow>
            andThen (if length upds > 0 then
                andThen (SlowStartBatch (rt_sched env) (int (length upds))
                    slowStartInitialBatchSize_yad
                    (updateLoad env ctl t d all revision upds))
                  (\<lambda>(_, updateErr). ret updateErr)
              else ret None) (\<lambda>updateErr.
            andThen (case updateErr of
                None \<Rightarrow> setCondition_yad env status1 WorkLoadUpdated ''True'' [] []
              | Some e \<Rightarrow> setCondition_yad env status1 WorkLoadUpdated ''False'' ''Error''
                  (error_text e))
              (\<lambda>newStatus. ret (newStatus, updateErr))))) w1 = (Ret (status, err), w')"
    using run unfolding manageWorkloads_def Let_def cls prod.case by (rule andThen_RetD2)
  obtain cs where cs: "mset cs \<subseteq># mset creates" "perr = None \<longrightarrow> mset cs = mset creates"
    "tr w1 = tr w @ createLoads all revision cs @ map DeleteLoad dels"
    "provision \<longleftrightarrow> creates \<noteq> [] \<or> dels \<noteq> []"
    using manageWorkloadsProvision_trace [OF tr ok p] by blast
  show ?thesis
  proof (cases perr)
    case (Some e)
    with k cs show ?thesis
      by (intro exI [of _ cs] exI [of _ "[]"])
        (auto simp: andThen_def setCondition_yad_eq ret_def condStatus_yad_set updateLoads_def)
  next
    case None
    obtain s1 where s1: "(if provision
          then setCondition_yad env ?s0 WorkLoadProvisioned ''True'' [] []
          else ret ?s0) w1 = (Ret s1, w1)"
      "provision \<longrightarrow> condStatus_yad s1 WorkLoadProvisioned = Some ''True''"
      "dt_nodePools s1 = Some (map fst (entries all))"
      by (cases provision) (simp_all add: setCondition_yad_eq ret_def condStatus_yad_set)
    obtain ctl where ctl: "map_of (yde_controls env) t = Some ctl"
      using k None s1(1) by (auto simp: andThen_def lift_def split: option.splits)
    have step: "andThen (if provision
          then setCondition_yad env ?s0 WorkLoadProvisioned ''True'' [] []
          else ret ?s0) k' w1 = k' s1 w1" for k' :: "yad_status \<Rightarrow> ('a, yad_status \<times> go_error option) io"
      using s1(1) by (simp add: andThen_def)
    from k have "andThen (if length upds > 0 then
                andThen (SlowStartBatch (rt_sched env) (int (length upds))
                    slowStartInitialBatchSize_yad
                    (updateLoad env ctl t d all revision upds))
                  (\<lambda>(_, updateErr). ret updateErr)
              else ret None) (\<lambda>uerr. andThen (case uerr of
                None \<Rightarrow> setCondition_yad env s1 WorkLoadUpdated ''True'' [] []
              | Some e \<Rightarrow> setCondition_yad env s1 WorkLoadUpdated ''False'' ''Error'' (error_text e))
              (\<lambda>newStatus. ret (newStatus, uerr))) w1 = (Ret (status, err), w')"
      unfolding None option.case step ctl .
    then obtain uerr w2 where
      u: "(if length upds > 0 then
                andThen (SlowStartBatch (rt_sched env) (int (length upds))
                    slowStartInitialBatchSize_yad
                    (updateLoad env ctl t d all revision upds))
                  (\<lambda>(_, updateErr). ret updateErr)
              else ret None) w1 = (Ret uerr, w2)"
      and fin: "andThen (case uerr of
                None \<Rightarrow> setCondition_yad env s1 WorkLoadUpdated ''True'' [] []
              | Some e \<Rightarrow> setCondition_yad env s1 WorkLoadUpdated ''False'' ''Error'' (error_text e))
              (\<lambda>newStatus. ret (newStatus, uerr)) w2 = (Ret (status, err), w')"
      by (rule andThen_RetD)
    obtain us where us: "mset us \<subseteq># mset upds" "tr w2 = tr w1 @ updateLoads all revision us"
      "uerr = None \<longrightarrow> mset us = mset upds"
      using batch_phase [OF ok _ _ u, of tr "\<lambda>l. UpdateLoad l (poolOf all (GetNodePoolName l)) revision"]
        updateLoad_trace [OF tr map_of_SomeD [OF ctl]]
      by (auto simp: updateLoads_def slowStartInitialBatchSize_yad_def)
    show ?thesis
      using us cs s1 fin None
      by (intro exI [of _ cs] exI [of _ us])
        (auto simp: andThen_def setCondition_yad_eq ret_def condStatus_yad_set split: option.splits)
  qed
qed

subsection \<open>When the list of node pools fails\<close>

text \<open>C12: an error of the list of node pools is not an error of the reconciliation: the code goes on as
  if no node pool were selected and deletes every workload of the YurtAppDaemon.\<close>

theorem nodepools_error_deletes_all:
  assumes tr: "traced_yad env d tr" and ok: "batch_ok env"
    and sel: "yde_AsSelector env (yd_nodePoolSelector (yad_spec d)) = Inr s"
    and err: "yde_ListNodePools env s w = (Err e, w1)" and "tr w1 = tr w"
    and run: "andThen (getNameToNodePools env d)
      (\<lambda>all. manageWorkloads env d current all revision t) w = (Ret (status, res), w')"
  shows "tr w' = tr w @ map DeleteLoad (map snd (entries current)) \<and> dt_nodePools status = Some []"
proof -
  have "getNameToNodePools env d w = (Ret None, w1)"
    using sel err by (simp add: getNameToNodePools_def andThen_def attempt_def ret_def)
  then have m: "manageWorkloads env d current None revision t w1 = (Ret (status, res), w')"
    using run by (simp add: andThen_def)
  have cls: "classifyWorkloads (yde_tolerates env) current None revision
      = (map snd (entries current), [], [])"
    by (simp add: classifyWorkloads_def gget_nil case_prod_beta)
  from manageWorkloads_calls [OF tr ok cls m] assms(5) show ?thesis
    by (auto simp: createLoads_def updateLoads_def)
qed

subsection \<open>A workload written from the template is settled\<close>

lemma loadPodSpec_Ret:
  assumes "loadPodSpec spec np = Ret spec'"
  shows "ps_nodeSelector spec' = CreateNodeSelectorByNodepoolName (m_name np)"
    and "items (ps_tolerations spec') =
      items (ps_tolerations spec) @ TaintsToTolerations (nps_taints (np_spec np))"
  using assms by (auto simp: loadPodSpec_def Let_def appendSlice_def split: option.splits if_splits)

lemma loadDeploymentSpec_Ret:
  assumes "loadDeploymentSpec spec np revision = Ret spec'"
  obtains pod where "loadPodSpec (pt_spec (ds_template spec)) np = Ret pod"
    and "pt_spec (ds_template spec') = pod"
  using assms by (auto simp: loadDeploymentSpec_def Let_def split: option.splits outcome.splits)

lemma applyLoadMeta_gets:
  "gval (m_labels (applyLoadMeta env d npName revision tmpl ml wl)) ControllerRevisionHashLabelKey
     = revision"
  "gval (m_annotations (applyLoadMeta env d npName revision tmpl ml wl)) AnnotationRefNodePool = npName"
  "m_namespace (applyLoadMeta env d npName revision tmpl ml wl) = m_namespace d"
  by (simp_all add: applyLoadMeta_def Let_def gomap_simps)

text \<open>What is used of \<open>SetControllerReference\<close> and of \<open>TolerationsTolerateTaint\<close>: the first
  changes the owners only, and a toleration of a key and an effect with the operator \<open>Exists\<close>
  tolerates a taint with that key and that effect.\<close>

definition setReference_ok :: "'w wl_env \<Rightarrow> yad \<Rightarrow> bool" where
  "setReference_ok env d \<longleftrightarrow>
     (\<forall>wl wl'. wle_SetControllerReference env d wl = Inr wl' \<longrightarrow> (\<exists>owners. wl' = wl\<lparr>m_owners := owners\<rparr>))"

definition tolerates_ok :: "(toleration list \<Rightarrow> taint \<Rightarrow> bool) \<Rightarrow> bool" where
  "tolerates_ok tolerates \<longleftrightarrow>
     (\<forall>ts t tol. tol \<in> set ts \<longrightarrow> tol_operator tol = ''Exists'' \<longrightarrow> tol_key tol = t_key t \<longrightarrow>
        tol_effect tol = t_effect t \<longrightarrow> tolerates ts t)"

lemma tolerates_taints:
  assumes "tolerates_ok tolerates"
    and "items tols = xs @ TaintsToTolerations taints"
  shows "IsTolerationsAllTaints tolerates tols taints"
proof -
  have "tolerates (items tols) t" if "t \<in> set (items taints)" for t
  proof -
    have "\<lparr>tol_key = t_key t, tol_operator = ''Exists'', tol_value = [], tol_effect = t_effect t,
         tol_seconds = None\<rparr> \<in> set (items tols)"
      using that assms(2) by (auto simp: TaintsToTolerations_def)
    with assms(1) show ?thesis by (fastforce simp: tolerates_ok_def)
  qed
  then show ?thesis by (simp add: IsTolerationsAllTaints_def list_all_iff)
qed

text \<open>C11: a deployment written from the template for a node pool is that node pool's workload and
  matches it at that revision, whatever the deployment was before: its node selector is the
  one of the node pool, every taint is tolerated and it carries the revision. It is not classified
  for an update or a deletion as long as the node pool and the revision stay.\<close>

theorem applyTemplate_settles:
  assumes "applyTemplate env d np revision wl = Ret wl'"
    and "setReference_ok env d" and "tolerates_ok tolerates"
  shows "\<exists>load. toLoad wl' = Ret load \<and> GetNodePoolName load = m_name np \<and>
    workloadMatches tolerates (m_name np) np load revision \<and>
    m_namespace wl' = m_namespace d \<and>
    (\<forall>current all. keyed current \<longrightarrow> gomap_ok all \<longrightarrow> gget all (m_name np) = Some np \<longrightarrow>
      load \<notin> set (fst (classifyWorkloads tolerates current all revision)) \<and>
      load \<notin> set (fst (snd (classifyWorkloads tolerates current all revision))))"
proof -
  obtain tmpl sel spec where spec: "wt_deployment (yd_template (yad_spec d)) = Some tmpl"
    "yd_selector (yad_spec d) = Some sel" "loadDeploymentSpec (dt_spec tmpl) np revision = Ret spec"
    and set: "wle_SetControllerReference env d
      ((applyLoadMeta env d (m_name np) revision tmpl (ls_matchLabels sel) wl)
         \<lparr>w_body := DeploymentBody spec (bodyStatus wl)\<rparr>) = Inr wl'"
    using assms(1) by (auto simp: applyTemplate_def split: option.splits outcome.splits sum.splits)
  obtain owners where wl': "wl' = ((applyLoadMeta env d (m_name np) revision tmpl (ls_matchLabels sel) wl)
         \<lparr>w_body := DeploymentBody spec (bodyStatus wl)\<rparr>)\<lparr>m_owners := owners\<rparr>"
    using assms(2) set unfolding setReference_ok_def by blast
  obtain pod where pod: "loadPodSpec (pt_spec (ds_template (dt_spec tmpl))) np = Ret pod"
    "pt_spec (ds_template spec) = pod"
    by (rule loadDeploymentSpec_Ret [OF spec(3)])
  let ?load = "\<lparr>ld_name = m_name wl', ld_namespace = m_namespace wl', ld_ref = wl',
    ld_toleration = ps_tolerations pod, ld_nodeSelector = ps_nodeSelector pod\<rparr>"
  have "toLoad wl' = Ret ?load"
    using pod(2) by (simp add: toLoad_def wl')
  moreover have name: "GetNodePoolName ?load = m_name np"
    by (simp add: GetNodePoolName_def wl' applyLoadMeta_gets)
  moreover have "m_namespace wl' = m_namespace d"
    by (simp add: wl' applyLoadMeta_gets)
  moreover have match: "workloadMatches tolerates (m_name np) np ?load revision"
    using loadPodSpec_Ret [OF pod(1)] tolerates_taints [OF assms(3)]
    by (auto simp: workloadMatches_def GetNodeSelector_def GetToleration_def GetRevision_def wl'
        applyLoadMeta_gets CreateNodeSelectorByNodepoolName_def gomap_ok_def)
  moreover have "?load \<notin> set (fst (classifyWorkloads tolerates current all revision)) \<and>
      ?load \<notin> set (fst (snd (classifyWorkloads tolerates current all revision)))"
    if "keyed current" and "gget all (m_name np) = Some np" for current all
  proof -
    have "n = m_name np" if "(n, ?load) \<in> set (entries current)" for n
      using \<open>keyed current\<close> that name by (auto simp: keyed_def)
    with \<open>gget all (m_name np) = Some np\<close> match show ?thesis
      by (force simp: classifyWorkloads_def)
  qed
  ultimately show ?thesis by blast
qed

subsection \<open>A settled YurtAppDaemon\<close>

definition loads_settled ::
  "(toleration list \<Rightarrow> taint \<Rightarrow> bool) \<Rightarrow> yad_load gomap \<Rightarrow> nodepool gomap \<Rightarrow> string \<Rightarrow> bool" where
  "loads_settled tolerates current all revision \<longleftrightarrow>
     fst ` set (entries current) = fst ` set (entries all) \<and>
     (\<forall>(name, load) \<in> set (entries current).
        workloadMatches tolerates name (poolOf all name) load revision)"

lemma loads_settled_classify:
  assumes "loads_settled tolerates current all revision"
  shows "classifyWorkloads tolerates current all revision = ([], [], [])"
proof -
  have "gget all n \<noteq> None" "workloadMatches tolerates n (poolOf all n) l revision"
    if "(n, l) \<in> set (entries current)" for n l
    using assms that unfolding loads_settled_def gget_None_iff by force+
  then have "filter (\<lambda>(n, load). gget all n = None) (entries current) = []"
    "filter (\<lambda>(n, load). case gget all n of None \<Rightarrow> False
        | Some np \<Rightarrow> \<not> workloadMatches tolerates n np load revision) (entries current) = []"
    by (fastforce simp: filter_empty_conv poolOf_def split: option.splits)+
  moreover have "filter (\<lambda>n. gget current n = None) (map fst (entries all)) = []"
    using assms by (auto simp: filter_empty_conv loads_settled_def gget_None_iff)
  ultimately show ?thesis by (simp add: classifyWorkloads_def)
qed

text \<open>The status says what is the case: the names, the revision, the type, the generation, and
  that the last update went well.\<close>

definition status_settled ::
  "yad \<Rightarrow> nodepool gomap \<Rightarrow> int32 \<Rightarrow> template_type \<Rightarrow> bool" where
  "status_settled d all cnt t \<longleftrightarrow>
     dt_currentRevision (yad_status d) \<noteq> [] \<and> dt_collisionCount (yad_status d) = Some cnt \<and>
     dt_templateType (yad_status d) = t \<and> dt_observedGeneration (yad_status d) = m_generation d \<and>
     dt_nodePools (yad_status d) = Some (map fst (entries all)) \<and>
     (case GetYurtAppDaemonCondition (yad_status d) WorkLoadUpdated of
        None \<Rightarrow> False | Some c \<Rightarrow> cd_status c = ''True'' \<and> cd_reason c = [])"

lemma manageWorkloads_settled:
  assumes "loads_settled (yde_tolerates env) current all revision" and "status_settled d all cnt t"
    and "map_of (yde_controls env) t \<noteq> None" and "batch_ok env"
  shows "manageWorkloads env d current all revision t w = (Ret (yad_status d, None), w)"
proof -
  have s0: "(yad_status d)\<lparr>dt_nodePools := Some (map fst (entries all))\<rparr> = yad_status d"
    using assms(2) by (cases "yad_status d") (simp add: status_settled_def)
  have "SetYurtAppDaemonCondition (yad_status d)
      (NewYurtAppDaemonCondition n WorkLoadUpdated ''True'' [] []) = yad_status d" for n
    using assms(2)
    by (auto simp: status_settled_def SetYurtAppDaemonCondition_def NewYurtAppDaemonCondition_def
        split: option.splits)
  moreover obtain ctl where ctl: "map_of (yde_controls env) t = Some ctl" using assms(3) by blast
  moreover have "rt_NewAggregate env [] = None" using assms(4) by (simp add: batch_ok_def)
  then have "manageWorkloadsProvision env d all revision t [] [] = ret (False, None)"
    by (simp add: fun_eq_iff manageWorkloadsProvision_def ctl)
  ultimately show ?thesis
    by (simp add: manageWorkloads_def loads_settled_classify [OF assms(1)] s0 ret_def
        andThen_def setCondition_yad_eq)
qed


end
