(* ===== verification/YAD_Examples.thy ===== *)
theory YAD_Examples
  imports YAS_Examples YAD_Calls
begin

section \<open>YurtAppDaemon: a concrete cluster\<close>

text \<open>
  The properties of the YurtAppDaemon applied on a server in memory: deployments are stored for the
  node pools \<open>hangzhou\<close>, at an old revision, and \<open>shanghai\<close>; the node pools selected are
  \<open>hangzhou\<close>, which has a taint, and \<open>beijing\<close>. Every write of a workload is recorded.
\<close>

definition logged_wl :: "'w wl_control \<Rightarrow> (load_call list \<times> 'w) wl_control" where
  "logged_wl c = \<lparr>
     wc_GetTemplateType = wc_GetTemplateType c,
     wc_GetAllWorkloads = (\<lambda>d. on_snd (wc_GetAllWorkloads c d)),
     wc_CreateWorkload = (\<lambda>d np r. log (CreateLoad np r) (wc_CreateWorkload c d np r)),
     wc_UpdateWorkload = (\<lambda>l d np r. log (UpdateLoad l np r) (wc_UpdateWorkload c l d np r)),
     wc_DeleteWorkload = (\<lambda>d l. log (DeleteLoad l) (wc_DeleteWorkload c d l))\<rparr>"

definition demo_wle :: "workload list wl_env" where
  "demo_wle = \<lparr>
     wle_rm = demo_rm, wle_NameIsDNSSubdomain = (\<lambda>name prefix. []),
     wle_SetControllerReference = (\<lambda>d obj. Inr (obj\<lparr>m_owners := Some [demo_ref (m_uid d)]\<rparr>)),
     wle_List = (\<lambda>sel w. (Ret (filter (\<lambda>wl. sel (m_labels wl)) w), w)),
     wle_Get = (\<lambda>ns name w.
       (case find (\<lambda>wl. m_namespace wl = ns \<and> m_name wl = name) w of
          None \<Rightarrow> Err (StatusErr NotFound name) | Some wl \<Rightarrow> Ret wl, w)),
     wle_Create = (\<lambda>wl w. let wl' = wl\<lparr>m_name := m_generateName wl @ ''x''\<rparr> in (Ret wl', w @ [wl'])),
     wle_Update = (\<lambda>wl w. (Ret wl, map (\<lambda>v. if m_name v = m_name wl then wl else v) w)),
     wle_Delete = (\<lambda>wl w. (Ret (), filter (\<lambda>v. m_name v \<noteq> m_name wl) w))\<rparr>"

definition demo_np :: "string \<Rightarrow> taint list \<Rightarrow> nodepool" where
  "demo_np name taints = empty_nodepool\<lparr>m_name := name,
     np_spec := (np_spec empty_nodepool)\<lparr>nps_taints := Some taints\<rparr>\<rparr>"

definition demo_taint :: taint where
  "demo_taint = \<lparr>t_key = ''edge'', t_value = [], t_effect = ''NoSchedule'', t_timeAdded = None\<rparr>"

definition demo_hangzhou :: nodepool where "demo_hangzhou = demo_np ''hangzhou'' [demo_taint]"

definition demo_nodepools :: "nodepool gomap" where
  "demo_nodepools = Some [(''hangzhou'', demo_hangzhou), (''beijing'', demo_np ''beijing'' [])]"

definition demo_tolerates :: "toleration list \<Rightarrow> taint \<Rightarrow> bool" where
  "demo_tolerates ts t = list_ex (\<lambda>tol. tol_operator tol = ''Exists'' \<and> tol_key tol = t_key t
     \<and> tol_effect tol = t_effect t) ts"

definition demo_yad :: "yad_status \<Rightarrow> yad" where
  "demo_yad st = object_meta.extend (demo_owner\<lparr>m_generation := 2\<rparr>)
     \<lparr>yad_spec = \<lparr>yd_selector = Some demo_selector,
        yd_template = \<lparr>wt_statefulSet = None, wt_deployment = Some (object_meta.extend
          (empty_meta\<lparr>m_labels := Some [(''app'', ''web'')]\<rparr>)
          \<lparr>dt_spec = empty_deployment_spec\<lparr>ds_selector := Some demo_selector\<rparr>\<rparr>)\<rparr>,
        yd_nodePoolSelector = None, yd_revisionHistoryLimit = Some 2\<rparr>,
      yad_status = st\<rparr>"

definition demo_yad_status :: yad_status where
  "demo_yad_status = \<lparr>dt_observedGeneration = 2, dt_collisionCount = Some 0,
     dt_currentRevision = ''web-1'', dt_conditions = Some [NewYurtAppDaemonCondition ''before''
       WorkLoadUpdated ''True'' [] []], dt_templateType = DeploymentTemplateType,
     dt_nodePools = Some [''hangzhou'', ''beijing'']\<rparr>"

abbreviation demo_d :: yad where "demo_d \<equiv> demo_yad demo_yad_status"

definition demo_env_yad ::
  "(load_call list \<times> workload list) wl_control \<Rightarrow>
   ((string gomap \<Rightarrow> bool) \<Rightarrow> (load_call list \<times> workload list, nodepool list) io) \<Rightarrow>
   (load_call list \<times> workload list) yad_env" where
  "demo_env_yad ctl nodepools = \<lparr>
     rt_sched = rev, rt_Event = (\<lambda>reason message w. w), rt_Now = (\<lambda>w. ''now''),
     rt_NewAggregate = (\<lambda>es. case es of [] \<Rightarrow> None | e # _ \<Rightarrow> Some e),
     yde_controls = [(DeploymentTemplateType, ctl)],
     yde_rev = \<lparr>re_rm = demo_rm, re_List = (\<lambda>sel. ret []), re_Get = (\<lambda>ns n. fail (PlainErr ''none'')),
       re_Create = ret, re_Update = ret, re_Delete = (\<lambda>cr. ret ()),
       re_MarshalTemplate = (\<lambda>t. Inr ''template''), re_GVKForObject = Inr, re_Sort = (\<lambda>rs. rs),
       re_EqualRevision = (\<lambda>a b. cr_data a = cr_data b),
       re_NewControllerRevision = (\<lambda>m gvk ls patch n c. Inr (object_meta.extend
         (empty_meta\<lparr>m_labels := ls\<rparr>) \<lparr>cr_data = patch, cr_revision = n\<rparr>)),
       re_Hash = (\<lambda>cr c. ''1''), re_RevisionName = (\<lambda>name hash. name @ ''-'' @ hash)\<rparr>,
     yde_AsSelector = (\<lambda>sel. Inr (\<lambda>_. True)),
     yde_ListNodePools = nodepools, yde_tolerates = demo_tolerates,
     yde_Get = (\<lambda>ns n. fail (StatusErr NotFound n)), yde_UpdateStatus = ret,
     yde_ListDaemons = ret []\<rparr>"

abbreviation demo_ctl_yad :: "(load_call list \<times> workload list) wl_control" where
  "demo_ctl_yad \<equiv> logged_wl (DeploymentControllor demo_wle)"

abbreviation demo_ye :: "(load_call list \<times> workload list) yad_env" where
  "demo_ye \<equiv> demo_env_yad demo_ctl_yad (\<lambda>_. ret (map snd (entries demo_nodepools)))"

lemma traced_demo_yad: "traced_yad (demo_env_yad (logged_wl c) nps) d fst"
  by (auto simp: traced_yad_def demo_env_yad_def logged_wl_def log_def split: prod.split)

lemma batch_ok_demo_yad: "batch_ok (demo_env_yad c nps)"
  by (auto simp: batch_ok_def demo_env_yad_def split: list.splits)

text \<open>The deployments and the workloads the code makes of them\<close>

definition demo_deploy :: "nodepool \<Rightarrow> string \<Rightarrow> workload" where
  "demo_deploy np revision =
     (case applyTemplate demo_wle demo_d np revision newDeployment of
        Ret wl \<Rightarrow> wl\<lparr>m_name := ''web-'' @ m_name np\<rparr> | _ \<Rightarrow> newDeployment)"

definition demo_loads :: "workload list \<Rightarrow> yad_load gomap" where
  "demo_loads stored = (case getNodePoolToWorkLoad demo_d demo_ctl_yad ([], stored) of
     (Ret m, w) \<Rightarrow> m | _ \<Rightarrow> None)"

definition demo_stored_yad :: "workload list" where
  "demo_stored_yad = [demo_deploy demo_hangzhou ''web-0'', demo_deploy (demo_np ''shanghai'' []) ''web-1'']"

definition demo_settled_yad :: "workload list" where
  "demo_settled_yad =
     [demo_deploy demo_hangzhou ''web-1'', demo_deploy (demo_np ''beijing'' []) ''web-1'']"

lemma keyed_demo: "keyed (demo_loads demo_stored_yad)"
proof -
  have "(case getNodePoolToWorkLoad demo_d demo_ctl_yad ([], demo_stored_yad) of
     (Ret m, w) \<Rightarrow> True | _ \<Rightarrow> False)" by code_simp
  then obtain m w where m: "getNodePoolToWorkLoad demo_d demo_ctl_yad ([], demo_stored_yad) = (Ret m, w)"
    by (auto split: prod.splits outcome.splits)
  then have "demo_loads demo_stored_yad = m" by (simp add: demo_loads_def)
  with getNodePoolToWorkLoad_keyed [OF m] show ?thesis by simp
qed

subsection \<open>The properties applied\<close>

theorem constructYurtAppDaemonRevisions_eq_witness:
  "constructYurtAppDaemonRevisions 3 demo_rev demo_d =
     constructYurtAppSetRevisions 3 (asDaemon demo_rev) (yad_view demo_d)"
proof -
  have "wt_deployment (yd_template (yad_spec demo_d)) \<noteq> None" by code_simp
  then show ?thesis by (intro constructYurtAppDaemonRevisions_eq) simp
qed

theorem classifyWorkloads_partition_witness:
  "\<exists>dels upds creates. classifyWorkloads demo_tolerates (demo_loads demo_stored_yad) demo_nodepools ''web-1''
      = (dels, upds, creates) \<and> set creates = {''beijing''} \<and>
    map ld_name dels = [''web-shanghai''] \<and> map ld_name upds = [''web-hangzhou''] \<and>
    distinct (dels @ upds)"
proof -
  let ?c = "classifyWorkloads demo_tolerates (demo_loads demo_stored_yad) demo_nodepools ''web-1''"
  obtain dels upds creates where c: "?c = (dels, upds, creates)" by (metis surj_pair)
  have "map ld_name (fst ?c) = [''web-shanghai'']" "map ld_name (fst (snd ?c)) = [''web-hangzhou'']"
    "set (snd (snd ?c)) = {''beijing''}" by code_simp+
  moreover have "gomap_ok demo_nodepools" by code_simp
  then have "distinct (dels @ upds)"
    using classifyWorkloads_partition [OF keyed_demo _ c] by blast
  ultimately show ?thesis using c by (simp del: distinct_append)
qed

theorem manageWorkloads_calls_witness:
  "\<exists>status cs us w'. manageWorkloads demo_ye demo_d (demo_loads demo_stored_yad) demo_nodepools ''web-1''
      DeploymentTemplateType ([], demo_stored_yad) = (Ret (status, None), w') \<and>
    fst w' = createLoads demo_nodepools ''web-1'' cs @ map DeleteLoad
      (fst (classifyWorkloads demo_tolerates (demo_loads demo_stored_yad) demo_nodepools ''web-1''))
      @ updateLoads demo_nodepools ''web-1'' us \<and>
    cs = [''beijing''] \<and> map ld_name us = [''web-hangzhou''] \<and>
    map m_name (snd w') = [''web-hangzhou'', ''web-beijing-x'']"
proof -
  let ?run = "manageWorkloads demo_ye demo_d (demo_loads demo_stored_yad) demo_nodepools ''web-1''
      DeploymentTemplateType ([], demo_stored_yad)"
  let ?c = "classifyWorkloads (yde_tolerates demo_ye) (demo_loads demo_stored_yad) demo_nodepools ''web-1''"
  have "(case fst ?run of Ret (s, None) \<Rightarrow> True | _ \<Rightarrow> False)" by code_simp
  then obtain status w' where run: "?run = (Ret (status, None), w')"
    by (cases ?run) (auto split: outcome.splits option.splits)
  obtain dels upds creates where c: "?c = (dels, upds, creates)" by (metis surj_pair)
  have "map ld_name (fst (snd ?c)) = [''web-hangzhou'']" "snd (snd ?c) = [''beijing'']"
    "map m_name (snd (snd ?run)) = [''web-hangzhou'', ''web-beijing-x'']" by code_simp+
  with c run have lists: "map ld_name upds = [''web-hangzhou'']" "creates = [''beijing'']"
    "map m_name (snd w') = [''web-hangzhou'', ''web-beijing-x'']" by simp_all
  from manageWorkloads_calls [OF traced_demo_yad batch_ok_demo_yad c run]
  obtain cs us where t: "fst w' = createLoads demo_nodepools ''web-1'' cs @ map DeleteLoad dels
      @ updateLoads demo_nodepools ''web-1'' us" "mset cs = mset creates" "mset us = mset upds" by auto
  have "cs = [''beijing'']" using t(2) lists by simp
  moreover have "us = upds" using t(3) lists by (cases upds) auto
  moreover have "dels = fst (classifyWorkloads demo_tolerates (demo_loads demo_stored_yad)
      demo_nodepools ''web-1'')" using c by (simp add: demo_env_yad_def)
  ultimately show ?thesis using run t(1) lists by auto
qed

theorem nodepools_error_deletes_all_witness:
  "\<exists>status res w'. andThen (getNameToNodePools (demo_env_yad demo_ctl_yad (\<lambda>_. fail (PlainErr ''down'')))
      demo_d) (\<lambda>all. manageWorkloads (demo_env_yad demo_ctl_yad (\<lambda>_. fail (PlainErr ''down''))) demo_d
        (demo_loads demo_settled_yad) all ''web-1'' DeploymentTemplateType) ([], demo_settled_yad)
      = (Ret (status, res), w') \<and>
    fst w' = map DeleteLoad (map snd (entries (demo_loads demo_settled_yad))) \<and> snd w' = []"
proof -
  let ?env = "demo_env_yad demo_ctl_yad (\<lambda>_. fail (PlainErr ''down''))"
  let ?run = "andThen (getNameToNodePools ?env demo_d) (\<lambda>all. manageWorkloads ?env demo_d
      (demo_loads demo_settled_yad) all ''web-1'' DeploymentTemplateType) ([], demo_settled_yad)"
  have "(case fst ?run of Ret (s, r) \<Rightarrow> True | _ \<Rightarrow> False) \<and> snd (snd ?run) = []" by code_simp
  then obtain status res w' where run: "?run = (Ret (status, res), w')" "snd w' = []"
    by (cases ?run) (auto split: outcome.splits)
  have "yde_AsSelector ?env (yd_nodePoolSelector (yad_spec demo_d)) = Inr (\<lambda>_. True)"
    "yde_ListNodePools ?env (\<lambda>_. True) ([], demo_settled_yad) = (Err (PlainErr ''down''), ([], demo_settled_yad))"
    by (simp_all add: demo_env_yad_def fail_def)
  with nodepools_error_deletes_all [OF traced_demo_yad batch_ok_demo_yad _ _ _ run(1)] run
  show ?thesis by auto
qed

theorem applyTemplate_settles_witness:
  "\<exists>wl' load. applyTemplate demo_wle demo_d demo_hangzhou ''web-1''
      (demo_deploy (demo_np ''shanghai'' []) ''web-0'') = Ret wl' \<and>
    toLoad wl' = Ret load \<and> GetNodePoolName load = ''hangzhou'' \<and>
    workloadMatches demo_tolerates ''hangzhou'' demo_hangzhou load ''web-1''"
proof -
  let ?a = "applyTemplate demo_wle demo_d demo_hangzhou ''web-1''
      (demo_deploy (demo_np ''shanghai'' []) ''web-0'')"
  have "(case ?a of Ret _ \<Rightarrow> True | _ \<Rightarrow> False)" by code_simp
  then obtain wl' where wl': "?a = Ret wl'" by (auto split: outcome.splits)
  have "setReference_ok demo_wle demo_d" by (auto simp: setReference_ok_def demo_wle_def)
  moreover have "tolerates_ok demo_tolerates"
    by (auto simp: tolerates_ok_def demo_tolerates_def list_ex_iff)
  moreover have "m_name demo_hangzhou = ''hangzhou''" by (simp add: demo_hangzhou_def demo_np_def)
  ultimately show ?thesis
    using applyTemplate_settles [OF wl'] wl' by metis
qed


end
