(* ===== verification/YI_Examples.thy ===== *)
theory YI_Examples
  imports YI_Webhook YAD_Examples
begin

section \<open>YurtIngress: concrete runs\<close>

text \<open>
  The properties of the YurtIngress components applied: a server that keeps a list of objects,
  templates whose first letter is the kind and whose second tells the templates of a kind apart, and a YurtIngress of
  two node pools.
\<close>

definition demo_text :: "yaml_template \<Rightarrow> string" where
  "demo_text t = (case t of
     NginxIngressControllerNodePoolDeployment \<Rightarrow> ''da'' | NginxIngressAdmissionWebhookDeployment \<Rightarrow> ''db''
   | NginxIngressControllerService \<Rightarrow> ''sa'' | NginxIngressAdmissionWebhookService \<Rightarrow> ''sb''
   | NginxIngressValidatingWebhookConfiguration \<Rightarrow> ''v''
   | NginxIngressAdmissionWebhookJob \<Rightarrow> ''ja'' | NginxIngressAdmissionWebhookJobPatch \<Rightarrow> ''jb''
   | NginxIngressControllerNamespace \<Rightarrow> ''n'' | _ \<Rightarrow> ''r'')"

definition demo_kind :: "string \<Rightarrow> obj_kind" where
  "demo_kind text = (let c = take 1 text in
     if c = ''d'' then KDeployment else if c = ''s'' then KService else if c = ''v'' then KWebhookConfig
     else if c = ''j'' then KJob else if c = ''n'' then KNamespace else KRole)"

definition demo_ku :: "kobject list ku_env" where
  "demo_ku = \<lparr>
     ku_text = demo_text, ku_Execute = (\<lambda>t ctx. Inr (t @ concat (map snd ctx))),
     ku_Decode = (\<lambda>text. Inr (object_meta.extend (empty_meta\<lparr>m_name := text\<rparr>)
       \<lparr>ko_kind = demo_kind text, ko_phase = [], ko_replicas = None, ko_images = [''img''],
        ko_externalIPs = None, ko_body = []\<rparr>)),
     ku_Get = (\<lambda>kd ns n w. (case find (\<lambda>obj. keyOf obj = (kd, ns, n)) w of
       None \<Rightarrow> Err (StatusErr NotFound n) | Some obj \<Rightarrow> Ret obj, w)),
     ku_Create = (\<lambda>obj w. if list_ex (\<lambda>x. keyOf x = keyOf obj) w
       then (Err (StatusErr AlreadyExists (m_name obj)), w) else (Ret obj, obj # w)),
     ku_Update = (\<lambda>obj w. (Ret obj, map (\<lambda>x. if keyOf x = keyOf obj then obj else x) w)),
     ku_Delete = (\<lambda>fg obj w. if list_ex (\<lambda>x. keyOf x = keyOf obj) w
       then (Ret (), filter (\<lambda>x. keyOf x \<noteq> keyOf obj) w)
       else (Err (StatusErr NotFound (m_name obj)), w)),
     ku_Sleep = (\<lambda>n w. w)\<rparr>"

definition demo_has :: "kobject list \<Rightarrow> object_key set" where
  "demo_has w = keyOf ` set w"

lemma demo_ku_create: "ku_Create demo_ku obj w =
    (if list_ex (\<lambda>x. keyOf x = keyOf obj) w
     then (Err (StatusErr AlreadyExists (m_name obj)), w) else (Ret obj, obj # w))"
  by (simp add: demo_ku_def)

lemma demo_ku_delete: "ku_Delete demo_ku fg obj w =
    (if list_ex (\<lambda>x. keyOf x = keyOf obj) w
     then (Ret (), filter (\<lambda>x. keyOf x \<noteq> keyOf obj) w)
     else (Err (StatusErr NotFound (m_name obj)), w))"
  by (simp add: demo_ku_def)

lemma demo_store: "kube_store demo_ku demo_has"
  unfolding kube_store_def demo_ku_create demo_ku_delete
  by (auto simp: demo_has_def list_ex_iff split: if_splits) (metis image_eqI)

definition demo_owner_yi :: owner_ref where
  "demo_owner_yi = demo_ref ''u''"

theorem specific_resources_witness:
  "\<exists>w1 w2.
     CreateNginxIngressSpecificResource demo_ku ''hangzhou'' None ''ctl'' ''gen'' 1 demo_owner_yi [] = (Ret (), w1) \<and>
     DeleteNginxIngressSpecificResource demo_ku ''hangzhou'' True w1 = (Ret (), w2) \<and>
     demo_has w1 = specificKeys demo_ku ''hangzhou'' \<and> demo_has w2 = {}"
proof -
  let ?c = "CreateNginxIngressSpecificResource demo_ku ''hangzhou'' None ''ctl'' ''gen'' 1 demo_owner_yi []"
  have c: "?c = (Ret (), snd ?c)" by code_simp
  have d: "DeleteNginxIngressSpecificResource demo_ku ''hangzhou'' True (snd ?c) = (Ret (), [])" by code_simp
  from specific_resources [OF demo_store, of "''hangzhou''" None "''ctl''" "''gen''" 1 demo_owner_yi "[]" "snd ?c" "[]"]
    c d show ?thesis
    by (intro exI [of _ "snd ?c"] exI [of _ "[]"]) (simp add: demo_has_def)
qed

subsection \<open>A YurtIngress\<close>

definition demo_ip :: "string \<Rightarrow> ingress_pool" where
  "demo_ip n = \<lparr>ip_name = n, ip_ips = None\<rparr>"

text \<open>A YurtIngress that asks for some pools and whose status lists some\<close>

definition demo_yi :: "string \<Rightarrow> ingress_pool goslice \<Rightarrow> ingress_pool goslice \<Rightarrow> yi" where
  "demo_yi name desired current = object_meta.extend (empty_meta\<lparr>m_name := name, m_uid := ''u''\<rparr>)
     \<lparr>yi_spec = \<lparr>yis_replicas = 1, yis_controllerImage = ''ctl'', yis_certgenImage = ''gen'',
        yis_pools = desired\<rparr>,
      yi_status = \<lparr>yi_replicas = 1, yi_readyPools = current, yi_notReadyPools = None,
        yi_controllerImage = ''ctl'', yi_certgenImage = ''gen'', yi_readyNum = 0, yi_unreadyNum = 0\<rparr>\<rparr>"

definition demo_dply :: "string \<Rightarrow> ingress_deployment" where
  "demo_dply pool = object_meta.extend
     (empty_meta\<lparr>m_labels := Some [(ingressDeploymentLabel, pool)], m_owners := Some [demo_ref ''u'']\<rparr>)
     \<lparr>id_readyReplicas = 1, id_conditions = []\<rparr>"

definition demo_yie :: "yi list \<Rightarrow> ingress_deployment list \<Rightarrow> kobject list yi_env" where
  "demo_yie ings dplys = \<lparr>
     yie_ku = demo_ku, yie_roleType = (\<lambda>r. ([], [])), yie_rm = demo_rm,
     yie_Get = (\<lambda>ns n. fail (StatusErr NotFound n)), yie_Update = ret, yie_UpdateStatus = ret,
     yie_ListIngresses = ret ings, yie_ListDeployments = (\<lambda>sel. ret dplys)\<rparr>"

theorem addEach_creates_witness:
  "\<exists>y' w'. addEach (demo_yie [] []) demo_owner_yi (demo_yi ''ing'' None None) [demo_ip ''hangzhou''] []
      = (Ret y', w') \<and>
    demo_has w' = specificKeys demo_ku ''hangzhou'' \<and> items (getCurrentPools y') = [demo_ip ''hangzhou''] \<and>
    yi_unreadyNum (yi_status y') = 1"
proof -
  let ?r = "addEach (demo_yie [] []) demo_owner_yi (demo_yi ''ing'' None None) [demo_ip ''hangzhou''] []"
  have "(case ?r of (Ret _, _) \<Rightarrow> True | _ \<Rightarrow> False)" by code_simp
  then obtain y' w' where r: "?r = (Ret y', w')" by (auto split: prod.splits outcome.splits)
  have ku: "yie_ku (demo_yie [] []) = demo_ku" by (simp add: demo_yie_def)
  have "items (getCurrentPools (demo_yi ''ing'' None None)) = []"
    "yi_unreadyNum (yi_status (demo_yi ''ing'' None None)) = 0"
    by (simp_all add: demo_yi_def getCurrentPools_def object_meta.defs)
  with addEach_creates [OF _ r, unfolded ku, OF demo_store] r show ?thesis
    by (simp add: ku demo_has_def demo_ip_def)
qed

theorem stale_deployment_panics_witness:
  "reconcileIngress (demo_yie [] [demo_dply ''shanghai''])
     (demo_yi ''ing'' (Some [demo_ip ''hangzhou'']) (Some [demo_ip ''hangzhou''])) []
   = (Panic ''nil pointer dereference'', [])"
proof (rule stale_deployment_panics [where d = "demo_dply ''shanghai''"])
  show "getAllDeployments (demo_yie [] [demo_dply ''shanghai''])
     (demo_yi ''ing'' (Some [demo_ip ''hangzhou'']) (Some [demo_ip ''hangzhou''])) []
     = (Ret [demo_dply ''shanghai''], [])"
    by code_simp
qed (simp_all add: demo_yi_def demo_dply_def nothing_changed_def object_meta.defs getDesiredPools_def
    getCurrentPools_def getCurrentPool_def poolNames_def ingressDeploymentLabel_def demo_ip_def
    gval_def gget_def)

theorem remove_all_never_settles_witness:
  "\<exists>s. getPools None (getCurrentPools ((demo_yi ''ing'' None (Some [demo_ip ''hangzhou'']))\<lparr>yi_status := s\<rparr>))
     = (None, Some [demo_ip ''hangzhou''], None)"
proof -
  let ?e = "demo_yie [demo_yi ''ing'' None None, demo_yi ''other'' None None] []"
    and ?y = "demo_yi ''ing'' None (Some [demo_ip ''hangzhou''])"
  have run: "reconcileIngress ?e ?y [] = (Ret (), snd (reconcileIngress ?e ?y []))" by code_simp
  have "\<And>u. fst (isOnlyYurtIngressCR ?e u) = Ret False"
    by (simp add: isOnlyYurtIngressCR_def demo_yie_def attempt_def andThen_def ret_def)
  moreover have "getDesiredPools ?y = None" "items (getCurrentPools ?y) = [demo_ip ''hangzhou'']"
    by (simp_all add: demo_yi_def object_meta.defs getDesiredPools_def getCurrentPools_def)
  ultimately show ?thesis
    using remove_all_never_settles [OF _ _ _ run] by auto
qed

subsection \<open>Requests\<close>

definition demo_cluster :: cluster where
  "demo_cluster = \<lparr>cl_ingresses = [], cl_nodePools = [demo_np ''hangzhou'' []]\<rparr>"

theorem ingress_pools_exclusive_witness:
  "\<exists>c. cluster_reach c \<and> cl_ingresses c = [demo_yi ''ing'' (Some [demo_ip ''hangzhou'']) None] \<and>
     (\<exists>i j. i \<in> set (cl_ingresses c) \<and> j \<in> set (cl_ingresses c) \<and>
        ''hangzhou'' \<in> ingressPools i \<and> ''hangzhou'' \<in> ingressPools j \<and> i = j)"
proof -
  let ?y = "demo_yi ''ing'' (Some [demo_ip ''hangzhou'']) None"
  let ?c = "demo_cluster\<lparr>cl_ingresses := cl_ingresses demo_cluster @ [?y]\<rparr>"
  have "cluster_reach demo_cluster"
    unfolding demo_cluster_def by (rule cluster_reach.start) simp
  moreover have "fst (YurtIngress_ValidateCreate cluster_env (Some ?y) demo_cluster) = Ret (Inr ())"
    by code_simp
  then have "cluster_step demo_cluster ?c"
    by (rule cluster_step.create) (simp add: demo_cluster_def)
  ultimately have reach: "cluster_reach ?c" by (rule cluster_reach.step)
  have y: "?y \<in> set (cl_ingresses ?c)" "''hangzhou'' \<in> ingressPools ?y"
    by (simp_all add: ingressPools_def poolNames_def demo_yi_def demo_ip_def object_meta.defs)
  have "?y = ?y" by (rule ingress_pools_exclusive [OF reach y(1,1) y(2,2)])
  with y reach show ?thesis
    by (intro exI [of _ ?c]) (simp add: demo_cluster_def)
qed

theorem deletion_refused_witness:
  "\<exists>errs. fst (YurtIngress_ValidateDelete cluster_env
     (Some (demo_yi ''ing'' (Some [demo_ip ''gone'']) None)) demo_cluster) = Ret (Inl (Invalid ''ing'' errs))"
proof -
  let ?y = "demo_yi ''ing'' (Some [demo_ip ''gone'']) None"
  have "m_name ?y = ''ing''" "cl_nodePools demo_cluster \<noteq> []" "''gone'' \<in> ingressPools ?y"
    "''gone'' \<notin> m_name ` set (cl_nodePools demo_cluster)"
    by (simp_all add: demo_yi_def demo_cluster_def demo_ip_def demo_np_def ingressPools_def poolNames_def
        object_meta.defs empty_nodepool_def)
  then show ?thesis
    using deletion_refused [of demo_cluster "''gone''" ?y] by simp
qed

end
