(* ===== verification/UD_Pools.thy ===== *)
theory UD_Pools
  imports YAS_Controller
begin

section \<open>UnitedDeployment: types, adapters and pool control\<close>

text \<open>
  \<open>apis/apps/v1alpha1/uniteddeployment_types.go\<close>, the helpers of
  \<open>controller/uniteddeployment/uniteddeployment_controller_utils.go\<close>, and \<open>pool.go\<close>, \<open>pool_control.go\<close> and
  \<open>adapter\<close> of the same package. A UnitedDeployment has the fields of a YurtAppSet, so the records are
  shared; the package is a copy of the one of the YurtAppSet under other names. Each function is
  translated from this package, and the lemma after it says that it is the one of the other
  package: what is proved there holds here (the collection \<open>ud_same\<close>).
\<close>

named_theorems ud_same \<open>a function of the UnitedDeployment and its counterpart\<close>

lemmas weak_congs = outcome.case_cong_weak sum.case_cong_weak option.case_cong_weak
  prod.case_cong_weak if_weak_cong

subsection \<open>Types and conditions\<close>

type_synonym ud_spec = yas_spec
type_synonym ud_status = yas_status
type_synonym ud_condition = condition
type_synonym ud = yas
type_synonym ud_pool = pool
type_synonym 'w ud_control = "'w control"

definition UnitedPoolProvisioned :: string where "UnitedPoolProvisioned = ''PoolProvisioned''"
definition UnitedPoolUpdated :: string where "UnitedPoolUpdated = ''PoolUpdated''"
definition UnitedPoolFailure :: string where "UnitedPoolFailure = ''PoolFailure''"

lemma condition_types_same [ud_same]:
  "UnitedPoolProvisioned = PoolProvisioned" "UnitedPoolUpdated = PoolUpdated"
  "UnitedPoolFailure = PoolFailure"
  by (simp_all add: UnitedPoolProvisioned_def UnitedPoolUpdated_def UnitedPoolFailure_def
      PoolProvisioned_def PoolUpdated_def PoolFailure_def)

definition updateRetries_ud :: nat where
  "updateRetries_ud = 5"

lemma updateRetries_ud_same [ud_same]: "updateRetries_ud = updateRetries"
  by (simp only: updateRetries_ud_def [abs_def] updateRetries_def [abs_def] ud_same)

definition getPoolNameFrom_ud :: "'a object_meta_scheme \<Rightarrow> go_error + string" where
  "getPoolNameFrom_ud obj =
     (case gget (m_labels obj) PoolNameLabelKey of
        None \<Rightarrow> Inl (PlainErr (''fail to get pool name from label of pool '' @ m_namespace obj @ ''/''
          @ m_name obj @ '': no label '' @ PoolNameLabelKey @ '' found''))
      | Some name \<Rightarrow>
          (if length name = 0
           then Inl (PlainErr (''fail to get pool name from label of pool '' @ m_namespace obj @ ''/''
             @ m_name obj @ '': label '' @ PoolNameLabelKey @ '' has an empty value''))
           else Inr name))"

lemma getPoolNameFrom_ud_same [ud_same]: "getPoolNameFrom_ud = getPoolNameFrom"
  by (simp only: getPoolNameFrom_ud_def [abs_def] getPoolNameFrom_def [abs_def] ud_same)

definition NewUnitedDeploymentCondition :: "string \<Rightarrow> string \<Rightarrow> string \<Rightarrow> string \<Rightarrow> string \<Rightarrow> condition" where
  "NewUnitedDeploymentCondition time condType status reason message =
     \<lparr>cd_type = condType, cd_status = status, cd_lastTransitionTime = time, cd_reason = reason,
      cd_message = message\<rparr>"

lemma NewUnitedDeploymentCondition_same [ud_same]: "NewUnitedDeploymentCondition = NewYurtAppSetCondition"
  by (simp only: NewUnitedDeploymentCondition_def [abs_def] NewYurtAppSetCondition_def [abs_def] ud_same)

definition GetUnitedDeploymentCondition :: "ud_status \<Rightarrow> string \<Rightarrow> condition option" where
  "GetUnitedDeploymentCondition status condType =
     find (\<lambda>c. cd_type c = condType) (items (yt_conditions status))"

lemma GetUnitedDeploymentCondition_same [ud_same]: "GetUnitedDeploymentCondition = GetYurtAppSetCondition"
  by (simp only: GetUnitedDeploymentCondition_def [abs_def] GetYurtAppSetCondition_def [abs_def] ud_same)

definition filterOutCondition_ud :: "condition goslice \<Rightarrow> string \<Rightarrow> condition goslice" where
  "filterOutCondition_ud conditions condType =
     (case filter (\<lambda>c. cd_type c \<noteq> condType) (items conditions) of [] \<Rightarrow> None | cs \<Rightarrow> Some cs)"

lemma filterOutCondition_ud_same [ud_same]: "filterOutCondition_ud = filterOutCondition"
  by (simp only: filterOutCondition_ud_def [abs_def] filterOutCondition_def [abs_def] ud_same)

definition SetUnitedDeploymentCondition :: "ud_status \<Rightarrow> condition \<Rightarrow> ud_status" where
  "SetUnitedDeploymentCondition status condition =
     (let currentCond = GetUnitedDeploymentCondition status (cd_type condition) in
      case currentCond of
        Some cur \<Rightarrow>
          (if cd_status cur = cd_status condition \<and> cd_reason cur = cd_reason condition then status
           else (let condition' = (if cd_status cur = cd_status condition
                   then condition\<lparr>cd_lastTransitionTime := cd_lastTransitionTime cur\<rparr> else condition);
                     newConditions = filterOutCondition_ud (yt_conditions status) (cd_type condition)
                 in status\<lparr>yt_conditions := Some (items newConditions @ [condition'])\<rparr>))
      | None \<Rightarrow>
          (let newConditions = filterOutCondition_ud (yt_conditions status) (cd_type condition)
           in status\<lparr>yt_conditions := Some (items newConditions @ [condition])\<rparr>))"

lemma SetUnitedDeploymentCondition_same [ud_same]: "SetUnitedDeploymentCondition = SetYurtAppSetCondition"
  by (simp only: SetUnitedDeploymentCondition_def [abs_def] SetYurtAppSetCondition_def [abs_def] ud_same)

definition RemoveUnitedDeploymentCondition :: "ud_status \<Rightarrow> string \<Rightarrow> ud_status" where
  "RemoveUnitedDeploymentCondition status condType =
     status\<lparr>yt_conditions := filterOutCondition_ud (yt_conditions status) condType\<rparr>"

lemma RemoveUnitedDeploymentCondition_same [ud_same]: "RemoveUnitedDeploymentCondition = RemoveYurtAppSetCondition"
  by (simp only: RemoveUnitedDeploymentCondition_def [abs_def] RemoveYurtAppSetCondition_def [abs_def] ud_same)

definition GetNextPatches_ud :: "ud \<Rightarrow> yas_patches gomap" where
  "GetNextPatches_ud y =
     fold (\<lambda>pool next. gput (pc_name pool)
         \<lparr>yp_replicas = (case pc_replicas pool of None \<Rightarrow> 0 | Some r \<Rightarrow> r),
          yp_patch = (case pc_patch pool of None \<Rightarrow> [] | Some p \<Rightarrow> p)\<rparr> next)
       (items (ys_pools (yas_spec y))) (Some [])"

lemma GetNextPatches_ud_same [ud_same]: "GetNextPatches_ud = GetNextPatches"
  by (simp only: GetNextPatches_ud_def [abs_def] GetNextPatches_def [abs_def] ud_same)

subsection \<open>\<open>adapter_util.go\<close>\<close>

definition getPoolPrefix_ud :: "ad_env \<Rightarrow> string \<Rightarrow> string \<Rightarrow> string" where
  "getPoolPrefix_ud env controllerName poolName =
     (let prefix = controllerName @ ''-'' @ poolName @ ''-''
      in if length (ae_NameIsDNSSubdomain env prefix True) \<noteq> 0 then controllerName @ ''-''
         else prefix)"

lemma getPoolPrefix_ud_same [ud_same]: "getPoolPrefix_ud = getPoolPrefix"
  by (simp only: getPoolPrefix_ud_def [abs_def] getPoolPrefix_def [abs_def] ud_same)

definition requiredTerms_ud :: "pod_spec \<Rightarrow> node_selector_term list" where
  "requiredTerms_ud podSpec =
     (let aff = (case ps_affinity podSpec of
            None \<Rightarrow> \<lparr>af_nodeAffinity = None, af_podAffinity = []\<rparr> | Some a \<Rightarrow> a);
          na = (case af_nodeAffinity aff of
            None \<Rightarrow> \<lparr>na_required = None, na_preferred = []\<rparr> | Some n \<Rightarrow> n);
          terms = (case na_required na of None \<Rightarrow> None | Some ts \<Rightarrow> ts)
      in if length (items terms) = 0 then items terms @ [empty_term] else items terms)"

lemma requiredTerms_ud_same [ud_same]: "requiredTerms_ud = requiredTerms"
  by (simp only: requiredTerms_ud_def [abs_def] requiredTerms_def [abs_def] ud_same)

definition setRequiredTerms_ud :: "node_selector_term list \<Rightarrow> pod_spec \<Rightarrow> pod_spec" where
  "setRequiredTerms_ud terms podSpec =
     (let aff = (case ps_affinity podSpec of
            None \<Rightarrow> \<lparr>af_nodeAffinity = None, af_podAffinity = []\<rparr> | Some a \<Rightarrow> a);
          na = (case af_nodeAffinity aff of
            None \<Rightarrow> \<lparr>na_required = None, na_preferred = []\<rparr> | Some n \<Rightarrow> n)
      in podSpec\<lparr>ps_affinity := Some (aff\<lparr>af_nodeAffinity :=
           Some (na\<lparr>na_required := Some (Some terms)\<rparr>)\<rparr>)\<rparr>)"

lemma setRequiredTerms_ud_same [ud_same]: "setRequiredTerms_ud = setRequiredTerms"
  by (simp only: setRequiredTerms_ud_def [abs_def] setRequiredTerms_def [abs_def] ud_same)

definition appendExpression_ud :: "label_requirement \<Rightarrow> node_selector_term \<Rightarrow> node_selector_term" where
  "appendExpression_ud e nterm =
     nterm\<lparr>nt_matchExpressions := Some (items (nt_matchExpressions nterm) @ [e])\<rparr>"

lemma appendExpression_ud_same [ud_same]: "appendExpression_ud = appendExpression"
  by (simp only: appendExpression_ud_def [abs_def] appendExpression_def [abs_def] ud_same)

definition attachNodeAffinity_ud :: "pod_spec \<Rightarrow> pool_config \<Rightarrow> pod_spec" where
  "attachNodeAffinity_ud podSpec pool =
     setRequiredTerms_ud
       (fold (\<lambda>matchExpression terms. map (appendExpression_ud matchExpression) terms)
         (items (nt_matchExpressions (pc_nodeSelectorTerm pool))) (requiredTerms_ud podSpec))
       podSpec"

lemma attachNodeAffinity_ud_same [ud_same]: "attachNodeAffinity_ud = attachNodeAffinity"
  by (simp only: attachNodeAffinity_ud_def [abs_def] attachNodeAffinity_def [abs_def] ud_same)

definition attachTolerations_ud :: "pod_spec \<Rightarrow> pool_config \<Rightarrow> pod_spec" where
  "attachTolerations_ud podSpec poolConfig =
     (case pc_tolerations poolConfig of
        None \<Rightarrow> podSpec
      | Some tols \<Rightarrow> podSpec\<lparr>ps_tolerations := Some (items (ps_tolerations podSpec) @ tols)\<rparr>)"

lemma attachTolerations_ud_same [ud_same]: "attachTolerations_ud = attachTolerations"
  by (simp only: attachTolerations_ud_def [abs_def] attachTolerations_def [abs_def] ud_same)

definition attachNodeAffinityAndTolerations_ud :: "pod_spec \<Rightarrow> pool_config \<Rightarrow> pod_spec" where
  "attachNodeAffinityAndTolerations_ud podSpec pool =
     attachTolerations_ud (attachNodeAffinity_ud podSpec pool) pool"

lemma attachNodeAffinityAndTolerations_ud_same [ud_same]: "attachNodeAffinityAndTolerations_ud = attachNodeAffinityAndTolerations"
  by (simp only: attachNodeAffinityAndTolerations_ud_def [abs_def] attachNodeAffinityAndTolerations_def [abs_def] ud_same)

definition getCurrentPartition_ud :: "object_meta list \<Rightarrow> string \<Rightarrow> int32" where
  "getCurrentPartition_ud pods revision =
     fold (\<lambda>pod partition. if getRevision pod \<noteq> revision then partition + 1 else partition) pods 0"

lemma getCurrentPartition_ud_same [ud_same]: "getCurrentPartition_ud = getCurrentPartition"
  by (simp only: getCurrentPartition_ud_def [abs_def] getCurrentPartition_def [abs_def] ud_same)

definition StrategicMergeByPatches_ud ::
  "ad_env \<Rightarrow> workload \<Rightarrow> string \<Rightarrow> workload \<Rightarrow> go_error + workload" where
  "StrategicMergeByPatches_ud env oldobj patch newPatched =
     (case ae_UnmarshalPatch env patch of
        Inl e \<Rightarrow> Inl e
      | Inr patchMap \<Rightarrow>
     (case ae_ToUnstructured env oldobj of
        Inl e \<Rightarrow> Inl e
      | Inr originalObjMap \<Rightarrow>
     (case ae_StrategicMergeMapPatch env originalObjMap patchMap of
        Inl e \<Rightarrow> Inl e
      | Inr patchedObjMap \<Rightarrow> ae_FromUnstructured env patchedObjMap newPatched)))"

lemma StrategicMergeByPatches_ud_same [ud_same]: "StrategicMergeByPatches_ud = StrategicMergeByPatches"
  by (simp only: StrategicMergeByPatches_ud_def [abs_def] StrategicMergeByPatches_def [abs_def] ud_same)

definition PoolHasPatch_ud :: "pool_config \<Rightarrow> workload \<Rightarrow> bool \<times> workload" where
  "PoolHasPatch_ud poolConfig wl =
     (case pc_patch poolConfig of
        None \<Rightarrow> (False, if m_annotations wl \<noteq> None
                  then wl\<lparr>m_annotations := gput AnnotationPatchKey [] (m_annotations wl)\<rparr> else wl)
      | Some _ \<Rightarrow> (True, wl))"

lemma PoolHasPatch_ud_same [ud_same]: "PoolHasPatch_ud = PoolHasPatch"
  by (simp only: PoolHasPatch_ud_def [abs_def] PoolHasPatch_def [abs_def] ud_same)

definition CreateNewPatchedObject_ud ::
  "ad_env \<Rightarrow> string \<Rightarrow> workload \<Rightarrow> workload \<Rightarrow> go_error + workload" where
  "CreateNewPatchedObject_ud env patchInfo wl newPatched =
     (case StrategicMergeByPatches_ud env wl patchInfo newPatched of
        Inl e \<Rightarrow> Inl e
      | Inr patched \<Rightarrow>
          Inr (patched\<lparr>m_annotations :=
            (case m_annotations patched of
               None \<Rightarrow> Some [(AnnotationPatchKey, patchInfo)]
             | Some _ \<Rightarrow> gput AnnotationPatchKey patchInfo (m_annotations patched))\<rparr>))"

lemma CreateNewPatchedObject_ud_same [ud_same]: "CreateNewPatchedObject_ud = CreateNewPatchedObject"
  by (simp only: CreateNewPatchedObject_ud_def [abs_def] CreateNewPatchedObject_def [abs_def] ud_same)

subsection \<open>\<open>deployment_adapter.go\<close>\<close>

definition applyPoolMeta_ud ::
  "ad_env \<Rightarrow> ud \<Rightarrow> string \<Rightarrow> string \<Rightarrow> 'a object_meta_scheme \<Rightarrow> string gomap \<Rightarrow> workload \<Rightarrow> workload"
where
  "applyPoolMeta_ud env y poolName revision tmpl matchLabels wl =
     (let labels0 = (if m_labels wl = None then Some [] else m_labels wl);
          labels1 = putAll (entries matchLabels) (putAll (entries (m_labels tmpl)) labels0);
          labels2 = gput PoolNameLabelKey poolName
                      (gput ControllerRevisionHashLabelKey revision labels1);
          annotations0 = (if m_annotations wl = None then Some [] else m_annotations wl);
          annotations1 = putAll (entries (m_annotations tmpl)) annotations0
      in wl\<lparr>m_namespace := m_namespace y, m_labels := labels2, m_annotations := annotations1,
           m_generateName := getPoolPrefix_ud env (m_name y) poolName\<rparr>)"

lemma applyPoolMeta_ud_same [ud_same]: "applyPoolMeta_ud = applyPoolMeta"
  by (simp only: applyPoolMeta_ud_def [abs_def] applyPoolMeta_def [abs_def] ud_same)

definition poolPodTemplate_ud :: "string \<Rightarrow> string \<Rightarrow> pool_config \<Rightarrow> pod_template \<Rightarrow> pod_template" where
  "poolPodTemplate_ud poolName revision poolConfig tmpl =
     (let labels = (if m_labels tmpl = None then Some [] else m_labels tmpl)
      in tmpl\<lparr>m_labels := gput ControllerRevisionHashLabelKey revision
             (gput PoolNameLabelKey poolName labels),
           pt_spec := attachNodeAffinityAndTolerations_ud (pt_spec tmpl) poolConfig\<rparr>)"

lemma poolPodTemplate_ud_same [ud_same]: "poolPodTemplate_ud = poolPodTemplate"
  by (simp only: poolPodTemplate_ud_def [abs_def] poolPodTemplate_def [abs_def] ud_same)

definition poolConfigOf_ud :: "ud \<Rightarrow> string \<Rightarrow> pool_config option" where
  "poolConfigOf_ud y poolName = find (\<lambda>p. pc_name p = poolName) (items (ys_pools (yas_spec y)))"

lemma poolConfigOf_ud_same [ud_same]: "poolConfigOf_ud = poolConfigOf"
  by (simp only: poolConfigOf_ud_def [abs_def] poolConfigOf_def [abs_def] ud_same)

definition applyPatch_ud :: "ad_env \<Rightarrow> pool_config \<Rightarrow> workload \<Rightarrow> (workload, unit) io" where
  "applyPatch_ud env poolConfig fresh wl =
     (case PoolHasPatch_ud poolConfig wl of
        (False, wl') \<Rightarrow> (Ret (), wl')
      | (True, wl') \<Rightarrow>
          (case pc_patch poolConfig of
             None \<Rightarrow> (Ret (), wl')
           | Some raw \<Rightarrow>
               (case CreateNewPatchedObject_ud env raw wl' fresh of
                  Inl e \<Rightarrow> (Err e, wl')
                | Inr patched \<Rightarrow> (Ret (), patched))))"

lemma applyPatch_ud_same [ud_same]: "applyPatch_ud = applyPatch"
  by (simp only: applyPatch_ud_def [abs_def] applyPatch_def [abs_def] ud_same)

definition emptyDeployment_ud :: workload where
  "emptyDeployment_ud = with_body empty_meta (DeploymentBody empty_deployment_spec empty_workload_status)"

lemma emptyDeployment_ud_same [ud_same]: "emptyDeployment_ud = emptyDeployment"
  by (simp only: emptyDeployment_ud_def [abs_def] emptyDeployment_def [abs_def] ud_same)

definition Deployment_GetStatusObservedGeneration_ud :: "workload \<Rightarrow> int64 outcome" where
  "Deployment_GetStatusObservedGeneration_ud obj =
     (case w_body obj of
        DeploymentBody spec status \<Rightarrow> Ret (ws_observedGeneration status)
      | StatefulSetBody _ _ \<Rightarrow> Panic ''interface conversion'')"

lemma Deployment_GetStatusObservedGeneration_ud_same [ud_same]: "Deployment_GetStatusObservedGeneration_ud = Deployment_GetStatusObservedGeneration"
  by (simp only: Deployment_GetStatusObservedGeneration_ud_def [abs_def] Deployment_GetStatusObservedGeneration_def [abs_def] ud_same)

definition Deployment_GetDetails_ud :: "workload \<Rightarrow> replicas_info outcome" where
  "Deployment_GetDetails_ud obj =
     (case w_body obj of
        DeploymentBody spec status \<Rightarrow>
          Ret \<lparr>ri_replicas = (case ds_replicas spec of None \<Rightarrow> 0 | Some r \<Rightarrow> r),
               ri_readyReplicas = ws_readyReplicas status\<rparr>
      | StatefulSetBody _ _ \<Rightarrow> Panic ''interface conversion'')"

lemma Deployment_GetDetails_ud_same [ud_same]: "Deployment_GetDetails_ud = Deployment_GetDetails"
  by (simp only: Deployment_GetDetails_ud_def [abs_def] Deployment_GetDetails_def [abs_def] ud_same)

definition Deployment_ApplyPoolTemplate_ud ::
  "ad_env \<Rightarrow> ud \<Rightarrow> string \<Rightarrow> string \<Rightarrow> int32 \<Rightarrow> (workload, unit) io" where
  "Deployment_ApplyPoolTemplate_ud env y poolName revision replicas wl =
     (case w_body wl of
        StatefulSetBody _ _ \<Rightarrow> (Panic ''interface conversion'', wl)
      | DeploymentBody spec status \<Rightarrow>
     (case poolConfigOf_ud y poolName of
        None \<Rightarrow> (Err (PlainErr (''fail to find pool config '' @ poolName)), wl)
      | Some poolConfig \<Rightarrow>
     (case (wt_deployment (ys_template (yas_spec y)), ys_selector (yas_spec y)) of
        (Some tmpl, Some selector) \<Rightarrow>
          (let set1 = applyPoolMeta_ud env y poolName revision tmpl (ls_matchLabels selector) wl in
           case ls_matchLabels selector of
             None \<Rightarrow> (Panic ''assignment to entry in nil map'', set1)
           | Some _ \<Rightarrow>
               (case ae_SetControllerReference env y set1 of
                  Inl e \<Rightarrow> (Err e, set1)
                | Inr set2 \<Rightarrow>
                    (let selectors = selector\<lparr>ls_matchLabels :=
                           gput PoolNameLabelKey poolName (ls_matchLabels selector)\<rparr>;
                         spec' = spec\<lparr>ds_selector := Some selectors,
                           ds_replicas := Some replicas,
                           ds_strategy := ds_strategy (dt_spec tmpl),
                           ds_template := poolPodTemplate_ud poolName revision poolConfig
                             (ds_template (dt_spec tmpl)),
                           ds_revisionHistoryLimit := ys_revisionHistoryLimit (yas_spec y),
                           ds_minReadySeconds := ds_minReadySeconds (dt_spec tmpl),
                           ds_paused := ds_paused (dt_spec tmpl),
                           ds_progressDeadlineSeconds := ds_progressDeadlineSeconds (dt_spec tmpl)\<rparr>
                     in applyPatch_ud env poolConfig emptyDeployment_ud
                          (set2\<lparr>w_body := DeploymentBody spec' status\<rparr>))))
      | _ \<Rightarrow> (Panic ''nil pointer dereference'', wl))))"

lemma Deployment_ApplyPoolTemplate_ud_same [ud_same]: "Deployment_ApplyPoolTemplate_ud = Deployment_ApplyPoolTemplate"
  by (simp only: Deployment_ApplyPoolTemplate_ud_def [abs_def] Deployment_ApplyPoolTemplate_def [abs_def] ud_same)

definition Deployment_PostUpdate_ud :: "ud \<Rightarrow> workload \<Rightarrow> string \<Rightarrow> go_error option" where
  "Deployment_PostUpdate_ud y obj revision = None"

lemma Deployment_PostUpdate_ud_same [ud_same]: "Deployment_PostUpdate_ud = Deployment_PostUpdate"
  by (simp only: Deployment_PostUpdate_ud_def [abs_def] Deployment_PostUpdate_def [abs_def] ud_same)

definition Deployment_IsExpected_ud :: "workload \<Rightarrow> string \<Rightarrow> bool" where
  "Deployment_IsExpected_ud obj revision =
     (gval (m_labels obj) ControllerRevisionHashLabelKey \<noteq> revision)"

lemma Deployment_IsExpected_ud_same [ud_same]: "Deployment_IsExpected_ud = Deployment_IsExpected"
  by (simp only: Deployment_IsExpected_ud_def [abs_def] Deployment_IsExpected_def [abs_def] ud_same)

definition DeploymentAdapter_ud :: "ad_env \<Rightarrow> adapter" where
  "DeploymentAdapter_ud env = \<lparr>
     ad_NewResourceObject = emptyDeployment_ud,
     ad_isKind = (\<lambda>obj. case w_body obj of DeploymentBody _ _ \<Rightarrow> True | _ \<Rightarrow> False),
     ad_GetStatusObservedGeneration = Deployment_GetStatusObservedGeneration_ud,
     ad_GetDetails = Deployment_GetDetails_ud,
     ad_GetPoolFailure = None,
     ad_ApplyPoolTemplate = Deployment_ApplyPoolTemplate_ud env,
     ad_IsExpected = Deployment_IsExpected_ud,
     ad_PostUpdate = Deployment_PostUpdate_ud\<rparr>"

lemma DeploymentAdapter_ud_same [ud_same]: "DeploymentAdapter_ud = DeploymentAdapter"
  by (simp only: DeploymentAdapter_ud_def [abs_def] DeploymentAdapter_def [abs_def] ud_same)

subsection \<open>\<open>statefulset_adapter.go\<close>\<close>

definition emptyStatefulSet_ud :: workload where
  "emptyStatefulSet_ud =
     with_body empty_meta (StatefulSetBody empty_stateful_set_spec empty_workload_status)"

lemma emptyStatefulSet_ud_same [ud_same]: "emptyStatefulSet_ud = emptyStatefulSet"
  by (simp only: emptyStatefulSet_ud_def [abs_def] emptyStatefulSet_def [abs_def] ud_same)

definition StatefulSet_GetStatusObservedGeneration_ud :: "workload \<Rightarrow> int64 outcome" where
  "StatefulSet_GetStatusObservedGeneration_ud obj =
     (case w_body obj of
        StatefulSetBody spec status \<Rightarrow> Ret (ws_observedGeneration status)
      | DeploymentBody _ _ \<Rightarrow> Panic ''interface conversion'')"

lemma StatefulSet_GetStatusObservedGeneration_ud_same [ud_same]: "StatefulSet_GetStatusObservedGeneration_ud = StatefulSet_GetStatusObservedGeneration"
  by (simp only: StatefulSet_GetStatusObservedGeneration_ud_def [abs_def] StatefulSet_GetStatusObservedGeneration_def [abs_def] ud_same)

definition StatefulSet_GetDetails_ud :: "workload \<Rightarrow> replicas_info outcome" where
  "StatefulSet_GetDetails_ud obj =
     (case w_body obj of
        StatefulSetBody spec status \<Rightarrow>
          Ret \<lparr>ri_replicas = (case ss_replicas spec of None \<Rightarrow> 0 | Some r \<Rightarrow> r),
               ri_readyReplicas = ws_readyReplicas status\<rparr>
      | DeploymentBody _ _ \<Rightarrow> Panic ''interface conversion'')"

lemma StatefulSet_GetDetails_ud_same [ud_same]: "StatefulSet_GetDetails_ud = StatefulSet_GetDetails"
  by (simp only: StatefulSet_GetDetails_ud_def [abs_def] StatefulSet_GetDetails_def [abs_def] ud_same)

definition StatefulSet_ApplyPoolTemplate_ud ::
  "ad_env \<Rightarrow> ud \<Rightarrow> string \<Rightarrow> string \<Rightarrow> int32 \<Rightarrow> (workload, unit) io" where
  "StatefulSet_ApplyPoolTemplate_ud env y poolName revision replicas wl =
     (case w_body wl of
        DeploymentBody _ _ \<Rightarrow> (Panic ''interface conversion'', wl)
      | StatefulSetBody spec status \<Rightarrow>
     (case poolConfigOf_ud y poolName of
        None \<Rightarrow> (Err (PlainErr (''fail to find pool config '' @ poolName)), wl)
      | Some poolConfig \<Rightarrow>
     (case (wt_statefulSet (ys_template (yas_spec y)), ys_selector (yas_spec y)) of
        (Some tmpl, Some selector) \<Rightarrow>
          (let set1 = applyPoolMeta_ud env y poolName revision tmpl (ls_matchLabels selector) wl in
           case ls_matchLabels selector of
             None \<Rightarrow> (Panic ''assignment to entry in nil map'', set1)
           | Some _ \<Rightarrow>
               (case ae_SetControllerReference env y set1 of
                  Inl e \<Rightarrow> (Err e, set1)
                | Inr set2 \<Rightarrow>
                    (let selectors = selector\<lparr>ls_matchLabels :=
                           gput PoolNameLabelKey poolName (ls_matchLabels selector)\<rparr>;
                         spec' = spec\<lparr>ss_selector := Some selectors,
                           ss_replicas := Some replicas,
                           ss_updateStrategy := ss_updateStrategy (st_spec tmpl),
                           ss_template := poolPodTemplate_ud poolName revision poolConfig
                             (ss_template (st_spec tmpl)),
                           ss_revisionHistoryLimit := ys_revisionHistoryLimit (yas_spec y),
                           ss_podManagementPolicy := ss_podManagementPolicy (st_spec tmpl),
                           ss_serviceName := ss_serviceName (st_spec tmpl),
                           ss_volumeClaimTemplates := ss_volumeClaimTemplates (st_spec tmpl)\<rparr>
                     in applyPatch_ud env poolConfig emptyStatefulSet_ud
                          (set2\<lparr>w_body := StatefulSetBody spec' status\<rparr>))))
      | _ \<Rightarrow> (Panic ''nil pointer dereference'', wl))))"

lemma StatefulSet_ApplyPoolTemplate_ud_same [ud_same]: "StatefulSet_ApplyPoolTemplate_ud = StatefulSet_ApplyPoolTemplate"
  by (simp only: StatefulSet_ApplyPoolTemplate_ud_def [abs_def] StatefulSet_ApplyPoolTemplate_def [abs_def] ud_same)

definition StatefulSet_PostUpdate_ud :: "ud \<Rightarrow> workload \<Rightarrow> string \<Rightarrow> go_error option" where
  "StatefulSet_PostUpdate_ud y obj revision = None"

lemma StatefulSet_PostUpdate_ud_same [ud_same]: "StatefulSet_PostUpdate_ud = StatefulSet_PostUpdate"
  by (simp only: StatefulSet_PostUpdate_ud_def [abs_def] StatefulSet_PostUpdate_def [abs_def] ud_same)

definition StatefulSet_IsExpected_ud :: "workload \<Rightarrow> string \<Rightarrow> bool" where
  "StatefulSet_IsExpected_ud obj revision =
     (gval (m_labels obj) ControllerRevisionHashLabelKey \<noteq> revision)"

lemma StatefulSet_IsExpected_ud_same [ud_same]: "StatefulSet_IsExpected_ud = StatefulSet_IsExpected"
  by (simp only: StatefulSet_IsExpected_ud_def [abs_def] StatefulSet_IsExpected_def [abs_def] ud_same)

definition StatefulSetAdapter_ud :: "ad_env \<Rightarrow> adapter" where
  "StatefulSetAdapter_ud env = \<lparr>
     ad_NewResourceObject = emptyStatefulSet_ud,
     ad_isKind = (\<lambda>obj. case w_body obj of StatefulSetBody _ _ \<Rightarrow> True | _ \<Rightarrow> False),
     ad_GetStatusObservedGeneration = StatefulSet_GetStatusObservedGeneration_ud,
     ad_GetDetails = StatefulSet_GetDetails_ud,
     ad_GetPoolFailure = None,
     ad_ApplyPoolTemplate = StatefulSet_ApplyPoolTemplate_ud env,
     ad_IsExpected = StatefulSet_IsExpected_ud,
     ad_PostUpdate = StatefulSet_PostUpdate_ud\<rparr>"

lemma StatefulSetAdapter_ud_same [ud_same]: "StatefulSetAdapter_ud = StatefulSetAdapter"
  by (simp only: StatefulSetAdapter_ud_def [abs_def] StatefulSetAdapter_def [abs_def] ud_same)

subsection \<open>\<open>pool_control.go\<close>\<close>

definition convertToPool_ud :: "adapter \<Rightarrow> workload \<Rightarrow> pool outcome" where
  "convertToPool_ud ad wl =
     (case getPoolNameFrom_ud wl of
        Inl e \<Rightarrow> Err e
      | Inr poolName \<Rightarrow>
     (case ad_GetDetails ad wl of
        Err e \<Rightarrow> Err e
      | Panic p \<Rightarrow> Panic p
      | Ret specReplicas \<Rightarrow>
     (case ad_GetStatusObservedGeneration ad wl of
        Err e \<Rightarrow> Err e
      | Panic p \<Rightarrow> Panic p
      | Ret observed \<Rightarrow>
          Ret \<lparr>p_name = poolName, p_namespace = m_namespace wl, p_ref = wl,
               p_observedGeneration = observed, p_replicas = ri_replicas specReplicas,
               p_readyReplicas = ri_readyReplicas specReplicas,
               p_patchInfo = gval (m_annotations wl) AnnotationPatchKey\<rparr>)))"

lemma convertToPool_ud_same [ud_same]: "convertToPool_ud = convertToPool"
  by (simp only: convertToPool_ud_def [abs_def] convertToPool_def [abs_def] ud_same)

fun convertAll_ud :: "adapter \<Rightarrow> workload list \<Rightarrow> pool list outcome" where
  "convertAll_ud ad [] = Ret []"
| "convertAll_ud ad (wl # wls) =
     (case convertToPool_ud ad wl of
        Ret pool \<Rightarrow> (case convertAll_ud ad wls of Ret pools \<Rightarrow> Ret (pool # pools) | r \<Rightarrow> r)
      | Err e \<Rightarrow> Err e
      | Panic p \<Rightarrow> Panic p)"

lemma convertAll_ud_same [ud_same]: "convertAll_ud ad wls = convertAll ad wls"
  by (induction wls) (simp_all add: ud_same cong del: weak_congs)

definition objectKey_ud :: "pool \<Rightarrow> string \<times> string" where
  "objectKey_ud pool = (p_namespace pool, m_name (p_ref pool))"

lemma objectKey_ud_same [ud_same]: "objectKey_ud = objectKey"
  by (simp only: objectKey_ud_def [abs_def] objectKey_def [abs_def] ud_same)

definition GetAllPools_ud :: "'w pc_env \<Rightarrow> adapter \<Rightarrow> ud \<Rightarrow> ('w, pool list) io" where
  "GetAllPools_ud env ad y =
     (case rm_AsSelector (pce_rm env) (ys_selector (yas_spec y)) of
        Inl e \<Rightarrow> fail e
      | Inr selector \<Rightarrow>
          andThen (pce_List env (ad_isKind ad) selector) (\<lambda>wls.
          (case RefManager_New (pce_rm env) (ys_selector (yas_spec y)) (object_meta.truncate y) True of
             Inl e \<Rightarrow> fail e
           | Inr manager \<Rightarrow>
               andThen (ClaimOwnedObjects (pce_rm env) manager wls []) (\<lambda>(claimedSets, err).
                 case err of Some e \<Rightarrow> fail e | None \<Rightarrow> lift (convertAll_ud ad claimedSets)))))"

lemma GetAllPools_ud_same [ud_same]: "GetAllPools_ud = GetAllPools"
  by (simp only: GetAllPools_ud_def [abs_def] GetAllPools_def [abs_def] ud_same)

definition CreatePool_ud ::
  "'w pc_env \<Rightarrow> adapter \<Rightarrow> ud \<Rightarrow> string \<Rightarrow> string \<Rightarrow> int32 \<Rightarrow> ('w, unit) io" where
  "CreatePool_ud env ad y poolName revision replicas =
     (case ad_ApplyPoolTemplate ad y poolName revision replicas (ad_NewResourceObject ad) of
        (Panic p, wl) \<Rightarrow> lift (Panic p)
      | (_, wl) \<Rightarrow> andThen (pce_Create env wl) (\<lambda>_. ret ()))"

lemma CreatePool_ud_same [ud_same]: "CreatePool_ud = CreatePool"
  by (simp only: CreatePool_ud_def [abs_def] CreatePool_def [abs_def] ud_same)

fun UpdatePool_tries_ud ::
  "nat \<Rightarrow> 'w pc_env \<Rightarrow> adapter \<Rightarrow> pool \<Rightarrow> ud \<Rightarrow> string \<Rightarrow> int32 \<Rightarrow> go_error option \<Rightarrow> workload
   \<Rightarrow> ('w, workload) io" where
  "UpdatePool_tries_ud 0 env ad pool y revision replicas updateError wl =
     (case updateError of Some e \<Rightarrow> fail e | None \<Rightarrow> ret wl)"
| "UpdatePool_tries_ud (Suc tries) env ad pool y revision replicas updateError wl =
     (case objectKey_ud pool of (ns, name) \<Rightarrow>
      andThen (pce_Get env (ad_isKind ad) ns name) (\<lambda>got.
        case ad_ApplyPoolTemplate ad y (p_name pool) revision replicas got of
          (Err e, wl') \<Rightarrow> fail e
        | (Panic p, wl') \<Rightarrow> lift (Panic p)
        | (Ret _, wl') \<Rightarrow>
            andThen (attempt (pce_Update env wl')) (\<lambda>r. case r of
              Inl e \<Rightarrow> UpdatePool_tries_ud tries env ad pool y revision replicas (Some e) wl'
            | Inr stored \<Rightarrow> ret stored)))"

lemma UpdatePool_tries_ud_same [ud_same]: "UpdatePool_tries_ud n env ad p y r k err wl = UpdatePool_tries n env ad p y r k err wl"
  by (induction n arbitrary: err wl) (simp_all add: ud_same cong del: weak_congs)

definition UpdatePool_ud ::
  "'w pc_env \<Rightarrow> adapter \<Rightarrow> pool \<Rightarrow> ud \<Rightarrow> string \<Rightarrow> int32 \<Rightarrow> ('w, unit) io" where
  "UpdatePool_ud env ad pool y revision replicas =
     andThen (UpdatePool_tries_ud updateRetries_ud env ad pool y revision replicas None
         (ad_NewResourceObject ad)) (\<lambda>wl.
       case ad_PostUpdate ad y wl revision of Some e \<Rightarrow> fail e | None \<Rightarrow> ret ())"

lemma UpdatePool_ud_same [ud_same]: "UpdatePool_ud = UpdatePool"
  by (simp only: UpdatePool_ud_def [abs_def] UpdatePool_def [abs_def] ud_same)

definition DeletePool_ud :: "'w pc_env \<Rightarrow> pool \<Rightarrow> ('w, unit) io" where
  "DeletePool_ud env pool = pce_Delete env (p_ref pool)"

lemma DeletePool_ud_same [ud_same]: "DeletePool_ud = DeletePool"
  by (simp only: DeletePool_ud_def [abs_def] DeletePool_def [abs_def] ud_same)

definition GetPoolFailure_ud :: "adapter \<Rightarrow> pool \<Rightarrow> string option" where
  "GetPoolFailure_ud ad pool = ad_GetPoolFailure ad"

lemma GetPoolFailure_ud_same [ud_same]: "GetPoolFailure_ud = GetPoolFailure"
  by (simp only: GetPoolFailure_ud_def [abs_def] GetPoolFailure_def [abs_def] ud_same)

definition IsExpected_ud :: "adapter \<Rightarrow> pool \<Rightarrow> string \<Rightarrow> bool" where
  "IsExpected_ud ad pool revision = ad_IsExpected ad (p_ref pool) revision"

lemma IsExpected_ud_same [ud_same]: "IsExpected_ud = IsExpected"
  by (simp only: IsExpected_ud_def [abs_def] IsExpected_def [abs_def] ud_same)

definition PoolControl_ud :: "'w pc_env \<Rightarrow> adapter \<Rightarrow> 'w control" where
  "PoolControl_ud env ad = \<lparr>
     c_GetAllPools = GetAllPools_ud env ad,
     c_CreatePool = CreatePool_ud env ad,
     c_UpdatePool = UpdatePool_ud env ad,
     c_DeletePool = DeletePool_ud env,
     c_GetPoolFailure = GetPoolFailure_ud ad,
     c_IsExpected = IsExpected_ud ad\<rparr>"

lemma PoolControl_ud_same [ud_same]: "PoolControl_ud = PoolControl"
  by (simp only: PoolControl_ud_def [abs_def] PoolControl_def [abs_def] ud_same)

end
