(* ===== verification/UD_Pods.thy ===== *)
theory UD_Pods
  imports YAS_Pods UD_Pools
begin

section \<open>UnitedDeployment: pods of a stateful set\<close>

text \<open>
  The last functions of \<open>controller/uniteddeployment/adapter/statefulset_adapter.go\<close>, which nothing
  calls either, and the ones of the other package they are copies of.
\<close>

definition getStatefulSetPods_ud :: "'w pods_env \<Rightarrow> stateful_set \<Rightarrow> ('w, pod list) io" where
  "getStatefulSetPods_ud env sset =
     (case rm_AsSelector (pe_rm env) (ss_selector (sts_spec sset)) of
        Inl e \<Rightarrow> fail e
      | Inr selector \<Rightarrow>
          andThen (pe_List env selector) (\<lambda>pods.
          (case RefManager_New (pe_rm env) (ss_selector (sts_spec sset)) (object_meta.truncate sset) True of
             Inl e \<Rightarrow> fail e
           | Inr manager \<Rightarrow>
               andThen (ClaimOwnedObjects (pe_rm env) manager pods []) (\<lambda>(claimed, err).
                 case err of Some e \<Rightarrow> fail e | None \<Rightarrow> ret claimed))))"

lemma getStatefulSetPods_ud_same [ud_same]: "getStatefulSetPods_ud = getStatefulSetPods"
  by (simp only: getStatefulSetPods_ud_def [abs_def] getStatefulSetPods_def [abs_def] ud_same)

definition isPodStuckForRollingUpdate_ud :: "'w pods_env \<Rightarrow> pod \<Rightarrow> string \<Rightarrow> int32 \<Rightarrow> bool" where
  "isPodStuckForRollingUpdate_ud env pod revision part =
     (if sint (GetOrdinal pod) < sint part then False
      else if getRevision pod = revision then False
      else \<not> pe_IsPodReadyConditionTrue env (pd_status pod))"

lemma isPodStuckForRollingUpdate_ud_same [ud_same]: "isPodStuckForRollingUpdate_ud = isPodStuckForRollingUpdate"
  by (simp only: isPodStuckForRollingUpdate_ud_def [abs_def] isPodStuckForRollingUpdate_def [abs_def] ud_same)

definition deleteStuckPods_ud :: "'w pods_env \<Rightarrow> stateful_set \<Rightarrow> string \<Rightarrow> int32 \<Rightarrow> ('w, unit) io" where
  "deleteStuckPods_ud env sset revision part =
     andThen (getStatefulSetPods_ud env sset) (\<lambda>pods.
       forEach (\<lambda>pod. if isPodStuckForRollingUpdate_ud env pod revision part
         then pe_Delete env pod else ret ()) pods)"

lemma deleteStuckPods_ud_same [ud_same]: "deleteStuckPods_ud = deleteStuckPods"
  by (simp only: deleteStuckPods_ud_def [abs_def] deleteStuckPods_def [abs_def] ud_same)

end
