(* ===== verification/Defaults.thy ===== *)
theory Defaults
  imports YAD_Types
begin

section \<open>Defaults\<close>

text \<open>
  \<open>apis/apps/v1alpha1/defaults.go\<close>: the defaulting of pod specifications, of a YurtAppSet, of a
  UnitedDeployment and of a YurtAppDaemon. The functions \<open>SetDefaults_*\<close> of \<open>k8s.io/kubernetes\<close> are parameters: the
  record \<open>df_env\<close>.
\<close>

record df_env =
  df_PodSpec :: "pod_spec \<Rightarrow> pod_spec"
  df_Volume :: "volume \<Rightarrow> volume"
  df_HostPath :: "string \<Rightarrow> string"
  df_Secret :: "string \<Rightarrow> string"
  df_ISCSI :: "string \<Rightarrow> string"
  df_RBD :: "string \<Rightarrow> string"
  df_DownwardAPI :: "downward_api \<Rightarrow> downward_api"
  df_FieldSelector :: "string \<Rightarrow> string"
  df_ConfigMap :: "string \<Rightarrow> string"
  df_AzureDisk :: "string \<Rightarrow> string"
  df_Projected :: "projected \<Rightarrow> projected"
  df_AccountToken :: "string \<Rightarrow> string"
  df_ScaleIO :: "string \<Rightarrow> string"
  df_Container :: "container \<Rightarrow> container"
  df_ResourceList :: "string \<Rightarrow> string"
  df_Probe :: "probe \<Rightarrow> probe"
  df_HTTPGet :: "string \<Rightarrow> string"
  df_Claim :: "volume_claim \<Rightarrow> volume_claim"

subsection \<open>Pod specifications\<close>

definition SetDefaults_ContainerPort :: "container_port \<Rightarrow> container_port" where
  "SetDefaults_ContainerPort obj =
     (if cp_protocol obj = [] then obj\<lparr>cp_protocol := ''TCP''\<rparr> else obj)"

definition defaultDownwardItem :: "df_env \<Rightarrow> downward_item \<Rightarrow> downward_item" where
  "defaultDownwardItem df b = b\<lparr>di_fieldRef := map_option (df_FieldSelector df) (di_fieldRef b)\<rparr>"

definition defaultProjection :: "df_env \<Rightarrow> projection \<Rightarrow> projection" where
  "defaultProjection df b =
     b\<lparr>pr_downwardAPI := map_option (map (defaultDownwardItem df)) (pr_downwardAPI b),
       pr_serviceAccountToken := map_option (df_AccountToken df) (pr_serviceAccountToken b)\<rparr>"

definition defaultVolume :: "df_env \<Rightarrow> volume \<Rightarrow> volume" where
  "defaultVolume df v =
     (let a = df_Volume df v in
      a\<lparr>vl_hostPath := map_option (df_HostPath df) (vl_hostPath a),
        vl_secret := map_option (df_Secret df) (vl_secret a),
        vl_iscsi := map_option (df_ISCSI df) (vl_iscsi a),
        vl_rbd := map_option (df_RBD df) (vl_rbd a),
        vl_downwardAPI := map_option (\<lambda>d. let d' = df_DownwardAPI df d
          in d'\<lparr>dw_items := map (defaultDownwardItem df) (dw_items d')\<rparr>) (vl_downwardAPI a),
        vl_configMap := map_option (df_ConfigMap df) (vl_configMap a),
        vl_azureDisk := map_option (df_AzureDisk df) (vl_azureDisk a),
        vl_projected := map_option (\<lambda>p. let p' = df_Projected df p
          in p'\<lparr>pj_sources := map (defaultProjection df) (pj_sources p')\<rparr>) (vl_projected a),
        vl_scaleIO := map_option (df_ScaleIO df) (vl_scaleIO a)\<rparr>)"

definition defaultEnv :: "df_env \<Rightarrow> env_var \<Rightarrow> env_var" where
  "defaultEnv df b = b\<lparr>ev_fieldRef := map_option (map_option (df_FieldSelector df)) (ev_fieldRef b)\<rparr>"

definition defaultProbe :: "df_env \<Rightarrow> probe \<Rightarrow> probe" where
  "defaultProbe df p =
     (let p' = df_Probe df p in p'\<lparr>pb_httpGet := map_option (df_HTTPGet df) (pb_httpGet p')\<rparr>)"

definition defaultLifecycle :: "df_env \<Rightarrow> lifecycle \<Rightarrow> lifecycle" where
  "defaultLifecycle df l =
     l\<lparr>lc_postStart := map_option (map_option (df_HTTPGet df)) (lc_postStart l),
       lc_preStop := map_option (map_option (df_HTTPGet df)) (lc_preStop l)\<rparr>"

text \<open>The loop over the init containers\<close>

definition defaultContainer :: "df_env \<Rightarrow> container \<Rightarrow> container" where
  "defaultContainer df c =
     (let a = df_Container df c in
      a\<lparr>ct_ports := map SetDefaults_ContainerPort (ct_ports a),
        ct_env := map (defaultEnv df) (ct_env a),
        ct_limits := df_ResourceList df (ct_limits a),
        ct_requests := df_ResourceList df (ct_requests a),
        ct_livenessProbe := map_option (defaultProbe df) (ct_livenessProbe a),
        ct_readinessProbe := map_option (defaultProbe df) (ct_readinessProbe a),
        ct_lifecycle := map_option (defaultLifecycle df) (ct_lifecycle a)\<rparr>)"

text \<open>The containers are always pulled unless they say otherwise.\<close>

definition defaultPullPolicy :: "container \<Rightarrow> container" where
  "defaultPullPolicy a =
     (if ct_imagePullPolicy a = [] then a\<lparr>ct_imagePullPolicy := ''Always''\<rparr> else a)"

definition SetDefaultPodSpec :: "df_env \<Rightarrow> pod_spec \<Rightarrow> pod_spec" where
  "SetDefaultPodSpec df spec =
     (let in' = df_PodSpec df spec in
      in'\<lparr>ps_volumes := map (defaultVolume df) (ps_volumes in'),
          ps_initContainers := map (defaultContainer df) (ps_initContainers in'),
          ps_containers := map (\<lambda>a. defaultContainer df (defaultPullPolicy a)) (ps_containers in')\<rparr>)"

subsection \<open>The templates\<close>

definition defaultClaim :: "df_env \<Rightarrow> volume_claim \<Rightarrow> volume_claim" where
  "defaultClaim df c =
     (let a = df_Claim df c in
      a\<lparr>vc_limits := df_ResourceList df (vc_limits a),
        vc_requests := df_ResourceList df (vc_requests a),
        vc_capacity := df_ResourceList df (vc_capacity a)\<rparr>)"

definition defaultPodTemplate :: "df_env \<Rightarrow> pod_template \<Rightarrow> pod_template" where
  "defaultPodTemplate df t = t\<lparr>pt_spec := SetDefaultPodSpec df (pt_spec t)\<rparr>"

definition defaultTemplate :: "df_env \<Rightarrow> workload_template \<Rightarrow> workload_template" where
  "defaultTemplate df t =
     t\<lparr>wt_statefulSet := map_option (\<lambda>s. s\<lparr>st_spec := (st_spec s)\<lparr>
           ss_template := defaultPodTemplate df (ss_template (st_spec s)),
           ss_volumeClaimTemplates :=
             map_option (map (defaultClaim df)) (ss_volumeClaimTemplates (st_spec s))\<rparr>\<rparr>)
         (wt_statefulSet t),
       wt_deployment := map_option (\<lambda>s. s\<lparr>dt_spec := (dt_spec s)\<lparr>
           ds_template := defaultPodTemplate df (ds_template (dt_spec s))\<rparr>\<rparr>)
         (wt_deployment t)\<rparr>"

definition defaultLimit :: "int32 option \<Rightarrow> int32 option" where
  "defaultLimit limit = (case limit of None \<Rightarrow> Some 10 | Some n \<Rightarrow> Some n)"

definition SetDefaultsYurtAppSet :: "df_env \<Rightarrow> yas \<Rightarrow> yas" where
  "SetDefaultsYurtAppSet df obj =
     obj\<lparr>yas_spec := (yas_spec obj)\<lparr>
       ys_revisionHistoryLimit := defaultLimit (ys_revisionHistoryLimit (yas_spec obj)),
       ys_template := defaultTemplate df (ys_template (yas_spec obj))\<rparr>\<rparr>"

text \<open>A UnitedDeployment has the fields of a YurtAppSet.\<close>

definition SetDefaultsUnitedDeployment :: "df_env \<Rightarrow> yas \<Rightarrow> yas" where
  "SetDefaultsUnitedDeployment df obj =
     obj\<lparr>yas_spec := (yas_spec obj)\<lparr>
       ys_revisionHistoryLimit := defaultLimit (ys_revisionHistoryLimit (yas_spec obj)),
       ys_template := defaultTemplate df (ys_template (yas_spec obj))\<rparr>\<rparr>"

definition SetDefaultsYurtAppDaemon :: "df_env \<Rightarrow> yad \<Rightarrow> yad" where
  "SetDefaultsYurtAppDaemon df obj =
     obj\<lparr>yad_spec := (yad_spec obj)\<lparr>
       yd_revisionHistoryLimit := defaultLimit (yd_revisionHistoryLimit (yad_spec obj)),
       yd_template := defaultTemplate df (yd_template (yad_spec obj))\<rparr>\<rparr>"

subsection \<open>What is settled afterwards\<close>

definition container_ok :: "container \<Rightarrow> bool" where
  "container_ok c \<longleftrightarrow> (\<forall>p \<in> set (ct_ports c). cp_protocol p \<noteq> [])"

definition df_keeps :: "df_env \<Rightarrow> bool" where
  "df_keeps df \<longleftrightarrow>
     (\<forall>s. map ct_imagePullPolicy (ps_containers (df_PodSpec df s)) =
        map ct_imagePullPolicy (ps_containers s)) \<and>
     (\<forall>c. ct_imagePullPolicy c \<noteq> [] \<longrightarrow>
        ct_imagePullPolicy (df_Container df c) = ct_imagePullPolicy c)"

lemma port_protocol [simp]: "cp_protocol (SetDefaults_ContainerPort p) \<noteq> []"
  by (simp add: SetDefaults_ContainerPort_def)

lemma defaultContainer_ok: "container_ok (defaultContainer df c)"
  by (auto simp: container_ok_def defaultContainer_def Let_def)

text \<open>After the defaulting every port of every container has a protocol, every container a pull
  policy, the image pull policy and the protocols that were given are kept, and no container
  or port is lost, provided the defaulting of the library loses none and keeps a pull policy
  that is set.\<close>

lemma SetDefaultPodSpec_settled:
  assumes "df_keeps df"
  shows "(\<forall>c \<in> set (ps_containers (SetDefaultPodSpec df spec)) \<union>
        set (ps_initContainers (SetDefaultPodSpec df spec)). container_ok c) \<and>
    map ct_imagePullPolicy (ps_containers (SetDefaultPodSpec df spec)) =
      map (\<lambda>c. if ct_imagePullPolicy c = [] then ''Always'' else ct_imagePullPolicy c)
        (ps_containers spec)"
proof -
  have "ct_imagePullPolicy (defaultContainer df (defaultPullPolicy c)) =
      (if ct_imagePullPolicy c = [] then ''Always'' else ct_imagePullPolicy c)" for c
    using assms by (simp add: defaultContainer_def defaultPullPolicy_def Let_def df_keeps_def)
  moreover have "map ct_imagePullPolicy (ps_containers (df_PodSpec df spec)) =
      map ct_imagePullPolicy (ps_containers spec)"
    using assms by (simp add: df_keeps_def)
  then have "map (\<lambda>c. g (ct_imagePullPolicy c)) (ps_containers (df_PodSpec df spec)) =
      map (\<lambda>c. g (ct_imagePullPolicy c)) (ps_containers spec)" for g :: "string \<Rightarrow> string"
    by (drule_tac f = "map g" in arg_cong) (simp add: comp_def)
  ultimately show ?thesis
    by (auto simp: SetDefaultPodSpec_def Let_def defaultContainer_ok comp_def)
qed

end
