(* ===== verification/Workload_Webhook.thy ===== *)
theory Workload_Webhook
  imports Defaults NodePool_Webhook YAS_Revision YAD_Workload
begin

section \<open>Admission of YurtAppSets and YurtAppDaemons\<close>

text \<open>
  \<open>webhook/yurtappset\<close> and \<open>webhook/yurtappdaemon\<close>: defaulting and validation. An object of
  another type is \<open>None\<close>. What the validation of Kubernetes does is the record \<open>wh_env\<close>:
  conversions to the internal types (records of the same shape here), the validation of parts of
  an object, selectors and \<open>apiequality.Semantic.DeepEqual\<close>.

  The validation of a YurtAppSet logs the labels of the deployment template before it looks whether
  there is one; the model panics there, as the code does.
\<close>

record selector =
  sel_Matches :: "string gomap \<Rightarrow> bool"
  sel_Empty :: bool

record wh_env =
  wh_ObjectMeta :: "object_meta \<Rightarrow> string list \<Rightarrow> field_error list"
  wh_ObjectMetaUpdate :: "object_meta \<Rightarrow> object_meta \<Rightarrow> string list \<Rightarrow> field_error list"
  wh_LabelSelector :: "label_selector \<Rightarrow> string list \<Rightarrow> field_error list"
  wh_AsSelector :: "label_selector option \<Rightarrow> go_error + selector"
  wh_NameIsDNSLabel :: "string \<Rightarrow> string list"
  wh_ConvertTerm :: "node_selector_term \<Rightarrow> go_error + node_selector_term"
  wh_NodeSelectorTerm :: "node_selector_term \<Rightarrow> string list \<Rightarrow> field_error list"
  wh_ConvertToleration :: "toleration \<Rightarrow> go_error + toleration"
  wh_Tolerations :: "toleration list \<Rightarrow> string list \<Rightarrow> field_error list"
  wh_ConvertPodTemplate :: "pod_template \<Rightarrow> go_error + pod_template"
  wh_PodTemplateForStatefulSet :: "pod_template \<Rightarrow> selector \<Rightarrow> string list \<Rightarrow> field_error list"
  wh_PodTemplate :: "pod_template \<Rightarrow> string list \<Rightarrow> field_error list"
  wh_NonnegativeField :: "int \<Rightarrow> string list \<Rightarrow> field_error list"
  wh_EqualTerm :: "node_selector_term \<Rightarrow> node_selector_term \<Rightarrow> bool"
  wh_EqualTolerations :: "toleration goslice \<Rightarrow> toleration goslice \<Rightarrow> bool"
  wh_EqualDeploymentSpec :: "deployment_spec \<Rightarrow> deployment_spec \<Rightarrow> bool"
  wh_EqualStatefulSetSpec :: "stateful_set_spec \<Rightarrow> stateful_set_spec \<Rightarrow> bool"

definition index :: "nat \<Rightarrow> string" where
  "index i = ''['' @ decimal (int i) @ '']''"

subsection \<open>Templates\<close>

definition convertPodTemplateSpec :: "wh_env \<Rightarrow> pod_template \<Rightarrow> go_error + pod_template" where
  "convertPodTemplateSpec env t = wh_ConvertPodTemplate env t"

definition conversionError :: "string list \<Rightarrow> go_error \<Rightarrow> field_error" where
  "conversionError fldPath e = field_Invalid [hd fldPath]
     (''Convert_v1_PodTemplateSpec_To_core_PodTemplateSpec failed: '' @ error_text e)"

definition validatePodTemplateSpec ::
  "pod_template \<Rightarrow> selector \<Rightarrow> string list \<Rightarrow> field_error list" where
  "validatePodTemplateSpec t sel fldPath =
     (if \<not> sel_Empty sel \<and> \<not> sel_Matches sel (m_labels t)
      then [field_Invalid (fldPath @ [''metadata'', ''labels''])
        ''`selector` does not match template `labels`'']
      else [])"

definition partitionErrors :: "stateful_set_template \<Rightarrow> string list \<Rightarrow> field_error list" where
  "partitionErrors t fldPath =
     (let us = ss_updateStrategy (st_spec t) in
      if us_type us = ''RollingUpdate''
        \<and> (case us_rollingUpdate us of Some (Some p) \<Rightarrow> True | _ \<Rightarrow> False)
      then [field_Invalid (fldPath @ [''spec'', ''updateStrategy'', ''rollingUpdate'', ''partition''])
        ''partition in statefulSetTemplate will not be used'']
      else [])"

definition validateStatefulSet_yas :: "stateful_set_template \<Rightarrow> string list \<Rightarrow> field_error list" where
  "validateStatefulSet_yas t fldPath =
     (if ss_replicas (st_spec t) \<noteq> None
      then [field_Invalid (fldPath @ [''spec'', ''replicas''])
        ''replicas in statefulSetTemplate will not be used'']
      else []) @ partitionErrors t fldPath"

definition validateDeployment_yas :: "deployment_template \<Rightarrow> string list \<Rightarrow> field_error list" where
  "validateDeployment_yas t fldPath =
     (if ds_replicas (dt_spec t) \<noteq> None
      then [field_Invalid (fldPath @ [''spec'', ''replicas''])
        ''replicas in deploymentTemplate will not be used'']
      else [])"

definition validateStatefulSet_yad :: "stateful_set_template \<Rightarrow> string list \<Rightarrow> field_error list" where
  "validateStatefulSet_yad t fldPath = partitionErrors t fldPath"

definition validateDeployment_yad :: "deployment_template \<Rightarrow> string list \<Rightarrow> field_error list" where
  "validateDeployment_yad t fldPath = []"

text \<open>The errors of the two kinds of templates; \<open>False\<close> beside them after a conversion that failed,
  which ends the validation of the templates.\<close>

definition statefulSetTemplateErrors ::
  "wh_env \<Rightarrow> (stateful_set_template \<Rightarrow> string list \<Rightarrow> field_error list) \<Rightarrow> stateful_set_template option
   \<Rightarrow> selector \<Rightarrow> string list \<Rightarrow> field_error list \<times> bool" where
  "statefulSetTemplateErrors env validate tmpl sel fldPath =
     (case tmpl of
        None \<Rightarrow> ([], True)
      | Some t \<Rightarrow>
          (let errs = (if \<not> sel_Matches sel (m_labels t)
                 then [field_Invalid (fldPath @ [''statefulSetTemplate'', ''metadata'', ''labels''])
                   ''`selector` does not match template `labels`''] else [])
               @ validate t (fldPath @ [''statefulSetTemplate''])
           in case convertPodTemplateSpec env (ss_template (st_spec t)) of
                Inl e \<Rightarrow> (errs @ [conversionError fldPath e], False)
              | Inr core \<Rightarrow>
                  (errs @ wh_PodTemplateForStatefulSet env core sel
                     (fldPath @ [''statefulSetTemplate'', ''spec'', ''template'']), True)))"

definition deploymentTemplateErrors ::
  "wh_env \<Rightarrow> (deployment_template \<Rightarrow> string list \<Rightarrow> field_error list) \<Rightarrow> deployment_template option
   \<Rightarrow> selector \<Rightarrow> string list \<Rightarrow> field_error list" where
  "deploymentTemplateErrors env validate tmpl sel fldPath =
     (case tmpl of
        None \<Rightarrow> []
      | Some t \<Rightarrow>
          (let errs = (if \<not> sel_Matches sel (m_labels t)
                 then [field_Invalid (fldPath @ [''deploymentTemplate'', ''metadata'', ''labels''])
                   ''`selector` does not match template `labels`''] else [])
               @ validate t (fldPath @ [''deploymentTemplate'']);
               podPath = fldPath @ [''deploymentTemplate'', ''spec'', ''template'']
           in case convertPodTemplateSpec env (ds_template (dt_spec t)) of
                Inl e \<Rightarrow> errs @ [conversionError fldPath e]
              | Inr core \<Rightarrow>
                  errs @ validatePodTemplateSpec core sel podPath @ wh_PodTemplate env core podPath))"

definition templateCountErrors :: "workload_template \<Rightarrow> string list \<Rightarrow> string \<Rightarrow> field_error list" where
  "templateCountErrors template fldPath kinds =
     (let templateCount = (if wt_statefulSet template \<noteq> None then 1 else 0)
            + (if wt_deployment template \<noteq> None then 1 else 0 :: nat)
      in if templateCount < 1 then [field_Required fldPath (''should provide one of '' @ kinds)]
         else if templateCount > 1
         then [field_Invalid fldPath (''should provide only one of '' @ kinds)]
         else [])"

definition validatePoolTemplate ::
  "wh_env \<Rightarrow> workload_template \<Rightarrow> selector \<Rightarrow> string list \<Rightarrow> field_error list" where
  "validatePoolTemplate env template sel fldPath =
     (let (ssErrs, more) = statefulSetTemplateErrors env validateStatefulSet_yas
            (wt_statefulSet template) sel fldPath
      in templateCountErrors template fldPath
           ''(statefulSetTemplate/deploymentTemplate/daemonSetTemplate)'' @ ssErrs
         @ (if more then deploymentTemplateErrors env validateDeployment_yas
              (wt_deployment template) sel fldPath else []))"

definition validateWorkLoadTemplate ::
  "wh_env \<Rightarrow> workload_template \<Rightarrow> selector \<Rightarrow> string list \<Rightarrow> field_error list" where
  "validateWorkLoadTemplate env template sel fldPath =
     (let (ssErrs, more) = statefulSetTemplateErrors env validateStatefulSet_yad
            (wt_statefulSet template) sel fldPath
      in templateCountErrors template fldPath ''(statefulSetTemplate/deploymentTemplate)'' @ ssErrs
         @ (if more then deploymentTemplateErrors env validateDeployment_yad
              (wt_deployment template) sel fldPath else []))"

subsection \<open>Updates of templates\<close>

text \<open>The fields that may change are set to the old ones for the comparison and restored.\<close>

definition validateDeploymentUpdate ::
  "wh_env \<Rightarrow> deployment_template \<Rightarrow> deployment_template \<Rightarrow> string list \<Rightarrow> field_error list" where
  "validateDeploymentUpdate env t old fldPath =
     (let spec = (dt_spec t)\<lparr>ds_replicas := ds_replicas (dt_spec old),
            ds_template := ds_template (dt_spec old), ds_strategy := ds_strategy (dt_spec old)\<rparr>
      in (if \<not> wh_EqualDeploymentSpec env spec (dt_spec old)
          then [field_Forbidden (fldPath @ [''spec''])
            ''updates to deployTemplate spec for fields other than 'template', 'strategy' and 'replicas' are forbidden'']
          else [])
         @ (case ds_replicas (dt_spec t) of
              None \<Rightarrow> []
            | Some r \<Rightarrow> wh_NonnegativeField env (sint r) (fldPath @ [''spec'', ''replicas''])))"

definition validateStatefulSetUpdate ::
  "wh_env \<Rightarrow> stateful_set_template \<Rightarrow> stateful_set_template \<Rightarrow> string list \<Rightarrow> field_error list" where
  "validateStatefulSetUpdate env t old fldPath =
     (let spec = (st_spec t)\<lparr>ss_replicas := ss_replicas (st_spec old),
            ss_template := ss_template (st_spec old),
            ss_updateStrategy := ss_updateStrategy (st_spec old)\<rparr>
      in (if \<not> wh_EqualStatefulSetSpec env spec (st_spec old)
          then [field_Forbidden (fldPath @ [''spec''])
            ''updates to statefulsetTemplate spec for fields other than 'template', and 'updateStrategy' are forbidden'']
          else [])
         @ (case ss_replicas (st_spec t) of
              None \<Rightarrow> []
            | Some r \<Rightarrow> wh_NonnegativeField env (sint r) (fldPath @ [''spec'', ''replicas''])))"

definition validateWorkloadTemplateUpdate ::
  "wh_env \<Rightarrow> workload_template \<Rightarrow> workload_template \<Rightarrow> string list \<Rightarrow> field_error list" where
  "validateWorkloadTemplateUpdate env template old fldPath =
     (case (wt_statefulSet template, wt_statefulSet old) of
        (Some t, Some o') \<Rightarrow> validateStatefulSetUpdate env t o' (fldPath @ [''statefulSetTemplate''])
      | _ \<Rightarrow> [])
     @ (case (wt_deployment template, wt_deployment old) of
        (Some t, Some o') \<Rightarrow> validateDeploymentUpdate env t o' (fldPath @ [''deploymentTemplate''])
      | _ \<Rightarrow> [])"

subsection \<open>YurtAppSet\<close>

definition selectorErrors :: "wh_env \<Rightarrow> label_selector option \<Rightarrow> string list \<Rightarrow> field_error list" where
  "selectorErrors env selector fldPath =
     (case selector of
        None \<Rightarrow> [field_Required (fldPath @ [''selector'']) []]
      | Some s \<Rightarrow> wh_LabelSelector env s (fldPath @ [''selector''])
          @ (if length (entries (ls_matchLabels s)) + length (items (ls_matchExpressions s)) = 0
             then [field_Invalid (fldPath @ [''selector'']) ''empty selector is invalid for statefulset'']
             else []))"

text \<open>The index in an error of a toleration is that of the toleration, not of the pool.\<close>

fun convertTolerations ::
  "wh_env \<Rightarrow> string list \<Rightarrow> nat \<Rightarrow> toleration list \<Rightarrow> field_error list \<times> toleration list" where
  "convertTolerations env poolsPath i [] = ([], [])"
| "convertTolerations env poolsPath i (t # ts) =
     (let (errs, cores) = convertTolerations env poolsPath (i + 1) ts
      in case wh_ConvertToleration env t of
           Inl e \<Rightarrow> (field_Invalid (poolsPath @ [index i, ''tolerations''])
               (''Convert_v1_Toleration_To_core_Toleration failed: '' @ error_text e) # errs, cores)
         | Inr c \<Rightarrow> (errs, c # cores))"

fun joinWith :: "string \<Rightarrow> string list \<Rightarrow> string" where
  "joinWith sep [] = []"
| "joinWith sep [x] = x"
| "joinWith sep (x # xs) = x @ sep @ joinWith sep xs"

definition validatePool ::
  "wh_env \<Rightarrow> string list \<Rightarrow> nat \<Rightarrow> string list \<Rightarrow> pool_config \<Rightarrow> field_error list" where
  "validatePool env poolsPath i poolNames pool =
     (let namePath = poolsPath @ [index i, ''name'']; termPath = poolsPath @ [index i, ''nodeSelectorTerm''] in
      (if length (pc_name pool) = 0 then [field_Required namePath []] else [])
      @ (if pc_name pool \<in> set poolNames
         then [field_Invalid namePath (''duplicated pool name '' @ pc_name pool)] else [])
      @ (let errs = wh_NameIsDNSLabel env (pc_name pool) in
         if length errs > 0
         then [field_Invalid namePath (''invalid pool name '' @ joinWith '', '' errs)] else [])
      @ (case wh_ConvertTerm env (pc_nodeSelectorTerm pool) of
           Inl e \<Rightarrow> [field_Invalid termPath
             (''Convert_v1_NodeSelectorTerm_To_core_NodeSelectorTerm failed: '' @ error_text e)]
         | Inr core \<Rightarrow> wh_NodeSelectorTerm env core termPath)
      @ (case pc_tolerations pool of
           None \<Rightarrow> []
         | Some ts \<Rightarrow>
             (let (errs, cores) = convertTolerations env poolsPath 0 ts
              in errs @ wh_Tolerations env cores (poolsPath @ [index i, ''tolerations'']))))"

fun validatePools ::
  "wh_env \<Rightarrow> string list \<Rightarrow> nat \<Rightarrow> string list \<Rightarrow> pool_config list \<Rightarrow> field_error list" where
  "validatePools env poolsPath i poolNames [] = []"
| "validatePools env poolsPath i poolNames (pool # pools) =
     validatePool env poolsPath i poolNames pool
     @ validatePools env poolsPath (i + 1) (pc_name pool # poolNames) pools"

definition validateYurtAppSetSpec :: "wh_env \<Rightarrow> yas_spec \<Rightarrow> string list \<Rightarrow> field_error list outcome" where
  "validateYurtAppSetSpec env spec fldPath =
     (case wt_deployment (ys_template spec) of
        None \<Rightarrow> Panic ''nil pointer dereference''
      | Some _ \<Rightarrow>
          Ret (selectorErrors env (ys_selector spec) fldPath
            @ (case wh_AsSelector env (ys_selector spec) of
                 Inl e \<Rightarrow> [field_Invalid (fldPath @ [''selector'']) []]
               | Inr sel \<Rightarrow> validatePoolTemplate env (ys_template spec) sel
                   (fldPath @ [''workloadTemplate'']))
            @ validatePools env (fldPath @ [''topology'', ''pools'']) 0 [] (items (ys_pools spec))))"

definition validateYurtAppSet :: "wh_env \<Rightarrow> yas \<Rightarrow> field_error list outcome" where
  "validateYurtAppSet env y =
     (case validateYurtAppSetSpec env (yas_spec y) [''spec''] of
        Ret errs \<Rightarrow> Ret (wh_ObjectMeta env (object_meta.truncate y) [''metadata''] @ errs)
      | r \<Rightarrow> r)"

text \<open>Of old pools with the same name the last one counts.\<close>

fun validateTopologyPools ::
  "wh_env \<Rightarrow> string list \<Rightarrow> pool_config gomap \<Rightarrow> nat \<Rightarrow> pool_config list \<Rightarrow> field_error list" where
  "validateTopologyPools env fldPath oldPools i [] = []"
| "validateTopologyPools env fldPath oldPools i (pool # pools) =
     (case gget oldPools (pc_name pool) of
        None \<Rightarrow> []
      | Some oldPool \<Rightarrow>
          (if \<not> wh_EqualTerm env (pc_nodeSelectorTerm oldPool) (pc_nodeSelectorTerm pool)
           then [field_Forbidden (fldPath @ [''pools'', index i, ''nodeSelectorTerm''])
             ''may not be changed in an update''] else [])
          @ (if \<not> wh_EqualTolerations env (pc_tolerations oldPool) (pc_tolerations pool)
             then [field_Forbidden (fldPath @ [''pools'', index i, ''tolerations''])
               ''may not be changed in an update''] else []))
     @ validateTopologyPools env fldPath oldPools (i + 1) pools"

definition validateYurtAppSetTopology ::
  "wh_env \<Rightarrow> pool_config goslice \<Rightarrow> pool_config goslice \<Rightarrow> string list \<Rightarrow> field_error list" where
  "validateYurtAppSetTopology env pools oldPools fldPath =
     validateTopologyPools env fldPath
       (fold (\<lambda>pool m. gput (pc_name pool) pool m) (items oldPools) (Some [])) 0 (items pools)"

definition validateYurtAppSetSpecUpdate ::
  "wh_env \<Rightarrow> yas_spec \<Rightarrow> yas_spec \<Rightarrow> string list \<Rightarrow> field_error list" where
  "validateYurtAppSetSpecUpdate env spec oldSpec fldPath =
     validateWorkloadTemplateUpdate env (ys_template spec) (ys_template oldSpec)
       (fldPath @ [''workloadTemplate''])
     @ validateYurtAppSetTopology env (ys_pools spec) (ys_pools oldSpec) (fldPath @ [''topology''])"

definition ValidateYurtAppSetUpdate :: "wh_env \<Rightarrow> yas \<Rightarrow> yas \<Rightarrow> field_error list" where
  "ValidateYurtAppSetUpdate env y old =
     wh_ObjectMetaUpdate env (object_meta.truncate y) (object_meta.truncate old) [''metadata'']
     @ validateYurtAppSetSpecUpdate env (yas_spec y) (yas_spec old) [''spec'']"

definition empty_yas_status :: yas_status where
  "empty_yas_status = \<lparr>yt_observedGeneration = 0, yt_collisionCount = None, yt_currentRevision = [],
     yt_conditions = None, yt_poolReplicas = None, yt_readyReplicas = 0, yt_replicas = 0,
     yt_templateType = NoTemplateType\<rparr>"

definition selectTemplate ::
  "label_selector option \<Rightarrow> workload_template \<Rightarrow> workload_template" where
  "selectTemplate sel t =
     t\<lparr>wt_statefulSet := map_option (\<lambda>s. s\<lparr>st_spec := (st_spec s)\<lparr>ss_selector := sel\<rparr>\<rparr>)
         (wt_statefulSet t),
       wt_deployment := map_option (\<lambda>s. s\<lparr>dt_spec := (dt_spec s)\<lparr>ds_selector := sel\<rparr>\<rparr>)
         (wt_deployment t)\<rparr>"

definition YurtAppSet_Default :: "df_env \<Rightarrow> yas option \<Rightarrow> admission_error + yas" where
  "YurtAppSet_Default df obj =
     (case obj of
        None \<Rightarrow> Inl BadRequest
      | Some y0 \<Rightarrow>
          (let y = (SetDefaultsYurtAppSet df y0)\<lparr>yas_status := empty_yas_status\<rparr>
           in Inr (y\<lparr>yas_spec := (yas_spec y)\<lparr>
                ys_template := selectTemplate (ys_selector (yas_spec y)) (ys_template (yas_spec y))\<rparr>\<rparr>)))"

definition YurtAppSet_ValidateCreate ::
  "wh_env \<Rightarrow> yas option \<Rightarrow> (admission_error + unit) outcome" where
  "YurtAppSet_ValidateCreate env obj =
     (case obj of
        None \<Rightarrow> Ret (Inl BadRequest)
      | Some y \<Rightarrow>
          (case validateYurtAppSet env y of
             Ret allErrs \<Rightarrow>
               Ret (if length allErrs > 0 then Inl (Invalid (m_name y) allErrs) else Inr ())
           | Err e \<Rightarrow> Err e | Panic p \<Rightarrow> Panic p))"

definition YurtAppSet_ValidateUpdate ::
  "wh_env \<Rightarrow> yas option \<Rightarrow> yas option \<Rightarrow> (admission_error + unit) outcome" where
  "YurtAppSet_ValidateUpdate env oldObj newObj =
     (case newObj of
        None \<Rightarrow> Ret (Inl BadRequest)
      | Some y \<Rightarrow>
     (case oldObj of
        None \<Rightarrow> Ret (Inl BadRequest)
      | Some old \<Rightarrow>
          (case validateYurtAppSet env y of
             Ret errs \<Rightarrow>
               (let allErrs = errs @ ValidateYurtAppSetUpdate env y old
                in Ret (if length allErrs > 0 then Inl (Invalid (m_name y) allErrs) else Inr ()))
           | Err e \<Rightarrow> Err e | Panic p \<Rightarrow> Panic p)))"

definition YurtAppSet_ValidateDelete :: "yas option \<Rightarrow> admission_error + unit" where
  "YurtAppSet_ValidateDelete obj = Inr ()"

subsection \<open>YurtAppDaemon\<close>

definition validateYurtAppDaemonSpec :: "wh_env \<Rightarrow> yad_spec \<Rightarrow> string list \<Rightarrow> field_error list" where
  "validateYurtAppDaemonSpec env spec fldPath =
     selectorErrors env (yd_selector spec) fldPath
     @ (case wh_AsSelector env (yd_selector spec) of
          Inl e \<Rightarrow> [field_Invalid (fldPath @ [''selector'']) []]
        | Inr sel \<Rightarrow> validateWorkLoadTemplate env (yd_template spec) sel (fldPath @ [''template'']))"

definition validateYurtAppDaemon :: "wh_env \<Rightarrow> yad \<Rightarrow> field_error list" where
  "validateYurtAppDaemon env d =
     wh_ObjectMeta env (object_meta.truncate d) [''metadata'']
     @ validateYurtAppDaemonSpec env (yad_spec d) [''spec'']"

definition validateYurtAppDaemonSpecUpdate ::
  "wh_env \<Rightarrow> yad_spec \<Rightarrow> yad_spec \<Rightarrow> string list \<Rightarrow> field_error list" where
  "validateYurtAppDaemonSpecUpdate env spec oldSpec fldPath =
     validateWorkloadTemplateUpdate env (yd_template spec) (yd_template oldSpec)
       (fldPath @ [''template''])"

definition ValidateYurtAppDaemonUpdate :: "wh_env \<Rightarrow> yad \<Rightarrow> yad \<Rightarrow> field_error list" where
  "ValidateYurtAppDaemonUpdate env d old =
     wh_ObjectMetaUpdate env (object_meta.truncate d) (object_meta.truncate old) [''metadata'']
     @ validateYurtAppDaemonSpecUpdate env (yad_spec d) (yad_spec old) [''spec'']"

definition empty_yad_status :: yad_status where
  "empty_yad_status = \<lparr>dt_observedGeneration = 0, dt_collisionCount = None, dt_currentRevision = [],
     dt_conditions = None, dt_templateType = NoTemplateType, dt_nodePools = None\<rparr>"

definition YurtAppDaemon_Default :: "df_env \<Rightarrow> yad option \<Rightarrow> admission_error + yad" where
  "YurtAppDaemon_Default df obj =
     (case obj of
        None \<Rightarrow> Inl BadRequest
      | Some d0 \<Rightarrow>
          (let d = (SetDefaultsYurtAppDaemon df d0)\<lparr>yad_status := empty_yad_status\<rparr>
           in Inr (d\<lparr>yad_spec := (yad_spec d)\<lparr>
                yd_template := selectTemplate (yd_selector (yad_spec d)) (yd_template (yad_spec d))\<rparr>\<rparr>)))"

definition YurtAppDaemon_ValidateCreate :: "wh_env \<Rightarrow> yad option \<Rightarrow> admission_error + unit" where
  "YurtAppDaemon_ValidateCreate env obj =
     (case obj of
        None \<Rightarrow> Inl BadRequest
      | Some d \<Rightarrow>
          (let allErrs = validateYurtAppDaemon env d
           in if length allErrs > 0 then Inl (Invalid (m_name d) allErrs) else Inr ()))"

definition YurtAppDaemon_ValidateUpdate ::
  "wh_env \<Rightarrow> yad option \<Rightarrow> yad option \<Rightarrow> admission_error + unit" where
  "YurtAppDaemon_ValidateUpdate env oldObj newObj =
     (case newObj of
        None \<Rightarrow> Inl BadRequest
      | Some d \<Rightarrow>
     (case oldObj of
        None \<Rightarrow> Inl BadRequest
      | Some old \<Rightarrow>
          (let allErrs = validateYurtAppDaemon env d @ ValidateYurtAppDaemonUpdate env d old
           in if length allErrs > 0 then Inl (Invalid (m_name d) allErrs) else Inr ())))"

definition YurtAppDaemon_ValidateDelete :: "yad option \<Rightarrow> admission_error + unit" where
  "YurtAppDaemon_ValidateDelete obj = Inr ()"

subsection \<open>What an admitted object satisfies\<close>

lemma templateCountErrors_nil:
  "templateCountErrors t p k = [] \<longleftrightarrow> (wt_statefulSet t = None) \<noteq> (wt_deployment t = None)"
  by (auto simp: templateCountErrors_def Let_def)

lemma deploymentTemplateErrors_nil:
  assumes "deploymentTemplateErrors env validate (Some t) sel p = []"
  shows "sel_Matches sel (m_labels t)" and "validate t (p @ [''deploymentTemplate'']) = []"
  using assms by (auto simp: deploymentTemplateErrors_def Let_def split: if_splits sum.splits)

lemma selectorErrors_nil:
  assumes "selectorErrors env selector p = []"
  obtains s where "selector = Some s"
    and "entries (ls_matchLabels s) \<noteq> [] \<or> items (ls_matchExpressions s) \<noteq> []"
  using assms by (auto simp: selectorErrors_def split: option.splits if_splits)

lemma validatePools_nil:
  "validatePools env p i seen pools = [] \<Longrightarrow>
     distinct (map pc_name pools) \<and> set (map pc_name pools) \<inter> insert [] (set seen) = {}"
proof (induction pools arbitrary: i seen)
  case (Cons pool pools)
  from Cons.prems have here: "pc_name pool \<noteq> []" "pc_name pool \<notin> set seen"
    by (auto simp: validatePool_def Let_def split: if_splits)
  with Cons show ?case by fastforce
qed simp

lemma validatePoolTemplate_nil:
  assumes "validatePoolTemplate env t sel p = []" and "wt_deployment t = Some tmpl"
  shows "wt_statefulSet t = None \<and> sel_Matches sel (m_labels tmpl) \<and> ds_replicas (dt_spec tmpl) = None"
proof -
  from assms have none: "wt_statefulSet t = None"
    by (auto simp: validatePoolTemplate_def templateCountErrors_nil split: prod.splits)
  with assms have "deploymentTemplateErrors env validateDeployment_yas (Some tmpl) sel p = []"
    by (auto simp: validatePoolTemplate_def statefulSetTemplateErrors_def)
  from deploymentTemplateErrors_nil [OF this] none show ?thesis
    by (auto simp: validateDeployment_yas_def split: if_splits)
qed

lemma validateYurtAppSetSpec_nil:
  assumes "validateYurtAppSetSpec env spec [''spec''] = Ret []"
  obtains tmpl s sel where "ys_template spec = \<lparr>wt_statefulSet = None, wt_deployment = Some tmpl\<rparr>"
    and "ys_selector spec = Some s" and "wh_AsSelector env (Some s) = Inr sel"
    and "sel_Matches sel (m_labels tmpl)" and "ds_replicas (dt_spec tmpl) = None"
    and "entries (ls_matchLabels s) \<noteq> [] \<or> items (ls_matchExpressions s) \<noteq> []"
    and "distinct (map pc_name (items (ys_pools spec)))"
    and "[] \<notin> set (map pc_name (items (ys_pools spec)))"
proof -
  from assms obtain tmpl where tmpl: "wt_deployment (ys_template spec) = Some tmpl"
    and errs: "selectorErrors env (ys_selector spec) [''spec''] = []"
    "(case wh_AsSelector env (ys_selector spec) of
        Inl e \<Rightarrow> [field_Invalid ([''spec''] @ [''selector'']) []]
      | Inr sel \<Rightarrow> validatePoolTemplate env (ys_template spec) sel
          ([''spec''] @ [''workloadTemplate''])) = []"
    "validatePools env ([''spec''] @ [''topology'', ''pools'']) 0 [] (items (ys_pools spec)) = []"
    by (auto simp: validateYurtAppSetSpec_def split: option.splits)
  obtain s where s: "ys_selector spec = Some s"
    "entries (ls_matchLabels s) \<noteq> [] \<or> items (ls_matchExpressions s) \<noteq> []"
    by (rule selectorErrors_nil [OF errs(1)])
  obtain sel where sel: "wh_AsSelector env (Some s) = Inr sel"
    "validatePoolTemplate env (ys_template spec) sel ([''spec''] @ [''workloadTemplate'']) = []"
    using errs(2) s(1) by (auto split: sum.splits)
  from validatePoolTemplate_nil [OF sel(2) tmpl] tmpl
  have "ys_template spec = \<lparr>wt_statefulSet = None, wt_deployment = Some tmpl\<rparr>"
    "sel_Matches sel (m_labels tmpl)" "ds_replicas (dt_spec tmpl) = None" by simp_all
  with s sel(1) validatePools_nil [OF errs(3)] show thesis
    by (intro that) auto
qed

lemma admitted_spec:
  "YurtAppSet_ValidateCreate env (Some y) = Ret (Inr ()) \<Longrightarrow>
     validateYurtAppSetSpec env (yas_spec y) [''spec''] = Ret []"
  by (auto simp: YurtAppSet_ValidateCreate_def validateYurtAppSet_def split: outcome.splits if_splits)


text \<open>A YurtAppSet without a deployment template is never answered: the validation of its creation,
  and of every update to it, panics, though a stateful set template is what the API offers beside
  a deployment.\<close>

theorem YurtAppSet_statefulSet_panics:
  assumes "wt_deployment (ys_template (yas_spec y)) = None"
  shows "YurtAppSet_ValidateCreate env (Some y) = Panic ''nil pointer dereference'' \<and>
    YurtAppSet_ValidateUpdate env (Some old) (Some y) = Panic ''nil pointer dereference''"
  using assms
  by (simp add: YurtAppSet_ValidateCreate_def YurtAppSet_ValidateUpdate_def validateYurtAppSet_def
      validateYurtAppSetSpec_def)

lemma validateTopologyPools_nil:
  "validateTopologyPools env p oldPools i pools = [] \<Longrightarrow> pool \<in> set pools \<Longrightarrow>
     gget oldPools (pc_name pool) = Some oldPool \<Longrightarrow>
     wh_EqualTerm env (pc_nodeSelectorTerm oldPool) (pc_nodeSelectorTerm pool) \<and>
     wh_EqualTolerations env (pc_tolerations oldPool) (pc_tolerations pool)"
  by (induction pools arbitrary: i) (auto split: if_splits)

lemma gget_oldPools:
  assumes "distinct (map pc_name ps)" and "q \<in> set ps"
  shows "gget (fold (\<lambda>pool m. gput (pc_name pool) pool m) ps m0) (pc_name q) = Some q"
  using gget_fold_gput [of pc_name id ps m0 "pc_name q"] find_distinct [of pc_name "rev ps" q] assms
  by (simp add: rev_map [symmetric])

text \<open>C26: an update of a YurtAppSet that is admitted leaves the node selector terms and the tolerations
  of the pools that stay as they were, up to semantic equality, and of the deployment template
  nothing changes but the replicas, the pod template and the strategy.\<close>

theorem YurtAppSet_update_admitted:
  assumes "YurtAppSet_ValidateUpdate env (Some old) (Some y) = Ret (Inr ())"
    and "distinct (map pc_name (items (ys_pools (yas_spec old))))"
  shows "(\<forall>p \<in> set (items (ys_pools (yas_spec y))). \<forall>q \<in> set (items (ys_pools (yas_spec old))).
      pc_name p = pc_name q \<longrightarrow> wh_EqualTerm env (pc_nodeSelectorTerm q) (pc_nodeSelectorTerm p) \<and>
        wh_EqualTolerations env (pc_tolerations q) (pc_tolerations p)) \<and>
    (\<forall>t o'. wt_deployment (ys_template (yas_spec y)) = Some t \<longrightarrow>
      wt_deployment (ys_template (yas_spec old)) = Some o' \<longrightarrow>
      wh_EqualDeploymentSpec env ((dt_spec t)\<lparr>ds_replicas := ds_replicas (dt_spec o'),
        ds_template := ds_template (dt_spec o'), ds_strategy := ds_strategy (dt_spec o')\<rparr>) (dt_spec o'))"
proof -
  have upd: "ValidateYurtAppSetUpdate env y old = []"
    using assms(1) by (auto simp: YurtAppSet_ValidateUpdate_def Let_def split: outcome.splits if_splits)
  then have top: "validateTopologyPools env ([''spec''] @ [''topology''])
      (fold (\<lambda>pool m. gput (pc_name pool) pool m) (items (ys_pools (yas_spec old))) (Some [])) 0
      (items (ys_pools (yas_spec y))) = []"
    by (simp add: ValidateYurtAppSetUpdate_def validateYurtAppSetSpecUpdate_def
        validateYurtAppSetTopology_def)
  have "wh_EqualTerm env (pc_nodeSelectorTerm q) (pc_nodeSelectorTerm p) \<and>
        wh_EqualTolerations env (pc_tolerations q) (pc_tolerations p)"
    if "p \<in> set (items (ys_pools (yas_spec y)))" "q \<in> set (items (ys_pools (yas_spec old)))"
      "pc_name p = pc_name q" for p q
    using validateTopologyPools_nil [OF top that(1)] gget_oldPools [OF assms(2) that(2)] that(3)
    by simp
  moreover have "wh_EqualDeploymentSpec env ((dt_spec t)\<lparr>ds_replicas := ds_replicas (dt_spec o'),
        ds_template := ds_template (dt_spec o'), ds_strategy := ds_strategy (dt_spec o')\<rparr>) (dt_spec o')"
    if "wt_deployment (ys_template (yas_spec y)) = Some t"
      "wt_deployment (ys_template (yas_spec old)) = Some o'" for t o'
  proof -
    have "validateDeploymentUpdate env t o' ([''spec''] @ [''workloadTemplate''] @ [''deploymentTemplate'']) = []"
      using upd that by (simp add: ValidateYurtAppSetUpdate_def validateYurtAppSetSpecUpdate_def
          validateWorkloadTemplateUpdate_def)
    then show ?thesis
      unfolding validateDeploymentUpdate_def Let_def by (simp split: if_splits)
  qed
  ultimately show ?thesis by blast
qed

subsection \<open>What the controllers may rely on\<close>

text \<open>The defaulting gives every YurtAppSet a revision limit and the selector of its template, and
  clears the status; so the revisions of a YurtAppSet that went through it are cleaned up without a
  panic, unless the limit asked for is negative.\<close>

theorem YurtAppSet_Default_settled:
  assumes "YurtAppSet_Default df (Some y0) = Inr y"
  shows "yas_status y = empty_yas_status \<and>
    (\<forall>t. wt_deployment (ys_template (yas_spec y)) = Some t \<longrightarrow>
      ds_selector (dt_spec t) = ys_selector (yas_spec y0)) \<and>
    (\<forall>env revisions w p. (\<forall>n. ys_revisionHistoryLimit (yas_spec y0) = Some n \<longrightarrow> 0 \<le> sint n) \<longrightarrow>
      (\<forall>cr u q. fst (re_Delete env cr u) \<noteq> Panic q) \<longrightarrow>
      fst (cleanExpiredRevision env y revisions w) \<noteq> Panic p)"
proof -
  have y: "yas_status y = empty_yas_status"
    "ys_revisionHistoryLimit (yas_spec y) = defaultLimit (ys_revisionHistoryLimit (yas_spec y0))"
    "\<And>t. wt_deployment (ys_template (yas_spec y)) = Some t \<Longrightarrow>
      ds_selector (dt_spec t) = ys_selector (yas_spec y0)"
    using assms by (auto simp: YurtAppSet_Default_def SetDefaultsYurtAppSet_def selectTemplate_def Let_def)
  have del: "fst (deleteExpired env live n i rs w) \<noteq> Panic p"
    if "\<forall>cr u q. fst (re_Delete env cr u) \<noteq> Panic q" for env :: "'w rev_env" and live n i rs w p
    using that by (induction rs arbitrary: i w)
      (auto simp: ret_def andThen_def split: prod.splits outcome.splits, metis fst_conv)
  have "fst (cleanExpiredRevision env y revisions w) \<noteq> Panic p"
    if lim: "\<forall>n. ys_revisionHistoryLimit (yas_spec y0) = Some n \<longrightarrow> 0 \<le> sint n"
      and d: "\<forall>cr u q. fst (re_Delete env cr u) \<noteq> Panic q"
    for env :: "'w rev_env" and revisions w p
  proof -
    obtain n where n: "ys_revisionHistoryLimit (yas_spec y) = Some n" "0 \<le> sint n"
      using y(2) lim by (auto simp: defaultLimit_def split: option.splits)
    then show ?thesis
      using del [OF d] by (auto simp: cleanExpiredRevision_def Let_def ret_def andThen_def
          split: prod.splits outcome.splits) (metis fst_conv)
  qed
  with y show ?thesis by blast
qed


end
