(* ===== verification/UD_Controller.thy ===== *)
theory UD_Controller
  imports UD_Pools
begin

section \<open>UnitedDeployment: revisions, management of the pools, reconciliation\<close>

text \<open>
  \<open>revision.go\<close>, \<open>uniteddeployment_update.go\<close> and \<open>uniteddeployment_controller.go\<close> of
  \<open>controller/uniteddeployment\<close>. They differ from the package of the YurtAppSet in three things: a nil
  \<open>RevisionHistoryLimit\<close> is read as 0, the revisions are made for the kind \<open>UnitedDeployment\<close>, and
  some texts of errors name the other kind.
\<close>

subsection \<open>\<open>revision.go\<close>\<close>

definition controlledHistories_ud :: "'w rev_env \<Rightarrow> ud \<Rightarrow> ('w, controller_revision list) io" where
  "controlledHistories_ud env y =
     (case rm_AsSelector (re_rm env) (ys_selector (yas_spec y)) of
        Inl e \<Rightarrow> fail e
      | Inr selector \<Rightarrow>
          andThen (re_List env selector) (\<lambda>histories.
          (case RefManager_New (re_rm env) (ys_selector (yas_spec y)) (object_meta.truncate y) True of
             Inl e \<Rightarrow> fail e
           | Inr cm \<Rightarrow>
               andThen (ClaimOwnedObjects (re_rm env) cm histories []) (\<lambda>(claims, err).
                 case err of Some e \<Rightarrow> fail e | None \<Rightarrow> ret claims))))"

lemma controlledHistories_ud_same [ud_same]: "controlledHistories_ud = controlledHistories"
  by (simp only: controlledHistories_ud_def [abs_def] controlledHistories_def [abs_def] ud_same)

definition getUnitedDeploymentPatch :: "'w rev_env \<Rightarrow> ud \<Rightarrow> go_error + string" where
  "getUnitedDeploymentPatch env y = re_MarshalTemplate env (ys_template (yas_spec y))"

lemma getUnitedDeploymentPatch_same [ud_same]: "getUnitedDeploymentPatch = getYurtAppSetPatch"
  by (simp only: getUnitedDeploymentPatch_def [abs_def] getYurtAppSetPatch_def [abs_def] ud_same)

definition nextRevision_ud :: "controller_revision list \<Rightarrow> int64" where
  "nextRevision_ud revisions =
     (if length revisions \<le> 0 then 1 else cr_revision (last revisions) + 1)"

lemma nextRevision_ud_same [ud_same]: "nextRevision_ud = nextRevision"
  by (simp only: nextRevision_ud_def [abs_def] nextRevision_def [abs_def] ud_same)

definition newRevision_ud ::
  "'w rev_env \<Rightarrow> ud \<Rightarrow> int64 \<Rightarrow> int32 \<Rightarrow> go_error + controller_revision" where
  "newRevision_ud env y revision collisionCount =
     (case getUnitedDeploymentPatch env y of
        Inl e \<Rightarrow> Inl e
      | Inr patch \<Rightarrow>
     (case re_GVKForObject env ''UnitedDeployment'' of
        Inl e \<Rightarrow> Inl e
      | Inr gvk \<Rightarrow>
     (case (case wt_statefulSet (ys_template (yas_spec y)) of
              Some t \<Rightarrow> Inr (m_labels t)
            | None \<Rightarrow> (case wt_deployment (ys_template (yas_spec y)) of
                Some t \<Rightarrow> Inr (m_labels t)
              | None \<Rightarrow> Inl (PlainErr (''UnitedDeployment('' @ m_namespace y @ ''/'' @ m_name y
                  @ '') need specific WorkloadTemplate'')))) of
        Inl e \<Rightarrow> Inl e
      | Inr selectedLabels \<Rightarrow>
     (case re_NewControllerRevision env (object_meta.truncate y) gvk selectedLabels patch revision
             collisionCount of
        Inl e \<Rightarrow> Inl e
      | Inr cr \<Rightarrow> Inr (cr\<lparr>m_namespace := m_namespace y\<rparr>)))))"

fun deleteExpired_ud ::
  "'w rev_env \<Rightarrow> string \<Rightarrow> int \<Rightarrow> int \<Rightarrow> controller_revision list \<Rightarrow> ('w, unit) io" where
  "deleteExpired_ud env live exceedNum i [] = ret ()"
| "deleteExpired_ud env live exceedNum i (revision # rest) =
     (if m_name revision = live then deleteExpired_ud env live exceedNum (i + 1) rest
      else if i \<ge> exceedNum then ret ()
      else andThen (re_Delete env revision) (\<lambda>_. deleteExpired_ud env live exceedNum (i + 1) rest))"

lemma deleteExpired_ud_same [ud_same]: "deleteExpired_ud env live ex i rs = deleteExpired env live ex i rs"
  by (induction rs arbitrary: i) (simp_all add: ud_same cong del: weak_congs)

definition cleanExpiredRevision_ud ::
  "'w rev_env \<Rightarrow> ud \<Rightarrow> controller_revision list \<Rightarrow> ('w, controller_revision list) io" where
  "cleanExpiredRevision_ud env y sortedRevisions =
     (let revisionHistoryLimit =
            (case ys_revisionHistoryLimit (yas_spec y) of None \<Rightarrow> 0 | Some limit \<Rightarrow> sint limit);
          exceedNum = int (length sortedRevisions) - revisionHistoryLimit in
      if exceedNum \<le> 0 then ret sortedRevisions
      else andThen (deleteExpired_ud env (yt_currentRevision (yas_status y)) exceedNum 0
          sortedRevisions) (\<lambda>_.
        if exceedNum > int (length sortedRevisions)
        then lift (Panic ''slice bounds out of range'')
        else ret (drop (nat exceedNum) sortedRevisions)))"

fun createControllerRevision_ud ::
  "nat \<Rightarrow> 'w rev_env \<Rightarrow> ud \<Rightarrow> controller_revision \<Rightarrow> int32
   \<Rightarrow> ('w, ((go_error + controller_revision) \<times> int32) option) io" where
  "createControllerRevision_ud 0 env parent revision collisionCount = ret None"
| "createControllerRevision_ud (Suc fuel) env parent revision collisionCount =
     (let hash = re_Hash env revision collisionCount;
          clone = revision\<lparr>m_name := re_RevisionName env (m_name parent) hash\<rparr> in
      andThen (attempt (re_Create env clone)) (\<lambda>r. case r of
        Inr stored \<Rightarrow> ret (Some (Inr stored, collisionCount))
      | Inl e \<Rightarrow>
          (if isAlreadyExists e then
             andThen (attempt (re_Get env (m_namespace parent) (m_name clone))) (\<lambda>g. case g of
               Inl e' \<Rightarrow> ret (Some (Inl e', collisionCount))
             | Inr exists \<Rightarrow>
                 (if cr_data exists = cr_data clone then ret (Some (Inr exists, collisionCount))
                  else createControllerRevision_ud fuel env parent revision (collisionCount + 1)))
           else ret (Some (Inl e, collisionCount)))))"

lemma createControllerRevision_ud_same [ud_same]: "createControllerRevision_ud n env y cr cnt = createControllerRevision n env y cr cnt"
  by (induction n arbitrary: cnt) (simp_all add: ud_same cong del: weak_congs)

definition equalPositions_ud ::
  "'w rev_env \<Rightarrow> controller_revision list \<Rightarrow> controller_revision \<Rightarrow> nat list" where
  "equalPositions_ud env revisions needle =
     filter (\<lambda>i. re_EqualRevision env (revisions ! i) needle) [0..<length revisions]"

lemma equalPositions_ud_same [ud_same]: "equalPositions_ud = equalPositions"
  by (simp only: equalPositions_ud_def [abs_def] equalPositions_def [abs_def] ud_same)

definition collisionsOf_ud :: "ud \<Rightarrow> int32" where
  "collisionsOf_ud y = (case yt_collisionCount (yas_status y) of None \<Rightarrow> 0 | Some c \<Rightarrow> c)"

lemma collisionsOf_ud_same [ud_same]: "collisionsOf_ud = collisionsOf"
  by (simp only: collisionsOf_ud_def [abs_def] collisionsOf_def [abs_def] ud_same)

definition finishRevisions_ud ::
  "ud \<Rightarrow> controller_revision list \<Rightarrow> int32 \<Rightarrow> controller_revision \<Rightarrow>
   ('w, (int32 \<times> (go_error + (controller_revision \<times> controller_revision))) option) io" where
  "finishRevisions_ud y revisions cnt updated =
     (let current = find (\<lambda>r. m_name r = yt_currentRevision (yas_status y)) (rev revisions)
      in ret (Some (cnt, Inr (case current of None \<Rightarrow> updated | Some r \<Rightarrow> r, updated))))"

lemma finishRevisions_ud_same [ud_same]: "finishRevisions_ud = finishRevisions"
  by (simp only: finishRevisions_ud_def [abs_def] finishRevisions_def [abs_def] ud_same)

definition constructFrom_ud ::
  "nat \<Rightarrow> 'w rev_env \<Rightarrow> ud \<Rightarrow> controller_revision list \<Rightarrow>
   ('w, (int32 \<times> (go_error + (controller_revision \<times> controller_revision))) option) io" where
  "constructFrom_ud fuel env y revisions =
     (let count0 = collisionsOf_ud y in
      case newRevision_ud env y (nextRevision_ud revisions) count0 of
        Inl e \<Rightarrow> ret (Some (count0, Inl e))
      | Inr update0 \<Rightarrow>
          (let equals = equalPositions_ud env revisions update0 in
           if equals \<noteq> [] \<and> re_EqualRevision env (last revisions) (revisions ! last equals)
           then finishRevisions_ud y revisions count0 (last revisions)
           else if equals \<noteq> [] then
             andThen (attempt (re_Update env
                 ((revisions ! last equals)\<lparr>cr_revision := cr_revision update0\<rparr>))) (\<lambda>u. case u of
               Inl e \<Rightarrow> ret (Some (count0, Inl e))
             | Inr stored \<Rightarrow> finishRevisions_ud y (revisions[last equals := stored]) count0 stored)
           else
             andThen (createControllerRevision_ud fuel env y update0 count0) (\<lambda>k. case k of
               None \<Rightarrow> ret None
             | Some (Inl e, cnt) \<Rightarrow> ret (Some (cnt, Inl e))
             | Some (Inr created, cnt) \<Rightarrow> finishRevisions_ud y revisions cnt created)))"

definition constructUnitedDeploymentRevisions ::
  "nat \<Rightarrow> 'w rev_env \<Rightarrow> ud \<Rightarrow>
   ('w, (int32 \<times> (go_error + (controller_revision \<times> controller_revision))) option) io" where
  "constructUnitedDeploymentRevisions fuel env y =
     andThen (attempt (controlledHistories_ud env y)) (\<lambda>h. case h of
       Inl e \<Rightarrow> ret (Some (collisionsOf_ud y, Inl e))
     | Inr histories \<Rightarrow>
     andThen (attempt (cleanExpiredRevision_ud env y (re_Sort env histories))) (\<lambda>c. case c of
       Inl e \<Rightarrow> ret (Some (collisionsOf_ud y, Inl e))
     | Inr revisions \<Rightarrow> constructFrom_ud fuel env y revisions))"

subsection \<open>\<open>uniteddeployment_update.go\<close>\<close>

definition slowStartInitialBatchSize_ud :: int where
  "slowStartInitialBatchSize_ud = 1"

lemma slowStartInitialBatchSize_ud_same [ud_same]: "slowStartInitialBatchSize_ud = slowStartInitialBatchSize"
  by (simp only: slowStartInitialBatchSize_ud_def [abs_def] slowStartInitialBatchSize_def [abs_def] ud_same)

definition newReconciler_controls_ud :: "'w pc_env \<Rightarrow> (template_type \<times> 'w control) list" where
  "newReconciler_controls_ud env =
     [(StatefulSetTemplateType, PoolControl_ud env (StatefulSetAdapter_ud (pce_ad env))),
      (DeploymentTemplateType, PoolControl_ud env (DeploymentAdapter_ud (pce_ad env)))]"

lemma newReconciler_controls_ud_same [ud_same]: "newReconciler_controls_ud = newReconciler_controls"
  by (simp only: newReconciler_controls_ud_def [abs_def] newReconciler_controls_def [abs_def] ud_same)

definition expectedPools_ud :: "ud \<Rightarrow> string set" where
  "expectedPools_ud y = set (map pc_name (items (ys_pools (yas_spec y))))"

lemma expectedPools_ud_same [ud_same]: "expectedPools_ud = expectedPools"
  by (simp only: expectedPools_ud_def [abs_def] expectedPools_def [abs_def] ud_same)

definition gotPools_ud :: "pool gomap \<Rightarrow> string set" where
  "gotPools_ud nameToPool = set (map fst (entries nameToPool))"

lemma gotPools_ud_same [ud_same]: "gotPools_ud = gotPools"
  by (simp only: gotPools_ud_def [abs_def] gotPools_def [abs_def] ud_same)

definition createOne_ud ::
  "'w control \<Rightarrow> template_type \<Rightarrow> ud \<Rightarrow> yas_patches gomap \<Rightarrow> string \<Rightarrow> string list \<Rightarrow> nat
   \<Rightarrow> ('w, unit) io" where
  "createOne_ud ctl workloadType y next revision createdPools idx =
     (let poolName = createdPools ! idx in
      andThen (attempt (c_CreatePool ctl y poolName revision
          (yp_replicas (patchesOf next poolName)))) (\<lambda>r. case r of
        Inl e \<Rightarrow>
          (if \<not> isTimeout e
           then fail (PlainErr (''fail to create Pool ('' @ templateTypeText workloadType @ '') ''
                  @ poolName @ '': '' @ error_text e))
           else ret ())
      | Inr _ \<Rightarrow> ret ()))"

lemma createOne_ud_same [ud_same]: "createOne_ud = createOne"
  by (simp only: createOne_ud_def [abs_def] createOne_def [abs_def] ud_same)

definition deletePoolError_ud :: "template_type \<Rightarrow> pool \<Rightarrow> string \<Rightarrow> go_error \<Rightarrow> go_error" where
  "deletePoolError_ud workloadType pool poolName e =
     PlainErr (''fail to delete Pool ('' @ templateTypeText workloadType @ '') '' @ p_namespace pool
       @ ''/'' @ p_name pool @ '' for '' @ poolName @ '': '' @ error_text e)"

lemma deletePoolError_ud_same [ud_same]: "deletePoolError_ud = deletePoolError"
  by (simp only: deletePoolError_ud_def [abs_def] deletePoolError_def [abs_def] ud_same)

definition deleteAll_ud ::
  "'w control \<Rightarrow> template_type \<Rightarrow> (string \<times> pool) list \<Rightarrow> ('w, go_error list) io" where
  "deleteAll_ud ctl workloadType =
     attemptAll (\<lambda>(poolName, pool). c_DeletePool ctl pool)
       (\<lambda>(poolName, pool) e. deletePoolError_ud workloadType pool poolName e)"

lemma deleteAll_ud_same [ud_same]: "deleteAll_ud = deleteAll"
  by (simp only: deleteAll_ud_def [abs_def] deleteAll_def [abs_def] ud_same)

definition otherTypeError_ud :: "string \<Rightarrow> template_type \<Rightarrow> ud \<Rightarrow> go_error \<Rightarrow> go_error" where
  "otherTypeError_ud what t y e =
     PlainErr (what @ '' of other type '' @ templateTypeText t @ '' for UnitedDeployment ''
       @ m_namespace y @ ''/'' @ m_name y @ '': '' @ error_text e)"

definition deleteOthers_ud :: "'w control \<Rightarrow> template_type \<Rightarrow> ud \<Rightarrow> pool list \<Rightarrow> ('w, go_error list) io" where
  "deleteOthers_ud ctl t y =
     attemptAll (c_DeletePool ctl)
       (\<lambda>pool e. otherTypeError_ud (''fail to delete Pool '' @ p_name pool) t y e)"

fun cleanOthers_ud ::
  "template_type \<Rightarrow> ud \<Rightarrow> (template_type \<times> 'w control) list \<Rightarrow> ('w, bool \<times> go_error list) io" where
  "cleanOthers_ud workloadType y [] = ret (False, [])"
| "cleanOthers_ud workloadType y ((t, ctl) # rest) =
     (if t = workloadType then cleanOthers_ud workloadType y rest
      else andThen (attempt (c_GetAllPools ctl y)) (\<lambda>r. case r of
        Inl e \<Rightarrow>
          andThen (cleanOthers_ud workloadType y rest) (\<lambda>(cleaned, errs).
            ret (cleaned, otherTypeError_ud ''fail to list Pool'' t y e # errs))
      | Inr pools \<Rightarrow>
          andThen (deleteOthers_ud ctl t y pools) (\<lambda>errs1.
          andThen (cleanOthers_ud workloadType y rest) (\<lambda>(cleaned, errs2).
            ret (pools \<noteq> [] \<or> cleaned, errs1 @ errs2)))))"

definition managePoolProvision_ud ::
  "'w yas_env \<Rightarrow> ud \<Rightarrow> pool gomap \<Rightarrow> yas_patches gomap \<Rightarrow> string \<Rightarrow> template_type
   \<Rightarrow> ('w, string set \<times> bool \<times> go_error option) io" where
  "managePoolProvision_ud env y nameToPool next revision workloadType =
     (let expected = expectedPools_ud y; got = gotPools_ud nameToPool;
          creates = sorted_list_of_set (expected - got);
          deletes = sorted_list_of_set (got - expected)
      in case map_of (ye_poolControls env) workloadType of
           None \<Rightarrow> lift (Panic ''nil pointer dereference'')
         | Some ctl \<Rightarrow>
      andThen (if length creates > 0 then
          andThen (SlowStartBatch (rt_sched env) (int (length creates)) slowStartInitialBatchSize_ud
              (createOne_ud ctl workloadType y next revision creates)) (\<lambda>(createdNum, createdErr).
            case createdErr of
              None \<Rightarrow> andThen (event env ''SuccessfulUpdatePool''
                  (countMessage ''Create '' createdNum workloadType)) (\<lambda>_. ret [])
            | Some e \<Rightarrow> ret [e])
        else ret []) (\<lambda>errs1.
      andThen (if length deletes > 0 then
          andThen (deleteAll_ud ctl workloadType
              (map (\<lambda>poolName. (poolName, the (gget nameToPool poolName))) deletes)) (\<lambda>deleteErrs.
            if length deleteErrs > 0 then ret deleteErrs
            else andThen (event env ''SuccessfulUpdatePool''
                  (countMessage ''Delete '' (int (length deletes)) workloadType)) (\<lambda>_. ret []))
        else ret []) (\<lambda>errs2.
      andThen (cleanOthers_ud workloadType y (ye_poolControls env)) (\<lambda>(cleaned, errs3).
        ret (expected \<inter> got, length creates > 0 \<or> length deletes > 0 \<or> cleaned,
          rt_NewAggregate env (errs1 @ errs2 @ errs3))))))"

definition needsUpdate_ud ::
  "'w control \<Rightarrow> pool gomap \<Rightarrow> yas_patches gomap \<Rightarrow> string \<Rightarrow> string \<Rightarrow> bool" where
  "needsUpdate_ud ctl nameToPool next revision name =
     (let pool = the (gget nameToPool name) in
      c_IsExpected ctl pool revision \<or>
      p_replicas pool \<noteq> yp_replicas (patchesOf next name) \<or>
      p_patchInfo pool \<noteq> yp_patch (patchesOf next name))"

lemma needsUpdate_ud_same [ud_same]: "needsUpdate_ud = needsUpdate"
  by (simp only: needsUpdate_ud_def [abs_def] needsUpdate_def [abs_def] ud_same)

definition updateOne_ud ::
  "'w yas_env \<Rightarrow> 'w control \<Rightarrow> template_type \<Rightarrow> ud \<Rightarrow> pool gomap \<Rightarrow> yas_patches gomap \<Rightarrow> string
   \<Rightarrow> string list \<Rightarrow> nat \<Rightarrow> ('w, unit) io" where
  "updateOne_ud env ctl poolType y nameToPool next revision needUpdate index =
     (let cell = needUpdate ! index; pool = the (gget nameToPool cell);
          replicas = yp_replicas (patchesOf next cell) in
      andThen (attempt (c_UpdatePool ctl pool y revision replicas)) (\<lambda>r. case r of
        Inl e \<Rightarrow> andThen (event env ''FailedUpdatePool''
            (''Error updating PodSet ('' @ templateTypeText poolType @ '') '' @ p_name pool
             @ '' when updating: '' @ error_text e)) (\<lambda>_. fail e)
      | Inr _ \<Rightarrow> ret ()))"

lemma updateOne_ud_same [ud_same]: "updateOne_ud = updateOne"
  by (simp only: updateOne_ud_def [abs_def] updateOne_def [abs_def] ud_same)

definition setConditionNow_ud ::
  "'w yas_env \<Rightarrow> ud_status \<Rightarrow> string \<Rightarrow> string \<Rightarrow> string \<Rightarrow> string \<Rightarrow> ('w, ud_status) io" where
  "setConditionNow_ud env status condType cstatus reason message =
     andThen (now env) (\<lambda>t.
       ret (SetUnitedDeploymentCondition status
         (NewUnitedDeploymentCondition t condType cstatus reason message)))"

lemma setConditionNow_ud_same [ud_same]: "setConditionNow_ud = setConditionNow"
  by (simp only: setConditionNow_ud_def [abs_def] setConditionNow_def [abs_def] ud_same)

definition managePools_ud ::
  "'w yas_env \<Rightarrow> ud \<Rightarrow> pool gomap \<Rightarrow> yas_patches gomap \<Rightarrow> string \<Rightarrow> template_type
   \<Rightarrow> ('w, ud_status \<times> go_error option) io" where
  "managePools_ud env y nameToPool next revision poolType =
     andThen (managePoolProvision_ud env y nameToPool next revision poolType)
       (\<lambda>(exists, provisioned, err). case err of
          Some e \<Rightarrow>
            andThen (setConditionNow_ud env (yas_status y) UnitedPoolProvisioned ''False'' ''Error''
                (error_text e)) (\<lambda>newStatus.
              ret (newStatus, Some (PlainErr (''fail to manage Pool provision: '' @ error_text e))))
        | None \<Rightarrow>
            andThen (if provisioned
                then setConditionNow_ud env (yas_status y) UnitedPoolProvisioned ''True'' [] []
                else ret (yas_status y)) (\<lambda>status1.
            case map_of (ye_poolControls env) poolType of
              None \<Rightarrow> lift (Panic ''nil pointer dereference'')
            | Some ctl \<Rightarrow>
            (let needUpdate = filter (needsUpdate_ud ctl nameToPool next revision)
                   (sorted_list_of_set exists) in
             andThen (if length needUpdate > 0 then
                 andThen (SlowStartBatch (rt_sched env) (int (length needUpdate))
                     slowStartInitialBatchSize_ud
                     (updateOne_ud env ctl poolType y nameToPool next revision needUpdate))
                   (\<lambda>(_, updateErr). ret updateErr)
               else ret None) (\<lambda>updateErr.
             andThen (case updateErr of
                 None \<Rightarrow> setConditionNow_ud env status1 UnitedPoolUpdated ''True'' [] []
               | Some e \<Rightarrow> setConditionNow_ud env status1 UnitedPoolUpdated ''False'' ''Error'' (error_text e))
               (\<lambda>newStatus. ret (newStatus, updateErr))))))"

subsection \<open>\<open>uniteddeployment_controller.go\<close>\<close>

definition getPoolTemplateType_ud :: "ud \<Rightarrow> template_type" where
  "getPoolTemplateType_ud y =
     (if wt_statefulSet (ys_template (yas_spec y)) \<noteq> None then StatefulSetTemplateType
      else if wt_deployment (ys_template (yas_spec y)) \<noteq> None then DeploymentTemplateType
      else NoTemplateType)"

lemma getPoolTemplateType_ud_same [ud_same]: "getPoolTemplateType_ud = getPoolTemplateType"
  by (simp only: getPoolTemplateType_ud_def [abs_def] getPoolTemplateType_def [abs_def] ud_same)

definition getPoolControls_ud :: "'w yas_env \<Rightarrow> ud \<Rightarrow> go_error + 'w control option \<times> template_type" where
  "getPoolControls_ud env y =
     (if wt_statefulSet (ys_template (yas_spec y)) \<noteq> None
      then Inr (map_of (ye_poolControls env) StatefulSetTemplateType, StatefulSetTemplateType)
      else if wt_deployment (ys_template (yas_spec y)) \<noteq> None
      then Inr (map_of (ye_poolControls env) DeploymentTemplateType, DeploymentTemplateType)
      else Inl (PlainErr ''The appropriate WorkloadTemplate was not found, Now Support(StatefulSet/Deployment)''))"

lemma getPoolControls_ud_same [ud_same]: "getPoolControls_ud = getPoolControls"
  by (simp only: getPoolControls_ud_def [abs_def] getPoolControls_def [abs_def] ud_same)

definition classifyPoolByPoolName_ud :: "pool list \<Rightarrow> pool list gomap" where
  "classifyPoolByPoolName_ud pools =
     fold (\<lambda>ss mapping. gput (p_name ss)
         ((case gget mapping (p_name ss) of None \<Rightarrow> [] | Some ps \<Rightarrow> ps) @ [ss]) mapping)
       pools (Some [])"

lemma classifyPoolByPoolName_ud_same [ud_same]: "classifyPoolByPoolName_ud = classifyPoolByPoolName"
  by (simp only: classifyPoolByPoolName_ud_def [abs_def] classifyPoolByPoolName_def [abs_def] ud_same)

fun deleteDups_ud :: "'w control \<Rightarrow> pool list \<Rightarrow> ('w, unit) io" where
  "deleteDups_ud ctl [] = ret ()"
| "deleteDups_ud ctl (pool # rest) =
     andThen (attempt (c_DeletePool ctl pool)) (\<lambda>r. case r of
       Inl e \<Rightarrow> (if isNotFound e then deleteDups_ud ctl rest else fail e)
     | Inr _ \<Rightarrow> deleteDups_ud ctl rest)"

lemma deleteDups_ud_same [ud_same]: "deleteDups_ud ctl ps = deleteDups ctl ps"
  by (induction ps) (simp_all add: ud_same cong del: weak_congs)

fun deleteDupPool_from_ud ::
  "'w control \<Rightarrow> (string \<times> pool list) list \<Rightarrow> pool gomap \<Rightarrow> ('w, pool gomap) io" where
  "deleteDupPool_from_ud ctl [] nameToPool = ret nameToPool"
| "deleteDupPool_from_ud ctl ((name, pools) # rest) nameToPool =
     andThen (deleteDups_ud ctl (tl pools)) (\<lambda>_.
       deleteDupPool_from_ud ctl rest
         (case pools of [] \<Rightarrow> nameToPool | pool # _ \<Rightarrow> gput name pool nameToPool))"

lemma deleteDupPool_from_ud_same [ud_same]: "deleteDupPool_from_ud ctl es m = deleteDupPool_from ctl es m"
  by (induction ctl es m rule: deleteDupPool_from.induct) (simp_all add: ud_same cong del: weak_congs)

definition deleteDupPool_ud :: "'w control \<Rightarrow> pool list gomap \<Rightarrow> ('w, pool gomap) io" where
  "deleteDupPool_ud ctl nameToPools = deleteDupPool_from_ud ctl (entries nameToPools) (Some [])"

lemma deleteDupPool_ud_same [ud_same]: "deleteDupPool_ud = deleteDupPool"
  by (simp only: deleteDupPool_ud_def [abs_def] deleteDupPool_def [abs_def] ud_same)

definition getNameToPool_ud :: "'w yas_env \<Rightarrow> ud \<Rightarrow> 'w control \<Rightarrow> ('w, pool gomap) io" where
  "getNameToPool_ud env y ctl =
     andThen (attempt (c_GetAllPools ctl y)) (\<lambda>r. case r of
       Inl e \<Rightarrow>
         andThen (event env ''FailedFindPools'' (error_text e)) (\<lambda>_.
           fail (PlainErr (''fail to get all Pools for UnitedDeployment '' @ m_namespace y @ ''/'' @ m_name y
             @ '': '' @ error_text e)))
     | Inr pools \<Rightarrow>
     andThen (attempt (deleteDupPool_ud ctl (classifyPoolByPoolName_ud pools))) (\<lambda>d. case d of
       Inl e \<Rightarrow>
         andThen (event env ''FailedDeleteDuplicatedPools'' (error_text e)) (\<lambda>_.
           fail (PlainErr (''fail to manage duplicate Pool of UnitedDeployment '' @ m_namespace y @ ''/''
             @ m_name y @ '': '' @ error_text e)))
     | Inr nameToPool \<Rightarrow> ret nameToPool))"

definition firstFailure_ud :: "'w control \<Rightarrow> pool gomap \<Rightarrow> string option" where
  "firstFailure_ud ctl nameToPool =
     (case filter (\<lambda>m. m \<noteq> None) (map (\<lambda>(k, pool). c_GetPoolFailure ctl pool) (entries nameToPool)) of
        [] \<Rightarrow> None | m # _ \<Rightarrow> m)"

lemma firstFailure_ud_same [ud_same]: "firstFailure_ud = firstFailure"
  by (simp only: firstFailure_ud_def [abs_def] firstFailure_def [abs_def] ud_same)

definition calculateStatus_ud ::
  "'w yas_env \<Rightarrow> ud \<Rightarrow> ud_status \<Rightarrow> pool gomap \<Rightarrow> controller_revision \<Rightarrow> int32 \<Rightarrow> 'w control
   \<Rightarrow> ('w, ud_status) io" where
  "calculateStatus_ud env y newStatus nameToPool currentRevision collisionCount ctl =
     (let s1 = newStatus\<lparr>yt_collisionCount := Some collisionCount\<rparr>;
          s2 = (if yt_currentRevision s1 = []
                then s1\<lparr>yt_currentRevision := m_name currentRevision\<rparr> else s1);
          s3 = s2\<lparr>yt_poolReplicas := Some [], yt_readyReplicas := 0, yt_replicas := 0\<rparr>;
          s4 = fold (\<lambda>(k, pool) s. s\<lparr>
                 yt_poolReplicas := gput (p_name pool) (p_replicas pool) (yt_poolReplicas s),
                 yt_replicas := yt_replicas s + p_replicas pool,
                 yt_readyReplicas := yt_readyReplicas s + p_readyReplicas pool\<rparr>)
               (entries nameToPool) s3;
          s5 = s4\<lparr>yt_templateType := getPoolTemplateType_ud y\<rparr>
      in case firstFailure_ud ctl nameToPool of
           None \<Rightarrow> ret (RemoveUnitedDeploymentCondition s5 UnitedPoolFailure)
         | Some msg \<Rightarrow> setConditionNow_ud env s5 UnitedPoolFailure ''True'' ''Error'' msg)"

lemma calculateStatus_ud_same [ud_same]: "calculateStatus_ud = calculateStatus"
  by (simp only: calculateStatus_ud_def [abs_def] calculateStatus_def [abs_def] ud_same)

fun updateStatus_tries_ud :: "nat \<Rightarrow> 'w yc_env \<Rightarrow> ud \<Rightarrow> ud_status \<Rightarrow> ('w, ud) io" where
  "updateStatus_tries_ud 0 env obj newStatus = yc_UpdateStatus env (obj\<lparr>yas_status := newStatus\<rparr>)"
| "updateStatus_tries_ud (Suc retries) env obj newStatus =
     andThen (attempt (yc_UpdateStatus env (obj\<lparr>yas_status := newStatus\<rparr>))) (\<lambda>r. case r of
       Inr stored \<Rightarrow> ret stored
     | Inl e \<Rightarrow>
         andThen (yc_Get env (m_namespace obj) (m_name obj)) (\<lambda>tmpObj.
           updateStatus_tries_ud retries env tmpObj newStatus))"

lemma updateStatus_tries_ud_same [ud_same]: "updateStatus_tries_ud n env obj s = updateStatus_tries n env obj s"
  by (induction n arbitrary: obj) (simp_all add: ud_same cong del: weak_congs)

definition updateUnitedDeployment :: "'w yc_env \<Rightarrow> ud \<Rightarrow> ud_status \<Rightarrow> ud_status \<Rightarrow> ('w, ud) io" where
  "updateUnitedDeployment env y oldStatus newStatus =
     (if yt_currentRevision oldStatus = yt_currentRevision newStatus
       \<and> samePointer (yt_collisionCount oldStatus) (yt_collisionCount newStatus)
       \<and> yt_replicas oldStatus = yt_replicas newStatus
       \<and> yt_readyReplicas oldStatus = yt_readyReplicas newStatus
       \<and> m_generation y = yt_observedGeneration newStatus
       \<and> map_DeepEqual (yt_poolReplicas oldStatus) (yt_poolReplicas newStatus)
       \<and> slice_DeepEqual (yt_conditions oldStatus) (yt_conditions newStatus)
      then ret y
      else updateStatus_tries_ud updateRetries_ud env y
             (newStatus\<lparr>yt_observedGeneration := m_generation y\<rparr>))"

lemma updateUnitedDeployment_same [ud_same]: "updateUnitedDeployment = updateYurtAppSet"
  by (simp only: updateUnitedDeployment_def [abs_def] updateYurtAppSet_def [abs_def] ud_same)

definition updateStatus_ud ::
  "'w yc_env \<Rightarrow> ud \<Rightarrow> ud_status \<Rightarrow> ud_status \<Rightarrow> pool gomap \<Rightarrow> controller_revision \<Rightarrow> int32
   \<Rightarrow> 'w control \<Rightarrow> ('w, unit) io" where
  "updateStatus_ud env y newStatus oldStatus nameToPool currentRevision collisionCount ctl =
     andThen (calculateStatus_ud (yc_upd env) y newStatus nameToPool currentRevision collisionCount ctl)
       (\<lambda>newStatus'. andThen (updateUnitedDeployment env y oldStatus newStatus') (\<lambda>_. ret ()))"

lemma updateStatus_ud_same [ud_same]: "updateStatus_ud = updateStatus"
  by (simp only: updateStatus_ud_def [abs_def] updateStatus_def [abs_def] ud_same)

definition reconcilePools_ud ::
  "'w yc_env \<Rightarrow> ud \<Rightarrow> controller_revision \<Rightarrow> controller_revision \<Rightarrow> int32 \<Rightarrow> ('w, unit) io" where
  "reconcilePools_ud env y currentRevision updatedRevision collisionCount =
     (let upd = yc_upd env in
      case getPoolControls_ud upd y of
        Inl e \<Rightarrow> andThen (event upd ''FailedTemplateController'' (error_text e)) (\<lambda>_. fail e)
      | Inr (None, poolType) \<Rightarrow> lift (Panic ''nil pointer dereference'')
      | Inr (Some ctl, poolType) \<Rightarrow>
      andThen (attempt (getNameToPool_ud upd y ctl)) (\<lambda>n. case n of
        Inl e \<Rightarrow> andThen (event upd ''Failed FindPools'' (error_text e)) (\<lambda>_. ret ())
      | Inr nameToPool \<Rightarrow>
      andThen (managePools_ud upd y nameToPool (GetNextPatches_ud y) (m_name updatedRevision) poolType)
        (\<lambda>(newStatus, err).
      andThen (case err of
          None \<Rightarrow> ret ()
        | Some e \<Rightarrow> event upd ''FailedUpdatePool'' (error_text e)) (\<lambda>_.
      updateStatus_ud env y newStatus (yas_status y) nameToPool currentRevision collisionCount ctl))))"

definition Reconcile_ud :: "nat \<Rightarrow> 'w yc_env \<Rightarrow> string \<Rightarrow> string \<Rightarrow> ('w, unit option) io" where
  "Reconcile_ud fuel env ns name =
     andThen (attempt (yc_Get env ns name)) (\<lambda>g. case g of
       Inl e \<Rightarrow> (if isNotFound e then ret (Some ()) else fail e)
     | Inr y \<Rightarrow>
         (if m_deletionTimestamp y \<noteq> None then ret (Some ())
          else andThen (constructUnitedDeploymentRevisions fuel (yc_rev env) y) (\<lambda>c. case c of
            None \<Rightarrow> ret None
          | Some (collisionCount, Inl e) \<Rightarrow>
              andThen (event (yc_upd env) ''FailedRevisionProvision'' (error_text e)) (\<lambda>_. fail e)
          | Some (collisionCount, Inr (currentRevision, updatedRevision)) \<Rightarrow>
              andThen (reconcilePools_ud env y currentRevision updatedRevision collisionCount)
                (\<lambda>_. ret (Some ())))))"

end
