(* ===== verification/UD_Same.thy ===== *)
theory UD_Same
  imports UD_Controller
begin

section \<open>UnitedDeployment and YurtAppSet: the same program\<close>

text \<open>
  The functions that name the kind in an error or a revision, or read a nil limit, are not the ones of the YurtAppSet. Here it
  is shown how far they agree: the revisions are those of a YurtAppSet whose nil limit is 0 and
  whose kind is the one asked for; the rest of a reconciliation agrees as long as the controls of the
  pools answer without an error, so that no error has to be worded.
\<close>

subsection \<open>Revisions\<close>

text \<open>The environment in which the kind asked for is \<open>UnitedDeployment\<close>, and the object with its limit filled in\<close>

definition as_united :: "'w rev_env \<Rightarrow> 'w rev_env" where
  "as_united env = env\<lparr>re_GVKForObject := (\<lambda>kind. re_GVKForObject env ''UnitedDeployment'')\<rparr>"

definition limit_given :: "ud \<Rightarrow> yas" where
  "limit_given y = y\<lparr>yas_spec := (yas_spec y)\<lparr>ys_revisionHistoryLimit :=
     Some (case ys_revisionHistoryLimit (yas_spec y) of None \<Rightarrow> 0 | Some limit \<Rightarrow> limit)\<rparr>\<rparr>"

lemma limit_given_simps [simp]:
  "ys_selector (yas_spec (limit_given y)) = ys_selector (yas_spec y)"
  "ys_template (yas_spec (limit_given y)) = ys_template (yas_spec y)"
  "yas_status (limit_given y) = yas_status y"
  "object_meta.truncate (limit_given y) = object_meta.truncate y"
  "m_name (limit_given y) = m_name y" "m_namespace (limit_given y) = m_namespace y"
  by (simp_all add: limit_given_def object_meta.defs)

lemma limit_given_id: "ys_revisionHistoryLimit (yas_spec y) = Some l \<Longrightarrow> limit_given y = y"
  by (simp add: limit_given_def)

lemma as_united_simps [simp]:
  "re_rm (as_united env) = re_rm env" "re_List (as_united env) = re_List env"
  "re_Get (as_united env) = re_Get env" "re_Create (as_united env) = re_Create env"
  "re_Update (as_united env) = re_Update env" "re_Delete (as_united env) = re_Delete env"
  "re_Sort (as_united env) = re_Sort env" "re_EqualRevision (as_united env) = re_EqualRevision env"
  "re_Hash (as_united env) = re_Hash env" "re_RevisionName (as_united env) = re_RevisionName env"
  "re_MarshalTemplate (as_united env) = re_MarshalTemplate env"
  "re_NewControllerRevision (as_united env) = re_NewControllerRevision env"
  "re_GVKForObject (as_united env) kind = re_GVKForObject env ''UnitedDeployment''"
  by (simp_all add: as_united_def)

lemma controlledHistories_given: "controlledHistories (as_united env) (limit_given y) = controlledHistories env y"
  by (simp add: controlledHistories_def cong del: weak_congs)

lemma newRevision_ud_given:
  assumes "getPoolTemplateType y \<noteq> NoTemplateType"
  shows "newRevision_ud env y r cnt = newRevision (as_united env) (limit_given y) r cnt"
  using assms
  by (auto simp: newRevision_ud_def newRevision_def ud_same getYurtAppSetPatch_def
      getPoolTemplateType_def cong del: weak_congs split: option.split)

lemma deleteExpired_united: "deleteExpired (as_united env) live ex i rs = deleteExpired env live ex i rs"
  by (induction rs arbitrary: i) (simp_all cong del: weak_congs)

lemma cleanExpiredRevision_ud_given:
  "cleanExpiredRevision_ud env y rs = cleanExpiredRevision (as_united env) (limit_given y) rs"
  by (cases "ys_revisionHistoryLimit (yas_spec y)")
    (simp_all add: cleanExpiredRevision_ud_def cleanExpiredRevision_def ud_same deleteExpired_united
      limit_given_def Let_def cong del: weak_congs)

lemma createControllerRevision_given:
  "createControllerRevision n (as_united env) (limit_given y) cr cnt = createControllerRevision n env y cr cnt"
  by (induction n arbitrary: cnt) (simp_all cong del: weak_congs)

lemma constructFrom_ud_given:
  assumes "getPoolTemplateType y \<noteq> NoTemplateType"
  shows "constructFrom_ud fuel env y rs = constructFrom fuel (as_united env) (limit_given y) rs"
proof -
  have fin: "finishRevisions (limit_given y) = finishRevisions y" by (intro ext) (simp add: finishRevisions_def)
  have col: "collisionsOf (limit_given y) = collisionsOf y" by (simp add: collisionsOf_def)
  have equ: "equalPositions (as_united env) = equalPositions env"
    by (intro ext) (simp add: equalPositions_def)
  show ?thesis
    unfolding constructFrom_ud_def constructFrom_def ud_same newRevision_ud_given [OF assms]
      createControllerRevision_given as_united_simps fin col equ by simp
qed

text \<open>The revisions of a UnitedDeployment are determined by the program of the YurtAppSet, for the
  kind UnitedDeployment; a limit that is not given counts as 0, where the other
  program panics.\<close>

theorem constructUnitedDeploymentRevisions_same:
  assumes "getPoolTemplateType y \<noteq> NoTemplateType"
  shows "constructUnitedDeploymentRevisions fuel env y =
    constructYurtAppSetRevisions fuel (as_united env) (limit_given y)"
proof -
  have "collisionsOf (limit_given y) = collisionsOf y" by (simp add: collisionsOf_def)
  then show ?thesis
    unfolding constructUnitedDeploymentRevisions_def constructYurtAppSetRevisions_def ud_same
      controlledHistories_given cleanExpiredRevision_ud_given constructFrom_ud_given [OF assms] by simp
qed

subsection \<open>Pools\<close>

text \<open>The server answers what the control of the pools asks it.\<close>

definition answers :: "yas \<Rightarrow> 'w control \<Rightarrow> bool" where
  "answers y ctl \<longleftrightarrow> (\<forall>w e w'. c_GetAllPools ctl y w \<noteq> (Err e, w')) \<and>
     (\<forall>p w e w'. c_DeletePool ctl p w \<noteq> (Err e, w'))"

lemma attempt_no_error:
  "(\<And>w e w'. f w \<noteq> (Err e, w')) \<Longrightarrow> andThen (attempt f) (\<lambda>r. case r of Inl e \<Rightarrow> h e | Inr x \<Rightarrow> k x) = andThen f k"
  by (rule ext) (auto simp: andThen_def attempt_def split: prod.splits outcome.splits)

lemma attemptAll_wrap:
  assumes "\<And>x w e w'. f x w \<noteq> (Err e, w')"
  shows "attemptAll f wrap xs = attemptAll f wrap' xs"
proof (induction xs)
  case (Cons x xs)
  have "andThen (attempt (f x)) (\<lambda>r. andThen m (\<lambda>es. ret (case r of Inl e \<Rightarrow> g e # es | Inr _ \<Rightarrow> es)))
      = andThen (f x) (\<lambda>_. m)" for g :: "go_error \<Rightarrow> go_error" and m
    using assms [of x] by (intro ext) (auto simp: andThen_def attempt_def ret_def split: prod.splits outcome.splits)
  with Cons show ?case by simp
qed simp

lemma cleanOthers_ud_answers:
  "list_all (\<lambda>(t, ctl). answers y ctl) ctls \<Longrightarrow> cleanOthers_ud T y ctls = cleanOthers T y ctls"
proof (induction ctls)
  case (Cons tc ctls)
  obtain t ctl where tc: "tc = (t, ctl)" by force
  with Cons.prems have a: "c_GetAllPools ctl y w \<noteq> (Err e, w')" "c_DeletePool ctl p w \<noteq> (Err e, w')" for w e w' p
    by (simp_all add: answers_def)
  have "deleteOthers_ud ctl t y ps = deleteOthers ctl t y ps" for ps
    unfolding deleteOthers_ud_def deleteOthers_def by (rule attemptAll_wrap) (rule a)
  with Cons show ?case
    by (simp add: tc attempt_no_error [OF a(1)])
qed simp

lemma getNameToPool_ud_answers:
  assumes "answers y ctl"
  shows "getNameToPool_ud env y ctl = getNameToPool env y ctl"
proof -
  have a: "c_GetAllPools ctl y w \<noteq> (Err e, w')" "c_DeletePool ctl p w \<noteq> (Err e, w')" for w e w' p
    using assms by (simp_all add: answers_def)
  have dups: "deleteDups ctl ps w \<noteq> (Err e, w')" for ps w e w'
    by (induction ps arbitrary: w) (auto simp: attempt_no_error [OF a(2)] ret_def andThen_def a
        split: prod.splits outcome.splits)
  have "deleteDupPool_from ctl es m w \<noteq> (Err e, w')" for es m w e w'
    by (induction es arbitrary: m w)
      (auto simp: ret_def andThen_def dups split: prod.splits outcome.splits)
  then have d: "deleteDupPool ctl ps w \<noteq> (Err e, w')" for ps w e w'
    by (simp add: deleteDupPool_def)
  show ?thesis
    unfolding getNameToPool_ud_def getNameToPool_def ud_same attempt_no_error [OF a(1)]
      attempt_no_error [OF d] ..
qed

lemma managePools_ud_answers:
  assumes "list_all (\<lambda>(t, ctl). answers y ctl) (ye_poolControls env)"
  shows "managePools_ud env y m next r T = managePools env y m next r T"
proof -
  have "managePoolProvision_ud env y m next r T = managePoolProvision env y m next r T"
    unfolding managePoolProvision_ud_def managePoolProvision_def ud_same
      cleanOthers_ud_answers [OF assms] ..
  then show ?thesis
    unfolding managePools_ud_def managePools_def ud_same by simp
qed

lemma answers_map_of:
  "list_all (\<lambda>(t, ctl). answers y ctl) ctls \<Longrightarrow> map_of ctls T = Some ctl \<Longrightarrow> answers y ctl"
  by (auto simp: list_all_iff dest: map_of_SomeD)

lemma reconcilePools_ud_answers:
  assumes "list_all (\<lambda>(t, ctl). answers y ctl) (ye_poolControls (yc_upd env))"
  shows "reconcilePools_ud env y current updated cnt = reconcilePools env y current updated cnt"
proof -
  have "getNameToPool_ud (yc_upd env) y ctl = getNameToPool (yc_upd env) y ctl"
    if "getPoolControls (yc_upd env) y = Inr (Some ctl, T)" for ctl T
    using that answers_map_of [OF assms, of _ ctl]
    by (auto simp: getPoolControls_def getNameToPool_ud_answers split: if_splits)
  then show ?thesis
    unfolding reconcilePools_ud_def reconcilePools_def ud_same managePools_ud_answers [OF assms] Let_def
    by (auto split: sum.split option.split)
qed

subsection \<open>A reconciliation\<close>

lemma updateStatus_tries_rev [simp]:
  "updateStatus_tries n (env\<lparr>yc_rev := r\<rparr>) obj st = updateStatus_tries n env obj st"
  by (induction n arbitrary: obj) (simp_all cong del: weak_congs)

lemma updateStatus_rev: "updateStatus (env\<lparr>yc_rev := r\<rparr>) = updateStatus env"
  by (intro ext) (simp add: updateStatus_def updateYurtAppSet_def cong del: weak_congs)

lemma reconcilePools_rev [simp]:
  "reconcilePools (env\<lparr>yc_rev := r\<rparr>) y current updated cnt = reconcilePools env y current updated cnt"
  unfolding reconcilePools_def updateStatus_rev by simp

text \<open>The environment of the reconciler, of the kind \<open>UnitedDeployment\<close>, and what the server stores for it:
  an object with one workload template whose limit the defaults of the webhook have filled in.\<close>

definition united :: "'w yc_env \<Rightarrow> 'w yc_env" where
  "united env = env\<lparr>yc_rev := as_united (yc_rev env)\<rparr>"

definition served :: "'w yc_env \<Rightarrow> string \<Rightarrow> string \<Rightarrow> 'w \<Rightarrow> bool" where
  "served env ns name w \<longleftrightarrow> (\<forall>y w'. yc_Get env ns name w = (Ret y, w') \<longrightarrow>
     ys_revisionHistoryLimit (yas_spec y) \<noteq> None \<and> getPoolTemplateType y \<noteq> NoTemplateType \<and>
     list_all (\<lambda>(t, ctl). answers y ctl) (ye_poolControls (yc_upd env)))"

text \<open>A UnitedDeployment that is served, whose pools answer, is reconciled step by step as the YurtAppSet
  with the same contents is: the same world, the same result, the same panics.\<close>

theorem Reconcile_ud_same:
  assumes "served env ns name w"
  shows "Reconcile_ud fuel env ns name w = Reconcile_yas fuel (united env) ns name w"
proof (cases "yc_Get env ns name w")
  case (Pair g w')
  show ?thesis
  proof (cases g)
    case (Ret y)
    with Pair assms have y: "ys_revisionHistoryLimit (yas_spec y) \<noteq> None" "getPoolTemplateType y \<noteq> NoTemplateType"
      "list_all (\<lambda>(t, ctl). answers y ctl) (ye_poolControls (yc_upd env))"
      by (auto simp: served_def)
    then have "limit_given y = y" by (auto simp: limit_given_def)
    with y Ret Pair show ?thesis
      by (simp add: Reconcile_ud_def Reconcile_yas_def united_def andThen_def attempt_def
          constructUnitedDeploymentRevisions_same reconcilePools_ud_answers cong del: weak_congs)
  qed (use Pair in \<open>simp_all add: Reconcile_ud_def Reconcile_yas_def united_def andThen_def attempt_def\<close>)
qed

text \<open>What holds of a reconciliation of a YurtAppSet holds of it: pools that are settled are left alone.\<close>

lemma reconcilePools_ud_quiet:
  assumes "list_all (\<lambda>(t, ctl). answers y ctl) (ye_poolControls (yc_upd env))"
    and "traced (yc_upd env) y tr" and "batch_ok (yc_upd env)"
    and "getPoolControls (yc_upd env) y = Inr (Some ctl, t)"
    and "c_GetAllPools ctl y w = (Ret pools, w1)"
    and "pools_settled ctl y (m_name updated) pools"
    and "\<And>t' c. (t', c) \<in> set (ye_poolControls (yc_upd env)) \<Longrightarrow> t' \<noteq> t \<Longrightarrow>
      c_GetAllPools c y w1 = (Ret [], w1)"
    and "\<And>obj u. tr (snd (yc_UpdateStatus env obj u)) = tr u"
      "\<And>ns name u. tr (snd (yc_Get env ns name u)) = tr u"
  shows "tr (snd (reconcilePools_ud env y current updated cnt w)) = tr w"
  unfolding reconcilePools_ud_answers [OF assms(1)] by (rule reconcilePools_quiet [OF assms(2-)])

end
