(* ===== verification/UD_Webhook.thy ===== *)
theory UD_Webhook
  imports Workload_Webhook UD_Same
begin

section \<open>Admission of UnitedDeployments\<close>

text \<open>
  \<open>webhook/uniteddeployment\<close>: defaulting and validation, a copy of \<open>webhook/yurtappset\<close>. Each function
  is translated from this package; the lemma after it says which function it is a copy of. The
  admission of a UnitedDeployment then is the one of a YurtAppSet, with its panic.
\<close>

subsection \<open>\<open>uniteddeployment_validation.go\<close>\<close>

definition convertPodTemplateSpec_ud :: "wh_env \<Rightarrow> pod_template \<Rightarrow> go_error + pod_template" where
  "convertPodTemplateSpec_ud env t = wh_ConvertPodTemplate env t"

lemma convertPodTemplateSpec_ud_same [ud_same]: "convertPodTemplateSpec_ud = convertPodTemplateSpec"
  by (simp only: convertPodTemplateSpec_ud_def [abs_def] convertPodTemplateSpec_def [abs_def] ud_same)

definition conversionError_ud :: "string list \<Rightarrow> go_error \<Rightarrow> field_error" where
  "conversionError_ud fldPath e = field_Invalid [hd fldPath]
     (''Convert_v1_PodTemplateSpec_To_core_PodTemplateSpec failed: '' @ error_text e)"

lemma conversionError_ud_same [ud_same]: "conversionError_ud = conversionError"
  by (simp only: conversionError_ud_def [abs_def] conversionError_def [abs_def] ud_same)

definition validatePodTemplateSpec_ud ::
  "pod_template \<Rightarrow> selector \<Rightarrow> string list \<Rightarrow> field_error list" where
  "validatePodTemplateSpec_ud t sel fldPath =
     (if \<not> sel_Empty sel \<and> \<not> sel_Matches sel (m_labels t)
      then [field_Invalid (fldPath @ [''metadata'', ''labels''])
        ''`selector` does not match template `labels`'']
      else [])"

lemma validatePodTemplateSpec_ud_same [ud_same]: "validatePodTemplateSpec_ud = validatePodTemplateSpec"
  by (simp only: validatePodTemplateSpec_ud_def [abs_def] validatePodTemplateSpec_def [abs_def] ud_same)

definition partitionErrors_ud :: "stateful_set_template \<Rightarrow> string list \<Rightarrow> field_error list" where
  "partitionErrors_ud t fldPath =
     (let us = ss_updateStrategy (st_spec t) in
      if us_type us = ''RollingUpdate''
        \<and> (case us_rollingUpdate us of Some (Some p) \<Rightarrow> True | _ \<Rightarrow> False)
      then [field_Invalid (fldPath @ [''spec'', ''updateStrategy'', ''rollingUpdate'', ''partition''])
        ''partition in statefulSetTemplate will not be used'']
      else [])"

lemma partitionErrors_ud_same [ud_same]: "partitionErrors_ud = partitionErrors"
  by (simp only: partitionErrors_ud_def [abs_def] partitionErrors_def [abs_def] ud_same)

definition validateStatefulSet_ud :: "stateful_set_template \<Rightarrow> string list \<Rightarrow> field_error list" where
  "validateStatefulSet_ud t fldPath =
     (if ss_replicas (st_spec t) \<noteq> None
      then [field_Invalid (fldPath @ [''spec'', ''replicas''])
        ''replicas in statefulSetTemplate will not be used'']
      else []) @ partitionErrors_ud t fldPath"

lemma validateStatefulSet_ud_same [ud_same]: "validateStatefulSet_ud = validateStatefulSet_yas"
  by (simp only: validateStatefulSet_ud_def [abs_def] validateStatefulSet_yas_def [abs_def] ud_same)

definition validateDeployment_ud :: "deployment_template \<Rightarrow> string list \<Rightarrow> field_error list" where
  "validateDeployment_ud t fldPath =
     (if ds_replicas (dt_spec t) \<noteq> None
      then [field_Invalid (fldPath @ [''spec'', ''replicas''])
        ''replicas in deploymentTemplate will not be used'']
      else [])"

lemma validateDeployment_ud_same [ud_same]: "validateDeployment_ud = validateDeployment_yas"
  by (simp only: validateDeployment_ud_def [abs_def] validateDeployment_yas_def [abs_def] ud_same)

definition statefulSetTemplateErrors_ud ::
  "wh_env \<Rightarrow> (stateful_set_template \<Rightarrow> string list \<Rightarrow> field_error list) \<Rightarrow> stateful_set_template option
   \<Rightarrow> selector \<Rightarrow> string list \<Rightarrow> field_error list \<times> bool" where
  "statefulSetTemplateErrors_ud env validate tmpl sel fldPath =
     (case tmpl of
        None \<Rightarrow> ([], True)
      | Some t \<Rightarrow>
          (let errs = (if \<not> sel_Matches sel (m_labels t)
                 then [field_Invalid (fldPath @ [''statefulSetTemplate'', ''metadata'', ''labels''])
                   ''`selector` does not match template `labels`''] else [])
               @ validate t (fldPath @ [''statefulSetTemplate''])
           in case convertPodTemplateSpec_ud env (ss_template (st_spec t)) of
                Inl e \<Rightarrow> (errs @ [conversionError_ud fldPath e], False)
              | Inr core \<Rightarrow>
                  (errs @ wh_PodTemplateForStatefulSet env core sel
                     (fldPath @ [''statefulSetTemplate'', ''spec'', ''template'']), True)))"

lemma statefulSetTemplateErrors_ud_same [ud_same]: "statefulSetTemplateErrors_ud = statefulSetTemplateErrors"
  by (simp only: statefulSetTemplateErrors_ud_def [abs_def] statefulSetTemplateErrors_def [abs_def] ud_same)

definition deploymentTemplateErrors_ud ::
  "wh_env \<Rightarrow> (deployment_template \<Rightarrow> string list \<Rightarrow> field_error list) \<Rightarrow> deployment_template option
   \<Rightarrow> selector \<Rightarrow> string list \<Rightarrow> field_error list" where
  "deploymentTemplateErrors_ud env validate tmpl sel fldPath =
     (case tmpl of
        None \<Rightarrow> []
      | Some t \<Rightarrow>
          (let errs = (if \<not> sel_Matches sel (m_labels t)
                 then [field_Invalid (fldPath @ [''deploymentTemplate'', ''metadata'', ''labels''])
                   ''`selector` does not match template `labels`''] else [])
               @ validate t (fldPath @ [''deploymentTemplate'']);
               podPath = fldPath @ [''deploymentTemplate'', ''spec'', ''template'']
           in case convertPodTemplateSpec_ud env (ds_template (dt_spec t)) of
                Inl e \<Rightarrow> errs @ [conversionError_ud fldPath e]
              | Inr core \<Rightarrow>
                  errs @ validatePodTemplateSpec_ud core sel podPath @ wh_PodTemplate env core podPath))"

lemma deploymentTemplateErrors_ud_same [ud_same]: "deploymentTemplateErrors_ud = deploymentTemplateErrors"
  by (simp only: deploymentTemplateErrors_ud_def [abs_def] deploymentTemplateErrors_def [abs_def] ud_same)

definition templateCountErrors_ud :: "workload_template \<Rightarrow> string list \<Rightarrow> string \<Rightarrow> field_error list" where
  "templateCountErrors_ud template fldPath kinds =
     (let templateCount = (if wt_statefulSet template \<noteq> None then 1 else 0)
            + (if wt_deployment template \<noteq> None then 1 else 0 :: nat)
      in if templateCount < 1 then [field_Required fldPath (''should provide one of '' @ kinds)]
         else if templateCount > 1
         then [field_Invalid fldPath (''should provide only one of '' @ kinds)]
         else [])"

lemma templateCountErrors_ud_same [ud_same]: "templateCountErrors_ud = templateCountErrors"
  by (simp only: templateCountErrors_ud_def [abs_def] templateCountErrors_def [abs_def] ud_same)

definition validatePoolTemplate_ud ::
  "wh_env \<Rightarrow> workload_template \<Rightarrow> selector \<Rightarrow> string list \<Rightarrow> field_error list" where
  "validatePoolTemplate_ud env template sel fldPath =
     (let (ssErrs, more) = statefulSetTemplateErrors_ud env validateStatefulSet_ud
            (wt_statefulSet template) sel fldPath
      in templateCountErrors_ud template fldPath
           ''(statefulSetTemplate/deploymentTemplate/daemonSetTemplate)'' @ ssErrs
         @ (if more then deploymentTemplateErrors_ud env validateDeployment_ud
              (wt_deployment template) sel fldPath else []))"

lemma validatePoolTemplate_ud_same [ud_same]: "validatePoolTemplate_ud = validatePoolTemplate"
  by (simp only: validatePoolTemplate_ud_def [abs_def] validatePoolTemplate_def [abs_def] ud_same)

definition validateDeploymentUpdate_ud ::
  "wh_env \<Rightarrow> deployment_template \<Rightarrow> deployment_template \<Rightarrow> string list \<Rightarrow> field_error list" where
  "validateDeploymentUpdate_ud env t old fldPath =
     (let spec = (dt_spec t)\<lparr>ds_replicas := ds_replicas (dt_spec old),
            ds_template := ds_template (dt_spec old), ds_strategy := ds_strategy (dt_spec old)\<rparr>
      in (if \<not> wh_EqualDeploymentSpec env spec (dt_spec old)
          then [field_Forbidden (fldPath @ [''spec''])
            ''updates to deployTemplate spec for fields other than 'template', 'strategy' and 'replicas' are forbidden'']
          else [])
         @ (case ds_replicas (dt_spec t) of
              None \<Rightarrow> []
            | Some r \<Rightarrow> wh_NonnegativeField env (sint r) (fldPath @ [''spec'', ''replicas''])))"

lemma validateDeploymentUpdate_ud_same [ud_same]: "validateDeploymentUpdate_ud = validateDeploymentUpdate"
  by (simp only: validateDeploymentUpdate_ud_def [abs_def] validateDeploymentUpdate_def [abs_def] ud_same)

definition validateStatefulSetUpdate_ud ::
  "wh_env \<Rightarrow> stateful_set_template \<Rightarrow> stateful_set_template \<Rightarrow> string list \<Rightarrow> field_error list" where
  "validateStatefulSetUpdate_ud env t old fldPath =
     (let spec = (st_spec t)\<lparr>ss_replicas := ss_replicas (st_spec old),
            ss_template := ss_template (st_spec old),
            ss_updateStrategy := ss_updateStrategy (st_spec old)\<rparr>
      in (if \<not> wh_EqualStatefulSetSpec env spec (st_spec old)
          then [field_Forbidden (fldPath @ [''spec''])
            ''updates to statefulsetTemplate spec for fields other than 'template', and 'updateStrategy' are forbidden'']
          else [])
         @ (case ss_replicas (st_spec t) of
              None \<Rightarrow> []
            | Some r \<Rightarrow> wh_NonnegativeField env (sint r) (fldPath @ [''spec'', ''replicas''])))"

lemma validateStatefulSetUpdate_ud_same [ud_same]: "validateStatefulSetUpdate_ud = validateStatefulSetUpdate"
  by (simp only: validateStatefulSetUpdate_ud_def [abs_def] validateStatefulSetUpdate_def [abs_def] ud_same)

definition validateWorkloadTemplateUpdate_ud ::
  "wh_env \<Rightarrow> workload_template \<Rightarrow> workload_template \<Rightarrow> string list \<Rightarrow> field_error list" where
  "validateWorkloadTemplateUpdate_ud env template old fldPath =
     (case (wt_statefulSet template, wt_statefulSet old) of
        (Some t, Some o') \<Rightarrow> validateStatefulSetUpdate_ud env t o' (fldPath @ [''statefulSetTemplate''])
      | _ \<Rightarrow> [])
     @ (case (wt_deployment template, wt_deployment old) of
        (Some t, Some o') \<Rightarrow> validateDeploymentUpdate_ud env t o' (fldPath @ [''deploymentTemplate''])
      | _ \<Rightarrow> [])"

lemma validateWorkloadTemplateUpdate_ud_same [ud_same]: "validateWorkloadTemplateUpdate_ud = validateWorkloadTemplateUpdate"
  by (simp only: validateWorkloadTemplateUpdate_ud_def [abs_def] validateWorkloadTemplateUpdate_def [abs_def] ud_same)

definition selectorErrors_ud :: "wh_env \<Rightarrow> label_selector option \<Rightarrow> string list \<Rightarrow> field_error list" where
  "selectorErrors_ud env selector fldPath =
     (case selector of
        None \<Rightarrow> [field_Required (fldPath @ [''selector'']) []]
      | Some s \<Rightarrow> wh_LabelSelector env s (fldPath @ [''selector''])
          @ (if length (entries (ls_matchLabels s)) + length (items (ls_matchExpressions s)) = 0
             then [field_Invalid (fldPath @ [''selector'']) ''empty selector is invalid for statefulset'']
             else []))"

lemma selectorErrors_ud_same [ud_same]: "selectorErrors_ud = selectorErrors"
  by (simp only: selectorErrors_ud_def [abs_def] selectorErrors_def [abs_def] ud_same)

fun convertTolerations_ud ::
  "wh_env \<Rightarrow> string list \<Rightarrow> nat \<Rightarrow> toleration list \<Rightarrow> field_error list \<times> toleration list" where
  "convertTolerations_ud env poolsPath i [] = ([], [])"
| "convertTolerations_ud env poolsPath i (t # ts) =
     (let (errs, cores) = convertTolerations_ud env poolsPath (i + 1) ts
      in case wh_ConvertToleration env t of
           Inl e \<Rightarrow> (field_Invalid (poolsPath @ [index i, ''tolerations''])
               (''Convert_v1_Toleration_To_core_Toleration failed: '' @ error_text e) # errs, cores)
         | Inr c \<Rightarrow> (errs, c # cores))"

lemma convertTolerations_ud_same [ud_same]: "convertTolerations_ud = convertTolerations"
proof (intro ext)
  show "convertTolerations_ud env path i ts = convertTolerations env path i ts" for env path i ts
    by (induction ts arbitrary: i) (simp_all add: ud_same)
qed

definition validatePool_ud ::
  "wh_env \<Rightarrow> string list \<Rightarrow> nat \<Rightarrow> string list \<Rightarrow> pool_config \<Rightarrow> field_error list" where
  "validatePool_ud env poolsPath i poolNames pool =
     (let namePath = poolsPath @ [index i, ''name'']; termPath = poolsPath @ [index i, ''nodeSelectorTerm''] in
      (if length (pc_name pool) = 0 then [field_Required namePath []] else [])
      @ (if pc_name pool \<in> set poolNames
         then [field_Invalid namePath (''duplicated pool name '' @ pc_name pool)] else [])
      @ (let errs = wh_NameIsDNSLabel env (pc_name pool) in
         if length errs > 0
         then [field_Invalid namePath (''invalid pool name '' @ joinWith '', '' errs)] else [])
      @ (case wh_ConvertTerm env (pc_nodeSelectorTerm pool) of
           Inl e \<Rightarrow> [field_Invalid termPath
             (''Convert_v1_NodeSelectorTerm_To_core_NodeSelectorTerm failed: '' @ error_text e)]
         | Inr core \<Rightarrow> wh_NodeSelectorTerm env core termPath)
      @ (case pc_tolerations pool of
           None \<Rightarrow> []
         | Some ts \<Rightarrow>
             (let (errs, cores) = convertTolerations_ud env poolsPath 0 ts
              in errs @ wh_Tolerations env cores (poolsPath @ [index i, ''tolerations'']))))"

lemma validatePool_ud_same [ud_same]: "validatePool_ud = validatePool"
  by (simp only: validatePool_ud_def [abs_def] validatePool_def [abs_def] ud_same)

fun validatePools_ud ::
  "wh_env \<Rightarrow> string list \<Rightarrow> nat \<Rightarrow> string list \<Rightarrow> pool_config list \<Rightarrow> field_error list" where
  "validatePools_ud env poolsPath i poolNames [] = []"
| "validatePools_ud env poolsPath i poolNames (pool # pools) =
     validatePool_ud env poolsPath i poolNames pool
     @ validatePools_ud env poolsPath (i + 1) (pc_name pool # poolNames) pools"

lemma validatePools_ud_same [ud_same]: "validatePools_ud = validatePools"
proof (intro ext)
  show "validatePools_ud env path i ns ps = validatePools env path i ns ps" for env path i ns ps
    by (induction ps arbitrary: i ns) (simp_all add: ud_same)
qed

definition validateUnitedDeploymentSpec :: "wh_env \<Rightarrow> ud_spec \<Rightarrow> string list \<Rightarrow> field_error list outcome" where
  "validateUnitedDeploymentSpec env spec fldPath =
     (case wt_deployment (ys_template spec) of
        None \<Rightarrow> Panic ''nil pointer dereference''
      | Some _ \<Rightarrow>
          Ret (selectorErrors_ud env (ys_selector spec) fldPath
            @ (case wh_AsSelector env (ys_selector spec) of
                 Inl e \<Rightarrow> [field_Invalid (fldPath @ [''selector'']) []]
               | Inr sel \<Rightarrow> validatePoolTemplate_ud env (ys_template spec) sel
                   (fldPath @ [''workloadTemplate'']))
            @ validatePools_ud env (fldPath @ [''topology'', ''pools'']) 0 [] (items (ys_pools spec))))"

lemma validateUnitedDeploymentSpec_same [ud_same]: "validateUnitedDeploymentSpec = validateYurtAppSetSpec"
  by (simp only: validateUnitedDeploymentSpec_def [abs_def] validateYurtAppSetSpec_def [abs_def] ud_same)

definition validateUnitedDeployment :: "wh_env \<Rightarrow> ud \<Rightarrow> field_error list outcome" where
  "validateUnitedDeployment env y =
     (case validateUnitedDeploymentSpec env (yas_spec y) [''spec''] of
        Ret errs \<Rightarrow> Ret (wh_ObjectMeta env (object_meta.truncate y) [''metadata''] @ errs)
      | r \<Rightarrow> r)"

lemma validateUnitedDeployment_same [ud_same]: "validateUnitedDeployment = validateYurtAppSet"
  by (simp only: validateUnitedDeployment_def [abs_def] validateYurtAppSet_def [abs_def] ud_same)

fun validateTopologyPools_ud ::
  "wh_env \<Rightarrow> string list \<Rightarrow> pool_config gomap \<Rightarrow> nat \<Rightarrow> pool_config list \<Rightarrow> field_error list" where
  "validateTopologyPools_ud env fldPath oldPools i [] = []"
| "validateTopologyPools_ud env fldPath oldPools i (pool # pools) =
     (case gget oldPools (pc_name pool) of
        None \<Rightarrow> []
      | Some oldPool \<Rightarrow>
          (if \<not> wh_EqualTerm env (pc_nodeSelectorTerm oldPool) (pc_nodeSelectorTerm pool)
           then [field_Forbidden (fldPath @ [''pools'', index i, ''nodeSelectorTerm''])
             ''may not be changed in an update''] else [])
          @ (if \<not> wh_EqualTolerations env (pc_tolerations oldPool) (pc_tolerations pool)
             then [field_Forbidden (fldPath @ [''pools'', index i, ''tolerations''])
               ''may not be changed in an update''] else []))
     @ validateTopologyPools_ud env fldPath oldPools (i + 1) pools"

lemma validateTopologyPools_ud_same [ud_same]: "validateTopologyPools_ud = validateTopologyPools"
proof (intro ext)
  show "validateTopologyPools_ud env path old i ps = validateTopologyPools env path old i ps" for env path old i ps
    by (induction ps arbitrary: i) (simp_all add: ud_same)
qed

definition validateUnitedDeploymentTopology ::
  "wh_env \<Rightarrow> pool_config goslice \<Rightarrow> pool_config goslice \<Rightarrow> string list \<Rightarrow> field_error list" where
  "validateUnitedDeploymentTopology env pools oldPools fldPath =
     validateTopologyPools_ud env fldPath
       (fold (\<lambda>pool m. gput (pc_name pool) pool m) (items oldPools) (Some [])) 0 (items pools)"

lemma validateUnitedDeploymentTopology_same [ud_same]: "validateUnitedDeploymentTopology = validateYurtAppSetTopology"
  by (simp only: validateUnitedDeploymentTopology_def [abs_def] validateYurtAppSetTopology_def [abs_def] ud_same)

definition validateUnitedDeploymentSpecUpdate ::
  "wh_env \<Rightarrow> ud_spec \<Rightarrow> ud_spec \<Rightarrow> string list \<Rightarrow> field_error list" where
  "validateUnitedDeploymentSpecUpdate env spec oldSpec fldPath =
     validateWorkloadTemplateUpdate_ud env (ys_template spec) (ys_template oldSpec)
       (fldPath @ [''workloadTemplate''])
     @ validateUnitedDeploymentTopology env (ys_pools spec) (ys_pools oldSpec) (fldPath @ [''topology''])"

lemma validateUnitedDeploymentSpecUpdate_same [ud_same]: "validateUnitedDeploymentSpecUpdate = validateYurtAppSetSpecUpdate"
  by (simp only: validateUnitedDeploymentSpecUpdate_def [abs_def] validateYurtAppSetSpecUpdate_def [abs_def] ud_same)

definition ValidateUnitedDeploymentUpdate :: "wh_env \<Rightarrow> ud \<Rightarrow> ud \<Rightarrow> field_error list" where
  "ValidateUnitedDeploymentUpdate env y old =
     wh_ObjectMetaUpdate env (object_meta.truncate y) (object_meta.truncate old) [''metadata'']
     @ validateUnitedDeploymentSpecUpdate env (yas_spec y) (yas_spec old) [''spec'']"

lemma ValidateUnitedDeploymentUpdate_same [ud_same]: "ValidateUnitedDeploymentUpdate = ValidateYurtAppSetUpdate"
  by (simp only: ValidateUnitedDeploymentUpdate_def [abs_def] ValidateYurtAppSetUpdate_def [abs_def] ud_same)

subsection \<open>\<open>uniteddeployment_webhook.go\<close>\<close>

definition empty_ud_status :: ud_status where
  "empty_ud_status = \<lparr>yt_observedGeneration = 0, yt_collisionCount = None, yt_currentRevision = [],
     yt_conditions = None, yt_poolReplicas = None, yt_readyReplicas = 0, yt_replicas = 0,
     yt_templateType = NoTemplateType\<rparr>"

lemma empty_ud_status_same [ud_same]: "empty_ud_status = empty_yas_status"
  by (simp only: empty_ud_status_def [abs_def] empty_yas_status_def [abs_def] ud_same)

definition selectTemplate_ud ::
  "label_selector option \<Rightarrow> workload_template \<Rightarrow> workload_template" where
  "selectTemplate_ud sel t =
     t\<lparr>wt_statefulSet := map_option (\<lambda>s. s\<lparr>st_spec := (st_spec s)\<lparr>ss_selector := sel\<rparr>\<rparr>)
         (wt_statefulSet t),
       wt_deployment := map_option (\<lambda>s. s\<lparr>dt_spec := (dt_spec s)\<lparr>ds_selector := sel\<rparr>\<rparr>)
         (wt_deployment t)\<rparr>"

lemma selectTemplate_ud_same [ud_same]: "selectTemplate_ud = selectTemplate"
  by (simp only: selectTemplate_ud_def [abs_def] selectTemplate_def [abs_def] ud_same)

lemma SetDefaultsUnitedDeployment_same [ud_same]: "SetDefaultsUnitedDeployment = SetDefaultsYurtAppSet"
  by (simp only: SetDefaultsUnitedDeployment_def [abs_def] SetDefaultsYurtAppSet_def [abs_def])

definition UnitedDeployment_Default :: "df_env \<Rightarrow> ud option \<Rightarrow> admission_error + ud" where
  "UnitedDeployment_Default df obj =
     (case obj of
        None \<Rightarrow> Inl BadRequest
      | Some y0 \<Rightarrow>
          (let y = (SetDefaultsUnitedDeployment df y0)\<lparr>yas_status := empty_ud_status\<rparr>
           in Inr (y\<lparr>yas_spec := (yas_spec y)\<lparr>
                ys_template := selectTemplate_ud (ys_selector (yas_spec y)) (ys_template (yas_spec y))\<rparr>\<rparr>)))"

lemma UnitedDeployment_Default_same [ud_same]: "UnitedDeployment_Default = YurtAppSet_Default"
  by (simp only: UnitedDeployment_Default_def [abs_def] YurtAppSet_Default_def [abs_def] ud_same)

definition UnitedDeployment_ValidateCreate ::
  "wh_env \<Rightarrow> ud option \<Rightarrow> (admission_error + unit) outcome" where
  "UnitedDeployment_ValidateCreate env obj =
     (case obj of
        None \<Rightarrow> Ret (Inl BadRequest)
      | Some y \<Rightarrow>
          (case validateUnitedDeployment env y of
             Ret allErrs \<Rightarrow>
               Ret (if length allErrs > 0 then Inl (Invalid (m_name y) allErrs) else Inr ())
           | Err e \<Rightarrow> Err e | Panic p \<Rightarrow> Panic p))"

lemma UnitedDeployment_ValidateCreate_same [ud_same]: "UnitedDeployment_ValidateCreate = YurtAppSet_ValidateCreate"
  by (simp only: UnitedDeployment_ValidateCreate_def [abs_def] YurtAppSet_ValidateCreate_def [abs_def] ud_same)

definition UnitedDeployment_ValidateUpdate ::
  "wh_env \<Rightarrow> ud option \<Rightarrow> ud option \<Rightarrow> (admission_error + unit) outcome" where
  "UnitedDeployment_ValidateUpdate env oldObj newObj =
     (case newObj of
        None \<Rightarrow> Ret (Inl BadRequest)
      | Some y \<Rightarrow>
     (case oldObj of
        None \<Rightarrow> Ret (Inl BadRequest)
      | Some old \<Rightarrow>
          (case validateUnitedDeployment env y of
             Ret errs \<Rightarrow>
               (let allErrs = errs @ ValidateUnitedDeploymentUpdate env y old
                in Ret (if length allErrs > 0 then Inl (Invalid (m_name y) allErrs) else Inr ()))
           | Err e \<Rightarrow> Err e | Panic p \<Rightarrow> Panic p)))"

lemma UnitedDeployment_ValidateUpdate_same [ud_same]: "UnitedDeployment_ValidateUpdate = YurtAppSet_ValidateUpdate"
  by (simp only: UnitedDeployment_ValidateUpdate_def [abs_def] YurtAppSet_ValidateUpdate_def [abs_def] ud_same)

definition UnitedDeployment_ValidateDelete :: "ud option \<Rightarrow> admission_error + unit" where
  "UnitedDeployment_ValidateDelete obj = Inr ()"

lemma UnitedDeployment_ValidateDelete_same [ud_same]: "UnitedDeployment_ValidateDelete = YurtAppSet_ValidateDelete"
  by (simp only: UnitedDeployment_ValidateDelete_def [abs_def] YurtAppSet_ValidateDelete_def [abs_def] ud_same)

subsection \<open>An admitted UnitedDeployment\<close>


end
