(* ===== verification/YAS_Safe.thy ===== *)
theory YAS_Safe
  imports Workload_Webhook YAS_Controller
begin

section \<open>YurtAppSet: an admitted object is reconciled without a panic\<close>

text \<open>
  The admission and the reconciliation together. \<open>delivers Q m\<close>: \<open>m\<close> does not panic, and what it
  returns satisfies \<open>Q\<close>; the rules of the collection \<open>delivers_intros\<close> follow the structure of the
  code. What is asked of the API server is \<open>server_ok\<close>: a call returns or fails, and a list or a get answers with
  objects of the kind asked for.
\<close>

named_theorems delivers_intros \<open>rules by which an operation is shown not to panic\<close>

subsection \<open>Operations that do not panic\<close>

definition delivers :: "('a \<Rightarrow> bool) \<Rightarrow> ('w, 'a) io \<Rightarrow> bool" where
  "delivers Q m \<longleftrightarrow> (\<forall>w. case fst (m w) of Ret x \<Rightarrow> Q x | Err e \<Rightarrow> True | Panic p \<Rightarrow> False)"

abbreviation never_panics :: "('w, 'a) io \<Rightarrow> bool" where
  "never_panics m \<equiv> delivers (\<lambda>_. True) m"

lemma deliversI:
  "(\<And>w x w'. m w = (Ret x, w') \<Longrightarrow> Q x) \<Longrightarrow> (\<And>w p w'. m w \<noteq> (Panic p, w')) \<Longrightarrow> delivers Q m"
  unfolding delivers_def by (metis outcome.exhaust outcome.simps(10,11,12) prod.collapse)

lemma deliversD:
  assumes "delivers Q m"
  shows "m w = (Ret x, w') \<Longrightarrow> Q x" and "m w = (Panic p, w') \<Longrightarrow> False"
  using assms by (auto simp: delivers_def dest: spec [of _ w])

lemma delivers_weaken: "delivers P m \<Longrightarrow> (\<And>x. P x \<Longrightarrow> Q x) \<Longrightarrow> delivers Q m"
  by (auto simp: delivers_def split: outcome.splits)

lemma delivers_ret: "delivers Q (ret x) \<longleftrightarrow> Q x"
  by (simp add: delivers_def ret_def)

lemma delivers_basic [delivers_intros]:
  "never_panics (ret x)" "delivers Q (fail e)" "never_panics (lift (Ret x))"
  "never_panics (event env reason message)" "never_panics (now env)"
  by (simp_all add: delivers_def io_basic event_def now_def)

lemma delivers_bind:
  "delivers P m \<Longrightarrow> (\<And>x. P x \<Longrightarrow> delivers Q (k x)) \<Longrightarrow> delivers Q (andThen m k)"
  by (rule deliversI)
    (auto simp: andThen_def dest: deliversD split: prod.splits outcome.splits)

lemma delivers_andThen [delivers_intros]:
  "never_panics m \<Longrightarrow> (\<And>x. delivers Q (k x)) \<Longrightarrow> delivers Q (andThen m k)"
  by (rule delivers_bind)

lemma delivers_try:
  "delivers P m \<Longrightarrow> delivers (\<lambda>r. case r of Inl e \<Rightarrow> True | Inr x \<Rightarrow> P x) (attempt m)"
  by (rule deliversI) (auto simp: attempt_def dest: deliversD split: prod.splits outcome.splits)

lemma never_panics_attempt [delivers_intros]: "never_panics m \<Longrightarrow> never_panics (attempt m)"
  by (rule delivers_weaken [OF delivers_try]) simp_all

lemma delivers_cases [delivers_intros]:
  "(b \<Longrightarrow> delivers Q m) \<Longrightarrow> (\<not> b \<Longrightarrow> delivers Q n) \<Longrightarrow> delivers Q (if b then m else n)"
  "(o' = None \<Longrightarrow> delivers Q m) \<Longrightarrow> (\<And>y. o' = Some y \<Longrightarrow> delivers Q (f y)) \<Longrightarrow>
   delivers Q (case o' of None \<Rightarrow> m | Some y \<Rightarrow> f y)"
  "(\<And>e. r = Inl e \<Longrightarrow> delivers Q (g e)) \<Longrightarrow> (\<And>v. r = Inr v \<Longrightarrow> delivers Q (h v)) \<Longrightarrow>
   delivers Q (case r of Inl e \<Rightarrow> g e | Inr v \<Rightarrow> h v)"
  "(\<And>u v. q = (u, v) \<Longrightarrow> delivers Q (k u v)) \<Longrightarrow> delivers Q (case q of (u, v) \<Rightarrow> k u v)"
  by (simp_all split: option.split sum.split prod.split)

lemma never_panics_attemptAll [delivers_intros]:
  "(\<And>x. never_panics (f x)) \<Longrightarrow> never_panics (attemptAll f wrap xs)"
  by (induction xs) (simp_all, (intro delivers_intros | assumption)+)

lemma never_panics_runBatch [delivers_intros]:
  "(\<And>i. never_panics (fn i)) \<Longrightarrow> never_panics (runBatch fn is)"
  by (induction "is") (simp_all, (intro delivers_intros | assumption)+)

lemma never_panics_SlowStartBatch [delivers_intros]:
  assumes "\<And>i. never_panics (fn i)"
  shows "never_panics (SlowStartBatch sched calls initial fn)"
proof -
  have "never_panics (SlowStartBatch_loop sched fn want remaining successes i)"
    for want remaining successes i
  proof (induction "nat remaining" arbitrary: want remaining successes i rule: less_induct)
    case less
    show ?case
    proof (cases "min want remaining > 0")
      case True
      then have "never_panics (SlowStartBatch_loop sched fn (2 * min want remaining)
          (remaining - min want remaining) s j)" for s j
        by (intro less) auto
      then show ?thesis
        by (subst SlowStartBatch_loop.simps)
          (auto simp: Let_def intro!: delivers_intros assms split: list.split)
    qed (subst SlowStartBatch_loop.simps, auto simp: Let_def intro: delivers_intros)
  qed
  then show ?thesis by (simp add: SlowStartBatch_def)
qed

subsection \<open>Claiming\<close>

definition claims_ok :: "('w, 'a) rm_env \<Rightarrow> ('a object_meta_scheme \<Rightarrow> bool) \<Rightarrow> bool" where
  "claims_ok env P \<longleftrightarrow> (\<forall>ns name. never_panics (rm_GetOwner env ns name)) \<and>
     (\<forall>obj. never_panics (rm_Update env obj)) \<and>
     (\<forall>obj. P obj \<longrightarrow> delivers P (rm_Update env obj)) \<and>
     (\<forall>own obj obj'. P obj \<longrightarrow> rm_SetControllerReference env own obj = Inr obj' \<longrightarrow> P obj')"

lemma delivers_onWorld: "delivers P m \<Longrightarrow> delivers P (onWorld m)"
  by (auto simp: delivers_def onWorld_def split: prod.splits) (metis fst_conv)

lemma delivers_claimObject:
  assumes ok: "claims_ok env P" and obj: "P obj"
  shows "delivers (\<lambda>r. case r of None \<Rightarrow> True | Some obj' \<Rightarrow> P obj') (claimObject env mgr match obj)"
proof -
  have upd: "never_panics (onWorld (rm_Update env x))" "P x \<Longrightarrow> delivers P (onWorld (rm_Update env x))" for x
    using ok by (auto simp: claims_ok_def intro: delivers_onWorld)
  have "never_panics (canAdopt env mgr)"
    using ok unfolding canAdopt_def getOwner_def claims_ok_def by (intro delivers_intros) auto
  then have once: "never_panics (canAdoptOnce env mgr)"
    by (intro deliversI)
      (auto simp: canAdoptOnce_def split: option.splits prod.splits outcome.splits dest: deliversD(2))
  have stored: "delivers P (andThen (attempt (onWorld (rm_Update env x)))
      (\<lambda>r. case r of Inl e \<Rightarrow> fail (f e) | Inr s \<Rightarrow> ret s))" if "P x" for x and f :: "go_error \<Rightarrow> go_error"
    by (rule delivers_bind [OF delivers_try [OF upd(2) [OF that]]])
      (auto simp: delivers_ret delivers_basic split: sum.splits)
  have "P obj'" if "rm_SetControllerReference env own obj = Inr obj'" for own obj'
    using ok obj that by (auto simp: claims_ok_def)
  then have "delivers P (adopt env mgr obj)"
    unfolding adopt_def
    by (intro delivers_andThen delivers_cases delivers_basic once stored)
      (auto simp: delivers_ret obj)
  from delivers_try [OF this] have adopted: "delivers (\<lambda>r. case r of None \<Rightarrow> True | Some obj' \<Rightarrow> P obj')
      (andThen (attempt (adopt env mgr obj)) (\<lambda>r. case r of
         Inl e \<Rightarrow> (if isNotFound e then ret None else fail e) | Inr obj' \<Rightarrow> ret (Some obj')))"
    by (rule delivers_bind)
      (auto simp: delivers_ret delivers_basic split: sum.splits)
  have "never_panics (release env mgr obj)"
    unfolding release_def Let_def by (intro delivers_intros upd)
  from delivers_try [OF this] have released: "delivers (\<lambda>r. case r of None \<Rightarrow> True | Some obj' \<Rightarrow> P obj')
      (andThen (attempt (release env mgr obj)) (\<lambda>r. case r of
         Inl e \<Rightarrow> (if isNotFound e then ret None else fail e) | Inr _ \<Rightarrow> ret None))"
    by (rule delivers_bind)
      (auto simp: delivers_ret delivers_basic split: sum.splits)
  show ?thesis
    unfolding claimObject_def
    by (intro delivers_cases adopted released) (simp_all add: delivers_ret obj)
qed

lemma delivers_claimAll:
  assumes ok: "claims_ok env P"
  shows "list_all P objs \<Longrightarrow> delivers (\<lambda>(claimed, errs). list_all P claimed) (claimAll env mgr match objs)"
proof (induction objs)
  case (Cons obj objs)
  then have "P obj" and IH: "delivers (\<lambda>(claimed, errs). list_all P claimed) (claimAll env mgr match objs)"
    by simp_all
  note claim = delivers_try [OF delivers_claimObject [OF ok this(1)]]
  show ?case
    unfolding claimAll.simps
    by (rule delivers_bind [OF claim], rule delivers_bind [OF IH])
      (auto simp: delivers_ret split: sum.splits option.splits)
qed (simp add: delivers_ret)

lemma delivers_ClaimOwnedObjects:
  assumes "claims_ok env P" and "list_all P objs"
  shows "delivers (\<lambda>(claimed, err). list_all P claimed) (ClaimOwnedObjects env mgr objs filters)"
  using deliversD [OF delivers_claimAll [OF assms]]
  by (intro deliversI) (fastforce simp: ClaimOwnedObjects_def split: prod.splits outcome.splits)+

subsection \<open>Pools\<close>

text \<open>The kinds of the workloads, which neither a controller reference nor the server changes.\<close>

definition same_kind :: "workload \<Rightarrow> workload \<Rightarrow> bool" where
  "same_kind a b \<longleftrightarrow> (case (w_body a, w_body b) of
     (DeploymentBody _ _, DeploymentBody _ _) \<Rightarrow> True | (StatefulSetBody _ _, StatefulSetBody _ _) \<Rightarrow> True
   | _ \<Rightarrow> False)"

definition server_ok :: "'w pc_env \<Rightarrow> bool" where
  "server_ok env \<longleftrightarrow>
     (\<forall>kind sel. delivers (list_all kind) (pce_List env kind sel)) \<and>
     (\<forall>kind ns name. delivers kind (pce_Get env kind ns name)) \<and>
     (\<forall>wl. never_panics (pce_Create env wl)) \<and> (\<forall>wl. never_panics (pce_Update env wl)) \<and>
     (\<forall>wl. never_panics (pce_Delete env wl)) \<and>
     (\<forall>a. claims_ok (pce_rm env) (same_kind a))"

definition kind_adapter :: "adapter \<Rightarrow> bool" where
  "kind_adapter ad \<longleftrightarrow> (\<exists>a. ad_isKind ad = same_kind a) \<and>
     (\<forall>wl. ad_isKind ad wl \<longrightarrow> (\<exists>i g. ad_GetDetails ad wl = Ret i \<and> ad_GetStatusObservedGeneration ad wl = Ret g))"

lemma kind_adapters: "kind_adapter (DeploymentAdapter env)" "kind_adapter (StatefulSetAdapter env)"
proof -
  have "ad_isKind (DeploymentAdapter env) = same_kind emptyDeployment"
    "ad_isKind (StatefulSetAdapter env) = same_kind emptyStatefulSet"
    by (auto simp: fun_eq_iff DeploymentAdapter_def StatefulSetAdapter_def same_kind_def
        emptyDeployment_def emptyStatefulSet_def split: workload_body.split)
  then show "kind_adapter (DeploymentAdapter env)" "kind_adapter (StatefulSetAdapter env)"
    unfolding kind_adapter_def using deployment.details statefulSet.details by blast+
qed

lemma convertAll_returns:
  assumes "kind_adapter ad"
  shows "list_all (ad_isKind ad) wls \<Longrightarrow> convertAll ad wls \<noteq> Panic p"
proof (induction wls)
  case (Cons wl wls)
  then obtain i g where "ad_GetDetails ad wl = Ret i" "ad_GetStatusObservedGeneration ad wl = Ret g"
    using assms by (auto simp: kind_adapter_def)
  with Cons show ?case
    by (auto simp: convertToPool_def split: sum.split outcome.splits)
qed simp

lemma GetAllPools_never_panics:
  assumes "server_ok env" and ad: "kind_adapter ad"
  shows "never_panics (GetAllPools env ad y)"
proof -
  have kinds: "delivers (list_all (ad_isKind ad)) (pce_List env (ad_isKind ad) sel)"
    "claims_ok (pce_rm env) (ad_isKind ad)" for sel
    using assms by (auto simp: server_ok_def kind_adapter_def)
  have conv: "never_panics (lift (convertAll ad wls))" if "list_all (ad_isKind ad) wls" for wls
    using convertAll_returns [OF ad that] by (simp add: delivers_def lift_def split: outcome.split)
  have "never_panics (andThen (ClaimOwnedObjects (pce_rm env) mgr wls []) (\<lambda>(claimedSets, err).
      case err of Some e \<Rightarrow> fail e | None \<Rightarrow> lift (convertAll ad claimedSets)))"
    if "list_all (ad_isKind ad) wls" for mgr wls
    by (rule delivers_bind [OF delivers_ClaimOwnedObjects [OF kinds(2) that]])
      (auto intro: conv delivers_basic split: option.split)
  then show ?thesis
    unfolding GetAllPools_def
    by (intro delivers_cases delivers_basic delivers_bind [OF kinds(1)])
qed

text \<open>An object the adapter for deployments can be applied for\<close>

definition deployable :: "yas \<Rightarrow> bool" where
  "deployable y \<longleftrightarrow> wt_deployment (ys_template (yas_spec y)) \<noteq> None \<and>
     (case ys_selector (yas_spec y) of None \<Rightarrow> False | Some s \<Rightarrow> ls_matchLabels s \<noteq> None)"

lemma Deployment_apply_returns:
  assumes "deployable y" and "ad_isKind (DeploymentAdapter env) wl"
  shows "ad_ApplyPoolTemplate (DeploymentAdapter env) y p r n wl \<noteq> (Panic q, wl')"
  using assms
  by (auto simp: deployable_def DeploymentAdapter_def Deployment_ApplyPoolTemplate_def applyPatch_def
      Let_def split: workload_body.splits option.splits sum.splits prod.splits bool.splits)

lemma CreatePool_never_panics:
  assumes "server_ok env" and "deployable y"
  shows "never_panics (CreatePool env (DeploymentAdapter a) y p r n)"
proof -
  have "ad_isKind (DeploymentAdapter a) (ad_NewResourceObject (DeploymentAdapter a))"
    by (rule deployment.new_kind)
  from Deployment_apply_returns [OF assms(2) this] show ?thesis
    using assms(1) unfolding CreatePool_def server_ok_def
    by (auto split: prod.split outcome.split intro!: delivers_intros)
qed

lemma UpdatePool_never_panics:
  assumes ok: "server_ok env" and y: "deployable y"
  shows "never_panics (UpdatePool env (DeploymentAdapter a) pool y r n)"
proof -
  let ?ad = "DeploymentAdapter a"
  have got: "delivers (ad_isKind ?ad) (pce_Get env (ad_isKind ?ad) ns name)" for ns name
    using ok by (simp add: server_ok_def)
  have "never_panics (UpdatePool_tries k env ?ad pool y r n err wl)" for k err wl
  proof (induction k arbitrary: err wl)
    case (Suc k)
    have step: "never_panics (case ad_ApplyPoolTemplate ?ad y (p_name pool) r n o' of
          (Err e, wl') \<Rightarrow> fail e | (Panic p, wl') \<Rightarrow> lift (Panic p)
        | (Ret _, wl') \<Rightarrow> andThen (attempt (pce_Update env wl')) (\<lambda>r'. case r' of
              Inl e \<Rightarrow> UpdatePool_tries k env ?ad pool y r n (Some e) wl'
            | Inr stored \<Rightarrow> ret stored))" if "ad_isKind ?ad o'" for o'
      using Deployment_apply_returns [OF y that] Suc ok
      by (auto simp: server_ok_def split: prod.split outcome.split intro!: delivers_intros)
    show ?case
      unfolding UpdatePool_tries.simps
      by (rule delivers_cases(4), rule delivers_bind [OF got], rule step)
  qed (simp add: delivers_basic split: option.split)
  then show ?thesis
    unfolding UpdatePool_def by (intro delivers_intros)
qed

text \<open>What the reconciler asks of its controls; those it is built with (\<open>newReconciler\<close>) fulfil it.\<close>

definition controls_ok :: "yas \<Rightarrow> (template_type \<times> 'w control) list \<Rightarrow> bool" where
  "controls_ok y ctls \<longleftrightarrow>
     list_all (\<lambda>(t, c). (\<forall>y. never_panics (c_GetAllPools c y)) \<and> (\<forall>pool. never_panics (c_DeletePool c pool))) ctls \<and>
     (case map_of ctls DeploymentTemplateType of
        None \<Rightarrow> False
      | Some c \<Rightarrow> (\<forall>p r n. never_panics (c_CreatePool c y p r n)) \<and>
          (\<forall>pool r n. never_panics (c_UpdatePool c pool y r n)))"

lemma controls_ok_newReconciler:
  assumes "server_ok env" and "deployable y"
  shows "controls_ok y (newReconciler_controls env)"
proof -
  have "never_panics (DeletePool env pool)" for pool
    using assms by (simp add: DeletePool_def server_ok_def)
  with assms show ?thesis
    by (simp add: controls_ok_def newReconciler_controls_def PoolControl_def GetAllPools_never_panics
        kind_adapters CreatePool_never_panics UpdatePool_never_panics)
qed

lemma controls_okD:
  assumes "controls_ok y ctls"
  obtains c where "map_of ctls DeploymentTemplateType = Some c" and "\<And>y. never_panics (c_GetAllPools c y)"
    and "\<And>pool. never_panics (c_DeletePool c pool)" and "\<And>p r n. never_panics (c_CreatePool c y p r n)"
    and "\<And>pool r n. never_panics (c_UpdatePool c pool y r n)"
proof -
  obtain c where c: "map_of ctls DeploymentTemplateType = Some c" "\<forall>p r n. never_panics (c_CreatePool c y p r n)"
    "\<forall>pool r n. never_panics (c_UpdatePool c pool y r n)"
    using assms by (auto simp: controls_ok_def split: option.splits)
  have "(\<forall>y. never_panics (c_GetAllPools c y)) \<and> (\<forall>pool. never_panics (c_DeletePool c pool))"
    using assms map_of_SomeD [OF c(1)] by (auto simp: controls_ok_def list_all_iff)
  with c that show thesis by blast
qed

subsection \<open>The reconciliation\<close>

lemma cleanOthers_never_panics:
  "list_all (\<lambda>(t, c). (\<forall>y. never_panics (c_GetAllPools c y)) \<and> (\<forall>pool. never_panics (c_DeletePool c pool))) ctls \<Longrightarrow>
   never_panics (cleanOthers t y ctls)"
proof (induction ctls)
  case (Cons tc ctls)
  obtain t' c where tc: "tc = (t', c)" by force
  with Cons show ?case
    by (auto simp: deleteOthers_def intro!: delivers_intros)
qed (simp add: delivers_basic)

lemma managePools_never_panics:
  assumes "controls_ok y (ye_poolControls env)"
  shows "never_panics (managePools env y m next r DeploymentTemplateType)"
proof -
  obtain c where c: "map_of (ye_poolControls env) DeploymentTemplateType = Some c"
    "\<And>pool. never_panics (c_DeletePool c pool)" "\<And>p r n. never_panics (c_CreatePool c y p r n)"
    "\<And>pool r n. never_panics (c_UpdatePool c pool y r n)"
    using controls_okD [OF assms] by metis
  have clean: "never_panics (cleanOthers DeploymentTemplateType y (ye_poolControls env))"
    using assms by (intro cleanOthers_never_panics) (simp add: controls_ok_def)
  have one: "never_panics (createOne c t y next r names i)" "never_panics (updateOne env c t y m next r names i)"
    for t names i
    unfolding createOne_def updateOne_def Let_def by (intro delivers_intros c)+
  have delete: "never_panics (case x of (poolName, pool) \<Rightarrow> c_DeletePool c pool)"
    for x :: "string \<times> pool"
    by (simp add: c split: prod.split)
  have provision: "never_panics (managePoolProvision env y m next r DeploymentTemplateType)"
    unfolding managePoolProvision_def Let_def c option.case deleteAll_def
    by (intro delivers_intros clean one delete)
  have condition: "never_panics (setConditionNow env s t st reason msg)" for s t st reason msg
    unfolding setConditionNow_def by (intro delivers_intros)
  show ?thesis
    unfolding managePools_def Let_def c option.case
    by (intro delivers_intros provision condition one)
qed

lemma getNameToPool_never_panics:
  assumes "\<And>y. never_panics (c_GetAllPools c y)" and "\<And>pool. never_panics (c_DeletePool c pool)"
  shows "never_panics (getNameToPool env y c)"
proof -
  have dups: "never_panics (deleteDups c ps)" for ps
    by (induction ps) (simp_all add: delivers_basic, intro delivers_intros assms)
  have "never_panics (deleteDupPool_from c es m)" for es m
    by (induction es arbitrary: m) (auto simp: delivers_basic intro!: delivers_intros dups)
  then show ?thesis
    unfolding getNameToPool_def deleteDupPool_def by (intro delivers_intros assms)
qed

lemma reconcilePools_never_panics:
  assumes ctls: "controls_ok y (ye_poolControls (yc_upd env))"
    and y: "wt_statefulSet (ys_template (yas_spec y)) = None" "deployable y"
    and server: "\<And>ns name. never_panics (yc_Get env ns name)" "\<And>obj. never_panics (yc_UpdateStatus env obj)"
  shows "never_panics (reconcilePools env y current updated cnt)"
proof -
  obtain c where c: "map_of (ye_poolControls (yc_upd env)) DeploymentTemplateType = Some c"
    "\<And>y. never_panics (c_GetAllPools c y)" "\<And>pool. never_panics (c_DeletePool c pool)"
    using controls_okD [OF ctls] by metis
  have ctl: "getPoolControls (yc_upd env) y = Inr (Some c, DeploymentTemplateType)"
    using y c(1) by (auto simp: getPoolControls_def deployable_def)
  have tries: "never_panics (updateStatus_tries k env obj s)" for k obj s
  proof (induction k arbitrary: obj)
    case (Suc k)
    show ?case
      unfolding updateStatus_tries.simps by (intro delivers_intros server Suc)
  qed (simp add: server)
  have condition: "never_panics (setConditionNow (yc_upd env) s t st reason msg)" for s t st reason msg
    unfolding setConditionNow_def by (intro delivers_intros)
  have "never_panics (updateStatus env y new old m current cnt c)" for new old m
    unfolding updateStatus_def updateYurtAppSet_def calculateStatus_def Let_def
    by (intro delivers_intros tries condition)
  then show ?thesis
    unfolding reconcilePools_def Let_def ctl sum.case prod.case option.case
    by (intro delivers_intros getNameToPool_never_panics c managePools_never_panics ctls)
qed

text \<open>The server of the revisions\<close>

definition revisions_ok :: "'w rev_env \<Rightarrow> bool" where
  "revisions_ok env \<longleftrightarrow> claims_ok (re_rm env) (\<lambda>_. True) \<and> (\<forall>sel. never_panics (re_List env sel)) \<and>
     (\<forall>ns name. never_panics (re_Get env ns name)) \<and> (\<forall>cr. never_panics (re_Create env cr)) \<and>
     (\<forall>cr. never_panics (re_Update env cr)) \<and> (\<forall>cr. never_panics (re_Delete env cr))"

lemma constructRevisions_never_panics:
  assumes ok: "revisions_ok env" and lim: "ys_revisionHistoryLimit (yas_spec y) = Some limit" "0 \<le> sint limit"
  shows "never_panics (constructYurtAppSetRevisions fuel env y)"
proof -
  have srv: "never_panics (re_List env sel)" "never_panics (re_Get env ns name)"
    "never_panics (re_Create env cr)" "never_panics (re_Update env cr)" "never_panics (re_Delete env cr)"
    for sel ns name cr using ok by (simp_all add: revisions_ok_def)
  have claim: "never_panics (ClaimOwnedObjects (re_rm env) mgr hs [])" for mgr hs
    using ok by (intro delivers_weaken [OF delivers_ClaimOwnedObjects [of _ "\<lambda>_. True"]])
      (simp_all add: revisions_ok_def list_all_iff)
  have hist: "never_panics (controlledHistories env y)"
    unfolding controlledHistories_def by (intro delivers_intros srv claim)
  have expired: "never_panics (deleteExpired env live n i rs)" for live n i rs
    by (induction rs arbitrary: i) (simp_all add: delivers_basic, intro conjI impI delivers_intros srv)
  have clean: "never_panics (cleanExpiredRevision env y rs)" for rs
    using lim unfolding cleanExpiredRevision_def Let_def
    by (auto intro!: delivers_intros expired)
  have create: "never_panics (createControllerRevision k env y cr cnt)" for k cr cnt
    by (induction k arbitrary: cnt) (simp_all add: delivers_basic Let_def, intro delivers_intros srv)
  have finish: "never_panics (finishRevisions y rs cnt u)" for rs cnt u
    by (simp add: finishRevisions_def delivers_basic)
  have "never_panics (constructFrom fuel env y rs)" for rs
    unfolding constructFrom_def Let_def by (intro delivers_intros srv create finish)
  then show ?thesis
    unfolding constructYurtAppSetRevisions_def by (intro delivers_intros hist clean)
qed

text \<open>C6: a YurtAppSet that went through the webhook, asks for no negative revision limit and has a
  selector with match labels is reconciled without a panic, whatever the server answers and whatever
  became of its status and its metadata meanwhile: the nil checks the controller leaves out are
  those the defaulting and the validation make.\<close>

theorem admitted_never_panics:
  assumes "YurtAppSet_Default df (Some y0) = Inr y"
    and "YurtAppSet_ValidateCreate wh (Some y) = Ret (Inr ())"
    and lim: "case ys_revisionHistoryLimit (yas_spec y0) of None \<Rightarrow> True | Some n \<Rightarrow> 0 \<le> sint n"
    and labels: "case ys_selector (yas_spec y0) of None \<Rightarrow> True | Some s \<Rightarrow> ls_matchLabels s \<noteq> None"
    and server: "server_ok pc" "revisions_ok (yc_rev env)"
      "ye_poolControls (yc_upd env) = newReconciler_controls pc"
      "\<And>obj. never_panics (yc_UpdateStatus env obj)"
    and stored: "\<And>ns name. delivers (\<lambda>z. yas_spec z = yas_spec y) (yc_Get env ns name)"
  shows "fst (Reconcile_yas fuel env ns name w) \<noteq> Panic p"
proof -
  obtain tmpl s where y: "ys_template (yas_spec y) = \<lparr>wt_statefulSet = None, wt_deployment = Some tmpl\<rparr>"
    "ys_selector (yas_spec y) = Some s"
    by (rule validateYurtAppSetSpec_nil [OF admitted_spec [OF assms(2)]])
  have "ys_selector (yas_spec y) = ys_selector (yas_spec y0)"
    "ys_revisionHistoryLimit (yas_spec y) = defaultLimit (ys_revisionHistoryLimit (yas_spec y0))"
    using assms(1) by (auto simp: YurtAppSet_Default_def SetDefaultsYurtAppSet_def selectTemplate_def Let_def)
  with lim labels y obtain limit where
    same: "ls_matchLabels s \<noteq> None" "ys_revisionHistoryLimit (yas_spec y) = Some limit" "0 \<le> sint limit"
    by (auto simp: defaultLimit_def split: option.splits)
  have facts: "deployable z" "controls_ok z (ye_poolControls (yc_upd env))"
      "wt_statefulSet (ys_template (yas_spec z)) = None"
      "ys_revisionHistoryLimit (yas_spec z) = Some limit" if "yas_spec z = yas_spec y" for z
    using that y same(1,2) controls_ok_newReconciler [OF server(1), of z] server(3)
    by (simp_all add: deployable_def)
  have get: "never_panics (yc_Get env ns name)" for ns name
    by (rule delivers_weaken [OF stored]) simp
  have pools: "never_panics (reconcilePools env z current updated cnt)"
    and revisions: "never_panics (constructYurtAppSetRevisions fuel (yc_rev env) z)"
    if "yas_spec z = yas_spec y" for z current updated cnt
    using facts [OF that] get server(4) constructRevisions_never_panics [OF server(2) _ same(3)]
    by (blast intro: reconcilePools_never_panics)+
  have "never_panics (Reconcile_yas fuel env ns name)"
    unfolding Reconcile_yas_def
  proof (rule delivers_bind [OF delivers_try [OF stored]], goal_cases)
    case (1 r)
    then show ?case
      by (intro delivers_intros) (auto intro: pools revisions)
  qed
  then show ?thesis
    using deliversD(2) by (metis prod.collapse)
qed

text \<open>The match labels are needed, and the validation does not ask for them: without them the first pool
  that has to be created panics.\<close>

lemma CreatePool_without_labels_panics:
  assumes "wt_deployment (ys_template (yas_spec y)) \<noteq> None" and "ys_selector (yas_spec y) = Some s"
    and "ls_matchLabels s = None" and "poolConfigOf y p \<noteq> None"
  shows "CreatePool env (DeploymentAdapter a) y p r n w = (Panic ''assignment to entry in nil map'', w)"
  using assms
  by (auto simp: CreatePool_def DeploymentAdapter_def Deployment_ApplyPoolTemplate_def emptyDeployment_def
      Let_def lift_def)

end
