(* ===== verification/Webhook_Examples.thy ===== *)
theory Webhook_Examples
  imports YAS_Safe YAD_Examples
begin

section \<open>Admission: concrete objects\<close>

text \<open>
  The properties of the admission applied to a YurtAppSet and a YurtAppDaemon, with a library
  that finds no fault and changes nothing by default.
\<close>

definition demo_wh :: wh_env where
  "demo_wh = \<lparr>
     wh_ObjectMeta = (\<lambda>m p. []), wh_ObjectMetaUpdate = (\<lambda>m m' p. []), wh_LabelSelector = (\<lambda>s p. []),
     wh_AsSelector = (\<lambda>s. Inr \<lparr>sel_Matches = demo_selects s, sel_Empty = False\<rparr>),
     wh_NameIsDNSLabel = (\<lambda>n. []), wh_ConvertTerm = Inr, wh_NodeSelectorTerm = (\<lambda>t p. []),
     wh_ConvertToleration = Inr, wh_Tolerations = (\<lambda>ts p. []), wh_ConvertPodTemplate = Inr,
     wh_PodTemplateForStatefulSet = (\<lambda>t s p. []), wh_PodTemplate = (\<lambda>t p. []),
     wh_NonnegativeField = (\<lambda>n p. if n < 0 then [field_Invalid p ''negative''] else []),
     wh_EqualTerm = (=), wh_EqualTolerations = (=), wh_EqualDeploymentSpec = (=),
     wh_EqualStatefulSetSpec = (=)\<rparr>"

definition demo_df :: df_env where
  "demo_df = \<lparr>
     df_PodSpec = id, df_Volume = id, df_HostPath = id, df_Secret = id, df_ISCSI = id, df_RBD = id,
     df_DownwardAPI = id, df_FieldSelector = id, df_ConfigMap = id, df_AzureDisk = id,
     df_Projected = id, df_AccountToken = id, df_ScaleIO = id, df_Container = id,
     df_ResourceList = id, df_Probe = id, df_HTTPGet = id, df_Claim = id\<rparr>"

definition demo_template :: "affinity option \<Rightarrow> deployment_template" where
  "demo_template aff = object_meta.extend (empty_meta\<lparr>m_labels := Some [(''app'', ''web'')]\<rparr>)
     \<lparr>dt_spec = empty_deployment_spec\<lparr>ds_template := object_meta.extend
        (empty_meta\<lparr>m_labels := Some [(''app'', ''web'')]\<rparr>)
        \<lparr>pt_spec = empty_pod_spec\<lparr>ps_affinity := aff\<rparr>\<rparr>\<rparr>\<rparr>"

definition with_template :: "workload_template \<Rightarrow> yas \<Rightarrow> yas" where
  "with_template t y = y\<lparr>yas_spec := (yas_spec y)\<lparr>ys_template := t\<rparr>\<rparr>"

definition submitted_yas :: yas where
  "submitted_yas = with_template \<lparr>wt_statefulSet = None, wt_deployment = Some (demo_template None)\<rparr> new_yas"

definition admitted_yas :: yas where
  "admitted_yas = (case YurtAppSet_Default demo_df (Some submitted_yas) of Inr y \<Rightarrow> y | Inl _ \<Rightarrow> new_yas)"

definition submitted_yad :: yad where
  "submitted_yad = (demo_yad empty_yad_status)\<lparr>yad_spec := (yad_spec demo_d)\<lparr>yd_template :=
     \<lparr>wt_statefulSet = None, wt_deployment = Some (demo_template (Some
        \<lparr>af_nodeAffinity = None, af_podAffinity = ''spread''\<rparr>))\<rparr>\<rparr>\<rparr>"

definition admitted_yad :: yad where
  "admitted_yad =
     (case YurtAppDaemon_Default demo_df (Some submitted_yad) of Inr d \<Rightarrow> d | Inl _ \<Rightarrow> submitted_yad)"


theorem YurtAppSet_statefulSet_panics_witness:
  "YurtAppSet_ValidateCreate demo_wh (Some (with_template
     \<lparr>wt_statefulSet = Some (object_meta.extend empty_meta \<lparr>st_spec = empty_stateful_set_spec\<rparr>),
      wt_deployment = None\<rparr> new_yas)) = Panic ''nil pointer dereference''"
  by (rule conjunct1 [OF YurtAppSet_statefulSet_panics]) (simp add: with_template_def)

theorem YurtAppSet_update_admitted_witness:
  "YurtAppSet_ValidateUpdate demo_wh (Some admitted_yas) (Some admitted_yas) = Ret (Inr ()) \<and>
   (\<exists>p q. p \<in> set (items (ys_pools (yas_spec admitted_yas))) \<and>
      q \<in> set (items (ys_pools (yas_spec admitted_yas))) \<and> pc_name p = pc_name q \<and>
      pc_nodeSelectorTerm q = pc_nodeSelectorTerm p)"
proof -
  let ?pools = "items (ys_pools (yas_spec admitted_yas))"
  have upd: "YurtAppSet_ValidateUpdate demo_wh (Some admitted_yas) (Some admitted_yas) = Ret (Inr ())"
    and dist: "distinct (map pc_name ?pools)" and some: "?pools \<noteq> []" by code_simp+
  have eq: "wh_EqualTerm demo_wh q p \<longleftrightarrow> q = p" for p q by (simp add: demo_wh_def)
  have "hd ?pools \<in> set ?pools" using some by simp
  with YurtAppSet_update_admitted [OF upd dist, THEN conjunct1, unfolded eq] upd show ?thesis by blast
qed

theorem YurtAppSet_Default_settled_witness:
  "\<forall>p. fst (cleanExpiredRevision demo_rev admitted_yas demo_crs ([], demo_crs)) \<noteq> Panic p"
proof
  fix p
  have "(case YurtAppSet_Default demo_df (Some submitted_yas) of Inr y \<Rightarrow> True | Inl _ \<Rightarrow> False)"
    by code_simp
  then have d: "YurtAppSet_Default demo_df (Some submitted_yas) = Inr admitted_yas"
    by (auto simp: admitted_yas_def split: sum.splits)
  have "ys_revisionHistoryLimit (yas_spec submitted_yas) = Some 2" by code_simp
  moreover have "(0 :: int) \<le> sint (2 :: int32)" by code_simp
  moreover have "fst (re_Delete demo_rev cr u) \<noteq> Panic q" for cr u q by (simp add: demo_rev_def)
  ultimately show "fst (cleanExpiredRevision demo_rev admitted_yas demo_crs ([], demo_crs)) \<noteq> Panic p"
    by (intro YurtAppSet_Default_settled [OF d, THEN conjunct2, THEN conjunct2, rule_format]) auto
qed

text \<open>A server of revisions with one stored revision, and the reconciler on the stored workloads\<close>

definition served_rev :: "'w rev_env" where
  "served_rev = (down_rev :: 'w rev_env)\<lparr>
     re_List := (\<lambda>sel. ret [demo_cr ''web-2'' ''template'' 2]),
     re_NewControllerRevision := re_NewControllerRevision demo_rev, re_Update := ret\<rparr>"

definition stored_yc :: "workload list yc_env" where
  "stored_yc = \<lparr>
     yc_upd = \<lparr>rt_sched = rev, rt_Event = (\<lambda>reason message w. w), rt_Now = (\<lambda>w. ''now''),
       rt_NewAggregate = (\<lambda>es. case es of [] \<Rightarrow> None | e # _ \<Rightarrow> Some e),
       ye_poolControls = newReconciler_controls demo_pc\<rparr>,
     yc_rev = served_rev, yc_Get = (\<lambda>ns name w. (Ret admitted_yas, w)),
     yc_UpdateStatus = (\<lambda>obj w. (Ret obj, w))\<rparr>"

lemma claims_ok_demo: "(\<And>obj owners. P obj \<Longrightarrow> P (obj\<lparr>m_owners := owners\<rparr>)) \<Longrightarrow> claims_ok demo_rm P"
  by (auto simp: claims_ok_def demo_rm_def delivers_def)

lemma server_ok_demo: "server_ok demo_pc"
proof -
  have "claims_ok demo_rm (same_kind a)" for a
    by (rule claims_ok_demo) (simp add: same_kind_def)
  then show ?thesis
    by (auto simp: server_ok_def demo_pc_def delivers_def list_all_iff Let_def find_Some_iff split: option.split)
qed

lemma revisions_ok_served: "revisions_ok served_rev"
  using claims_ok_demo [of "\<lambda>_. True"]
  by (simp add: revisions_ok_def served_rev_def down_rev_def delivers_def io_basic)

theorem admitted_never_panics_witness:
  "fst (Reconcile_yas 3 stored_yc ''default'' ''web'' demo_stored) \<noteq> Panic ''nil pointer dereference'' \<and>
   fst (Reconcile_yas 3 stored_yc ''default'' ''web'' demo_stored) = Ret (Some ())"
proof
  have "(case YurtAppSet_Default demo_df (Some submitted_yas) of Inr y \<Rightarrow> True | Inl _ \<Rightarrow> False)"
    by code_simp
  then have d: "YurtAppSet_Default demo_df (Some submitted_yas) = Inr admitted_yas"
    by (auto simp: admitted_yas_def split: sum.splits)
  have v: "YurtAppSet_ValidateCreate demo_wh (Some admitted_yas) = Ret (Inr ())" by code_simp
  have "case ys_revisionHistoryLimit (yas_spec submitted_yas) of None \<Rightarrow> True | Some n \<Rightarrow> 0 \<le> sint n"
    "case ys_selector (yas_spec submitted_yas) of None \<Rightarrow> True | Some s \<Rightarrow> ls_matchLabels s \<noteq> None"
    by code_simp+
  then show "fst (Reconcile_yas 3 stored_yc ''default'' ''web'' demo_stored) \<noteq> Panic ''nil pointer dereference''"
    using server_ok_demo revisions_ok_served
    by (intro admitted_never_panics [OF d v]) (auto simp: stored_yc_def delivers_def)
qed code_simp


end
