(* ===== verification/UD_Examples.thy ===== *)
theory UD_Examples
  imports UD_Webhook Webhook_Examples
begin

section \<open>UnitedDeployment: a concrete object\<close>

text \<open>
  The server of the examples of the YurtAppSet serves a UnitedDeployment: with its limit, and with the nil limit that
  the two programs read differently.
\<close>

definition unlimited :: ud where
  "unlimited = new_yas\<lparr>yas_spec := (yas_spec new_yas)\<lparr>ys_revisionHistoryLimit := None\<rparr>\<rparr>"

theorem constructUnitedDeploymentRevisions_same_witness:
  "(\<exists>r w'. constructUnitedDeploymentRevisions 3 demo_rev unlimited ([], demo_crs) = (Ret r, w') \<and>
     constructYurtAppSetRevisions 3 (as_united demo_rev) (limit_given unlimited) ([], demo_crs) = (Ret r, w')) \<and>
   fst (constructYurtAppSetRevisions 3 demo_rev unlimited ([], demo_crs)) = Panic ''nil pointer dereference''"
proof -
  let ?run = "constructUnitedDeploymentRevisions 3 demo_rev unlimited ([], demo_crs)"
  have "(case fst ?run of Ret (Some (c, Inr x)) \<Rightarrow> True | _ \<Rightarrow> False)" by code_simp
  then obtain r w' where run: "?run = (Ret r, w')"
    by (cases ?run) (auto split: outcome.splits)
  have "getPoolTemplateType unlimited \<noteq> NoTemplateType" by code_simp
  moreover have "fst (constructYurtAppSetRevisions 3 demo_rev unlimited ([], demo_crs))
      = Panic ''nil pointer dereference''" by code_simp
  ultimately show ?thesis
    using run constructUnitedDeploymentRevisions_same [of unlimited 3 demo_rev] by auto
qed

text \<open>Controls that read an error of the server as an empty list\<close>

definition patient :: "'w control \<Rightarrow> 'w control" where
  "patient ctl = ctl\<lparr>c_GetAllPools := (\<lambda>y w. case c_GetAllPools ctl y w of
     (Err e, w') \<Rightarrow> (Ret [], w') | answer \<Rightarrow> answer)\<rparr>"

definition served_yc :: "(pool_call list \<times> workload list) yc_env" where
  "served_yc = demo_yc\<lparr>yc_rev := served_rev, yc_Get := (\<lambda>ns name w. (Ret admitted_yas, w)),
     yc_upd := demo_env\<lparr>ye_poolControls := map (\<lambda>(t, c). (t, patient (logged t c))) demo_ctls\<rparr>\<rparr>"

lemma answers_patient: "answers y (patient (logged t (PoolControl demo_pc ad)))"
  by (auto simp: answers_def patient_def logged_def PoolControl_def DeletePool_def demo_pc_def log_def
      split: prod.splits outcome.splits)


end
