(* ===== verification/Startup.thy ===== *)
theory Startup
  imports Workload_Webhook YAS_Pods
begin

section \<open>Start-up\<close>

text \<open>
  What happens before the first reconciliation: \<open>Run\<close> of \<open>cmd/yurt-app-manager/app/core.go\<close> builds the
  manager, registers the health checks and the field indexes, the controllers whose resource the gate
  (\<open>util/gate\<close>) lets through, and the webhooks, and starts the manager.

  Outside the repository (the record \<open>su_env\<close>): controller-runtime (the manager, its controllers, webhooks,
  indexes and checks), the scheme, the discovery client, \<open>retry.OnError\<close> and the clock. The
  process environment is \<open>su_Getenv\<close>, read as ASCII text. \<open>os.Exit(1)\<close> and \<open>klog.Fatalf\<close> are the
  result \<open>Err\<close>. The queries per second are a \<open>float32\<close> made of an integer, so an integer again
  (\<open>su_float32\<close> rounds it). The server for profiles is not modelled.
\<close>

record rest_config =
  rc_QPS :: int
  rc_Burst :: int

record yurt_app_options =
  op_MetricsAddr :: string
  op_PprofAddr :: string
  op_HealthProbeAddr :: string
  op_EnableLeaderElection :: bool
  op_EnablePprof :: bool
  op_LeaderElectionNamespace :: string
  op_Namespace :: string
  op_CreateDefaultPool :: bool
  op_Version :: bool

datatype watch = ForObject string | ForOwner string string | ForHandler string string

record 'w su_env =
  su_Getenv :: "string \<Rightarrow> string"
  su_GVKForObject :: "string \<Rightarrow> go_error + string \<times> string"
  su_discoveryClient :: "(string \<Rightarrow> ('w, string list) io) option"
  su_OnError :: "(go_error \<Rightarrow> bool) \<Rightarrow> ('w, string list) io \<Rightarrow> ('w, string list) io"
  su_NewController :: "string \<Rightarrow> int \<Rightarrow> ('w, unit) io"
  su_Watch :: "string \<Rightarrow> watch \<Rightarrow> ('w, unit) io"
  su_GoDefaultNodePools :: "('w, unit) io"
  su_isNoKindMatch :: "go_error \<Rightarrow> bool"
  su_Webhook :: "string \<Rightarrow> string \<Rightarrow> bool \<Rightarrow> ('w, unit) io"
  su_GetConfig :: "('w, rest_config) io"
  su_float32 :: "int \<Rightarrow> int"
  su_NewManager :: "rest_config \<Rightarrow> yurt_app_options \<Rightarrow> ('w, unit) io"
  su_AddReadyzCheck :: "string \<Rightarrow> ('w, unit) io"
  su_AddHealthzCheck :: "string \<Rightarrow> ('w, unit) io"
  su_IndexField :: "string \<Rightarrow> string \<Rightarrow> ('w, unit) io"
  su_NewRegistry :: "('w, unit) io"
  su_Start :: "('w, unit) io"

subsection \<open>The gate\<close>

text \<open>\<open>strings.TrimSpace\<close> and \<open>strings.Split(s, ",")\<close>\<close>

definition isSpace :: "char \<Rightarrow> bool" where
  "isSpace c \<longleftrightarrow> (let n = (of_char c :: int) in 9 \<le> n \<and> n \<le> 13 \<or> n = 32)"

definition TrimSpace :: "string \<Rightarrow> string" where
  "TrimSpace s = rev (dropWhile isSpace (rev (dropWhile isSpace s)))"

fun splitAt :: "char \<Rightarrow> string \<Rightarrow> string list" where
  "splitAt sep [] = [[]]"
| "splitAt sep (c # cs) =
     (if c = sep then [] # splitAt sep cs
      else (case splitAt sep cs of [] \<Rightarrow> [[c]] | w # ws \<Rightarrow> (c # w) # ws))"

definition envEnabled :: "'w su_env \<Rightarrow> string \<Rightarrow> bool" where
  "envEnabled env kind =
     (let limits = TrimSpace (su_Getenv env ''CUSTOM_RESOURCE_ENABLE'') in
      if length limits = 0 then True else kind \<in> set (splitAt (CHR '','') limits))"

definition discoveryEnabled :: "'w su_env \<Rightarrow> string \<times> string \<Rightarrow> ('w, bool) io" where
  "discoveryEnabled env gvk =
     (case su_discoveryClient env of
        None \<Rightarrow> ret True
      | Some serverResources \<Rightarrow>
          andThen (attempt (su_OnError env (\<lambda>e. \<not> isNotFound e) (serverResources (fst gvk)))) (\<lambda>r.
            case r of
              Inl e \<Rightarrow> ret (\<not> isNotFound e)
            | Inr kinds \<Rightarrow> ret (snd gvk \<in> set kinds)))"

definition ResourceEnabled :: "'w su_env \<Rightarrow> string \<Rightarrow> ('w, bool) io" where
  "ResourceEnabled env obj =
     (case su_GVKForObject env obj of
        Inl e \<Rightarrow> ret False
      | Inr gvk \<Rightarrow>
          andThen (discoveryEnabled env gvk) (\<lambda>discovered. ret (discovered \<and> envEnabled env (snd gvk))))"

subsection \<open>The controllers\<close>

text \<open>\<open>add\<close> and \<open>Add\<close> of each controller. The context holds under its key whether to create the
  default pools.\<close>

definition addController :: "'w su_env \<Rightarrow> string \<Rightarrow> watch list \<Rightarrow> ('w, unit) io" where
  "addController env controllerName watches =
     andThen (su_NewController env controllerName 3) (\<lambda>_. forEach (su_Watch env controllerName) watches)"

definition add_ud :: "'w su_env \<Rightarrow> ('w, unit) io" where
  "add_ud env = addController env ''uniteddeployment-controller''
     [ForObject ''UnitedDeployment'', ForOwner ''StatefulSet'' ''UnitedDeployment'',
      ForOwner ''Deployment'' ''UnitedDeployment'']"

definition Add_ud :: "'w su_env \<Rightarrow> bool option \<Rightarrow> ('w, unit) io" where
  "Add_ud env ctx = andThen (ResourceEnabled env ''UnitedDeployment'') (\<lambda>enabled.
     if \<not> enabled then ret () else add_ud env)"

definition add_yas :: "'w su_env \<Rightarrow> ('w, unit) io" where
  "add_yas env = addController env ''yurtappset-controller''
     [ForObject ''YurtAppSet'', ForOwner ''StatefulSet'' ''YurtAppSet'', ForOwner ''Deployment'' ''YurtAppSet'']"

definition Add_yas :: "'w su_env \<Rightarrow> bool option \<Rightarrow> ('w, unit) io" where
  "Add_yas env ctx = andThen (ResourceEnabled env ''YurtAppSet'') (\<lambda>enabled.
     if \<not> enabled then ret () else add_yas env)"

definition add_np :: "'w su_env \<Rightarrow> bool \<Rightarrow> ('w, unit) io" where
  "add_np env createDefaultPool =
     andThen (addController env ''nodepool-controller''
       [ForObject ''NodePool'', ForHandler ''Node'' ''EnqueueNodePoolForNode'']) (\<lambda>_.
       if createDefaultPool then su_GoDefaultNodePools env else ret ())"

definition Add_np :: "'w su_env \<Rightarrow> bool option \<Rightarrow> ('w, unit) io" where
  "Add_np env ctx = andThen (ResourceEnabled env ''NodePool'') (\<lambda>enabled.
     if \<not> enabled then ret ()
     else (case ctx of
        None \<Rightarrow> fail (PlainErr ''fail to assert interface to bool for command line option createDefaultPool'')
      | Some cdp \<Rightarrow> add_np env cdp))"

definition add_yad :: "'w su_env \<Rightarrow> ('w, unit) io" where
  "add_yad env = addController env ''yurtappdaemon-controller''
     [ForObject ''YurtAppDaemon'', ForHandler ''NodePool'' ''EnqueueYurtAppDaemonForNodePool'']"

definition Add_yad :: "'w su_env \<Rightarrow> bool option \<Rightarrow> ('w, unit) io" where
  "Add_yad env ctx = andThen (ResourceEnabled env ''YurtAppDaemon'') (\<lambda>enabled.
     if \<not> enabled then ret () else add_yad env)"

definition add_yi :: "'w su_env \<Rightarrow> ('w, unit) io" where
  "add_yi env = addController env ''yurtingress-controller''
     [ForObject ''YurtIngress'', ForOwner ''Deployment'' ''YurtIngress'']"

definition Add_yi :: "'w su_env \<Rightarrow> bool option \<Rightarrow> ('w, unit) io" where
  "Add_yi env ctx = andThen (ResourceEnabled env ''YurtIngress'') (\<lambda>enabled.
     if \<not> enabled then ret () else add_yi env)"

definition controllerAddFuncs :: "('w su_env \<Rightarrow> bool option \<Rightarrow> ('w, unit) io) list" where
  "controllerAddFuncs = [Add_ud, Add_yas, Add_np, Add_yad, Add_yi]"

definition SetupWithManager :: "'w su_env \<Rightarrow> bool option \<Rightarrow> ('w, unit) io" where
  "SetupWithManager env ctx =
     forEach (\<lambda>f. andThen (attempt (f env ctx)) (\<lambda>r. case r of
         Inl e \<Rightarrow> (if su_isNoKindMatch env e then ret () else fail e)
       | Inr _ \<Rightarrow> ret ()))
       controllerAddFuncs"

subsection \<open>The webhooks\<close>

text \<open>\<open>SetupWebhookWithManager\<close> of the five handlers, with a defaulter and a validator, and of the
  second version of the node pool, for conversions only\<close>

definition SetupWebhook_np :: "'w su_env \<Rightarrow> ('w, unit) io" where
  "SetupWebhook_np env = su_Webhook env ''v1alpha1'' ''NodePool'' True"

definition SetupWebhook_np_v1beta1 :: "'w su_env \<Rightarrow> ('w, unit) io" where
  "SetupWebhook_np_v1beta1 env = su_Webhook env ''v1beta1'' ''NodePool'' False"

definition SetupWebhook_ud :: "'w su_env \<Rightarrow> ('w, unit) io" where
  "SetupWebhook_ud env = su_Webhook env ''v1alpha1'' ''UnitedDeployment'' True"

definition SetupWebhook_yad :: "'w su_env \<Rightarrow> ('w, unit) io" where
  "SetupWebhook_yad env = su_Webhook env ''v1alpha1'' ''YurtAppDaemon'' True"

definition SetupWebhook_yas :: "'w su_env \<Rightarrow> ('w, unit) io" where
  "SetupWebhook_yas env = su_Webhook env ''v1alpha1'' ''YurtAppSet'' True"

definition SetupWebhook_yi :: "'w su_env \<Rightarrow> ('w, unit) io" where
  "SetupWebhook_yi env = su_Webhook env ''v1alpha1'' ''YurtIngress'' True"

definition Wrapf :: "('w, unit) io \<Rightarrow> string \<Rightarrow> ('w, unit) io" where
  "Wrapf m text =
     andThen (attempt m) (\<lambda>r. case r of
       Inl e \<Rightarrow> fail (PlainErr (text @ '': '' @ error_text e)) | Inr _ \<Rightarrow> ret ())"

definition SetupWebhooks :: "'w su_env \<Rightarrow> ('w, unit) io" where
  "SetupWebhooks env =
     andThen (Wrapf (SetupWebhook_np env) ''unable to create webhook for NodePool'') (\<lambda>_.
     andThen (Wrapf (SetupWebhook_np_v1beta1 env) ''unable to create webhook for v1beta1 NodePool'') (\<lambda>_.
     andThen (Wrapf (SetupWebhook_ud env) ''unable to create webhook for UnitedDeployment'') (\<lambda>_.
     andThen (Wrapf (SetupWebhook_yad env) ''unable to create webhook for YurtAppDaemon'') (\<lambda>_.
     andThen (Wrapf (SetupWebhook_yas env) ''unable to create webhook for YurtAppSet'') (\<lambda>_.
     Wrapf (SetupWebhook_yi env) ''unable to create webhook for YurtIngress'')))))"

subsection \<open>Field indexes\<close>

text \<open>The functions that compute the keys; \<open>None\<close> is an object of another type.\<close>

definition podNodeNameKeys :: "string option \<Rightarrow> string list" where
  "podNodeNameKeys nodeName =
     (case nodeName of None \<Rightarrow> [] | Some name \<Rightarrow> (if length name = 0 then [] else [name]))"

definition ownerIndexFunc :: "object_meta option \<Rightarrow> string list" where
  "ownerIndexFunc obj = (case obj of None \<Rightarrow> [] | Some m \<Rightarrow> map or_uid (items (m_owners m)))"

text \<open>\<open>registerOnce\<close> stands beside the world; a call after the first does nothing and returns nil,
  whatever the first one returned.\<close>

definition RegisterFieldIndexes :: "'w su_env \<Rightarrow> ('w \<times> bool, unit) io" where
  "RegisterFieldIndexes env s =
     (if snd s then (Ret (), s)
      else (case andThen (su_IndexField env ''Pod'' ''spec.nodeName'') (\<lambda>_.
               andThen (su_IndexField env ''Pod'' ''ownerRefUID'') (\<lambda>_.
               su_IndexField env ''PersistentVolumeClaim'' ''ownerRefUID'')) (fst s) of
          (r, w) \<Rightarrow> (r, (w, True))))"

definition registerIndexes :: "'w su_env \<Rightarrow> ('w, unit) io" where
  "registerIndexes env w = (case RegisterFieldIndexes env (w, False) of (r, s) \<Rightarrow> (r, fst s))"

subsection \<open>\<open>Run\<close>\<close>

definition NewYurtAppOptions :: yurt_app_options where
  "NewYurtAppOptions = \<lparr>op_MetricsAddr = '':8080'', op_PprofAddr = '':8090'', op_HealthProbeAddr = '':8000'',
     op_EnableLeaderElection = True, op_EnablePprof = False, op_LeaderElectionNamespace = ''kube-system'',
     op_Namespace = [], op_CreateDefaultPool = False, op_Version = False\<rparr>"

definition ValidateOptions :: "yurt_app_options \<Rightarrow> go_error option" where
  "ValidateOptions options = None"

definition genOptCtx :: "bool \<Rightarrow> bool option" where
  "genOptCtx createDefaultPool = Some createDefaultPool"

definition setRestConfig :: "'w su_env \<Rightarrow> int \<Rightarrow> int \<Rightarrow> rest_config \<Rightarrow> rest_config" where
  "setRestConfig env qps burst c =
     (let c1 = (if qps > 0 then c\<lparr>rc_QPS := su_float32 env qps\<rparr> else c)
      in if burst > 0 then c1\<lparr>rc_Burst := burst\<rparr> else c1)"

definition registerHealthChecks :: "'w su_env \<Rightarrow> ('w, unit) io" where
  "registerHealthChecks env =
     andThen (su_AddReadyzCheck env ''ping'') (\<lambda>_. su_AddHealthzCheck env ''ping'')"

text \<open>The configuration that gets the limits of the command line is not the one the manager is
  made with: \<open>GetConfigOrDie\<close> is called again.\<close>

definition Run :: "'w su_env \<Rightarrow> int \<Rightarrow> int \<Rightarrow> yurt_app_options \<Rightarrow> ('w, unit) io" where
  "Run env qps burst opts =
     andThen (su_GetConfig env) (\<lambda>cfg. let cfg' = setRestConfig env qps burst cfg in
     andThen (su_GetConfig env) (\<lambda>fresh.
     andThen (su_NewManager env fresh opts) (\<lambda>_.
     andThen (registerHealthChecks env) (\<lambda>_.
     andThen (registerIndexes env) (\<lambda>_.
     andThen (su_NewRegistry env) (\<lambda>_.
     andThen (SetupWithManager env (genOptCtx (op_CreateDefaultPool opts))) (\<lambda>_.
     andThen (SetupWebhooks env) (\<lambda>_.
     su_Start env))))))))"

subsection \<open>The environment of the webhook server\<close>

definition getenvOr :: "'w su_env \<Rightarrow> string \<Rightarrow> string \<Rightarrow> string" where
  "getenvOr env key fallback = (let v = su_Getenv env key in if length v > 0 then v else fallback)"

definition GetHost :: "'w su_env \<Rightarrow> string" where
  "GetHost env = su_Getenv env ''WEBHOOK_HOST''"

definition GetNamespace :: "'w su_env \<Rightarrow> string" where
  "GetNamespace env = getenvOr env ''POD_NAMESPACE'' ''kube-system''"

definition GetSecretName :: "'w su_env \<Rightarrow> string" where
  "GetSecretName env = getenvOr env ''SECRET_NAME'' ''yurt-app-webhook-certs''"

definition GetServiceName :: "'w su_env \<Rightarrow> string" where
  "GetServiceName env = getenvOr env ''SERVICE_NAME'' ''yurt-app-webhook-service''"

definition GetCertDir :: "'w su_env \<Rightarrow> string" where
  "GetCertDir env = getenvOr env ''WEBHOOK_CERT_DIR'' ''/tmp/yurt-app-webhook-certs''"

definition GetMutatingWebhookConfigurationName :: "'w su_env \<Rightarrow> string" where
  "GetMutatingWebhookConfigurationName env =
     getenvOr env ''MUTATING_WEBHOOK_CONFIGURATION_NAME'' ''yurt-app-mutating-webhook-configuration''"

definition GetValidatingWebhookConfigurationName :: "'w su_env \<Rightarrow> string" where
  "GetValidatingWebhookConfigurationName env =
     getenvOr env ''VALIDATING_WEBHOOK_CONFIGURATION_NAME'' ''yurt-app-validating-webhook-configuration''"

text \<open>\<open>strconv.ParseInt(s, 10, 32)\<close> with a sign; the port is not looked at further.\<close>

definition ParseInt32_signed :: "string \<Rightarrow> int option" where
  "ParseInt32_signed s =
     (let neg = (s \<noteq> [] \<and> hd s = CHR ''-'');
          digits = (if s \<noteq> [] \<and> (hd s = CHR ''-'' \<or> hd s = CHR ''+'') then tl s else s)
      in if digits = [] \<or> \<not> list_all isDigit digits then None
         else if neg then (if digitsValue digits \<le> 2147483648 then Some (- digitsValue digits) else None)
         else if digitsValue digits < 2147483648 then Some (digitsValue digits) else None)"

definition GetPort :: "'w su_env \<Rightarrow> int outcome" where
  "GetPort env =
     (let p = su_Getenv env ''WEBHOOK_PORT'' in
      if length p > 0
      then (case ParseInt32_signed p of
              Some i \<Rightarrow> Ret i
            | None \<Rightarrow> Err (PlainErr (''failed to convert WEBHOOK_PORT='' @ p @ '' in env'')))
      else Ret 9876)"

lemma GetPort_decimal:
  assumes "su_Getenv env ''WEBHOOK_PORT'' = decimal i"
  shows "GetPort env = (if - 2147483648 \<le> i \<and> i < 2147483648 then Ret i
    else Err (PlainErr (''failed to convert WEBHOOK_PORT='' @ decimal i @ '' in env'')))"
proof -
  have "hd (decimal_nat n) \<noteq> CHR ''-''" "hd (decimal_nat n) \<noteq> CHR ''+''" for n
    using decimal_nat_digits [of n] decimal_nat_not_nil [of n]
    by (cases "decimal_nat n"; auto simp: isDigit_def)+
  then have "ParseInt32_signed (decimal i) = (if - 2147483648 \<le> i \<and> i < 2147483648 then Some i else None)"
    using decimal_nat_digits decimal_nat_not_nil
    by (auto simp: ParseInt32_signed_def decimal_def Let_def digitsValue_decimal)
  moreover have "length (decimal i) > 0"
    using decimal_nat_not_nil by (simp add: decimal_def)
  ultimately show ?thesis using assms by (simp add: GetPort_def)
qed

subsection \<open>What the gate lets through\<close>

lemma splitAt_not_nil [simp]: "splitAt sep s \<noteq> []"
  by (induction s) (auto split: list.split)

lemma splitAt_none: "sep \<notin> set s \<Longrightarrow> splitAt sep s = [s]"
  by (induction s) auto

lemma splitAt_append: "sep \<notin> set s \<Longrightarrow> splitAt sep (s @ sep # t) = s # splitAt sep t"
  by (induction s) auto

lemma splitAt_joinWith:
  "xs \<noteq> [] \<Longrightarrow> \<forall>x \<in> set xs. sep \<notin> set x \<Longrightarrow> splitAt sep (joinWith [sep] xs) = xs"
  by (induction "[sep]" xs rule: joinWith.induct) (auto simp: splitAt_none splitAt_append)

lemma TrimSpace_id: "s \<noteq> [] \<Longrightarrow> \<not> isSpace (hd s) \<Longrightarrow> \<not> isSpace (last s) \<Longrightarrow> TrimSpace s = s"
  by (simp add: TrimSpace_def dropWhile_eq_self_iff [THEN iffD2] hd_rev)

text \<open>The texts that can stand in the list of kinds as they are\<close>

definition plain_kind :: "string \<Rightarrow> bool" where
  "plain_kind k \<longleftrightarrow> k \<noteq> [] \<and> CHR '','' \<notin> set k \<and> list_all (\<lambda>c. \<not> isSpace c) k"

lemma joinWith_ends:
  "xs \<noteq> [] \<Longrightarrow> \<forall>x \<in> set xs. x \<noteq> [] \<Longrightarrow>
   joinWith sep xs \<noteq> [] \<and> hd (joinWith sep xs) = hd (hd xs) \<and> last (joinWith sep xs) = last (last xs)"
proof (induction sep xs rule: joinWith.induct)
  case (3 sep x y xs)
  then have "joinWith sep (y # xs) \<noteq> []" "last (joinWith sep (y # xs)) = last (last (y # xs))" by simp_all
  with "3.prems" show ?case by (simp add: hd_append last_append)
qed simp_all

lemma envEnabled_list:
  assumes "su_Getenv env ''CUSTOM_RESOURCE_ENABLE'' = joinWith '','' kinds"
    and "kinds \<noteq> []" and "list_all plain_kind kinds"
  shows "envEnabled env kind \<longleftrightarrow> kind \<in> set kinds"
proof -
  have k: "\<forall>x \<in> set kinds. x \<noteq> []" "\<forall>x \<in> set kinds. CHR '','' \<notin> set x"
    "\<And>x c. x \<in> set kinds \<Longrightarrow> c \<in> set x \<Longrightarrow> \<not> isSpace c"
    using assms(3) by (auto simp: list_all_iff plain_kind_def)
  note ends = joinWith_ends [OF assms(2) k(1), of "'',''"]
  have "hd kinds \<in> set kinds" "last kinds \<in> set kinds" using assms(2) by simp_all
  then have "\<not> isSpace (hd (hd kinds))" "\<not> isSpace (last (last kinds))"
    using k by (metis hd_in_set last_in_set)+
  with ends have "TrimSpace (joinWith '','' kinds) = joinWith '','' kinds" by (simp add: TrimSpace_id)
  then show ?thesis
    using ends splitAt_joinWith [OF assms(2) k(2)] assms(1) by (simp add: envEnabled_def)
qed

text \<open>\<open>retry.OnError\<close> runs the function again only after an error it is told to retry.\<close>

definition retry_ok :: "((go_error \<Rightarrow> bool) \<Rightarrow> ('w, string list) io \<Rightarrow> ('w, string list) io) \<Rightarrow> bool" where
  "retry_ok onError \<longleftrightarrow>
     (\<forall>retriable f w. (case fst (f w) of Err e \<Rightarrow> \<not> retriable e | _ \<Rightarrow> True) \<longrightarrow> onError retriable f w = f w)"

text \<open>C23: with a server that answers and a list of kinds in the environment, the gate lets a resource
  through exactly if the server has its kind and the list names it; a group the server does not
  know is closed, and an object the scheme does not know is.\<close>

theorem ResourceEnabled_iff:
  assumes "retry_ok (su_OnError env)" and "su_GVKForObject env obj = Inr (gv, kind)"
    and "su_discoveryClient env = Some serverResources"
    and "serverResources gv w = (Ret served, w') \<or>
      serverResources gv w = (Err (StatusErr NotFound msg), w') \<and> served = []"
    and "su_Getenv env ''CUSTOM_RESOURCE_ENABLE'' = joinWith '','' kinds"
    and "list_all plain_kind kinds"
  shows "ResourceEnabled env obj w = (Ret (kind \<in> set served \<and> (kinds = [] \<or> kind \<in> set kinds)), w')"
proof -
  have "su_OnError env (\<lambda>e. \<not> isNotFound e) (serverResources gv) w = serverResources gv w"
    using assms(1,4) by (auto simp: retry_ok_def)
  moreover have "envEnabled env kind \<longleftrightarrow> kinds = [] \<or> kind \<in> set kinds"
  proof (cases "kinds = []")
    case True
    with assms(5) show ?thesis by (simp add: envEnabled_def TrimSpace_def)
  next
    case False
    with envEnabled_list [OF assms(5) _ assms(6)] show ?thesis by simp
  qed
  ultimately show ?thesis
    using assms(2-4)
    by (auto simp: ResourceEnabled_def discoveryEnabled_def andThen_def attempt_def ret_def)
qed

text \<open>A blank after a comma is not trimmed: the kind after it is not enabled.\<close>

lemma envEnabled_blank:
  assumes "su_Getenv env ''CUSTOM_RESOURCE_ENABLE'' = ''NodePool, YurtAppSet''"
  shows "\<not> envEnabled env ''YurtAppSet''"
proof -
  have trim: "TrimSpace ''NodePool, YurtAppSet'' = ''NodePool, YurtAppSet''"
    by (rule TrimSpace_id) code_simp+
  have listed: "(''YurtAppSet'' \<in> set (splitAt (CHR '','') ''NodePool, YurtAppSet'')) = False" by code_simp
  have given: "(length ''NodePool, YurtAppSet'' = 0) = False" by code_simp
  show ?thesis
    unfolding envEnabled_def assms trim Let_def by (simp only: given listed if_False not_False_eq_True)
qed

subsection \<open>The order of the start-up\<close>

datatype setup_step =
  ManagerStep yurt_app_options
| ReadyStep string
| HealthStep string
| IndexStep string string
| RegistryStep
| ControllerStep string
| WatchStep string watch
| DefaultPoolsStep
| WebhookStep string string bool
| StartStep

text \<open>A view of the world records every call of controller-runtime, and the answers of the gate do not
  change during the start-up.\<close>

definition traced_setup :: "'w su_env \<Rightarrow> ('w \<Rightarrow> setup_step list) \<Rightarrow> (string \<Rightarrow> bool) \<Rightarrow> bool" where
  "traced_setup env tr enabled \<longleftrightarrow>
     (\<forall>w. tr (snd (su_GetConfig env w)) = tr w) \<and>
     (\<forall>c opts w. tr (snd (su_NewManager env c opts w)) = tr w @ [ManagerStep opts]) \<and>
     (\<forall>n w. tr (snd (su_AddReadyzCheck env n w)) = tr w @ [ReadyStep n]) \<and>
     (\<forall>n w. tr (snd (su_AddHealthzCheck env n w)) = tr w @ [HealthStep n]) \<and>
     (\<forall>k f w. tr (snd (su_IndexField env k f w)) = tr w @ [IndexStep k f]) \<and>
     (\<forall>w. tr (snd (su_NewRegistry env w)) = tr w @ [RegistryStep]) \<and>
     (\<forall>n c w. tr (snd (su_NewController env n c w)) = tr w @ [ControllerStep n]) \<and>
     (\<forall>n x w. tr (snd (su_Watch env n x w)) = tr w @ [WatchStep n x]) \<and>
     (\<forall>w. tr (snd (su_GoDefaultNodePools env w)) = tr w @ [DefaultPoolsStep]) \<and>
     (\<forall>v k h w. tr (snd (su_Webhook env v k h w)) = tr w @ [WebhookStep v k h]) \<and>
     (\<forall>w. tr (snd (su_Start env w)) = tr w @ [StartStep]) \<and>
     (\<forall>kind w. fst (ResourceEnabled env kind w) = Ret (enabled kind) \<and>
        tr (snd (ResourceEnabled env kind w)) = tr w)"

definition controllerSteps :: "string \<Rightarrow> watch list \<Rightarrow> setup_step list" where
  "controllerSteps n watches = ControllerStep n # map (WatchStep n) watches"

text \<open>The controllers with what each registers\<close>

definition plan :: "bool \<Rightarrow> (string \<times> setup_step list) list" where
  "plan createDefaultPool = [
     (''UnitedDeployment'', controllerSteps ''uniteddeployment-controller''
        [ForObject ''UnitedDeployment'', ForOwner ''StatefulSet'' ''UnitedDeployment'',
         ForOwner ''Deployment'' ''UnitedDeployment'']),
     (''YurtAppSet'', controllerSteps ''yurtappset-controller''
        [ForObject ''YurtAppSet'', ForOwner ''StatefulSet'' ''YurtAppSet'', ForOwner ''Deployment'' ''YurtAppSet'']),
     (''NodePool'', controllerSteps ''nodepool-controller''
        [ForObject ''NodePool'', ForHandler ''Node'' ''EnqueueNodePoolForNode'']
        @ (if createDefaultPool then [DefaultPoolsStep] else [])),
     (''YurtAppDaemon'', controllerSteps ''yurtappdaemon-controller''
        [ForObject ''YurtAppDaemon'', ForHandler ''NodePool'' ''EnqueueYurtAppDaemonForNodePool'']),
     (''YurtIngress'', controllerSteps ''yurtingress-controller''
        [ForObject ''YurtIngress'', ForOwner ''Deployment'' ''YurtIngress''])]"

text \<open>What is registered of one: nothing behind a closed gate, and of an open one all, or what comes
  before the first call that fails because its CRD is not installed.\<close>

definition registered :: "'w su_env \<Rightarrow> (string \<Rightarrow> bool) \<Rightarrow> string \<times> setup_step list \<Rightarrow> setup_step list \<Rightarrow> bool" where
  "registered env enabled p part \<longleftrightarrow>
     (if enabled (fst p)
      then part = snd p \<or> (\<exists>e. su_isNoKindMatch env e) \<and> (\<exists>n. part = take n (snd p))
      else part = [])"

definition controllers_log :: "'w su_env \<Rightarrow> (string \<Rightarrow> bool) \<Rightarrow> bool \<Rightarrow> setup_step list \<Rightarrow> bool" where
  "controllers_log env enabled cdp ss \<longleftrightarrow>
     (\<exists>parts. ss = concat parts \<and> list_all2 (registered env enabled) (plan cdp) parts)"

definition firstSteps :: "yurt_app_options \<Rightarrow> setup_step list" where
  "firstSteps opts = [ManagerStep opts, ReadyStep ''ping'', HealthStep ''ping'',
     IndexStep ''Pod'' ''spec.nodeName'', IndexStep ''Pod'' ''ownerRefUID'',
     IndexStep ''PersistentVolumeClaim'' ''ownerRefUID'', RegistryStep]"

definition webhookSteps :: "setup_step list" where
  "webhookSteps = [WebhookStep ''v1alpha1'' ''NodePool'' True, WebhookStep ''v1beta1'' ''NodePool'' False,
     WebhookStep ''v1alpha1'' ''UnitedDeployment'' True, WebhookStep ''v1alpha1'' ''YurtAppDaemon'' True,
     WebhookStep ''v1alpha1'' ''YurtAppSet'' True, WebhookStep ''v1alpha1'' ''YurtIngress'' True]"

lemma traced_calls:
  assumes "traced_setup env tr enabled"
  shows
  "records tr ((=) []) (su_GetConfig env)" "records tr ((=) [ManagerStep opts]) (su_NewManager env c opts)"
  "records tr ((=) [ReadyStep n]) (su_AddReadyzCheck env n)"
  "records tr ((=) [HealthStep n]) (su_AddHealthzCheck env n)"
  "records tr ((=) [IndexStep k f]) (su_IndexField env k f)" "records tr ((=) [RegistryStep]) (su_NewRegistry env)"
  "records tr ((=) [ControllerStep n]) (su_NewController env n workers)"
  "records tr ((=) [WatchStep n x]) (su_Watch env n x)"
  "records tr ((=) [DefaultPoolsStep]) (su_GoDefaultNodePools env)"
  "records tr ((=) [WebhookStep v k h]) (su_Webhook env v k h)" "records tr ((=) [StartStep]) (su_Start env)"
  using assms by (simp_all add: traced_setup_def records_call records_nothing)

lemma records_addController:
  assumes "traced_setup env tr enabled"
  shows "records tr ((=) (controllerSteps n watches)) (addController env n watches)"
proof -
  note calls = traced_calls [OF assms]
  have "records tr ((=) (concat (map (\<lambda>x. [WatchStep n x]) watches))) (forEach (su_Watch env n) watches)"
    by (rule records_forEach [OF calls(8)])
  moreover have "concat (map (\<lambda>x. [WatchStep n x]) watches) = map (WatchStep n) watches"
    by (induction watches) simp_all
  ultimately show ?thesis
    using records_andThen [OF calls(7)] by (fastforce simp: addController_def controllerSteps_def)
qed

lemma records_gated:
  assumes "traced_setup env tr enabled" and "records tr ((=) steps) m"
  shows "records tr ((=) (if enabled kind then steps else []))
    (andThen (ResourceEnabled env kind) (\<lambda>on. if \<not> on then ret () else m))"
proof (rule recordsI)
  fix w r w' assume run: "andThen (ResourceEnabled env kind) (\<lambda>on. if \<not> on then ret () else m) w = (r, w')"
  define u where "u = snd (ResourceEnabled env kind w)"
  have "fst (ResourceEnabled env kind w) = Ret (enabled kind)" "tr (snd (ResourceEnabled env kind w)) = tr w"
    using assms(1) by (simp_all add: traced_setup_def)
  then have u: "ResourceEnabled env kind w = (Ret (enabled kind), u)" "tr u = tr w"
    by (simp_all add: u_def prod_eq_iff)
  show "\<exists>ss n. (if enabled kind then steps else []) = ss \<and> tr w' = tr w @ take n ss \<and>
      ((\<exists>x. r = Ret x) \<longrightarrow> n = length ss)"
  proof (cases "enabled kind")
    case True
    with run u have "m u = (r, w')" by (simp add: andThen_def)
    with assms(2) obtain ss n where "steps = ss" "tr w' = tr u @ take n ss" "\<And>x. r = Ret x \<Longrightarrow> n = length ss"
      by (rule recordsE) blast
    with True u(2) show ?thesis by auto
  qed (use run u in \<open>simp add: andThen_def ret_def\<close>)
qed

text \<open>One round of \<open>SetupWithManager\<close>\<close>

lemma records_round:
  fixes m :: "('w, unit) io"
  assumes "records tr ((=) (if enabled kind then steps else [])) m"
  shows "records tr (registered env enabled (kind, steps))
    (andThen (attempt m) (\<lambda>r. case r of
         Inl e \<Rightarrow> (if su_isNoKindMatch env e then ret () else fail e) | Inr _ \<Rightarrow> ret ()))"
proof (cases "\<exists>e. su_isNoKindMatch env e")
  case True
  let ?k = "\<lambda>r :: go_error + unit. case r of
      Inl e \<Rightarrow> (if su_isNoKindMatch env e then ret () else fail e) | Inr _ \<Rightarrow> ret ()"
  have "records tr ((=) []) (?k r)" for r
    by (auto simp: records_basic split: sum.split)
  from records_caught [where k = ?k, OF assms this] True show ?thesis
    by (elim records_weaken) (auto simp: registered_def)
next
  case False
  then have "(\<lambda>r :: go_error + unit. case r of
        Inl e \<Rightarrow> (if su_isNoKindMatch env e then ret () else fail e) | Inr _ \<Rightarrow> ret ()) =
      (\<lambda>r. case r of Inl e \<Rightarrow> (fail e :: ('w, unit) io) | Inr _ \<Rightarrow> ret ())"
    by (intro ext) (simp split: sum.split)
  then show ?thesis
    using records_rethrow [OF assms, of "\<lambda>e. e" "\<lambda>_. ()"]
    by (simp only:) (erule records_weaken, auto simp: registered_def)
qed

lemma records_SetupWithManager:
  assumes "traced_setup env tr enabled"
  shows "records tr (controllers_log env enabled cdp) (SetupWithManager env (genOptCtx cdp))"
proof -
  note add = records_gated [OF assms records_addController [OF assms]]
  note calls = traced_calls [OF assms]
  have pools: "records tr ((=) (if cdp then [DefaultPoolsStep] else []))
      (if cdp then su_GoDefaultNodePools env else ret ())"
    by (simp add: calls(9) records_basic(1))
  have np: "records tr ((=) (controllerSteps n watches @ (if cdp then [DefaultPoolsStep] else [])))
      (andThen (addController env n watches) (\<lambda>_. if cdp then su_GoDefaultNodePools env else ret ()))" for n watches
    using records_andThen [OF records_addController [OF assms] pools] by simp
  let ?round = "\<lambda>f. andThen (attempt (f env (Some cdp))) (\<lambda>r. case r of
       Inl e \<Rightarrow> (if su_isNoKindMatch env e then ret () else fail e) | Inr _ \<Rightarrow> ret ())"
  have "list_all2 (\<lambda>p f. records tr (registered env enabled p) (?round f)) (plan cdp) controllerAddFuncs"
    unfolding controllerAddFuncs_def plan_def Add_ud_def add_ud_def Add_yas_def add_yas_def Add_np_def
      add_np_def Add_yad_def add_yad_def Add_yi_def add_yi_def option.case list_all2_Cons list_all2_Nil
    by (intro conjI refl records_round [OF add] records_round [OF records_gated [OF assms np]])
  then show ?thesis
    unfolding SetupWithManager_def genOptCtx_def controllers_log_def [abs_def]
    by (rule records_forEach_rounds)
qed

lemma records_Wrapf: "records tr S m \<Longrightarrow> records tr S (Wrapf m text)"
  unfolding Wrapf_def by (rule records_rethrow)

lemma records_SetupWebhooks:
  assumes "traced_setup env tr enabled"
  shows "records tr ((=) webhookSteps) (SetupWebhooks env)"
proof -
  note hook = records_Wrapf [OF traced_calls(10) [OF assms]]
  show ?thesis
    unfolding SetupWebhooks_def SetupWebhook_np_def SetupWebhook_np_v1beta1_def SetupWebhook_ud_def
      SetupWebhook_yad_def SetupWebhook_yas_def SetupWebhook_yi_def
    by (rule records_weaken, (rule records_andThen hook)+) (simp add: webhookSteps_def)
qed

lemma registerIndexes_eq: "registerIndexes env =
    andThen (su_IndexField env ''Pod'' ''spec.nodeName'') (\<lambda>_.
    andThen (su_IndexField env ''Pod'' ''ownerRefUID'') (\<lambda>_.
    su_IndexField env ''PersistentVolumeClaim'' ''ownerRefUID''))"
  by (intro ext) (simp add: registerIndexes_def RegisterFieldIndexes_def split: prod.split)

text \<open>C18: the start-up makes its calls in one order and stops at the first that fails: the manager,
  the checks, the indexes, the registry, the controllers behind an open gate, the six webhooks and
  last the start of the manager. So a manager that is started has all webhooks and every
  controller that is enabled, up to CRDs that are not installed.\<close>

theorem Run_order:
  assumes "traced_setup env tr enabled" and "Run env qps burst opts w = (r, w')"
  shows "\<exists>cs n. controllers_log env enabled (op_CreateDefaultPool opts) cs \<and>
    (let steps = firstSteps opts @ cs @ webhookSteps @ [StartStep] in
     tr w' = tr w @ take n steps \<and> (r = Ret () \<longrightarrow> n = length steps))"
proof -
  note calls = traced_calls [OF assms(1)]
  let ?S = "controllers_log env enabled (op_CreateDefaultPool opts)"
  have "records tr (followed ((=) []) (followed ((=) []) (followed ((=) [ManagerStep opts])
      (followed (followed ((=) [ReadyStep ''ping'']) ((=) [HealthStep ''ping'']))
      (followed (followed ((=) [IndexStep ''Pod'' ''spec.nodeName'']) (followed ((=) [IndexStep ''Pod'' ''ownerRefUID''])
        ((=) [IndexStep ''PersistentVolumeClaim'' ''ownerRefUID''])))
      (followed ((=) [RegistryStep]) (followed ?S (followed ((=) webhookSteps) ((=) [StartStep]))))))))) (Run env qps burst opts)"
    unfolding Run_def Let_def registerHealthChecks_def registerIndexes_eq
    by (intro records_andThen calls records_SetupWithManager [OF assms(1)] records_SetupWebhooks [OF assms(1)])
  then have "records tr (\<lambda>ss. \<exists>cs. ?S cs \<and> ss = firstSteps opts @ cs @ webhookSteps @ [StartStep])
      (Run env qps burst opts)"
    by (rule records_weaken) (auto simp: followed_def firstSteps_def)
  from this assms(2) obtain ss n where "\<exists>cs. ?S cs \<and> ss = firstSteps opts @ cs @ webhookSteps @ [StartStep]"
    "tr w' = tr w @ take n ss" "\<And>x. r = Ret x \<Longrightarrow> n = length ss"
    by (rule recordsE) blast
  then show ?thesis
    unfolding Let_def by blast
qed

text \<open>The limits of the command line reach no manager.\<close>

lemma Run_ignores_limits: "Run env qps burst opts = Run env qps' burst' opts"
  by (simp add: Run_def)

end
