(* ===== verification/Startup_Examples.thy ===== *)
theory Startup_Examples
  imports Startup
begin

section \<open>Start-up: a concrete process\<close>

text \<open>
  A cluster that serves four of the kinds, a process that is told to enable two of them, and a
  manager that records what is registered with it.
\<close>

definition demo_su :: "setup_step list su_env" where
  "demo_su = \<lparr>
     su_Getenv = (\<lambda>key. if key = ''CUSTOM_RESOURCE_ENABLE'' then ''NodePool,YurtAppSet''
       else if key = ''WEBHOOK_PORT'' then ''9443'' else []),
     su_GVKForObject = (\<lambda>kind. Inr (''apps.openyurt.io/v1alpha1'', kind)),
     su_discoveryClient = Some (\<lambda>gv w.
       (Ret [''NodePool'', ''YurtAppSet'', ''YurtAppDaemon'', ''UnitedDeployment''], w)),
     su_OnError = (\<lambda>retriable f w. case f w of
       (Err e, w') \<Rightarrow> (if retriable e then f w' else (Err e, w')) | answer \<Rightarrow> answer),
     su_NewController = (\<lambda>n c w. (Ret (), w @ [ControllerStep n])),
     su_Watch = (\<lambda>n x w. (Ret (), w @ [WatchStep n x])),
     su_GoDefaultNodePools = (\<lambda>w. (Ret (), w @ [DefaultPoolsStep])),
     su_isNoKindMatch = (\<lambda>e. False),
     su_Webhook = (\<lambda>v k h w. (Ret (), w @ [WebhookStep v k h])),
     su_GetConfig = (\<lambda>w. (Ret \<lparr>rc_QPS = 20, rc_Burst = 30\<rparr>, w)),
     su_float32 = (\<lambda>n. n),
     su_NewManager = (\<lambda>c opts w. (Ret (), w @ [ManagerStep opts])),
     su_AddReadyzCheck = (\<lambda>n w. (Ret (), w @ [ReadyStep n])),
     su_AddHealthzCheck = (\<lambda>n w. (Ret (), w @ [HealthStep n])),
     su_IndexField = (\<lambda>k f w. (Ret (), w @ [IndexStep k f])),
     su_NewRegistry = (\<lambda>w. (Ret (), w @ [RegistryStep])),
     su_Start = (\<lambda>w. (Ret (), w @ [StartStep]))\<rparr>"

abbreviation demo_served :: "string list" where
  "demo_served \<equiv> [''NodePool'', ''YurtAppSet'', ''YurtAppDaemon'', ''UnitedDeployment'']"

lemma demo_kinds:
  "su_Getenv demo_su ''CUSTOM_RESOURCE_ENABLE'' = joinWith '','' [''NodePool'', ''YurtAppSet'']"
  "list_all plain_kind [''NodePool'', ''YurtAppSet'']"
  by (simp_all add: demo_su_def plain_kind_def isSpace_def)

lemma demo_gvk: "su_GVKForObject demo_su kind = Inr (''apps.openyurt.io/v1alpha1'', kind)"
  by (simp add: demo_su_def)

lemma demo_client: "su_discoveryClient demo_su = Some (\<lambda>gv w. (Ret demo_served, w))"
  by (simp add: demo_su_def)

lemma demo_retry: "su_OnError demo_su retriable (\<lambda>w. (Ret kinds, w)) w = (Ret kinds, w)"
  by (simp add: demo_su_def)

lemma demo_gate: "ResourceEnabled demo_su kind w =
    (Ret (kind \<in> set demo_served \<and> kind \<in> set [''NodePool'', ''YurtAppSet'']), w)"
proof -
  have "envEnabled demo_su kind \<longleftrightarrow> kind \<in> set [''NodePool'', ''YurtAppSet'']"
    by (rule envEnabled_list [OF demo_kinds(1) _ demo_kinds(2)]) simp
  then show ?thesis
    unfolding ResourceEnabled_def discoveryEnabled_def demo_gvk demo_client sum.case option.case
    by (simp add: demo_retry andThen_def attempt_def ret_def)
qed

theorem ResourceEnabled_iff_witness:
  "ResourceEnabled demo_su ''YurtAppSet'' [] = (Ret True, []) \<and>
   ResourceEnabled demo_su ''YurtAppDaemon'' [] = (Ret False, []) \<and>
   ResourceEnabled demo_su ''YurtIngress'' [] = (Ret False, [])"
proof -
  have retry: "retry_ok (su_OnError demo_su)"
    by (auto simp: retry_ok_def demo_su_def split: prod.splits outcome.splits)
  have "ResourceEnabled demo_su kind [] =
      (Ret (kind \<in> set demo_served \<and> ([''NodePool'', ''YurtAppSet''] = [] \<or> kind \<in> set [''NodePool'', ''YurtAppSet''])), [])"
    for kind
    by (rule ResourceEnabled_iff [OF retry demo_gvk demo_client _ demo_kinds]) simp
  then show ?thesis by simp
qed

theorem Run_order_witness:
  "\<exists>cs n. controllers_log demo_su (\<lambda>kind. kind \<in> set demo_served \<and> kind \<in> set [''NodePool'', ''YurtAppSet''])
      True cs \<and>
    snd (Run demo_su 30 50 (NewYurtAppOptions\<lparr>op_CreateDefaultPool := True\<rparr>) []) =
      take n (firstSteps (NewYurtAppOptions\<lparr>op_CreateDefaultPool := True\<rparr>) @ cs @ webhookSteps @ [StartStep]) \<and>
    length (snd (Run demo_su 30 50 (NewYurtAppOptions\<lparr>op_CreateDefaultPool := True\<rparr>) [])) = 22"
proof -
  let ?opts = "NewYurtAppOptions\<lparr>op_CreateDefaultPool := True\<rparr>"
  have gate: "fst (ResourceEnabled demo_su kind w) =
        Ret (kind \<in> set demo_served \<and> kind \<in> set [''NodePool'', ''YurtAppSet''])"
      "snd (ResourceEnabled demo_su kind w) = w" for kind w
    by (simp_all only: demo_gate fst_conv snd_conv)
  have "traced_setup demo_su (\<lambda>w. w) (\<lambda>kind. kind \<in> set demo_served \<and> kind \<in> set [''NodePool'', ''YurtAppSet''])"
    unfolding traced_setup_def gate by (simp add: demo_su_def)
  from Run_order [OF this, of 30 50 ?opts "[]" "fst (Run demo_su 30 50 ?opts [])" "snd (Run demo_su 30 50 ?opts [])"]
  have "\<exists>cs n. controllers_log demo_su (\<lambda>kind. kind \<in> set demo_served \<and> kind \<in> set [''NodePool'', ''YurtAppSet'']) True cs \<and>
      snd (Run demo_su 30 50 ?opts []) = take n (firstSteps ?opts @ cs @ webhookSteps @ [StartStep])"
    unfolding Let_def by auto
  moreover have "length (snd (Run demo_su 30 50 ?opts [])) = 22" by code_simp
  ultimately show ?thesis by blast
qed

end
