(* ===== verification/YAS_Converge.thy ===== *)
theory YAS_Converge
  imports YAS_Controller
begin

section \<open>YurtAppSet: what a reconciliation without an error leaves behind\<close>

text \<open>
  The calls of \<open>YAS_Update\<close> and \<open>YAS_Controller\<close> seen from the server: a run of \<open>getNameToPool\<close>
  and \<open>managePools\<close> that reports no error leaves the pools settled (\<open>pools_settled\<close>), whatever
  pools there were before, and the reconciliation after it writes no workload.

  A store of pools is the interface \<open>pool_store\<close>: for each kind of workload the list of the
  pools the YurtAppSet has, and what each operation of the control does to the lists when it
  succeeds. The management of the pools is proved right for every such store; \<open>PoolControl\<close> on
  an API server that keeps what it was sent is one (\<open>object_store\<close>).
\<close>

subsection \<open>Loops that met no error\<close>

lemma forEach_invariant:
  assumes step: "\<And>D x u u'. x \<in> set xs \<Longrightarrow> x \<notin> D \<Longrightarrow> D \<subseteq> set xs \<Longrightarrow> I D u \<Longrightarrow>
      f x u = (Ret (), u') \<Longrightarrow> I (insert x D) u'"
    and run: "forEach f xs w = (Ret (), w')" and dist: "distinct xs" and init: "I {} w"
  shows "I (set xs) w'"
proof -
  have "I (D \<union> set ys) w'"
    if "forEach f ys u = (Ret (), w')" "distinct ys" "D \<union> set ys \<subseteq> set xs" "D \<inter> set ys = {}" "I D u"
    for ys u D
    using that
  proof (induction ys arbitrary: u D)
    case (Cons y ys)
    from Cons.prems(1) obtain u1 where y: "f y u = (Ret (), u1)" "forEach f ys u1 = (Ret (), w')"
      by (auto elim!: andThen_RetD)
    have "I (insert y D) u1" using Cons.prems by (intro step [OF _ _ _ _ y(1)]) auto
    then have "I (insert y D \<union> set ys) w'"
      using Cons.prems by (intro Cons.IH [OF y(2)]) auto
    then show ?case by simp
  qed (simp add: io_simps)
  from this [OF run dist, of "{}"] init show ?thesis by simp
qed

text \<open>A batch over a list of names, each of them once, that reports no error: an invariant that
  each call extends by its name holds for all names at the end.\<close>

lemma batch_invariant:
  assumes ok: "batch_ok env" and "initial > 0"
    and step: "\<And>D i u u'. i < length xs \<Longrightarrow> xs ! i \<notin> D \<Longrightarrow> I D u \<Longrightarrow>
      fn i u = (Ret (), u') \<Longrightarrow> I (insert (xs ! i) D) u'"
    and run: "SlowStartBatch (rt_sched env) (int (length xs)) initial fn w = (Ret (s, None), w')"
    and dist: "distinct xs" and init: "I {} w"
  shows "I (set xs) w'"
proof -
  have sched: "mset (rt_sched env ys) = mset ys" for ys using ok by (simp add: batch_ok_def)
  have pos: "int (length xs) \<ge> 0" by simp
  obtain n "is" es where r: "mset is = mset [0..<0 + n]" "runBatch fn is w = (Ret es, w')"
    "case (None :: go_error option) of None \<Rightarrow> es = [] \<and> n = nat (int (length xs))
      | Some e \<Rightarrow> es \<noteq> [] \<and> e = hd es"
    using SlowStartBatch_loop_run [OF sched \<open>initial > 0\<close> pos run [unfolded SlowStartBatch_def]]
    by blast
  from r(3) have es: "es = []" "n = length xs" by simp_all
  have idx: "set is = {..<length xs}"
    using arg_cong [OF r(1), of set_mset] es(2) by (simp add: atLeast0LessThan)
  have "distinct is"
    using r(1) by (metis distinct_upt mset_eq_imp_distinct_iff)
  have "I ((!) xs ` set is) w'"
  proof (rule forEach_invariant [where I = "\<lambda>D. I ((!) xs ` D)" and f = fn])
    show "forEach fn is w = (Ret (), w')" using r(2) es(1) by (simp add: runBatch_no_errors)
  next
    fix D i u u'
    assume a: "i \<in> set is" "i \<notin> D" "D \<subseteq> set is" "I ((!) xs ` D) u" "fn i u = (Ret (), u')"
    have "xs ! i \<notin> (!) xs ` D"
      using a(1-3) idx dist by (auto simp: nth_eq_iff_index_eq subset_iff)
    with step [OF _ _ a(4,5)] a(1) idx show "I ((!) xs ` insert i D) u'" by simp
  qed (use \<open>distinct is\<close> init in simp_all)
  moreover have "(!) xs ` set is = set xs"
    unfolding idx image_def set_conv_nth [of xs] by blast
  ultimately show ?thesis by simp
qed

lemma attemptAll_no_errors:
  "attemptAll f wrap xs w = (Ret [], w') \<Longrightarrow> forEach f xs w = (Ret (), w')"
  by (induction xs arbitrary: w)
    (auto simp: io_simps elim!: andThen_RetD attempt_RetD split: sum.splits)

lemma batch_phase_invariant:
  assumes ok: "batch_ok env" and init: "initial > 0"
    and step: "\<And>D i u u'. i < length xs \<Longrightarrow> xs ! i \<notin> D \<Longrightarrow> I D u \<Longrightarrow>
      fn i u = (Ret (), u') \<Longrightarrow> I (insert (xs ! i) D) u'"
    and run: "(if length xs > 0 then
        andThen (SlowStartBatch (rt_sched env) (int (length xs)) initial fn) (\<lambda>(_, err). ret err)
      else ret None) w = (Ret None, w')"
    and dist: "distinct xs" and I: "I {} w"
  shows "I (set xs) w'"
proof (cases "length xs > 0")
  case True
  with run obtain s where
    "SlowStartBatch (rt_sched env) (int (length xs)) initial fn w = (Ret (s, None), w')"
    by (auto simp: io_simps elim!: andThen_RetD split: prod.splits)
  from batch_invariant [where I = I, OF ok init step this dist I] show ?thesis .
qed (use run I in \<open>simp add: io_simps\<close>)

lemma batch_phase_event_invariant:
  assumes ok: "batch_ok env" and init: "initial > 0"
    and ev: "\<And>D a b u. I D u \<Longrightarrow> I D (rt_Event env a b u)"
    and step: "\<And>D i u u'. i < length xs \<Longrightarrow> xs ! i \<notin> D \<Longrightarrow> I D u \<Longrightarrow>
      fn i u = (Ret (), u') \<Longrightarrow> I (insert (xs ! i) D) u'"
    and run: "(if length xs > 0 then
        andThen (SlowStartBatch (rt_sched env) (int (length xs)) initial fn) (\<lambda>(n, err).
          case err of
            None \<Rightarrow> andThen (event env reason (msg n)) (\<lambda>_. ret [])
          | Some e \<Rightarrow> ret [e])
      else ret []) w = (Ret ([] :: go_error list), w')"
    and dist: "distinct xs" and I: "I {} w"
  shows "I (set xs) w'"
proof (cases "length xs > 0")
  case True
  with run obtain s w1 where
    b: "SlowStartBatch (rt_sched env) (int (length xs)) initial fn w = (Ret (s, None), w1)"
    and w': "w' = rt_Event env reason (msg s) w1"
    by (auto simp: io_simps event_def elim!: andThen_RetD split: prod.splits option.splits)
  from batch_invariant [where I = I, OF ok init step b dist I] ev w' show ?thesis by simp
qed (use run I in \<open>simp add: io_simps\<close>)

lemma forEach_map: "forEach f (map g xs) = forEach (f \<circ> g) xs"
  by (induction xs) simp_all

lemma deleteAll_no_errors:
  assumes "deleteAll ctl t kvs w = (Ret [], w')"
  shows "forEach (c_DeletePool ctl) (map snd kvs) w = (Ret (), w')"
proof -
  have "c_DeletePool ctl \<circ> snd = (\<lambda>(poolName :: string, pool). c_DeletePool ctl pool)"
    by (simp add: fun_eq_iff)
  with attemptAll_no_errors [OF assms [unfolded deleteAll_def]] show ?thesis
    by (simp only: forEach_map)
qed

subsection \<open>Lists of pools, by name\<close>

lemma some_eqI: "(\<And>q. a = Some q \<longleftrightarrow> b = Some q) \<Longrightarrow> a = b"
  by (cases a; cases b) auto

definition poolNamed :: "pool list \<Rightarrow> string \<Rightarrow> pool option" where
  "poolNamed pools name = find (\<lambda>p. p_name p = name) pools"

text \<open>The three changes of a list: a pool is added, replaced, removed; replacing and removing go by
  the namespace and the name of the object.\<close>

definition replacePool :: "pool \<Rightarrow> pool list \<Rightarrow> pool list" where
  "replacePool pool = map (\<lambda>q. if objectKey q = objectKey pool then pool else q)"

definition removePools :: "pool list \<Rightarrow> pool list \<Rightarrow> pool list" where
  "removePools ds = filter (\<lambda>q. objectKey q \<notin> objectKey ` set ds)"

lemma poolNamed_Some: "poolNamed pools name = Some p \<Longrightarrow> p \<in> set pools \<and> p_name p = name"
  by (auto simp: poolNamed_def find_Some_iff)

lemma poolNamed_iff:
  "distinct (map p_name pools) \<Longrightarrow> poolNamed pools name = Some p \<longleftrightarrow> p \<in> set pools \<and> p_name p = name"
  by (induction pools) (auto simp: poolNamed_def)

lemma poolNamed_None: "poolNamed pools name = None \<longleftrightarrow> name \<notin> p_name ` set pools"
  by (auto simp: poolNamed_def find_None_iff)

lemma poolNamed_add:
  "poolNamed (pools @ [pool]) name =
     (case poolNamed pools name of Some p \<Rightarrow> Some p
      | None \<Rightarrow> if p_name pool = name then Some pool else None)"
  by (induction pools) (auto simp: poolNamed_def)

lemma removePools_empty [simp]: "removePools [] pools = pools"
  by (simp add: removePools_def)

lemma removePools_append: "removePools es (removePools ds pools) = removePools (ds @ es) pools"
  by (auto simp: removePools_def image_Un intro!: filter_cong)

lemma removePools_keys:
  "distinct (map objectKey pools) \<Longrightarrow> set ds \<subseteq> set pools \<Longrightarrow>
   removePools ds pools = filter (\<lambda>q. q \<notin> set ds) pools"
  unfolding removePools_def by (rule filter_cong) (auto simp: distinct_map dest: inj_onD)

lemma removePools_names:
  assumes "distinct (map objectKey pools)" and "distinct (map p_name pools)" and "set ds \<subseteq> set pools"
  shows "distinct (map p_name (removePools ds pools))"
    and "poolNamed (removePools ds pools) name =
      (if name \<in> p_name ` set ds then None else poolNamed pools name)"
proof -
  show d: "distinct (map p_name (removePools ds pools))"
    using assms(2) by (simp add: removePools_def distinct_map_filter)
  have other: "x = y" if "x \<in> set pools" "y \<in> set pools" "p_name x = p_name y" for x y
    using that assms(2) by (auto simp: distinct_map dest: inj_onD)
  show "poolNamed (removePools ds pools) name =
      (if name \<in> p_name ` set ds then None else poolNamed pools name)"
  proof (rule some_eqI)
    fix q
    have "q \<in> set (removePools ds pools) \<longleftrightarrow> q \<in> set pools \<and> q \<notin> set ds"
      by (simp add: removePools_keys [OF assms(1,3)])
    moreover have "q \<in> set ds" if "q \<in> set pools" "p_name q \<in> p_name ` set ds"
      using that other assms(3) by (auto simp: subset_iff)
    ultimately show "poolNamed (removePools ds pools) name = Some q \<longleftrightarrow>
        (if name \<in> p_name ` set ds then None else poolNamed pools name) = Some q"
      by (auto simp: poolNamed_iff [OF d] poolNamed_iff [OF assms(2)])
  qed
qed

text \<open>A server lists the pools in any order it likes.\<close>

lemma poolNamed_perm:
  assumes "mset ps = mset qs" and "distinct (map p_name ps)"
  shows "distinct (map p_name qs)" and "poolNamed ps = poolNamed qs"
proof -
  show d: "distinct (map p_name qs)"
    using assms by (metis mset_eq_imp_distinct_iff mset_map)
  show "poolNamed ps = poolNamed qs"
    using mset_eq_setD [OF assms(1)]
    by (intro ext some_eqI) (simp add: poolNamed_iff [OF assms(2)] poolNamed_iff [OF d])
qed

lemma removePools_perm:
  "mset ps = mset qs \<Longrightarrow> mset (removePools ds ps) = mset (removePools ds qs)"
  by (simp add: removePools_def)

lemma removePools_all: "set pools \<subseteq> set ds \<Longrightarrow> removePools ds pools = []"
  by (auto simp: removePools_def filter_empty_conv)

text \<open>Without those that are not the first of their names.\<close>

lemma firsts_subset:
  assumes ds: "\<And>p. p \<in> set ds \<longleftrightarrow> p \<in> set (tl (filter (\<lambda>q. p_name q = p_name p) pools))"
  shows "set ds \<subseteq> set pools"
proof
  fix p assume "p \<in> set ds"
  with ds [of p] have "p \<in> set (filter (\<lambda>q. p_name q = p_name p) pools)"
    by (cases "filter (\<lambda>q. p_name q = p_name p) pools") auto
  then show "p \<in> set pools" by simp
qed

lemma removePools_firsts:
  assumes keys: "distinct (map objectKey pools)"
    and ds: "\<And>p. p \<in> set ds \<longleftrightarrow> p \<in> set (tl (filter (\<lambda>q. p_name q = p_name p) pools))"
  shows "distinct (map p_name (removePools ds pools))"
    and "poolNamed (removePools ds pools) name = find (\<lambda>p. p_name p = name) pools"
proof -
  let ?classified = "\<lambda>k. filter (\<lambda>q. p_name q = k) pools"
  have dist: "distinct pools" using keys by (simp add: distinct_map)
  have sub: "set ds \<subseteq> set pools" using ds by (rule firsts_subset)
  have mem: "q \<in> set (removePools ds pools) \<longleftrightarrow> find (\<lambda>p. p_name p = p_name q) pools = Some q" for q
  proof (cases "?classified (p_name q)")
    case Nil
    then have "q \<notin> set pools" by (auto simp: filter_empty_conv)
    with Nil sub show ?thesis by (simp add: removePools_keys [OF keys sub] find_filter_hd)
  next
    case (Cons h hs)
    have "distinct (h # hs)" using dist Cons by (metis distinct_filter)
    moreover have "q \<in> set pools \<longleftrightarrow> q \<in> set (h # hs)" unfolding Cons [symmetric] by simp
    moreover have "q \<in> set ds \<longleftrightarrow> q \<in> set hs" using ds [of q] Cons by simp
    ultimately show ?thesis
      using Cons by (auto simp: removePools_keys [OF keys sub] find_filter_hd)
  qed
  show d: "distinct (map p_name (removePools ds pools))"
    unfolding distinct_map
  proof (intro conjI inj_onI)
    show "distinct (removePools ds pools)" using dist by (simp add: removePools_def)
  qed (metis mem option.inject)
  show "poolNamed (removePools ds pools) name = find (\<lambda>p. p_name p = name) pools"
  proof (rule some_eqI)
    fix q
    show "poolNamed (removePools ds pools) name = Some q \<longleftrightarrow> find (\<lambda>p. p_name p = name) pools = Some q"
      unfolding poolNamed_iff [OF d] mem by (auto simp: find_Some_iff)
  qed
qed

lemma replacePool_names:
  assumes "distinct (map objectKey pools)" and "distinct (map p_name pools)"
    and "old \<in> set pools" and "objectKey pool = objectKey old" and "p_name pool = p_name old"
  shows "map p_name (replacePool pool pools) = map p_name pools"
    and "poolNamed (replacePool pool pools) = (poolNamed pools)(p_name pool \<mapsto> pool)"
proof -
  have same: "q = old" if "q \<in> set pools" "objectKey q = objectKey pool" for q
    using that assms(1,3,4) by (auto simp: distinct_map dest: inj_onD)
  show names: "map p_name (replacePool pool pools) = map p_name pools"
    using same assms(5) by (auto simp: replacePool_def)
  have d: "distinct (map p_name (replacePool pool pools))" using names assms(2) by simp
  have other: "q = old" if "q \<in> set pools" "p_name q = p_name pool" for q
    using that assms(2,3,5) by (auto simp: distinct_map dest: inj_onD)
  show "poolNamed (replacePool pool pools) = (poolNamed pools)(p_name pool \<mapsto> pool)"
  proof (intro ext some_eqI)
    fix name q
    have "q \<in> set (replacePool pool pools) \<longleftrightarrow> q = pool \<or> q \<in> set pools \<and> objectKey q \<noteq> objectKey pool"
      using assms(3,4) by (auto simp: replacePool_def image_iff)
    also have "\<dots> \<longleftrightarrow> q = pool \<or> q \<in> set pools \<and> p_name q \<noteq> p_name pool"
      using same [of q] other [of q] assms(4,5) by metis
    finally show "poolNamed (replacePool pool pools) name = Some q \<longleftrightarrow>
        ((poolNamed pools)(p_name pool \<mapsto> pool)) name = Some q"
      by (auto simp: poolNamed_iff [OF d] poolNamed_iff [OF assms(2)])
  qed
qed

subsection \<open>A store of pools\<close>

text \<open>A pool as a creation or an update asks for it, without a patch.\<close>

definition pool_shows :: "'w control \<Rightarrow> string \<Rightarrow> string \<Rightarrow> int32 \<Rightarrow> pool \<Rightarrow> bool" where
  "pool_shows ctl p revision n pool \<longleftrightarrow>
     p_name pool = p \<and> \<not> c_IsExpected ctl pool revision \<and> p_replicas pool = n \<and>
     p_patchInfo pool = []"

lemma pools_settledI:
  assumes "distinct (map p_name pools)"
    and named: "\<And>name. name \<in> expectedPools y \<Longrightarrow> \<exists>p. poolNamed pools name = Some p \<and>
      pool_shows ctl name revision (yp_replicas (patchesOf (GetNextPatches y) name)) p"
    and other: "\<And>name. name \<notin> expectedPools y \<Longrightarrow> poolNamed pools name = None"
    and plain: "\<And>name. name \<in> expectedPools y \<Longrightarrow> yp_patch (patchesOf (GetNextPatches y) name) = []"
  shows "pools_settled ctl y revision pools"
  unfolding pools_settled_def
proof (intro conjI ballI)
  have names: "name \<in> p_name ` set pools \<longleftrightarrow> name \<in> expectedPools y" for name
    using named [of name] other [of name] poolNamed_None [of pools name]
    by (cases "name \<in> expectedPools y") auto
  then show "set (map p_name pools) = expectedPools y" by auto
  fix pool assume "pool \<in> set pools"
  then have "poolNamed pools (p_name pool) = Some pool" "p_name pool \<in> expectedPools y"
    using assms(1) names by (auto simp: poolNamed_iff)
  with named [of "p_name pool"] plain [of "p_name pool"] show "\<not> c_IsExpected ctl pool revision"
    "p_replicas pool = yp_replicas (patchesOf (GetNextPatches y) (p_name pool))"
    "p_patchInfo pool = yp_patch (patchesOf (GetNextPatches y) (p_name pool))"
    by (simp_all add: pool_shows_def)
qed (rule assms(1))

lemma pools_settled_perm:
  assumes "pools_settled ctl y revision ps" and "mset ps = mset qs"
  shows "pools_settled ctl y revision qs"
  using assms(1) mset_eq_setD [OF assms(2)] poolNamed_perm(1) [OF assms(2)]
  by (simp add: pools_settled_def)

text \<open>What a call has done to the lists of the pools: those of kind \<open>t\<close> were changed by \<open>f\<close>.\<close>

definition changed ::
  "('s \<Rightarrow> bool) \<Rightarrow> (template_type \<Rightarrow> 's \<Rightarrow> pool list) \<Rightarrow> template_type
   \<Rightarrow> (pool list \<Rightarrow> pool list) \<Rightarrow> 's \<Rightarrow> 's \<Rightarrow> bool" where
  "changed ok pools t f s s' \<longleftrightarrow>
     ok s' \<and> (\<forall>t'. pools t' s' = (if t' = t then f (pools t s) else pools t' s))"

text \<open>The names in \<open>D\<close> have been written, each as \<open>shows\<close> says, and the other names are as before.\<close>

definition written ::
  "('s \<Rightarrow> bool) \<Rightarrow> (template_type \<Rightarrow> 's \<Rightarrow> pool list) \<Rightarrow> template_type
   \<Rightarrow> (string \<Rightarrow> pool \<Rightarrow> bool) \<Rightarrow> 's \<Rightarrow> string set \<Rightarrow> 's \<Rightarrow> bool" where
  "written ok pools t shows s D s' \<longleftrightarrow>
     ok s' \<and> distinct (map p_name (pools t s')) \<and>
     (\<forall>name. if name \<in> D then \<exists>p. poolNamed (pools t s') name = Some p \<and> shows name p
       else poolNamed (pools t s') name = poolNamed (pools t s) name) \<and>
     (\<forall>t'. t' \<noteq> t \<longrightarrow> pools t' s' = pools t' s)"

lemma written_nothing:
  "ok s \<Longrightarrow> distinct (map p_name (pools t s)) \<Longrightarrow> written ok pools t shows s {} s"
  by (simp add: written_def)

lemma written_create:
  assumes w: "written ok pools t shows s D s1"
    and c: "changed ok pools t (\<lambda>ps. ps @ [pool]) s1 s2"
    and "shows (p_name pool) pool" and new: "poolNamed (pools t s) (p_name pool) = None" "p_name pool \<notin> D"
  shows "written ok pools t shows s (insert (p_name pool) D) s2"
proof -
  have none: "poolNamed (pools t s1) (p_name pool) = None"
    using w new by (simp add: written_def)
  have s2: "pools t s2 = pools t s1 @ [pool]" using c by (simp add: changed_def)
  then have "distinct (map p_name (pools t s2))"
    using w none [unfolded poolNamed_None] by (simp add: written_def)
  moreover have "poolNamed (pools t s2) = (poolNamed (pools t s1))(p_name pool \<mapsto> pool)"
    using none s2 by (auto simp: poolNamed_add fun_eq_iff split: option.split)
  ultimately show ?thesis using assms(1-3) by (auto simp: written_def changed_def)
qed

lemma written_keeps:
  assumes "written ok pools t shows s D s1" and "poolNamed (pools t s) name = Some pool" and "name \<notin> D"
  shows "pool \<in> set (pools t s1)" and "p_name pool = name"
proof -
  have "poolNamed (pools t s1) name = Some pool" using assms by (simp add: written_def)
  then show "pool \<in> set (pools t s1)" and "p_name pool = name" by (auto dest: poolNamed_Some)
qed

lemma written_update:
  assumes w: "written ok pools t shows s D s1" and keys: "distinct (map objectKey (pools t s1))"
    and c: "changed ok pools t (replacePool pool) s1 s2"
    and "shows (p_name pool) pool"
    and old: "poolNamed (pools t s) (p_name pool) = Some old" "objectKey pool = objectKey old"
      "p_name pool \<notin> D"
  shows "written ok pools t shows s (insert (p_name pool) D) s2"
proof -
  have "poolNamed (pools t s1) (p_name pool) = Some old"
    using w old by (simp add: written_def)
  then have o: "old \<in> set (pools t s1)" "p_name old = p_name pool"
    by (auto dest: poolNamed_Some)
  have d: "distinct (map p_name (pools t s1))" using w by (simp add: written_def)
  have "pools t s2 = replacePool pool (pools t s1)" using c by (simp add: changed_def)
  with replacePool_names [OF keys d o(1) old(2) o(2) [symmetric]] d
  have "distinct (map p_name (pools t s2))"
    "poolNamed (pools t s2) = (poolNamed (pools t s1))(p_name pool \<mapsto> pool)"
    by simp_all
  with w c assms(4) show ?thesis by (auto simp: written_def changed_def)
qed

text \<open>The pools that may be asked to be deleted or updated: those some state had.\<close>

definition listed :: "('s \<Rightarrow> bool) \<Rightarrow> ('s \<Rightarrow> pool list) \<Rightarrow> pool set" where
  "listed ok pools = {pool. \<exists>s. ok s \<and> pool \<in> set (pools s)}"

locale pool_store =
  fixes controls :: "'e \<Rightarrow> (template_type \<times> 'w control) list"
    and owner :: "'e \<Rightarrow> yas"
    and store :: "'e \<Rightarrow> 'w \<Rightarrow> 's"
    and invar :: "'e \<Rightarrow> 's \<Rightarrow> bool"
    and pools :: "'e \<Rightarrow> template_type \<Rightarrow> 's \<Rightarrow> pool list"
  assumes keys: "invar e s \<Longrightarrow> distinct (map objectKey (pools e t s))"
    and list: "(t, c) \<in> set (controls e) \<Longrightarrow> invar e (store e w) \<Longrightarrow>
      c_GetAllPools c (owner e) w = (got, w') \<Longrightarrow>
      store e w' = store e w \<and> (\<forall>ps. got = Ret ps \<longrightarrow> mset ps = mset (pools e t (store e w)))"
    and create_time: "(t, c) \<in> set (controls e) \<Longrightarrow> invar e (store e w) \<Longrightarrow>
      c_CreatePool c (owner e) p r n w = (Err er, w') \<Longrightarrow> \<not> isTimeout er"
    and create: "(t, c) \<in> set (controls e) \<Longrightarrow> invar e (store e w) \<Longrightarrow> p \<in> expectedPools (owner e) \<Longrightarrow>
      c_CreatePool c (owner e) p r n w = (Ret (), w') \<Longrightarrow>
      \<exists>pool. pool_shows c p r n pool \<and>
        changed (invar e) (pools e) t (\<lambda>ps. ps @ [pool]) (store e w) (store e w')"
    and update: "(t, c) \<in> set (controls e) \<Longrightarrow> invar e (store e w) \<Longrightarrow>
      pool \<in> set (pools e t (store e w)) \<Longrightarrow> p_name pool \<in> expectedPools (owner e) \<Longrightarrow>
      c_UpdatePool c pool (owner e) r n w = (Ret (), w') \<Longrightarrow>
      \<exists>pool'. pool_shows c (p_name pool) r n pool' \<and> objectKey pool' = objectKey pool \<and>
        changed (invar e) (pools e) t (replacePool pool') (store e w) (store e w')"
    and delete: "(t, c) \<in> set (controls e) \<Longrightarrow> invar e (store e w) \<Longrightarrow>
      pool \<in> listed (invar e) (pools e t) \<Longrightarrow> c_DeletePool c pool w = (q, w') \<Longrightarrow>
      q = Ret () \<or> (\<exists>er. q = Err er \<and> isNotFound er) \<Longrightarrow>
      changed (invar e) (pools e) t (removePools [pool]) (store e w) (store e w')"
begin

lemma changed_more:
  "changed (invar e) (pools e) t (removePools [d]) s s1 \<Longrightarrow>
   changed (invar e) (pools e) t (removePools ds) s1 s2 \<Longrightarrow>
   changed (invar e) (pools e) t (removePools (d # ds)) s s2"
  using removePools_append [of ds "[d]"] by (auto simp: changed_def)

lemma deleteDups_removes:
  assumes c: "(t, c) \<in> set (controls e)"
  shows "invar e (store e w) \<Longrightarrow> set ds \<subseteq> listed (invar e) (pools e t) \<Longrightarrow>
    deleteDups c ds w = (Ret (), w') \<Longrightarrow>
    changed (invar e) (pools e) t (removePools ds) (store e w) (store e w')"
proof (induction ds arbitrary: w)
  case Nil
  then show ?case by (simp add: io_simps changed_def)
next
  case (Cons d ds)
  from Cons.prems(3) obtain q w1 where q: "c_DeletePool c d w = (q, w1)"
    "q = Ret () \<or> (\<exists>er. q = Err er \<and> isNotFound er)" and rest: "deleteDups c ds w1 = (Ret (), w')"
    by (auto simp: io_simps elim!: andThen_RetD attempt_RetD split: if_splits)
  have "changed (invar e) (pools e) t (removePools [d]) (store e w) (store e w1)"
    using delete [OF c Cons.prems(1) _ q] Cons.prems(2) by simp
  moreover have "invar e (store e w1)" using calculation by (simp add: changed_def)
  ultimately show ?case
    using Cons.IH [OF _ _ rest] Cons.prems(2) by (auto intro: changed_more)
qed

lemma deletes_remove:
  assumes c: "(t, c) \<in> set (controls e)"
  shows "invar e (store e w) \<Longrightarrow> set ds \<subseteq> listed (invar e) (pools e t) \<Longrightarrow>
    forEach (c_DeletePool c) ds w = (Ret (), w') \<Longrightarrow>
    changed (invar e) (pools e) t (removePools ds) (store e w) (store e w')"
proof -
  assume "invar e (store e w)" "set ds \<subseteq> listed (invar e) (pools e t)"
    and run: "forEach (c_DeletePool c) ds w = (Ret (), w')"
  moreover have "forEach (c_DeletePool c) ds w = (Ret (), w') \<Longrightarrow> deleteDups c ds w = (Ret (), w')" for w
    by (induction ds arbitrary: w) (auto simp: andThen_Ret attempt_Ret elim!: andThen_RetD)
  ultimately show ?thesis using deleteDups_removes [OF c] by blast
qed

text \<open>After the duplicates are gone the map of the pools by name is the list of the store.\<close>

lemma getNameToPool_mirrors:
  assumes c: "(t, c) \<in> set (controls e)" and i: "invar e (store e w)"
    and run: "getNameToPool env (owner e) c w = (Ret m, w')"
  shows "invar e (store e w')" and "distinct (map p_name (pools e t (store e w')))"
    and "poolNamed (pools e t (store e w')) = gget m"
proof -
  obtain ps w1 ds where g: "c_GetAllPools c (owner e) w = (Ret ps, w1)"
    and m: "\<And>name. gget m name = find (\<lambda>p. p_name p = name) ps"
    and d: "deleteDups c ds w1 = (Ret (), w')"
    and ds: "\<And>p. p \<in> set ds \<longleftrightarrow> p \<in> set (tl (filter (\<lambda>q. p_name q = p_name p) ps))"
    using run by (rule getNameToPool_run) blast
  have w1: "store e w1 = store e w" and ps: "mset ps = mset (pools e t (store e w))"
    using list [OF c i g] by simp_all
  have "set ds \<subseteq> set ps" using ds by (rule firsts_subset)
  then have sub: "set ds \<subseteq> listed (invar e) (pools e t)"
    using i mset_eq_setD [OF ps] by (auto simp: listed_def)
  have "changed (invar e) (pools e) t (removePools ds) (store e w1) (store e w')"
    using deleteDups_removes [OF c _ sub d] i w1 by simp
  then have after: "mset (removePools ds ps) = mset (pools e t (store e w'))"
    and inv': "invar e (store e w')"
    using w1 removePools_perm [OF ps] by (simp_all add: changed_def)
  show "invar e (store e w')" by (rule inv')
  have d: "distinct (map objectKey ps)"
    using keys [OF i] ps by (metis mset_eq_imp_distinct_iff mset_map)
  show "distinct (map p_name (pools e t (store e w')))"
    by (rule poolNamed_perm(1) [OF after removePools_firsts(1) [OF d ds]])
  show "poolNamed (pools e t (store e w')) = gget m"
    using poolNamed_perm(2) [OF after removePools_firsts(1) [OF d ds]] removePools_firsts(2) [OF d ds] m
    by (simp add: fun_eq_iff)
qed

text \<open>Cleaning the other kinds without an error leaves none of their pools.\<close>

lemma cleanOthers_cleans:
  "cleanOthers t (owner e) cs w = (Ret (cleaned, []), w') \<Longrightarrow> set cs \<subseteq> set (controls e) \<Longrightarrow>
   invar e (store e w) \<Longrightarrow>
   invar e (store e w') \<and> pools e t (store e w') = pools e t (store e w) \<and>
   (\<forall>t'. t' \<noteq> t \<longrightarrow> pools e t' (store e w') =
     (if t' \<in> fst ` set cs then [] else pools e t' (store e w)))"
proof (induction cs arbitrary: w cleaned)
  case (Cons tc cs)
  obtain t1 c where tc: "tc = (t1, c)" by fastforce
  show ?case
  proof (cases "t1 = t")
    case True
    with Cons tc show ?thesis by auto
  next
    case False
    with Cons.prems(1) tc obtain ps w1 w2 cl where g: "c_GetAllPools c (owner e) w = (Ret ps, w1)"
      and d: "deleteOthers c t1 (owner e) ps w1 = (Ret [], w2)"
      and rest: "cleanOthers t (owner e) cs w2 = (Ret (cl, []), w')"
      by (auto simp: io_simps elim!: andThen_RetD attempt_RetD)
    have c: "(t1, c) \<in> set (controls e)" using Cons.prems(2) tc by simp
    note l = list [OF c Cons.prems(3) g]
    then have all: "set ps = set (pools e t1 (store e w))" by (metis mset_eq_setD)
    have "changed (invar e) (pools e) t1 (removePools ps) (store e w1) (store e w2)"
      using l all Cons.prems(3) attemptAll_no_errors [OF d [unfolded deleteOthers_def]]
      by (intro deletes_remove [OF c]) (auto simp: listed_def)
    then have w2: "invar e (store e w2)"
      "pools e t' (store e w2) = (if t' = t1 then [] else pools e t' (store e w))" for t'
      using l all by (simp_all add: changed_def removePools_all)
    with Cons.IH [OF rest] Cons.prems(2) False tc show ?thesis by auto
  qed
qed (simp add: io_simps)

lemma createOne_Ret:
  assumes c: "(t, c) \<in> set (controls e)" and u: "invar e (store e u)"
    and run: "createOne c t (owner e) next revision names i u = (q, u')" and ret: "q = Ret ()"
  shows "c_CreatePool c (owner e) (names ! i) revision (yp_replicas (patchesOf next (names ! i))) u = (Ret (), u')"
  using run ret create_time [OF c u]
  by (auto simp: createOne_def Let_def io_simps elim!: andThen_RetD attempt_RetD split: if_splits)

lemma createOne_writes:
  assumes c: "(t, c) \<in> set (controls e)" and name: "name \<in> expectedPools (owner e)"
    and new: "poolNamed (pools e t s) name = None" "name \<notin> D"
    and w: "written (invar e) (pools e) t
      (\<lambda>name. pool_shows c name revision (yp_replicas (patchesOf next name))) s D (store e u)"
    and run: "c_CreatePool c (owner e) name revision (yp_replicas (patchesOf next name)) u = (Ret (), u')"
  shows "written (invar e) (pools e) t
    (\<lambda>name. pool_shows c name revision (yp_replicas (patchesOf next name))) s (insert name D) (store e u')"
proof -
  have u: "invar e (store e u)" using w by (simp add: written_def)
  obtain pool where sh: "pool_shows c name revision (yp_replicas (patchesOf next name)) pool"
    and ch: "changed (invar e) (pools e) t (\<lambda>ps. ps @ [pool]) (store e u) (store e u')"
    using create [OF c u name run] by blast
  from sh have name: "p_name pool = name" by (simp add: pool_shows_def)
  from written_create [OF w ch, unfolded name] sh new show ?thesis by simp
qed

lemma updateOne_writes:
  assumes c: "(t, c) \<in> set (controls e)" and name: "name \<in> expectedPools (owner e)"
    and old: "poolNamed (pools e t s) name = Some pool" "name \<notin> D"
    and w: "written (invar e) (pools e) t
      (\<lambda>name. pool_shows c name revision (yp_replicas (patchesOf next name))) s D (store e u)"
    and run: "c_UpdatePool c pool (owner e) revision (yp_replicas (patchesOf next name)) u = (Ret (), u')"
  shows "written (invar e) (pools e) t
    (\<lambda>name. pool_shows c name revision (yp_replicas (patchesOf next name))) s (insert name D) (store e u')"
proof -
  have u: "invar e (store e u)" using w by (simp add: written_def)
  note pool = written_keeps [OF w old]
  with update [OF c u pool(1)] name run obtain pool' where
    sh: "pool_shows c name revision (yp_replicas (patchesOf next name)) pool'"
    and key: "objectKey pool' = objectKey pool"
    and ch: "changed (invar e) (pools e) t (replacePool pool') (store e u) (store e u')"
    by metis
  from sh have n: "p_name pool' = name" by (simp add: pool_shows_def)
  from written_update [OF w keys [OF u] ch, unfolded n] sh key old show ?thesis by simp
qed

lemma creates_write:
  assumes ok: "batch_ok env" and ev: "\<And>a b u. store e (rt_Event env a b u) = store e u"
    and c: "(t, c) \<in> set (controls e)" and i: "invar e (store e w)"
    and names: "distinct (map p_name (pools e t (store e w)))"
    and new: "set cs \<subseteq> expectedPools (owner e)" "distinct cs"
      "\<And>name. name \<in> set cs \<Longrightarrow> poolNamed (pools e t (store e w)) name = None"
    and run: "(if length cs > 0 then
        andThen (SlowStartBatch (rt_sched env) (int (length cs)) slowStartInitialBatchSize
            (createOne c t (owner e) next revision cs)) (\<lambda>(n, err).
          case err of
            None \<Rightarrow> andThen (event env reason (msg n)) (\<lambda>_. ret [])
          | Some e \<Rightarrow> ret [e])
      else ret []) w = (Ret ([] :: go_error list), w')"
  shows "written (invar e) (pools e) t
    (\<lambda>name. pool_shows c name revision (yp_replicas (patchesOf next name)))
    (store e w) (set cs) (store e w')"
proof (rule batch_phase_event_invariant [OF ok _ _ _ run new(2), where I = "\<lambda>D u. written (invar e)
    (pools e) t (\<lambda>name. pool_shows c name revision (yp_replicas (patchesOf next name)))
    (store e w) D (store e u)"], goal_cases)
  case (3 D i u u')
  have u: "invar e (store e u)" using 3(3) by (simp add: written_def)
  have "cs ! i \<in> set cs" using 3(1) by simp
  with createOne_Ret [OF c u 3(4) refl] new 3(2,3) show ?case
    by (intro createOne_writes [OF c]) auto
qed (use ev i names in \<open>simp_all add: written_nothing slowStartInitialBatchSize_def\<close>)

lemma updates_write:
  assumes ok: "batch_ok env" and ev: "\<And>a b u. store e (rt_Event env a b u) = store e u"
    and c: "(t, c) \<in> set (controls e)" and i: "invar e (store e w)"
    and names: "distinct (map p_name (pools e t (store e w)))"
    and old: "set us \<subseteq> expectedPools (owner e)" "distinct us"
      "\<And>name. name \<in> set us \<Longrightarrow> poolNamed (pools e t (store e w)) name = Some (the (gget m name))"
    and run: "(if length us > 0 then
        andThen (SlowStartBatch (rt_sched env) (int (length us)) slowStartInitialBatchSize
            (updateOne env c t (owner e) m next revision us)) (\<lambda>(_, err). ret err)
      else ret None) w = (Ret None, w')"
  shows "written (invar e) (pools e) t
    (\<lambda>name. pool_shows c name revision (yp_replicas (patchesOf next name)))
    (store e w) (set us) (store e w')"
proof (rule batch_phase_invariant [OF ok _ _ run old(2), where I = "\<lambda>D u. written (invar e)
    (pools e) t (\<lambda>name. pool_shows c name revision (yp_replicas (patchesOf next name)))
    (store e w) D (store e u)"], goal_cases)
  case (2 D i u u')
  have "us ! i \<in> set us" using 2(1) by simp
  moreover have "c_UpdatePool c (the (gget m (us ! i))) (owner e) revision
      (yp_replicas (patchesOf next (us ! i))) u = (Ret (), u')"
    using 2(4)
    by (auto simp: updateOne_def Let_def io_simps event_def elim!: andThen_RetD attempt_RetD)
  ultimately show ?case
    using old 2(2,3) by (intro updateOne_writes [OF c]) auto
qed (use i names in \<open>simp_all add: written_nothing slowStartInitialBatchSize_def\<close>)

lemma deletes_phase:
  assumes c: "(t, c) \<in> set (controls e)" and ev: "\<And>a b u. store e (rt_Event env a b u) = store e u"
    and i: "invar e (store e w)" and ds: "set ds \<subseteq> listed (invar e) (pools e t)"
    and run: "(if length kvs > 0 then
        andThen (deleteAll c t kvs) (\<lambda>errs. if length errs > 0 then ret errs
          else andThen (event env reason msg) (\<lambda>_. ret []))
      else ret []) w = (Ret [], w')"
    and kvs: "map snd kvs = ds"
  shows "changed (invar e) (pools e) t (removePools ds) (store e w) (store e w')"
proof (cases "length kvs > 0")
  case True
  with run obtain w1 where d: "deleteAll c t kvs w = (Ret [], w1)" and w': "store e w' = store e w1"
    by (auto simp: io_simps event_def ev elim!: andThen_RetD split: if_splits)
  show ?thesis
    using deletes_remove [OF c i ds deleteAll_no_errors [OF d, unfolded kvs]] w' by simp
next
  case False
  with run kvs i show ?thesis by (simp add: io_simps changed_def)
qed

text \<open>Provisioning without an error, of pools that are known by their names: the three phases.\<close>

lemma got_iff: "name \<in> gotPools m \<longleftrightarrow> gget m name \<noteq> None"
  by (auto simp: gotPools_def gget_None_iff image_iff)

lemma provision_steps:
  assumes conv: "ye_poolControls env = controls e" and ok: "batch_ok env"
    and ev: "\<And>a b u. store e (rt_Event env a b u) = store e u"
    and i: "invar e (store e w)" and names: "distinct (map p_name (pools e t (store e w)))"
    and mir: "poolNamed (pools e t (store e w)) = gget m"
    and run: "managePoolProvision env (owner e) m next revision t w
      = (Ret (exists, provisioned, None), w')"
    and t: "map_of (controls e) t = Some c"
    and ds: "ds = map (\<lambda>k. the (gget m k)) (sorted_list_of_set (gotPools m - expectedPools (owner e)))"
  obtains s1 s2 where
    "written (invar e) (pools e) t
      (\<lambda>name. pool_shows c name revision (yp_replicas (patchesOf next name)))
      (store e w) (expectedPools (owner e) - gotPools m) s1"
    and "set ds \<subseteq> set (pools e t s1)" and "p_name ` set ds = gotPools m - expectedPools (owner e)"
    and "changed (invar e) (pools e) t (removePools ds) s1 s2"
    and "invar e (store e w')" and "pools e t (store e w') = pools e t s2"
    and "\<And>t'. t' \<noteq> t \<Longrightarrow> t' \<in> fst ` set (controls e) \<Longrightarrow> pools e t' (store e w') = []"
proof -
  let ?E = "expectedPools (owner e)" and ?G = "gotPools m"
  have fin: "finite ?E" "finite ?G" by (simp_all add: expectedPools_def gotPools_def)
  have c: "(t, c) \<in> set (controls e)" using t by (rule map_of_SomeD)
  obtain ctl errs1 w1 errs2 w2 cleaned errs3 where ctl: "map_of (ye_poolControls env) t = Some ctl"
    and phases: "(let cs = sorted_list_of_set (?E - ?G) in if length cs > 0 then
          andThen (SlowStartBatch (rt_sched env) (int (length cs)) slowStartInitialBatchSize
              (createOne ctl t (owner e) next revision cs)) (\<lambda>(createdNum, createdErr).
            case createdErr of
              None \<Rightarrow> andThen (event env ''SuccessfulUpdatePool''
                  (countMessage ''Create '' createdNum t)) (\<lambda>_. ret [])
            | Some e \<Rightarrow> ret [e])
        else ret []) w = (Ret errs1, w1)"
      "(let ds = sorted_list_of_set (?G - ?E) in if length ds > 0 then
          andThen (deleteAll ctl t (map (\<lambda>poolName. (poolName, the (gget m poolName))) ds))
            (\<lambda>deleteErrs. if length deleteErrs > 0 then ret deleteErrs
              else andThen (event env ''SuccessfulUpdatePool''
                  (countMessage ''Delete '' (int (length ds)) t)) (\<lambda>_. ret []))
        else ret []) w1 = (Ret errs2, w2)"
      "cleanOthers t (owner e) (ye_poolControls env) w2 = (Ret (cleaned, errs3), w')"
    and errs: "None = rt_NewAggregate env (errs1 @ errs2 @ errs3)"
    using run by (rule managePoolProvision_phases)
  have "errs1 @ errs2 @ errs3 = []" using errs [symmetric] ok by (simp add: batch_ok_def)
  then have no: "errs1 = []" "errs2 = []" "errs3 = []" "ctl = c" using ctl t conv by simp_all
  note phases = phases [unfolded no Let_def]
  have w1: "written (invar e) (pools e) t
      (\<lambda>name. pool_shows c name revision (yp_replicas (patchesOf next name)))
      (store e w) (?E - ?G) (store e w1)"
    using creates_write [OF ok ev c i names _ _ _ phases(1)] fin mir by (simp add: got_iff)
  then have i1: "invar e (store e w1)" by (simp add: written_def)
  have "the (gget m k) \<in> set (pools e t (store e w1)) \<and> p_name (the (gget m k)) = k"
    if "k \<in> ?G" for k
    using that w1 mir by (intro poolNamed_Some) (auto simp: written_def got_iff)
  then have del: "set ds \<subseteq> set (pools e t (store e w1))" "p_name ` set ds = ?G - ?E"
    using fin by (auto simp: ds image_image)
  have w2: "changed (invar e) (pools e) t (removePools ds) (store e w1) (store e w2)"
  proof (rule deletes_phase [where kvs = "map (\<lambda>k. (k, the (gget m k))) (sorted_list_of_set (?G - ?E))",
        unfolded length_map, OF c ev i1 _ phases(2)])
    show "set ds \<subseteq> listed (invar e) (pools e t)" using del(1) i1 by (auto simp: listed_def)
  qed (simp add: ds comp_def)
  with cleanOthers_cleans [OF phases(3) [unfolded conv] subset_refl]
  show thesis
    by (intro that [OF w1 del w2]) (auto simp: changed_def)
qed

lemma provision_settles:
  assumes conv: "ye_poolControls env = controls e" and ok: "batch_ok env"
    and ev: "\<And>a b u. store e (rt_Event env a b u) = store e u"
    and i: "invar e (store e w)" and names: "distinct (map p_name (pools e t (store e w)))"
    and mir: "poolNamed (pools e t (store e w)) = gget m"
    and run: "managePoolProvision env (owner e) m next revision t w
      = (Ret (exists, provisioned, None), w')"
    and t: "map_of (controls e) t = Some c"
  shows "invar e (store e w')" and "distinct (map p_name (pools e t (store e w')))"
    and "name \<in> expectedPools (owner e) - gotPools m \<Longrightarrow>
      \<exists>p. poolNamed (pools e t (store e w')) name = Some p \<and>
        pool_shows c name revision (yp_replicas (patchesOf next name)) p"
    and "name \<in> expectedPools (owner e) \<inter> gotPools m \<Longrightarrow>
      poolNamed (pools e t (store e w')) name = gget m name"
    and "name \<notin> expectedPools (owner e) \<Longrightarrow> poolNamed (pools e t (store e w')) name = None"
    and "t' \<noteq> t \<Longrightarrow> t' \<in> fst ` set (controls e) \<Longrightarrow> pools e t' (store e w') = []"
proof -
  let ?E = "expectedPools (owner e)" and ?G = "gotPools m"
  define ds where "ds = map (\<lambda>k. the (gget m k)) (sorted_list_of_set (?G - ?E))"
  obtain s1 s2 where w1: "written (invar e) (pools e) t
      (\<lambda>name. pool_shows c name revision (yp_replicas (patchesOf next name)))
      (store e w) (?E - ?G) s1"
    and del: "set ds \<subseteq> set (pools e t s1)" "p_name ` set ds = ?G - ?E"
    and w2: "changed (invar e) (pools e) t (removePools ds) s1 s2"
    and w': "invar e (store e w')" "pools e t (store e w') = pools e t s2"
      "\<And>t'. t' \<noteq> t \<Longrightarrow> t' \<in> fst ` set (controls e) \<Longrightarrow> pools e t' (store e w') = []"
    using provision_steps [OF conv ok ev i names mir run t ds_def] by blast
  have i1: "invar e s1" and names1: "distinct (map p_name (pools e t s1))"
    using w1 by (simp_all add: written_def)
  note after = removePools_names [OF keys [OF i1] names1 del(1)]
  have p: "pools e t (store e w') = removePools ds (pools e t s1)"
    using w2 w'(2) by (simp add: changed_def)
  have look: "poolNamed (pools e t (store e w')) k = (if k \<in> ?G - ?E then None
      else if k \<in> ?E - ?G then poolNamed (pools e t s1) k else gget m k)" for k
    using after(2) [of k] del(2) p w1 mir by (simp add: written_def)
  show "invar e (store e w')" "t' \<noteq> t \<Longrightarrow> t' \<in> fst ` set (controls e) \<Longrightarrow> pools e t' (store e w') = []"
    by (fact w'(1), rule w'(3))
  show "distinct (map p_name (pools e t (store e w')))" using after(1) p by simp
  show "name \<in> ?E - ?G \<Longrightarrow> \<exists>p. poolNamed (pools e t (store e w')) name = Some p \<and>
        pool_shows c name revision (yp_replicas (patchesOf next name)) p"
    using w1 look [of name] by (auto simp: written_def)
  show "name \<in> ?E \<inter> ?G \<Longrightarrow> poolNamed (pools e t (store e w')) name = gget m name"
    "name \<notin> ?E \<Longrightarrow> poolNamed (pools e t (store e w')) name = None"
    using look [of name] by (auto simp: got_iff)
qed

text \<open>All of \<open>getNameToPool\<close> and \<open>managePools\<close> without an error.\<close>

lemma managePools_settles:
  assumes conv: "ye_poolControls env = controls e" and ok: "batch_ok env"
    and ev: "\<And>a b u. store e (rt_Event env a b u) = store e u"
    and plain: "\<And>name. name \<in> expectedPools (owner e) \<Longrightarrow>
      yp_patch (patchesOf (GetNextPatches (owner e)) name) = []"
    and t: "map_of (controls e) t = Some c" and i0: "invar e (store e w0)"
    and got: "getNameToPool env (owner e) c w0 = (Ret m, w)"
    and run: "managePools env (owner e) m (GetNextPatches (owner e)) revision t w
      = (Ret (status, None), w')"
  shows "invar e (store e w')" and "pools_settled c (owner e) revision (pools e t (store e w'))"
    and "t' \<noteq> t \<Longrightarrow> t' \<in> fst ` set (controls e) \<Longrightarrow> pools e t' (store e w') = []"
proof -
  let ?E = "expectedPools (owner e)" and ?next = "GetNextPatches (owner e)"
  let ?shows = "\<lambda>name. pool_shows c name revision (yp_replicas (patchesOf ?next name))"
  have c: "(t, c) \<in> set (controls e)" using t by (rule map_of_SomeD)
  note mirrors = getNameToPool_mirrors [OF c i0 got]
  obtain exists provisioned w1 where
    p: "managePoolProvision env (owner e) m ?next revision t w = (Ret (exists, provisioned, None), w1)"
    and u: "(let us = filter (needsUpdate c m ?next revision) (sorted_list_of_set exists)
        in if length us > 0 then
          andThen (SlowStartBatch (rt_sched env) (int (length us)) slowStartInitialBatchSize
              (updateOne env c t (owner e) m ?next revision us)) (\<lambda>(_, updateErr). ret updateErr)
        else ret None) w1 = (Ret None, w')"
    using run by (rule managePools_run) (use t conv in auto)
  obtain ex: "exists = ?E \<inter> gotPools m" using p by (rule managePoolProvision_phases)
  let ?us = "filter (needsUpdate c m ?next revision) (sorted_list_of_set exists)"
  have us: "set ?us = {name \<in> ?E \<inter> gotPools m. needsUpdate c m ?next revision name}"
    using ex by (auto simp: expectedPools_def)
  note settles = provision_settles [OF conv ok ev mirrors p t]
  have old: "poolNamed (pools e t (store e w1)) name = Some (the (gget m name))"
    if "name \<in> ?E \<inter> gotPools m" for name
    using settles(4) [OF that] that by (auto simp: got_iff)
  have wr: "written (invar e) (pools e) t ?shows (store e w1) (set ?us) (store e w')"
    using us old by (intro updates_write [OF ok ev c settles(1,2) _ _ _ u [unfolded Let_def]]) auto
  note wr = wr [unfolded us]
  have named: "\<exists>p. poolNamed (pools e t (store e w')) name = Some p \<and> ?shows name p"
    if "name \<in> ?E" for name
  proof (cases "name \<in> gotPools m")
    case False
    with settles(3) [of name] that wr show ?thesis by (auto simp: written_def)
  next
    case True
    note o = old [OF IntI [OF that True]]
    show ?thesis
    proof (cases "needsUpdate c m ?next revision name")
      case False
      then have "?shows name (the (gget m name))"
        using poolNamed_Some [OF o] plain [OF that]
        by (simp add: pool_shows_def needsUpdate_def Let_def)
      with o wr False show ?thesis by (auto simp: written_def)
    qed (use wr that True in \<open>auto simp: written_def\<close>)
  qed
  have "poolNamed (pools e t (store e w')) name = None" if "name \<notin> ?E" for name
    using settles(5) [OF that] wr that by (simp add: written_def)
  with named wr plain show "pools_settled c (owner e) revision (pools e t (store e w'))"
    by (intro pools_settledI) (auto simp: written_def)
  show "invar e (store e w')" using wr by (simp add: written_def)
  show "t' \<noteq> t \<Longrightarrow> t' \<in> fst ` set (controls e) \<Longrightarrow> pools e t' (store e w') = []"
    using settles(6) wr by (simp add: written_def)
qed

text \<open>Settled pools are left alone, whatever the calls that read return.\<close>

lemma cleanOthers_quiet:
  assumes none: "\<And>t'. t' \<noteq> t \<Longrightarrow> t' \<in> fst ` set (controls e) \<Longrightarrow> pools e t' s = []" and i: "invar e s"
  shows "set cs \<subseteq> set (controls e) \<Longrightarrow>
    preserves (\<lambda>u. store e u = s) (cleanOthers t (owner e) cs)"
proof (induction cs)
  case (Cons tc cs)
  obtain t1 c where tc: "tc = (t1, c)" by fastforce
  have IH: "preserves (\<lambda>u. store e u = s) (cleanOthers t (owner e) cs)"
    using Cons by simp
  show ?case
  proof (cases "t1 = t")
    case False
    show ?thesis
    proof (rule preservesI)
      fix u assume u: "store e u = s"
      obtain q u1 where g: "c_GetAllPools c (owner e) u = (q, u1)" by fastforce
      have c: "(t1, c) \<in> set (controls e)" using Cons.prems tc by simp
      then have "t1 \<in> fst ` set (controls e)" by force
      with list [OF c _ g] u i none False have u1: "store e u1 = s" "\<And>ps. q = Ret ps \<Longrightarrow> ps = []"
        by auto
      show "store e (snd (cleanOthers t (owner e) (tc # cs) u)) = s"
        using False tc g u1 IH
        by (cases q) (auto simp: andThen_Ret andThen_Panic attempt_def andThen_def deleteOthers_def
            ret_def preserves_def split: prod.split outcome.split)
    qed
  qed (use IH tc in simp)
qed simp

lemma managePools_leaves:
  assumes conv: "ye_poolControls env = controls e" and t: "map_of (controls e) t = Some c"
    and same: "gotPools m = expectedPools (owner e)"
    and need: "\<And>name. name \<in> expectedPools (owner e) \<Longrightarrow> \<not> needsUpdate c m next revision name"
    and none: "\<And>t'. t' \<noteq> t \<Longrightarrow> t' \<in> fst ` set (controls e) \<Longrightarrow> pools e t' s = []" and i: "invar e s"
  shows "preserves (\<lambda>u. store e u = s) (managePools env (owner e) m next revision t)"
proof -
  have clean: "preserves (\<lambda>u. store e u = s) (cleanOthers t (owner e) (controls e))"
    using none i by (intro cleanOthers_quiet) auto
  have p: "managePoolProvision env (owner e) m next revision t =
      andThen (cleanOthers t (owner e) (controls e)) (\<lambda>(cleaned, errs).
        ret (expectedPools (owner e), cleaned, rt_NewAggregate env errs))"
    by (simp add: managePoolProvision_def Let_def conv t same case_prod_beta')
  have "filter (needsUpdate c m next revision) (sorted_list_of_set (expectedPools (owner e))) = []"
    using need by (auto simp: filter_empty_conv expectedPools_def)
  then have "managePools env (owner e) m next revision t =
      andThen (cleanOthers t (owner e) (controls e)) (\<lambda>(cleaned, errs).
        case rt_NewAggregate env errs of
          Some e' \<Rightarrow> andThen (setConditionNow env (yas_status (owner e)) PoolProvisioned ''False''
              ''Error'' (error_text e')) (\<lambda>newStatus.
            ret (newStatus, Some (PlainErr (''fail to manage Pool provision: '' @ error_text e'))))
        | None \<Rightarrow> andThen (if cleaned
              then setConditionNow env (yas_status (owner e)) PoolProvisioned ''True'' [] []
              else ret (yas_status (owner e))) (\<lambda>status1.
            andThen (setConditionNow env status1 PoolUpdated ''True'' [] [])
              (\<lambda>newStatus. ret (newStatus, None))))"
    by (auto simp: managePools_def p andThen_assoc conv t Let_def intro!: arg_cong2 [where f = andThen]
        split: option.split)
  then show ?thesis
    by (simp only:) (intro preserves_intros preserves_setConditionNow clean)
qed

lemma settled_reconcile:
  assumes conv: "ye_poolControls (yc_upd env) = controls e"
    and ev: "\<And>a b u. store e (rt_Event (yc_upd env) a b u) = store e u"
    and upd: "\<And>obj u. store e (snd (yc_UpdateStatus env obj u)) = store e u"
    and get: "\<And>ns name u. store e (snd (yc_Get env ns name u)) = store e u"
    and ctl: "getPoolControls (yc_upd env) (owner e) = Inr (Some c, t)"
    and i: "invar e (store e w)"
    and settled: "pools_settled c (owner e) (m_name updated) (pools e t (store e w))"
    and none: "\<And>t'. t' \<noteq> t \<Longrightarrow> t' \<in> fst ` set (controls e) \<Longrightarrow> pools e t' (store e w) = []"
  shows "store e (snd (reconcilePools env (owner e) current updated cnt w)) = store e w"
proof -
  let ?P = "\<lambda>u. store e u = store e w" and ?next = "GetNextPatches (owner e)"
  have t: "map_of (controls e) t = Some c"
    using ctl conv by (auto simp: getPoolControls_def split: if_splits)
  have event: "preserves ?P (event (yc_upd env) a b)" for a b
    using ev by (simp add: preserves_def event_def)
  obtain q w1 where g: "c_GetAllPools c (owner e) w = (q, w1)" by fastforce
  have w1: "store e w1 = store e w" "\<And>ps. q = Ret ps \<Longrightarrow> mset ps = mset (pools e t (store e w))"
    using list [OF map_of_SomeD [OF t] i g] by auto
  have set: "pools_settled c (owner e) (m_name updated) ps" if "q = Ret ps" for ps
    using pools_settled_perm [OF settled w1(2) [OF that, symmetric]] .
  show ?thesis
  proof (cases q)
    case (Ret ps)
    note set = set [OF Ret]
    from g Ret set have "c_GetAllPools c (owner e) w = (Ret ps, w1)" "distinct (map p_name ps)"
      by (simp_all add: pools_settled_def)
    then obtain m where m: "getNameToPool (yc_upd env) (owner e) c w = (Ret m, w1)"
      "gotPools m = set (map p_name ps)" "\<And>name. gget m name = find (\<lambda>p. p_name p = name) ps"
      using getNameToPool_distinct by metis
    have "\<not> needsUpdate c m ?next (m_name updated) name" if "name \<in> expectedPools (owner e)" for name
      using set that m(3) by (rule settled_needs_no_update)
    then have "preserves ?P (managePools (yc_upd env) (owner e) m ?next (m_name updated) t)"
      using set m(2) none i
      by (intro managePools_leaves [OF conv t]) (auto simp: pools_settled_def)
    moreover have "preserves ?P (updateStatus env (owner e) s (yas_status (owner e)) m current cnt c)" for s
      using upd get by (intro preserves_updateStatus) (simp_all add: preserves_def)
    ultimately have "preserves ?P
        (andThen (managePools (yc_upd env) (owner e) m ?next (m_name updated) t) (\<lambda>(newStatus, err).
          andThen (case err of None \<Rightarrow> ret ()
            | Some e \<Rightarrow> event (yc_upd env) ''FailedUpdatePool'' (error_text e)) (\<lambda>_.
          updateStatus env (owner e) newStatus (yas_status (owner e)) m current cnt c)))"
      by (intro preserves_intros event)
    then have "?P (snd (andThen (managePools (yc_upd env) (owner e) m ?next (m_name updated) t)
        (\<lambda>(newStatus, err). andThen (case err of None \<Rightarrow> ret ()
            | Some e \<Rightarrow> event (yc_upd env) ''FailedUpdatePool'' (error_text e)) (\<lambda>_.
          updateStatus env (owner e) newStatus (yas_status (owner e)) m current cnt c)) w1))"
      using w1(1) by (rule preservesD)
    then show ?thesis
      using ctl m(1) by (simp add: reconcilePools_def Let_def andThen_Ret attempt_Ret)
  next
    case (Err er)
    with g w1 ctl ev show ?thesis
      by (simp add: reconcilePools_def Let_def getNameToPool_def andThen_def attempt_def fail_def
          event_def ret_def)
  next
    case (Panic p)
    with g w1 ctl show ?thesis
      by (simp add: reconcilePools_def Let_def getNameToPool_def andThen_def attempt_def)
  qed
qed

end

end
