(* ===== verification/YAS_Live.thy ===== *)
theory YAS_Live
  imports YAS_Converge
begin

section \<open>YurtAppSet: a server that answers\<close>

text \<open>
  If the server answers every call, one reconciliation meets no error, so that what \<open>YAS_Converge\<close>
  says of runs without an error holds of it. \<open>returns P m Q\<close>: from a world that satisfies \<open>P\<close> the
  operation \<open>m\<close> returns a value, and value and world satisfy \<open>Q\<close>.
\<close>

subsection \<open>Operations that return a value\<close>

definition returns :: "('w \<Rightarrow> bool) \<Rightarrow> ('w, 'a) io \<Rightarrow> ('a \<Rightarrow> 'w \<Rightarrow> bool) \<Rightarrow> bool" where
  "returns P m Q \<longleftrightarrow> (\<forall>w. P w \<longrightarrow> (\<exists>x w'. m w = (Ret x, w') \<and> Q x w'))"

lemma returnsI: "(\<And>w. P w \<Longrightarrow> \<exists>x w'. m w = (Ret x, w') \<and> Q x w') \<Longrightarrow> returns P m Q"
  by (simp add: returns_def)

lemma returnsE:
  assumes "returns P m Q" and "P w"
  obtains x w' where "m w = (Ret x, w')" and "Q x w'"
  using assms by (auto simp: returns_def)

lemma returns_ret: "(\<And>w. P w \<Longrightarrow> Q x w) \<Longrightarrow> returns P (ret x) Q"
  by (simp add: returns_def ret_def)

lemma returns_weaken:
  "returns P m Q \<Longrightarrow> (\<And>w. P' w \<Longrightarrow> P w) \<Longrightarrow> (\<And>x w. Q x w \<Longrightarrow> Q' x w) \<Longrightarrow> returns P' m Q'"
  by (fastforce simp: returns_def)

lemma returns_andThen: "returns P m R \<Longrightarrow> (\<And>x. returns (R x) (k x) Q) \<Longrightarrow> returns P (andThen m k) Q"
  by (fastforce simp: returns_def andThen_def)

text \<open>Of what went before only the value matters to the rest.\<close>

lemma returns_attempt:
  "returns P m R \<Longrightarrow> (\<And>x. returns (R x) (k (Inr x)) Q) \<Longrightarrow> returns P (andThen (attempt m) k) Q"
  by (fastforce simp: returns_def andThen_def attempt_def)

lemma returns_if:
  "(b \<Longrightarrow> returns P m Q) \<Longrightarrow> (\<not> b \<Longrightarrow> returns P n Q) \<Longrightarrow> returns P (if b then m else n) Q"
  by simp

lemma returns_runBatch:
  assumes step: "\<And>D i. i \<in> set is \<Longrightarrow> i \<notin> D \<Longrightarrow> D \<subseteq> A \<Longrightarrow> returns (I D) (fn i) (\<lambda>_. I (insert i D))"
  shows "distinct is \<Longrightarrow> set is \<union> D \<subseteq> A \<Longrightarrow> set is \<inter> D = {} \<Longrightarrow>
    returns (I D) (runBatch fn is) (\<lambda>errs u. errs = [] \<and> I (set is \<union> D) u)"
  using step
proof (induction "is" arbitrary: D)
  case (Cons i "is")
  have "returns (I (insert i D)) (runBatch fn is) (\<lambda>errs u. errs = [] \<and> I (set is \<union> insert i D) u)"
    using Cons.prems by (intro Cons.IH) auto
  then have "returns (I (insert i D)) (andThen (runBatch fn is) (\<lambda>es. ret es))
      (\<lambda>errs u. errs = [] \<and> I (set (i # is) \<union> D) u)"
    by (rule returns_andThen) (auto intro: returns_ret)
  then show ?case
    unfolding runBatch.simps using Cons.prems by (intro returns_attempt [OF Cons.prems(4)]) auto
qed (auto intro: returns_ret)

lemma returns_attemptAll:
  assumes step: "\<And>D x. x \<in> set xs \<Longrightarrow> x \<notin> D \<Longrightarrow> returns (I D) (f x) (\<lambda>_. I (insert x D))"
  shows "distinct xs \<Longrightarrow> set xs \<inter> D = {} \<Longrightarrow>
    returns (I D) (attemptAll f wrap xs) (\<lambda>errs u. errs = [] \<and> I (set xs \<union> D) u)"
  using step
proof (induction xs arbitrary: D)
  case (Cons x xs)
  have "returns (I (insert x D)) (attemptAll f wrap xs) (\<lambda>errs u. errs = [] \<and> I (set xs \<union> insert x D) u)"
    using Cons.prems by (intro Cons.IH) auto
  then have "returns (I (insert x D)) (andThen (attemptAll f wrap xs) (\<lambda>es. ret es))
      (\<lambda>errs u. errs = [] \<and> I (set (x # xs) \<union> D) u)"
    by (rule returns_andThen) (auto intro: returns_ret)
  then show ?case
    unfolding attemptAll.simps using Cons.prems by (intro returns_attempt [OF Cons.prems(3)]) auto
qed (auto intro: returns_ret)

text \<open>A batch whose calls all return: an invariant of the names done so far.\<close>

lemma returns_SlowStartBatch:
  assumes sched: "\<And>ys. mset (sched ys) = mset ys" and "initial > 0" and dist: "distinct xs"
    and step: "\<And>D i. i < length xs \<Longrightarrow> xs ! i \<notin> D \<Longrightarrow> returns (I D) (fn i) (\<lambda>_. I (insert (xs ! i) D))"
  shows "returns (I {}) (SlowStartBatch sched (int (length xs)) initial fn)
    (\<lambda>(n, err) u. err = None \<and> I (set xs) u)"
proof -
  have "returns (I (set (take k xs))) (SlowStartBatch_loop sched fn want (int (length xs) - int k) s k)
      (\<lambda>(n, err) u. err = None \<and> I (set xs) u)" if "want > 0" "k \<le> length xs" for want s k
    using that
  proof (induction "length xs - k" arbitrary: want s k rule: less_induct)
    case less
    let ?rem = "int (length xs) - int k" and ?b = "min want (int (length xs) - int k)"
    show ?case
    proof (cases "?b > 0")
      case False
      with less.prems have "k = length xs" by auto
      with False show ?thesis
        by (subst SlowStartBatch_loop.simps) (auto intro: returns_ret)
    next
      case True
      define k' where "k' = k + nat ?b"
      have k': "k < k'" "k' \<le> length xs" "?rem - ?b = int (length xs) - int k'"
        using True less.prems by (auto simp: k'_def)
      let ?js = "sched [k..<k']"
      have js: "set ?js = {k..<k'}" "distinct ?js"
        using sched [of "[k..<k']"] by (metis set_upt set_mset_mset, metis distinct_upt mset_eq_imp_distinct_iff)
      have names: "(!) xs ` {k..<k'} \<union> set (take k xs) = set (take k' xs)"
      proof -
        have "take k' xs = take k xs @ map ((!) xs) [k..<k']"
          using k' by (intro nth_equalityI) (auto simp: nth_append)
        then show ?thesis by (simp add: Un_commute)
      qed
      have batch: "returns (I ((!) xs ` {} \<union> set (take k xs))) (runBatch fn ?js)
          (\<lambda>errs u. errs = [] \<and> I ((!) xs ` (set ?js \<union> {}) \<union> set (take k xs)) u)"
      proof (rule returns_runBatch [where A = "{k..<k'}" and I = "\<lambda>D. I ((!) xs ` D \<union> set (take k xs))"])
        fix D i assume i: "i \<in> set ?js" "i \<notin> D" "D \<subseteq> {k..<k'}"
        then have lt: "i < length xs" "k \<le> i" using js(1) k'(2) by auto
        have "xs ! i \<notin> (!) xs ` D"
        proof
          assume "xs ! i \<in> (!) xs ` D"
          then obtain j where "j \<in> D" "xs ! i = xs ! j" by auto
          moreover have "j < length xs" using calculation(1) i(3) k'(2) by auto
          ultimately show False using i(2) lt(1) nth_eq_iff_index_eq [OF dist] by blast
        qed
        moreover have "xs ! i \<notin> set (take k xs)"
          using lt nth_eq_iff_index_eq [OF dist] by (force simp: in_set_conv_nth)
        ultimately show "returns (I ((!) xs ` D \<union> set (take k xs))) (fn i)
            (\<lambda>_. I ((!) xs ` insert i D \<union> set (take k xs)))"
          using step [OF lt(1), of "(!) xs ` D \<union> set (take k xs)"] by simp
      qed (use js in auto)
      have later: "returns (I (set (take k' xs)))
          (SlowStartBatch_loop sched fn (2 * ?b) (int (length xs) - int k') s' k')
          (\<lambda>(n, err) u. err = None \<and> I (set xs) u)" for s'
        using k' True less.prems by (intro less.hyps) auto
      have "returns (I (set (take k xs))) (andThen (runBatch fn ?js) (\<lambda>errs.
            (let successes' = s + (?b - int (length errs)) in case errs of
               e # _ \<Rightarrow> ret (successes', Some e)
             | [] \<Rightarrow> SlowStartBatch_loop sched fn (2 * ?b) (?rem - ?b) successes' (k + nat ?b))))
          (\<lambda>(n, err) u. err = None \<and> I (set xs) u)"
      proof (rule returns_andThen [OF batch [simplified], unfolded js names], goal_cases)
        case (1 errs)
        show ?case
          using later by (cases errs) (auto simp: returns_def k'(3) k'_def [symmetric])
      qed
      with True show ?thesis
        by (subst SlowStartBatch_loop.simps) (simp add: k'_def Let_def)
    qed
  qed
  from this [of initial 0] \<open>initial > 0\<close> show ?thesis by (simp add: SlowStartBatch_def)
qed

subsection \<open>A store whose server answers\<close>

text \<open>
  \<open>answers e t\<close>: lists, creations and updates succeed for the kind \<open>t\<close> of the template, and a deletion
  finds the pool or not.
\<close>

locale pool_server = pool_store +
  fixes answers
  assumes list_answers: "answers e t' \<Longrightarrow> (t, c) \<in> set (controls e) \<Longrightarrow> invar e (store e w) \<Longrightarrow>
      \<exists>ps w'. c_GetAllPools c (owner e) w = (Ret ps, w')"
    and create_answers: "answers e t \<Longrightarrow> (t, c) \<in> set (controls e) \<Longrightarrow> invar e (store e w) \<Longrightarrow>
      p \<in> expectedPools (owner e) \<Longrightarrow> \<exists>w'. c_CreatePool c (owner e) p r n w = (Ret (), w')"
    and update_answers: "answers e t \<Longrightarrow> (t, c) \<in> set (controls e) \<Longrightarrow> invar e (store e w) \<Longrightarrow>
      pool \<in> set (pools e t (store e w)) \<Longrightarrow> p_name pool \<in> expectedPools (owner e) \<Longrightarrow>
      \<exists>w'. c_UpdatePool c pool (owner e) r n w = (Ret (), w')"
    and delete_answers: "answers e t' \<Longrightarrow> (t, c) \<in> set (controls e) \<Longrightarrow> invar e (store e w) \<Longrightarrow>
      pool \<in> listed (invar e) (pools e t) \<Longrightarrow>
      \<exists>q w'. c_DeletePool c pool w = (q, w') \<and> (q = Ret () \<or> (\<exists>er. q = Err er \<and> isNotFound er))"
    and delete_present: "answers e t' \<Longrightarrow> (t, c) \<in> set (controls e) \<Longrightarrow> invar e (store e w) \<Longrightarrow>
      pool \<in> set (pools e t (store e w)) \<Longrightarrow> \<exists>w'. c_DeletePool c pool w = (Ret (), w')"
begin

lemma deleteDups_answers:
  assumes a: "answers e t'" and c: "(t, c) \<in> set (controls e)"
  shows "set ds \<subseteq> listed (invar e) (pools e t) \<Longrightarrow>
    returns (\<lambda>u. invar e (store e u)) (deleteDups c ds) (\<lambda>_ u. invar e (store e u))"
proof (induction ds)
  case (Cons d ds)
  then have later: "returns (\<lambda>u. invar e (store e u)) (deleteDups c ds) (\<lambda>_ u. invar e (store e u))" by simp
  show ?case
  proof (rule returnsI)
    fix w assume i: "invar e (store e w)"
    have d: "d \<in> listed (invar e) (pools e t)" using Cons.prems by simp
    obtain q w1 where q: "c_DeletePool c d w = (q, w1)" "q = Ret () \<or> (\<exists>er. q = Err er \<and> isNotFound er)"
      using delete_answers [OF a c i d] by blast
    have "invar e (store e w1)" using delete [OF c i d q] by (simp add: changed_def)
    with later obtain x w2 where "deleteDups c ds w1 = (Ret x, w2)" "invar e (store e w2)"
      by (rule returnsE)
    with q show "\<exists>x w'. deleteDups c (d # ds) w = (Ret x, w') \<and> invar e (store e w')"
      by (auto simp: andThen_def attempt_def)
  qed
qed (auto intro: returns_ret)

lemma deleteDupPool_answers:
  assumes a: "answers e t'" and c: "(t, c) \<in> set (controls e)"
  shows "(\<And>name ps. (name, ps) \<in> set kvs \<Longrightarrow> set ps \<subseteq> listed (invar e) (pools e t)) \<Longrightarrow>
    returns (\<lambda>u. invar e (store e u)) (deleteDupPool_from c kvs m) (\<lambda>_ u. invar e (store e u))"
proof (induction kvs arbitrary: m)
  case (Cons kv kvs)
  obtain name ps where kv: "kv = (name, ps)" by fastforce
  have "set (tl ps) \<subseteq> listed (invar e) (pools e t)"
    using Cons.prems [of name ps] kv by (cases ps) auto
  from deleteDups_answers [OF a c this] Cons show ?case
    unfolding kv deleteDupPool_from.simps by (intro returns_andThen) auto
qed (auto intro: returns_ret)

lemma getNameToPool_answers:
  assumes a: "answers e t'" and c: "(t, c) \<in> set (controls e)" and i: "invar e (store e w)"
  shows "\<exists>m w'. getNameToPool env (owner e) c w = (Ret m, w')"
proof -
  obtain ps w1 where g: "c_GetAllPools c (owner e) w = (Ret ps, w1)"
    using list_answers [OF a c i] by blast
  note l = list [OF c i g]
  then have sub: "set ps \<subseteq> listed (invar e) (pools e t)"
    using i mset_eq_setD [of ps] by (auto simp: listed_def)
  have "set qs \<subseteq> set ps" if "(name, qs) \<in> set (entries (classifyPoolByPoolName ps))" for name qs
    using that gget_Some_iff [OF gomap_ok_classify, of ps name qs]
    by (auto simp: gget_classify split: list.splits)
  with sub have r: "returns (\<lambda>u. invar e (store e u)) (deleteDupPool c (classifyPoolByPoolName ps))
      (\<lambda>_ u. invar e (store e u))"
    unfolding deleteDupPool_def by (intro deleteDupPool_answers [OF a c]) blast
  have "invar e (store e w1)" using l i by simp
  with r obtain m w2 where "deleteDupPool c (classifyPoolByPoolName ps) w1 = (Ret m, w2)"
    by (rule returnsE)
  with g show ?thesis by (auto simp: getNameToPool_def andThen_def attempt_def ret_def)
qed

text \<open>Deleting pools that are there, each once.\<close>

lemma deletes_answer:
  assumes a: "answers e t'" and c: "(t, c) \<in> set (controls e)" and dist: "distinct (map h xs)"
  shows "returns (\<lambda>u. invar e (store e u) \<and> h ` set xs \<subseteq> set (pools e t (store e u)))
    (attemptAll (\<lambda>x. c_DeletePool c (h x)) wrap xs) (\<lambda>errs u. errs = [] \<and> invar e (store e u))"
proof -
  let ?I = "\<lambda>D u. invar e (store e u) \<and> h ` (set xs - D) \<subseteq> set (pools e t (store e u))"
  have "returns (?I {}) (attemptAll (\<lambda>x. c_DeletePool c (h x)) wrap xs)
      (\<lambda>errs u. errs = [] \<and> ?I (set xs \<union> {}) u)"
  proof (rule returns_attemptAll)
    fix D x assume x: "x \<in> set xs" "x \<notin> D"
    show "returns (?I D) (c_DeletePool c (h x)) (\<lambda>_. ?I (insert x D))"
    proof (rule returnsI)
      fix w assume w: "?I D w"
      then have i: "invar e (store e w)" and p: "h x \<in> set (pools e t (store e w))" using x by auto
      obtain w' where d: "c_DeletePool c (h x) w = (Ret (), w')"
        using delete_present [OF a c i p] by blast
      have "h x \<in> listed (invar e) (pools e t)" using i p by (auto simp: listed_def)
      from delete [OF c i this d] have w': "invar e (store e w')"
        "pools e t (store e w') = removePools [h x] (pools e t (store e w))"
        by (simp_all add: changed_def)
      have "h y \<noteq> h x" if "y \<in> set xs" "y \<noteq> x" for y
        using that x(1) dist by (auto simp: distinct_map dest: inj_onD)
      then have "h ` (set xs - insert x D) \<subseteq> set (pools e t (store e w'))"
        using w p by (auto simp: w'(2) removePools_keys [OF keys [OF i]])
      with d w' show "\<exists>q w'. c_DeletePool c (h x) w = (Ret q, w') \<and> ?I (insert x D) w'" by blast
    qed
  qed (use dist in \<open>simp_all add: distinct_map\<close>)
  then show ?thesis by (rule returns_weaken) auto
qed

lemma cleanOthers_answers:
  assumes a: "answers e t'"
  shows "set cs \<subseteq> set (controls e) \<Longrightarrow>
    returns (\<lambda>u. invar e (store e u)) (cleanOthers t (owner e) cs) (\<lambda>(cleaned, errs) u. errs = [])"
proof (induction cs)
  case (Cons tc cs)
  obtain t1 c where tc: "tc = (t1, c)" by fastforce
  have later: "returns (\<lambda>u. invar e (store e u)) (cleanOthers t (owner e) cs) (\<lambda>(cleaned, errs) u. errs = [])"
    using Cons by simp
  show ?case
  proof (cases "t1 = t")
    case False
    show ?thesis
    proof (rule returnsI)
      fix w assume i: "invar e (store e w)"
      have c: "(t1, c) \<in> set (controls e)" using Cons.prems tc by simp
      obtain ps w1 where g: "c_GetAllPools c (owner e) w = (Ret ps, w1)"
        using list_answers [OF a c i] by blast
      note l = list [OF c i g]
      have "distinct (map objectKey ps)"
        using keys [OF i] l by (metis mset_eq_imp_distinct_iff mset_map)
      then have "distinct (map (\<lambda>p. p) ps)" by (simp add: distinct_map)
      from deletes_answer [OF a c this]
      have "returns (\<lambda>u. invar e (store e u) \<and> set ps \<subseteq> set (pools e t1 (store e u)))
          (deleteOthers c t1 (owner e) ps) (\<lambda>errs u. errs = [] \<and> invar e (store e u))"
        by (simp add: deleteOthers_def)
      moreover have "invar e (store e w1) \<and> set ps \<subseteq> set (pools e t1 (store e w1))"
        using l i mset_eq_setD [of ps] by auto
      ultimately obtain errs w2 where "deleteOthers c t1 (owner e) ps w1 = (Ret errs, w2)"
        "errs = [] \<and> invar e (store e w2)"
        by (rule returnsE)
      then have d: "deleteOthers c t1 (owner e) ps w1 = (Ret [], w2)" "invar e (store e w2)" by simp_all
      obtain cl w3 where "cleanOthers t (owner e) cs w2 = (Ret (cl, []), w3)"
        using later d(2) by (rule returnsE) (auto split: prod.splits)
      with False tc g d show "\<exists>x w'. cleanOthers t (owner e) (tc # cs) w = (Ret x, w') \<and>
          (case x of (cleaned, errs) \<Rightarrow> \<lambda>u. errs = []) w'"
        by (auto simp: andThen_def attempt_def ret_def split: prod.splits)
    qed
  qed (use later tc in simp)
qed (auto intro: returns_ret)

text \<open>Provisioning and updating on a server that answers.\<close>

lemma creates_answer:
  assumes a: "answers e t" and ok: "batch_ok env" and ev: "\<And>a b u. store e (rt_Event env a b u) = store e u"
    and c: "(t, c) \<in> set (controls e)" and i: "invar e s" and names: "distinct (map p_name (pools e t s))"
    and new: "set cs \<subseteq> expectedPools (owner e)" "distinct cs"
      "\<And>name. name \<in> set cs \<Longrightarrow> poolNamed (pools e t s) name = None"
  shows "returns (\<lambda>u. store e u = s) (if length cs > 0 then
        andThen (SlowStartBatch (rt_sched env) (int (length cs)) slowStartInitialBatchSize
            (createOne c t (owner e) next revision cs)) (\<lambda>(n, err).
          case err of
            None \<Rightarrow> andThen (event env reason (msg n)) (\<lambda>_. ret [])
          | Some e \<Rightarrow> ret [e])
      else ret [])
    (\<lambda>errs u. errs = [] \<and> written (invar e) (pools e) t
      (\<lambda>name. pool_shows c name revision (yp_replicas (patchesOf next name))) s (set cs) (store e u))"
proof (rule returns_if)
  let ?I = "\<lambda>D u. written (invar e) (pools e) t
      (\<lambda>name. pool_shows c name revision (yp_replicas (patchesOf next name))) s D (store e u)"
  have "returns (?I {}) (SlowStartBatch (rt_sched env) (int (length cs)) slowStartInitialBatchSize
      (createOne c t (owner e) next revision cs)) (\<lambda>(n, err) u. err = None \<and> ?I (set cs) u)"
  proof (rule returns_SlowStartBatch [OF _ _ new(2)])
    fix D k assume k: "k < length cs" "cs ! k \<notin> D"
    then have p: "cs ! k \<in> expectedPools (owner e)" "poolNamed (pools e t s) (cs ! k) = None"
      using new by (auto dest: nth_mem)
    show "returns (?I D) (createOne c t (owner e) next revision cs k) (\<lambda>_. ?I (insert (cs ! k) D))"
    proof (rule returnsI)
      fix w assume w: "?I D w"
      then have "invar e (store e w)" by (simp add: written_def)
      then obtain w' where run: "c_CreatePool c (owner e) (cs ! k) revision
          (yp_replicas (patchesOf next (cs ! k))) w = (Ret (), w')"
        using create_answers [OF a c _ p(1)] by blast
      from createOne_writes [OF c p k(2) w run] run
      show "\<exists>x w'. createOne c t (owner e) next revision cs k w = (Ret x, w') \<and> ?I (insert (cs ! k) D) w'"
        by (auto simp: createOne_def Let_def andThen_def attempt_def ret_def)
    qed
  qed (use ok in \<open>simp_all add: batch_ok_def slowStartInitialBatchSize_def\<close>)
  then show "returns (\<lambda>u. store e u = s) (andThen (SlowStartBatch (rt_sched env) (int (length cs))
        slowStartInitialBatchSize (createOne c t (owner e) next revision cs)) (\<lambda>(n, err).
          case err of
            None \<Rightarrow> andThen (event env reason (msg n)) (\<lambda>_. ret [])
          | Some e \<Rightarrow> ret [e])) (\<lambda>errs u. errs = [] \<and> ?I (set cs) u)"
  proof (intro returnsI)
    fix w assume batch: "returns (?I {}) (SlowStartBatch (rt_sched env) (int (length cs))
        slowStartInitialBatchSize (createOne c t (owner e) next revision cs))
        (\<lambda>(n, err) u. err = None \<and> ?I (set cs) u)" and w: "store e w = s"
    have "?I {} w" using written_nothing [of "invar e" s "pools e" t, OF i names] w by simp
    with batch obtain n w1 where "SlowStartBatch (rt_sched env) (int (length cs))
        slowStartInitialBatchSize (createOne c t (owner e) next revision cs) w = (Ret (n, None), w1)"
      "?I (set cs) w1"
      by (rule returnsE) (auto split: prod.splits)
    then show "\<exists>x w'. andThen (SlowStartBatch (rt_sched env) (int (length cs))
        slowStartInitialBatchSize (createOne c t (owner e) next revision cs)) (\<lambda>(n, err).
          case err of
            None \<Rightarrow> andThen (event env reason (msg n)) (\<lambda>_. ret [])
          | Some e \<Rightarrow> ret [e]) w = (Ret x, w') \<and> x = [] \<and> ?I (set cs) w'"
      by (simp add: andThen_def event_def ev ret_def)
  qed
qed (use written_nothing [of "invar e" s "pools e" t, OF i names] in \<open>auto intro: returns_ret\<close>)

lemma updates_answer:
  assumes a: "answers e t" and ok: "batch_ok env"
    and c: "(t, c) \<in> set (controls e)" and i: "invar e s" and names: "distinct (map p_name (pools e t s))"
    and old: "set us \<subseteq> expectedPools (owner e)" "distinct us"
      "\<And>name. name \<in> set us \<Longrightarrow> poolNamed (pools e t s) name = Some (the (gget m name))"
  shows "returns (\<lambda>u. store e u = s) (if length us > 0 then
        andThen (SlowStartBatch (rt_sched env) (int (length us)) slowStartInitialBatchSize
            (updateOne env c t (owner e) m next revision us)) (\<lambda>(_, err). ret err)
      else ret None) (\<lambda>err u. err = None)"
proof (rule returns_if)
  let ?I = "\<lambda>D u. written (invar e) (pools e) t
      (\<lambda>name. pool_shows c name revision (yp_replicas (patchesOf next name))) s D (store e u)"
  have "returns (?I {}) (SlowStartBatch (rt_sched env) (int (length us)) slowStartInitialBatchSize
      (updateOne env c t (owner e) m next revision us)) (\<lambda>(n, err) u. err = None \<and> ?I (set us) u)"
  proof (rule returns_SlowStartBatch [OF _ _ old(2)])
    fix D k assume k: "k < length us" "us ! k \<notin> D"
    then have p: "us ! k \<in> expectedPools (owner e)"
      "poolNamed (pools e t s) (us ! k) = Some (the (gget m (us ! k)))"
      using old by (auto dest: nth_mem)
    show "returns (?I D) (updateOne env c t (owner e) m next revision us k) (\<lambda>_. ?I (insert (us ! k) D))"
    proof (rule returnsI)
      fix w assume w: "?I D w"
      then have iw: "invar e (store e w)" by (simp add: written_def)
      note pool = written_keeps [OF w p(2) k(2)]
      obtain w' where run: "c_UpdatePool c (the (gget m (us ! k))) (owner e) revision
          (yp_replicas (patchesOf next (us ! k))) w = (Ret (), w')"
        using update_answers [OF a c iw pool(1)] pool(2) p(1) by metis
      from updateOne_writes [OF c p k(2) w run] run
      show "\<exists>x w'. updateOne env c t (owner e) m next revision us k w = (Ret x, w') \<and>
          ?I (insert (us ! k) D) w'"
        by (auto simp: updateOne_def Let_def andThen_def attempt_def ret_def)
    qed
  qed (use ok in \<open>simp_all add: batch_ok_def slowStartInitialBatchSize_def\<close>)
  then show "returns (\<lambda>u. store e u = s) (andThen (SlowStartBatch (rt_sched env) (int (length us))
        slowStartInitialBatchSize (updateOne env c t (owner e) m next revision us))
        (\<lambda>(_, err). ret err)) (\<lambda>err u. err = None)"
  proof (intro returnsI)
    fix w assume batch: "returns (?I {}) (SlowStartBatch (rt_sched env) (int (length us))
        slowStartInitialBatchSize (updateOne env c t (owner e) m next revision us))
        (\<lambda>(n, err) u. err = None \<and> ?I (set us) u)" and w: "store e w = s"
    have "?I {} w" using written_nothing [of "invar e" s "pools e" t, OF i names] w by simp
    with batch obtain n w1 where "SlowStartBatch (rt_sched env) (int (length us))
        slowStartInitialBatchSize (updateOne env c t (owner e) m next revision us) w = (Ret (n, None), w1)"
      by (rule returnsE) (auto split: prod.splits)
    then show "\<exists>x w'. andThen (SlowStartBatch (rt_sched env) (int (length us))
        slowStartInitialBatchSize (updateOne env c t (owner e) m next revision us))
        (\<lambda>(_, err). ret err) w = (Ret x, w') \<and> x = None"
      by (simp add: andThen_def ret_def)
  qed
qed (auto intro: returns_ret)

lemma deletes_phase_answers:
  assumes a: "answers e t'" and c: "(t, c) \<in> set (controls e)"
    and ev: "\<And>a b u. store e (rt_Event env a b u) = store e u"
    and i: "invar e (store e w)" and there: "snd ` set kvs \<subseteq> set (pools e t (store e w))"
    and dist: "distinct (map snd kvs)"
  obtains w' where "(if length kvs > 0 then
        andThen (deleteAll c t kvs) (\<lambda>errs. if length errs > 0 then ret errs
          else andThen (event env reason msg) (\<lambda>_. ret []))
      else ret []) w = (Ret [], w')" and "invar e (store e w')"
proof -
  have "returns (\<lambda>u. invar e (store e u) \<and> snd ` set kvs \<subseteq> set (pools e t (store e u)))
      (deleteAll c t kvs) (\<lambda>errs u. errs = [] \<and> invar e (store e u))"
    using deletes_answer [OF a c dist] by (simp add: deleteAll_def case_prod_beta')
  then obtain errs u where "deleteAll c t kvs w = (Ret errs, u)" "errs = [] \<and> invar e (store e u)"
    by (rule returnsE) (use i there in simp)
  with i ev that [of "if length kvs > 0 then rt_Event env reason msg u else w"] show thesis
    by (simp add: andThen_def event_def ret_def)
qed

lemma provision_answers:
  assumes a: "answers e t" and conv: "ye_poolControls env = controls e" and ok: "batch_ok env"
    and ev: "\<And>a b u. store e (rt_Event env a b u) = store e u"
    and i: "invar e (store e w)" and names: "distinct (map p_name (pools e t (store e w)))"
    and mir: "poolNamed (pools e t (store e w)) = gget m" and t: "map_of (controls e) t = Some c"
  shows "\<exists>exists provisioned w'. managePoolProvision env (owner e) m next revision t w
    = (Ret (exists, provisioned, None), w')"
proof -
  let ?E = "expectedPools (owner e)" and ?G = "gotPools m"
  let ?cs = "sorted_list_of_set (?E - ?G)" and ?ds = "sorted_list_of_set (?G - ?E)"
  let ?kvs = "map (\<lambda>k. (k, the (gget m k))) ?ds"
  have fin: "finite ?E" "finite ?G" by (simp_all add: expectedPools_def gotPools_def)
  have c: "(t, c) \<in> set (controls e)" using t by (rule map_of_SomeD)
  have new: "set ?cs \<subseteq> ?E" "distinct ?cs"
    "\<And>name. name \<in> set ?cs \<Longrightarrow> poolNamed (pools e t (store e w)) name = None"
    using fin mir by (auto simp: got_iff)
  let ?creates = "if length ?cs > 0 then
      andThen (SlowStartBatch (rt_sched env) (int (length ?cs)) slowStartInitialBatchSize
          (createOne c t (owner e) next revision ?cs)) (\<lambda>(n, err).
        case err of
          None \<Rightarrow> andThen (event env ''SuccessfulUpdatePool'' (countMessage ''Create '' n t)) (\<lambda>_. ret [])
        | Some e \<Rightarrow> ret [e])
    else ret []"
    and ?wr = "\<lambda>u. written (invar e) (pools e) t
      (\<lambda>name. pool_shows c name revision (yp_replicas (patchesOf next name)))
      (store e w) (set ?cs) (store e u)"
  have "returns (\<lambda>u. store e u = store e w) ?creates (\<lambda>errs u. errs = [] \<and> ?wr u)"
    by (rule creates_answer [OF a ok ev c i names new])
  then obtain errs1 w1 where w1: "?creates w = (Ret errs1, w1)" and "errs1 = [] \<and> ?wr w1"
    by (rule returnsE) (rule refl, rule that)
  then have no: "errs1 = []" and wr: "?wr w1" by simp_all
  then have i1: "invar e (store e w1)" by (simp add: written_def)
  have p: "the (gget m k) \<in> set (pools e t (store e w1)) \<and> p_name (the (gget m k)) = k" if "k \<in> set ?ds" for k
  proof -
    have there: "k \<in> ?G" and new: "k \<notin> set ?cs" using that fin by simp_all
    from there have "poolNamed (pools e t (store e w)) k = Some (the (gget m k))"
      unfolding mir got_iff by (rule option.collapse [symmetric])
    from written_keeps [OF wr this new] show ?thesis by blast
  qed
  then have "inj_on (\<lambda>k. the (gget m k)) (set ?ds)"
    by (intro inj_on_inverseI [where g = p_name]) blast
  then have dist: "distinct (map snd ?kvs)" by (simp add: distinct_map comp_def)
  have there: "snd ` set ?kvs \<subseteq> set (pools e t (store e w1))" using p by auto
  obtain w2 where w2: "(if length ?ds > 0 then
        andThen (deleteAll c t ?kvs) (\<lambda>deleteErrs. if length deleteErrs > 0 then ret deleteErrs
          else andThen (event env ''SuccessfulUpdatePool'' (countMessage ''Delete '' (int (length ?ds)) t))
            (\<lambda>_. ret []))
      else ret []) w1 = (Ret [], w2)" and "invar e (store e w2)"
    by (rule deletes_phase_answers [where kvs = ?kvs, unfolded length_map, OF a c ev i1 there dist])
  from cleanOthers_answers [OF a subset_refl] this(2) obtain cl w3 where
    w3: "cleanOthers t (owner e) (controls e) w2 = (Ret (cl, []), w3)"
    by (rule returnsE) (auto split: prod.splits)
  have agg: "rt_NewAggregate env [] = None" using ok by (simp add: batch_ok_def)
  have "managePoolProvision env (owner e) m next revision t w =
      (Ret (?E \<inter> ?G, length ?cs > 0 \<or> length ?ds > 0 \<or> cl, None), w3)"
    unfolding managePoolProvision_def Let_def conv t option.case
    by (rule andThen_Ret [THEN trans], rule w1, rule andThen_Ret [THEN trans], rule w2,
        rule andThen_Ret [THEN trans], rule w3) (simp add: ret_def no agg)
  then show ?thesis by blast
qed

lemma managePools_answers:
  assumes a: "answers e t" and conv: "ye_poolControls env = controls e" and ok: "batch_ok env"
    and ev: "\<And>a b u. store e (rt_Event env a b u) = store e u"
    and i: "invar e (store e w)" and names: "distinct (map p_name (pools e t (store e w)))"
    and mir: "poolNamed (pools e t (store e w)) = gget m" and t: "map_of (controls e) t = Some c"
  shows "\<exists>status w'. managePools env (owner e) m next revision t w = (Ret (status, None), w')"
proof -
  have c: "(t, c) \<in> set (controls e)" using t by (rule map_of_SomeD)
  obtain exists provisioned w1 where
    p: "managePoolProvision env (owner e) m next revision t w = (Ret (exists, provisioned, None), w1)"
    using provision_answers [OF a conv ok ev i names mir t] by blast
  obtain ex: "exists = expectedPools (owner e) \<inter> gotPools m" using p by (rule managePoolProvision_phases)
  let ?us = "filter (needsUpdate c m next revision) (sorted_list_of_set exists)"
  have us: "set ?us \<subseteq> expectedPools (owner e) \<inter> gotPools m" using ex by (auto simp: expectedPools_def)
  note settles = provision_settles [OF conv ok ev i names mir p t]
  have old: "poolNamed (pools e t (store e w1)) name = Some (the (gget m name))" if "name \<in> set ?us" for name
  proof -
    have "name \<in> expectedPools (owner e) \<inter> gotPools m" using us that by blast
    with settles(4) [OF this] show ?thesis by (auto simp: got_iff)
  qed
  have "returns (\<lambda>u. store e u = store e w1) (if length ?us > 0 then
        andThen (SlowStartBatch (rt_sched env) (int (length ?us)) slowStartInitialBatchSize
            (updateOne env c t (owner e) m next revision ?us)) (\<lambda>(_, err). ret err)
      else ret None) (\<lambda>err u. err = None)"
    using us old by (intro updates_answer [OF a ok c settles(1,2)]) auto
  then obtain w2 where u: "(if length ?us > 0 then
        andThen (SlowStartBatch (rt_sched env) (int (length ?us)) slowStartInitialBatchSize
            (updateOne env c t (owner e) m next revision ?us)) (\<lambda>(_, err). ret err)
      else ret None) w1 = (Ret None, w2)"
    by (rule returnsE) auto
  have st: "\<exists>st. (if provisioned
        then setConditionNow env (yas_status (owner e)) PoolProvisioned ''True'' [] []
        else ret (yas_status (owner e))) w1 = (Ret st, w1)"
    by (simp add: setConditionNow_eq ret_def)
  then obtain st where st: "(if provisioned
        then setConditionNow env (yas_status (owner e)) PoolProvisioned ''True'' [] []
        else ret (yas_status (owner e))) w1 = (Ret st, w1)" by blast
  have "managePools env (owner e) m next revision t w = (Ret (SetYurtAppSetCondition st
      (NewYurtAppSetCondition (rt_Now env w2) PoolUpdated ''True'' [] []), None), w2)"
    unfolding managePools_def
    by (rule andThen_Ret [THEN trans], rule p, unfold prod.case option.case conv t Let_def,
        rule andThen_Ret [THEN trans], rule st, rule andThen_Ret [THEN trans], rule u)
      (simp add: andThen_def setConditionNow_eq ret_def)
  then show ?thesis by blast
qed

text \<open>So one reconciliation, from the control on, leaves the pools settled.\<close>

lemma reconcile_settles:
  assumes a: "answers e t" and conv: "ye_poolControls (yc_upd env) = controls e"
    and ok: "batch_ok (yc_upd env)"
    and ev: "\<And>a b u. store e (rt_Event (yc_upd env) a b u) = store e u"
    and upd: "\<And>obj u. store e (snd (yc_UpdateStatus env obj u)) = store e u"
    and get: "\<And>ns name u. store e (snd (yc_Get env ns name u)) = store e u"
    and plain: "\<And>name. name \<in> expectedPools (owner e) \<Longrightarrow>
      yp_patch (patchesOf (GetNextPatches (owner e)) name) = []"
    and ctl: "getPoolControls (yc_upd env) (owner e) = Inr (Some c, t)" and i: "invar e (store e w)"
    and s: "s = store e (snd (reconcilePools env (owner e) current updated cnt w))"
  shows "invar e s" and "pools_settled c (owner e) (m_name updated) (pools e t s)"
    and "t' \<noteq> t \<Longrightarrow> t' \<in> fst ` set (controls e) \<Longrightarrow> pools e t' s = []"
proof -
  have t: "map_of (controls e) t = Some c"
    using ctl conv by (auto simp: getPoolControls_def split: if_splits)
  have c: "(t, c) \<in> set (controls e)" using t by (rule map_of_SomeD)
  obtain m w1 where got: "getNameToPool (yc_upd env) (owner e) c w = (Ret m, w1)"
    using getNameToPool_answers [OF a c i] by blast
  obtain status w2 where run: "managePools (yc_upd env) (owner e) m (GetNextPatches (owner e))
      (m_name updated) t w1 = (Ret (status, None), w2)"
    using managePools_answers [OF a conv ok ev getNameToPool_mirrors [OF c i got] t] by blast
  have "preserves (\<lambda>u. store e u = store e w2)
      (updateStatus env (owner e) status (yas_status (owner e)) m current cnt c)"
    using upd get by (intro preserves_updateStatus) (simp_all add: preserves_def)
  then have "s = store e w2"
    using s ctl got run
    by (simp add: reconcilePools_def Let_def andThen_Ret attempt_Ret ret_def preserves_def)
  with managePools_settles [OF conv ok ev plain t i got run] show "invar e s"
    "pools_settled c (owner e) (m_name updated) (pools e t s)"
    "t' \<noteq> t \<Longrightarrow> t' \<in> fst ` set (controls e) \<Longrightarrow> pools e t' s = []" by simp_all
qed

end

end
