(* ===== verification/YAS_Store.thy ===== *)
theory YAS_Store
  imports YAS_Live
begin

section \<open>YurtAppSet: an API server as a store of pools\<close>

text \<open>
  The stores of \<open>YAS_Converge\<close> realised: the control the reconciler is built with
  (\<open>newReconciler_controls\<close>) on an API server that keeps the workloads it was sent. The list of
  the pools of a kind is what \<open>convertToPool\<close> makes of the workloads that the selector selects and
  that the YurtAppSet controls. The interpretation \<open>stored\<close> discharges the laws of the interface
  for it, and the properties at the end are its facts on the code's own control.
\<close>

subsection \<open>An API server that keeps what it was sent\<close>

text \<open>The server the control of the pools works on, the YurtAppSet, and the workloads stored.\<close>

record 'w server =
  sv_pc :: "'w pc_env"
  sv_owner :: yas
  sv_objects :: "'w \<Rightarrow> workload list"

definition bodyKind :: "workload \<Rightarrow> template_type" where
  "bodyKind obj = (case w_body obj of DeploymentBody _ _ \<Rightarrow> DeploymentTemplateType
     | StatefulSetBody _ _ \<Rightarrow> StatefulSetTemplateType)"

definition objectId :: "workload \<Rightarrow> template_type \<times> string \<times> string" where
  "objectId obj = (bodyKind obj, m_namespace obj, m_name obj)"

definition replaceObject :: "workload \<Rightarrow> workload list \<Rightarrow> workload list" where
  "replaceObject stored = map (\<lambda>obj. if objectId obj = objectId stored then stored else obj)"

definition adapterOf :: "'w pc_env \<Rightarrow> template_type \<Rightarrow> adapter" where
  "adapterOf env t = (if t = StatefulSetTemplateType then StatefulSetAdapter (pce_ad env)
     else DeploymentAdapter (pce_ad env))"

text \<open>What a server may not touch of an object it is sent; it chooses the name of a new one, and
  versions, defaults and the status of any.\<close>

definition keeps :: "workload \<Rightarrow> workload \<Rightarrow> bool" where
  "keeps sent stored \<longleftrightarrow>
     bodyKind stored = bodyKind sent \<and> m_namespace stored = m_namespace sent \<and>
     m_labels stored = m_labels sent \<and> m_annotations stored = m_annotations sent \<and>
     m_owners stored = m_owners sent \<and>
     (\<forall>n. wantedReplicas sent = Some n \<longrightarrow> wantedReplicas stored = Some n)"

text \<open>
  What is used of an API server. A list comes in any order. An update that reports an error may
  have been carried out or not. A creation does not run into a timeout (the code takes one for a
  success), and an object that is deleted has no finalizers that keep it.
\<close>

definition object_store :: "'w pc_env \<Rightarrow> ('w \<Rightarrow> workload list) \<Rightarrow> bool" where
  "object_store env objs \<longleftrightarrow>
     (\<forall>kind sel w r w'. pce_List env kind sel w = (r, w') \<longrightarrow> objs w' = objs w \<and>
        (\<forall>os. r = Ret os \<longrightarrow> mset os = mset (filter (\<lambda>obj. kind obj \<and> sel (m_labels obj)) (objs w)))) \<and>
     (\<forall>kind ns name w r w'. pce_Get env kind ns name w = (r, w') \<longrightarrow> objs w' = objs w \<and>
        (\<forall>obj. r = Ret obj \<longrightarrow>
          obj \<in> set (objs w) \<and> kind obj \<and> m_namespace obj = ns \<and> m_name obj = name)) \<and>
     (\<forall>obj w r w'. pce_Create env obj w = (r, w') \<longrightarrow>
        (\<forall>e. r = Err e \<longrightarrow> \<not> isTimeout e) \<and>
        (\<forall>stored. r = Ret stored \<longrightarrow> keeps obj stored \<and> objectId stored \<notin> objectId ` set (objs w) \<and>
          objs w' = objs w @ [stored])) \<and>
     (\<forall>obj w r w'. pce_Update env obj w = (r, w') \<longrightarrow>
        objs w' = objs w \<and> (\<forall>stored. r \<noteq> Ret stored) \<or>
        (\<exists>stored. keeps obj stored \<and> objectId stored = objectId obj \<and>
          objs w' = replaceObject stored (objs w))) \<and>
     (\<forall>obj w r w'. pce_Delete env obj w = (r, w') \<longrightarrow>
        r = Ret () \<or> (\<exists>e. r = Err e \<and> isNotFound e) \<longrightarrow>
        objs w' = filter (\<lambda>o'. objectId o' \<noteq> objectId obj) (objs w))"

definition selects :: "'w server \<Rightarrow> workload \<Rightarrow> bool" where
  "selects sv obj =
     (case rm_AsSelector (pce_rm (sv_pc sv)) (ys_selector (yas_spec (sv_owner sv))) of
        Inl e \<Rightarrow> False | Inr sel \<Rightarrow> sel (m_labels obj))"

definition mine :: "'w server \<Rightarrow> workload \<Rightarrow> bool" where
  "mine sv obj =
     (case rm_GetControllerOf (pce_rm (sv_pc sv)) obj of
        None \<Rightarrow> False | Some c \<Rightarrow> or_uid c = m_uid (sv_owner sv))"

text \<open>The selector of the YurtAppSet has match labels only, without the two labels the controller
  sets; no pool has a patch.\<close>

definition plain_owner :: "yas \<Rightarrow> bool" where
  "plain_owner y \<longleftrightarrow>
     (\<exists>selector. ys_selector (yas_spec y) = Some selector \<and> gomap_ok (ls_matchLabels selector) \<and>
        items (ls_matchExpressions selector) = [] \<and>
        gget (ls_matchLabels selector) PoolNameLabelKey = None \<and>
        gget (ls_matchLabels selector) ControllerRevisionHashLabelKey = None) \<and>
     (\<forall>cfg \<in> set (items (ys_pools (yas_spec y))). pc_name cfg \<noteq> [] \<and> pc_patch cfg = None)"

text \<open>What is used of the libraries: a selector without expressions accepts every object that has
  its labels; the controller of an object is read from its owner references, and
  \<open>SetControllerReference\<close> makes the YurtAppSet the controller, which succeeds on an object
  without owners.\<close>

definition library_ok :: "'w server \<Rightarrow> bool" where
  "library_ok sv \<longleftrightarrow>
     (\<forall>selector. items (ls_matchExpressions selector) = [] \<longrightarrow>
        (\<exists>sel. rm_AsSelector (pce_rm (sv_pc sv)) (Some selector) = Inr sel \<and>
          (\<forall>labels. (\<forall>k v. gget (ls_matchLabels selector) k = Some v \<longrightarrow> gget labels k = Some v) \<longrightarrow>
            sel labels))) \<and>
     rm_NewAggregate (pce_rm (sv_pc sv)) [] = None \<and>
     (\<forall>a b. m_owners a = m_owners b \<longrightarrow>
        rm_GetControllerOf (pce_rm (sv_pc sv)) a = rm_GetControllerOf (pce_rm (sv_pc sv)) b) \<and>
     owners_only (pce_ad (sv_pc sv)) \<and>
     (\<forall>obj obj'. ae_SetControllerReference (pce_ad (sv_pc sv)) (sv_owner sv) obj = Inr obj' \<longrightarrow>
        mine sv obj') \<and>
     (\<forall>obj. m_owners obj = None \<longrightarrow>
        (\<exists>obj'. ae_SetControllerReference (pce_ad (sv_pc sv)) (sv_owner sv) obj = Inr obj'))"

text \<open>The stored workloads: no two share an identity; one that the selector selects has a controller,
  and if that is the YurtAppSet, it is in its namespace and has the name of a pool.\<close>

definition orderly :: "'w server \<Rightarrow> workload list \<Rightarrow> bool" where
  "orderly sv objs \<longleftrightarrow>
     object_store (sv_pc sv) (sv_objects sv) \<and> plain_owner (sv_owner sv) \<and> library_ok sv \<and>
     distinct (map objectId objs) \<and>
     (\<forall>obj \<in> set objs. selects sv obj \<longrightarrow>
        rm_GetControllerOf (pce_rm (sv_pc sv)) obj \<noteq> None \<and>
        (mine sv obj \<longrightarrow> m_namespace obj = m_namespace (sv_owner sv) \<and>
          (\<exists>p. getPoolNameFrom obj = Inr p)))"

text \<open>The pools of a kind: what \<open>convertToPool\<close> makes of the workloads that are the YurtAppSet's.\<close>

definition owned :: "'w server \<Rightarrow> template_type \<Rightarrow> workload \<Rightarrow> bool" where
  "owned sv t obj \<longleftrightarrow> bodyKind obj = t \<and> selects sv obj \<and> mine sv obj"

definition poolsOf :: "'w server \<Rightarrow> template_type \<Rightarrow> workload list \<Rightarrow> pool list" where
  "poolsOf sv t objs =
     List.map_filter (\<lambda>obj. case convertToPool (adapterOf (sv_pc sv) t) obj of
         Ret pool \<Rightarrow> Some pool | _ \<Rightarrow> None)
       (filter (owned sv t) objs)"

subsection \<open>The pools of the stored workloads\<close>

lemma controlsD:
  assumes "(t, c) \<in> set (newReconciler_controls env)"
  shows "c = PoolControl env (adapterOf env t)" and "t = StatefulSetTemplateType \<or> t = DeploymentTemplateType"
  using assms by (auto simp: newReconciler_controls_def adapterOf_def)

lemma adapterOf_kind:
  assumes "t = StatefulSetTemplateType \<or> t = DeploymentTemplateType"
  shows "ad_isKind (adapterOf env t) obj \<longleftrightarrow> bodyKind obj = t"
  using assms by (auto simp: adapterOf_def adapter_defs bodyKind_def split: workload_body.splits)

lemma bodyKind_cases: "bodyKind obj = StatefulSetTemplateType \<or> bodyKind obj = DeploymentTemplateType"
  by (simp add: bodyKind_def split: workload_body.split)

lemma convert_stored:
  assumes "bodyKind obj = t" and "getPoolNameFrom obj = Inr p"
  obtains pool where "convertToPool (adapterOf env t) obj = Ret pool" and "p_name pool = p"
    and "p_ref pool = obj" and "objectKey pool = (m_namespace obj, m_name obj)"
    and "p_replicas pool = (case wantedReplicas obj of None \<Rightarrow> 0 | Some n \<Rightarrow> n)"
    and "p_patchInfo pool = gval (m_annotations obj) AnnotationPatchKey"
  using assms that
  by (cases "w_body obj")
    (auto simp: bodyKind_def adapterOf_def convertToPool_def adapter_defs objectKey_def
      wantedReplicas_def)

text \<open>All workloads of the YurtAppSet can be read as pools.\<close>

definition readable :: "'w server \<Rightarrow> template_type \<Rightarrow> workload list \<Rightarrow> bool" where
  "readable sv t objs \<longleftrightarrow> (\<forall>obj \<in> set objs. owned sv t obj \<longrightarrow> (\<exists>p. getPoolNameFrom obj = Inr p))"

lemma readable_simps [simp]:
  "readable sv t []" "readable sv t (obj # objs) \<longleftrightarrow>
     (owned sv t obj \<longrightarrow> (\<exists>p. getPoolNameFrom obj = Inr p)) \<and> readable sv t objs"
  by (auto simp: readable_def)

lemma readable_converts:
  assumes "readable sv t objs" and "obj \<in> set objs" and "owned sv t obj"
  shows "\<exists>pool. convertToPool (adapterOf (sv_pc sv) t) obj = Ret pool"
proof -
  obtain p where "getPoolNameFrom obj = Inr p" using assms by (auto simp: readable_def)
  moreover have "bodyKind obj = t" using assms(3) by (simp add: owned_def)
  ultimately show ?thesis by (metis convert_stored)
qed

lemma poolsOf_simps:
  "poolsOf sv t [] = []"
  "\<not> owned sv t obj \<Longrightarrow> poolsOf sv t (obj # objs) = poolsOf sv t objs"
  "owned sv t obj \<Longrightarrow> convertToPool (adapterOf (sv_pc sv) t) obj = Ret pool \<Longrightarrow>
   poolsOf sv t (obj # objs) = pool # poolsOf sv t objs"
  by (simp_all add: poolsOf_def List.map_filter_simps)

lemma poolsOf_append: "poolsOf sv t (xs @ ys) = poolsOf sv t xs @ poolsOf sv t ys"
  by (simp add: poolsOf_def List.map_filter_def)

lemma ownedE:
  assumes "owned sv t obj" and "readable sv t (obj # objs)"
  obtains pool where "convertToPool (adapterOf (sv_pc sv) t) obj = Ret pool"
    and "p_ref pool = obj" and "objectKey pool = (m_namespace obj, m_name obj)"
    and "poolsOf sv t (obj # objs) = pool # poolsOf sv t objs"
proof -
  obtain p where p: "getPoolNameFrom obj = Inr p" using assms by auto
  have "bodyKind obj = t" using assms(1) by (simp add: owned_def)
  then obtain pool where "convertToPool (adapterOf (sv_pc sv) t) obj = Ret pool"
    "p_ref pool = obj" "objectKey pool = (m_namespace obj, m_name obj)"
    using p by (rule convert_stored)
  with that poolsOf_simps(3) [OF assms(1)] show thesis by blast
qed

lemma poolsOf_keys:
  "readable sv t objs \<Longrightarrow> map objectKey (poolsOf sv t objs) =
     map (\<lambda>obj. (m_namespace obj, m_name obj)) (filter (owned sv t) objs)"
proof (induction objs)
  case (Cons obj objs)
  show ?case
  proof (cases "owned sv t obj")
    case True
    then show ?thesis using Cons.prems
      by (rule ownedE) (use True Cons in auto)
  qed (use Cons in \<open>simp add: poolsOf_simps\<close>)
qed (simp add: poolsOf_simps)

lemma poolsOf_mem:
  "readable sv t objs \<Longrightarrow> pool \<in> set (poolsOf sv t objs) \<longleftrightarrow>
     (\<exists>obj \<in> set objs. owned sv t obj \<and> convertToPool (adapterOf (sv_pc sv) t) obj = Ret pool)"
proof (induction objs)
  case (Cons obj objs)
  show ?case
  proof (cases "owned sv t obj")
    case True
    then show ?thesis using Cons.prems
      by (rule ownedE) (use True Cons in auto)
  qed (use Cons in \<open>simp add: poolsOf_simps\<close>)
qed (simp add: poolsOf_simps)

lemma poolsOf_remove:
  assumes "bodyKind gone = t"
  shows "readable sv t objs \<Longrightarrow> poolsOf sv t (filter (\<lambda>obj. objectId obj \<noteq> objectId gone) objs) =
    filter (\<lambda>pool. objectKey pool \<noteq> (m_namespace gone, m_name gone)) (poolsOf sv t objs)"
proof (induction objs)
  case (Cons obj objs)
  show ?case
  proof (cases "owned sv t obj")
    case True
    then obtain pool where pool: "convertToPool (adapterOf (sv_pc sv) t) obj = Ret pool"
      "objectKey pool = (m_namespace obj, m_name obj)"
      using Cons.prems by (rule ownedE)
    then have "objectKey pool \<noteq> (m_namespace gone, m_name gone) \<longleftrightarrow> objectId obj \<noteq> objectId gone"
      using True assms by (auto simp: objectId_def owned_def)
    with pool True Cons show ?thesis by (simp add: poolsOf_simps)
  qed (use Cons in \<open>simp add: poolsOf_simps\<close>)
qed (simp add: poolsOf_simps)

lemma poolsOf_other:
  assumes "\<And>obj. obj \<in> set objs \<Longrightarrow> bodyKind obj = t \<Longrightarrow> P obj"
  shows "poolsOf sv t (filter P objs) = poolsOf sv t objs"
proof -
  have "filter (owned sv t) (filter P objs) = filter (owned sv t) objs"
    using assms by (auto simp: owned_def intro!: filter_cong)
  then show ?thesis by (simp add: poolsOf_def)
qed

lemma poolsOf_replace:
  assumes new: "owned sv t stored" "convertToPool (adapterOf (sv_pc sv) t) stored = Ret pool"
    "objectKey pool = (m_namespace stored, m_name stored)"
    and old: "\<And>obj. obj \<in> set objs \<Longrightarrow> objectId obj = objectId stored \<Longrightarrow> owned sv t obj"
  shows "readable sv t objs \<Longrightarrow> poolsOf sv t (replaceObject stored objs) = replacePool pool (poolsOf sv t objs)"
  using old
proof (induction objs)
  case (Cons obj objs)
  then have IH: "poolsOf sv t (replaceObject stored objs) = replacePool pool (poolsOf sv t objs)"
    by simp
  show ?case
  proof (cases "owned sv t obj")
    case True
    then obtain q where q: "convertToPool (adapterOf (sv_pc sv) t) obj = Ret q"
      "objectKey q = (m_namespace obj, m_name obj)"
      using Cons.prems(1) by (rule ownedE)
    then have "objectKey q = objectKey pool \<longleftrightarrow> objectId obj = objectId stored"
      using True new by (auto simp: objectId_def owned_def)
    with q True IH new show ?thesis
      by (simp add: poolsOf_simps replaceObject_def replacePool_def)
  next
    case False
    then have "objectId obj \<noteq> objectId stored" using Cons.prems(2) [of obj] by auto
    with False IH show ?thesis by (simp add: poolsOf_simps replaceObject_def)
  qed
qed (simp add: poolsOf_simps replaceObject_def replacePool_def)

lemma poolsOf_replace_other:
  assumes "bodyKind stored \<noteq> t"
  shows "poolsOf sv t (replaceObject stored objs) = poolsOf sv t objs"
proof -
  have "filter (owned sv t) (replaceObject stored objs) = filter (owned sv t) objs"
    using assms by (induction objs) (auto simp: replaceObject_def owned_def objectId_def)
  then show ?thesis by (simp add: poolsOf_def)
qed

lemma replaceObject_ids [simp]: "map objectId (replaceObject stored objs) = map objectId objs"
  by (simp add: replaceObject_def comp_def if_distrib cong: if_cong)

lemma object_storeD:
  assumes "object_store env objs"
  shows "pce_List env kind sel w = (rl, w') \<Longrightarrow> objs w' = objs w"
    and "pce_List env kind sel w = (Ret os, w') \<Longrightarrow>
      mset os = mset (filter (\<lambda>obj. kind obj \<and> sel (m_labels obj)) (objs w))"
    and "pce_Get env kind ns name w = (rg, w') \<Longrightarrow> objs w' = objs w"
    and "pce_Get env kind ns name w = (Ret obj, w') \<Longrightarrow>
      obj \<in> set (objs w) \<and> kind obj \<and> m_namespace obj = ns \<and> m_name obj = name"
    and "pce_Create env obj w = (Err e, w') \<Longrightarrow> \<not> isTimeout e"
    and "pce_Create env obj w = (Ret stored, w') \<Longrightarrow>
      keeps obj stored \<and> objectId stored \<notin> objectId ` set (objs w) \<and> objs w' = objs w @ [stored]"
    and "pce_Update env obj w = (ru, w') \<Longrightarrow>
      objs w' = objs w \<and> (\<forall>stored. ru \<noteq> Ret stored) \<or>
      (\<exists>stored. keeps obj stored \<and> objectId stored = objectId obj \<and>
        objs w' = replaceObject stored (objs w))"
    and "pce_Delete env obj w = (rd, w') \<Longrightarrow> rd = Ret () \<or> (\<exists>e. rd = Err e \<and> isNotFound e) \<Longrightarrow>
      objs w' = filter (\<lambda>o'. objectId o' \<noteq> objectId obj) (objs w)"
  using assms unfolding object_store_def by metis+

lemma orderlyD:
  assumes "orderly sv objs"
  shows "object_store (sv_pc sv) (sv_objects sv)" and "plain_owner (sv_owner sv)" and "library_ok sv"
    and "distinct (map objectId objs)" and "readable sv t objs"
    and "obj \<in> set objs \<Longrightarrow> selects sv obj \<Longrightarrow> rm_GetControllerOf (pce_rm (sv_pc sv)) obj \<noteq> None"
    and "obj \<in> set objs \<Longrightarrow> owned sv t obj \<Longrightarrow> m_namespace obj = m_namespace (sv_owner sv)"
  using assms by (auto simp: orderly_def readable_def owned_def)

lemma orderly_id:
  "orderly sv objs \<Longrightarrow> a \<in> set objs \<Longrightarrow> b \<in> set objs \<Longrightarrow> objectId a = objectId b \<Longrightarrow> a = b"
  using orderlyD(4) [of sv objs] by (auto simp: distinct_map dest: inj_onD)

lemma orderly_subset:
  "orderly sv objs \<Longrightarrow> set objs' \<subseteq> set objs \<Longrightarrow> distinct (map objectId objs') \<Longrightarrow> orderly sv objs'"
  by (auto simp: orderly_def)

text \<open>An object that was written for a pool keeps the store in order.\<close>

definition written_for :: "'w server \<Rightarrow> template_type \<Rightarrow> string \<Rightarrow> string \<Rightarrow> int32 \<Rightarrow> workload \<Rightarrow> bool" where
  "written_for sv t p revision n obj \<longleftrightarrow>
     owned sv t obj \<and> m_namespace obj = m_namespace (sv_owner sv) \<and>
     gget (m_labels obj) PoolNameLabelKey = Some p \<and> p \<noteq> [] \<and>
     gget (m_labels obj) ControllerRevisionHashLabelKey = Some revision \<and>
     gget (m_annotations obj) AnnotationPatchKey = Some [] \<and> wantedReplicas obj = Some n"

lemma orderly_write:
  assumes "orderly sv objs" and "written_for sv t p r n obj"
    and "set objs' \<subseteq> insert obj (set objs)" and "distinct (map objectId objs')"
  shows "orderly sv objs'"
proof -
  have "rm_GetControllerOf (pce_rm (sv_pc sv)) obj \<noteq> None" "getPoolNameFrom obj = Inr p"
    using assms(2) by (auto simp: written_for_def owned_def mine_def getPoolNameFrom_def split: option.splits)
  with assms show ?thesis by (auto simp: orderly_def written_for_def dest!: subsetD)
qed

lemma written_for_shows:
  assumes "written_for sv t p r n obj"
  obtains pool where "convertToPool (adapterOf (sv_pc sv) t) obj = Ret pool"
    and "pool_shows (PoolControl (sv_pc sv) (adapterOf (sv_pc sv) t)) p r n pool"
    and "objectKey pool = (m_namespace obj, m_name obj)" and "p_ref pool = obj"
proof -
  have k: "bodyKind obj = t" "getPoolNameFrom obj = Inr p" "wantedReplicas obj = Some n"
    "gval (m_annotations obj) AnnotationPatchKey = []"
    "gval (m_labels obj) ControllerRevisionHashLabelKey = r"
    using assms by (simp_all add: written_for_def owned_def getPoolNameFrom_def gval_def)
  have "\<not> ad_IsExpected (adapterOf (sv_pc sv) t) obj r"
    using k(5) by (simp add: adapterOf_def adapter_defs)
  with k(3,4) that convert_stored [OF k(1,2), of "sv_pc sv"] show thesis
    by (auto simp: pool_shows_def PoolControl_def IsExpected_def)
qed

lemma adapterOf_laws:
  shows "owners_only (pce_ad env) \<Longrightarrow>
      ad_ApplyPoolTemplate (adapterOf env t) y p r n obj = (Ret (), obj') \<Longrightarrow>
      map_option pc_patch (poolConfigOf y p) = Some None \<Longrightarrow>
      pool_applied (adapterOf env t) y p r n obj obj'"
    and "owners_only (pce_ad env) \<Longrightarrow>
      ad_ApplyPoolTemplate (adapterOf env t) y p r n obj = (Ret (), obj') \<Longrightarrow>
      map_option pc_patch (poolConfigOf y p) = Some None \<Longrightarrow>
      ys_selector (yas_spec y) = Some selector \<Longrightarrow> gomap_ok (ls_matchLabels selector) \<Longrightarrow>
      gget (ls_matchLabels selector) k = Some v \<Longrightarrow> k \<notin> {PoolNameLabelKey, ControllerRevisionHashLabelKey} \<Longrightarrow>
      gget (m_labels obj') k = Some v"
    and "ad_ApplyPoolTemplate (adapterOf env t) y p r n obj = (Ret (), obj') \<Longrightarrow>
      map_option pc_patch (poolConfigOf y p) = Some None \<Longrightarrow>
      \<exists>obj1 obj2. ae_SetControllerReference (pce_ad env) y obj1 = Inr obj2 \<and> m_owners obj' = m_owners obj2"
    and "ad_ApplyPoolTemplate (adapterOf env t) y p r n obj = (Err e, obj') \<Longrightarrow>
      map_option pc_patch (poolConfigOf y p) = Some None \<Longrightarrow>
      \<exists>obj1. ae_SetControllerReference (pce_ad env) y obj1 = Inl e \<and> m_owners obj1 = m_owners obj"
    and "ad_PostUpdate (adapterOf env t) y obj r = None"
  unfolding adapterOf_def
      apply (auto split: if_splits intro: deployment.apply_plain statefulSet.apply_plain) [1]
     apply (auto split: if_splits intro: deployment.apply_labels statefulSet.apply_labels) [1]
    apply (auto split: if_splits dest: deployment.apply_owner statefulSet.apply_owner) [1]
   apply (auto split: if_splits dest: deployment.apply_error statefulSet.apply_error) [1]
  apply (simp add: deployment.post_update statefulSet.post_update)
  done

lemma plain_ownerD:
  assumes "plain_owner y" and "p \<in> expectedPools y"
  shows "map_option pc_patch (poolConfigOf y p) = Some None" and "p \<noteq> []"
    and "yp_patch (patchesOf (GetNextPatches y) p) = []"
proof -
  obtain cfg where cfg: "cfg \<in> set (items (ys_pools (yas_spec y)))" "pc_name cfg = p"
    using assms(2) by (auto simp: expectedPools_def)
  have plain: "pc_patch c = None" "pc_name c \<noteq> []" if "c \<in> set (items (ys_pools (yas_spec y)))" for c
    using that assms(1) by (simp_all add: plain_owner_def)
  show "p \<noteq> []" using plain(2) [OF cfg(1)] cfg(2) by simp
  obtain c where "poolConfigOf y p = Some c"
    using cfg by (cases "poolConfigOf y p") (auto simp: poolConfigOf_def find_None_iff)
  then show "map_option pc_patch (poolConfigOf y p) = Some None"
    using plain(1) [of c] by (auto simp: poolConfigOf_def find_Some_iff)
  have "pc_patch c = None" if "find (\<lambda>pool. pc_name pool = p) (rev (items (ys_pools (yas_spec y)))) = Some c" for c
    using that plain(1) [of c] by (metis find_Some_iff nth_mem set_rev)
  then show "yp_patch (patchesOf (GetNextPatches y) p) = []"
    by (auto simp: patchesOf_def gget_GetNextPatches zeroPatches_def split: option.split)
qed

lemma library_okD:
  assumes "library_ok sv"
  shows "items (ls_matchExpressions selector) = [] \<Longrightarrow>
      \<exists>sel. rm_AsSelector (pce_rm (sv_pc sv)) (Some selector) = Inr sel \<and>
        (\<forall>labels. (\<forall>k v. gget (ls_matchLabels selector) k = Some v \<longrightarrow> gget labels k = Some v) \<longrightarrow>
          sel labels)"
    and "rm_NewAggregate (pce_rm (sv_pc sv)) [] = None"
    and "m_owners a = m_owners b \<Longrightarrow>
      rm_GetControllerOf (pce_rm (sv_pc sv)) a = rm_GetControllerOf (pce_rm (sv_pc sv)) b"
    and "owners_only (pce_ad (sv_pc sv))"
    and "ae_SetControllerReference (pce_ad (sv_pc sv)) (sv_owner sv) obj = Inr obj' \<Longrightarrow> mine sv obj'"
    and "m_owners obj = None \<Longrightarrow>
      \<exists>obj'. ae_SetControllerReference (pce_ad (sv_pc sv)) (sv_owner sv) obj = Inr obj'"
  using assms unfolding library_ok_def by blast+

lemma apply_written:
  assumes lib: "library_ok sv" and y: "plain_owner (sv_owner sv)" "p \<in> expectedPools (sv_owner sv)"
    and t: "t = StatefulSetTemplateType \<or> t = DeploymentTemplateType"
    and run: "ad_ApplyPoolTemplate (adapterOf (sv_pc sv) t) (sv_owner sv) p r n got = (Ret (), obj)"
  shows "written_for sv t p r n obj" and "m_name obj = m_name got"
proof -
  note cfg = plain_ownerD [OF y]
  note lib = library_okD [OF lib]
  note only = lib(4)
  note applied = adapterOf_laws(1) [OF only run cfg(1)]
  obtain selector where sel: "ys_selector (yas_spec (sv_owner sv)) = Some selector"
    "gomap_ok (ls_matchLabels selector)" "items (ls_matchExpressions selector) = []"
    "gget (ls_matchLabels selector) PoolNameLabelKey = None"
    "gget (ls_matchLabels selector) ControllerRevisionHashLabelKey = None"
    using y(1) by (auto simp: plain_owner_def)
  have "gget (m_labels obj) k = Some v" if "gget (ls_matchLabels selector) k = Some v" for k v
    using that sel(4,5) by (intro adapterOf_laws(2) [OF only run cfg(1) sel(1,2)]) auto
  with lib(1) [OF sel(3)] sel(1) have "selects sv obj"
    by (auto simp: selects_def)
  moreover have "mine sv obj"
  proof -
    obtain obj1 obj2 where o: "ae_SetControllerReference (pce_ad (sv_pc sv)) (sv_owner sv) obj1 = Inr obj2"
      "m_owners obj = m_owners obj2"
      using adapterOf_laws(3) [OF run cfg(1)] by blast
    with lib(5) [OF o(1)] lib(3) [OF o(2)] show ?thesis by (simp add: mine_def)
  qed
  ultimately show "written_for sv t p r n obj" and "m_name obj = m_name got"
    using applied cfg(2) by (simp_all add: pool_applied_def written_for_def owned_def adapterOf_kind [OF t])
qed

lemma written_for_stored:
  assumes "library_ok sv" and "written_for sv t p r n obj" and "keeps obj stored"
  shows "written_for sv t p r n stored"
proof -
  have "rm_GetControllerOf (pce_rm (sv_pc sv)) stored = rm_GetControllerOf (pce_rm (sv_pc sv)) obj"
    using assms(3) by (intro library_okD(3) [OF assms(1)]) (simp add: keeps_def)
  with assms(2,3) show ?thesis
    by (simp add: written_for_def owned_def keeps_def selects_def mine_def split: sum.splits)
qed

subsection \<open>The control of the pools on such a server\<close>

text \<open>Objects that all have a controller and match are claimed without a call.\<close>

lemma claimAll_owned:
  "(\<And>obj. obj \<in> set objs \<Longrightarrow> rm_GetControllerOf env obj \<noteq> None \<and> match obj) \<Longrightarrow>
   claimAll env mgr match objs s = (Ret (filter (controlled env mgr) objs, []), s)"
proof (induction objs)
  case (Cons obj objs)
  then obtain c where "rm_GetControllerOf env obj = Some c" "match obj" by auto
  then have "claimObject env mgr match obj s = (Ret (if controlled env mgr obj then Some obj else None), s)"
    by (auto simp: claimObject_def controlled_def ret_def)
  moreover have "claimAll env mgr match objs s = (Ret (filter (controlled env mgr) objs, []), s)"
    using Cons by simp
  ultimately show ?case by (simp add: andThen_Ret attempt_Ret ret_def)
qed (simp add: ret_def)

lemma convertAll_filter:
  "(\<And>obj. obj \<in> set objs \<Longrightarrow> \<exists>pool. convertToPool ad obj = Ret pool) \<Longrightarrow>
   convertAll ad objs = Ret (List.map_filter (\<lambda>obj. case convertToPool ad obj of
     Ret pool \<Rightarrow> Some pool | _ \<Rightarrow> None) objs)"
proof (induction objs)
  case (Cons obj objs)
  from Cons.prems [of obj] obtain pool where "convertToPool ad obj = Ret pool" by auto
  with Cons show ?case by (simp add: List.map_filter_simps)
qed (simp add: List.map_filter_simps)

lemma mset_map_filter: "mset xs = mset ys \<Longrightarrow> mset (List.map_filter f xs) = mset (List.map_filter f ys)"
  by (simp add: List.map_filter_def)

lemma GetAllPools_reads:
  assumes lib: "library_ok sv"
    and sel: "rm_AsSelector (pce_rm (sv_pc sv)) (ys_selector (yas_spec (sv_owner sv))) = Inr sel"
    and l: "pce_List (sv_pc sv) (ad_isKind ad) sel w = (Ret os, u)"
    and os: "\<And>obj. obj \<in> set os \<Longrightarrow>
      selects sv obj \<and> rm_GetControllerOf (pce_rm (sv_pc sv)) obj \<noteq> None"
  shows "GetAllPools (sv_pc sv) ad (sv_owner sv) w = (convertAll ad (filter (mine sv) os), u)"
proof -
  let ?rm = "pce_rm (sv_pc sv)"
    and ?mgr = "\<lparr>rm_selector = sel, rm_owner = object_meta.truncate (sv_owner sv), rm_hasSchema = True\<rparr>"
  have "controlled ?rm ?mgr = mine sv"
    by (auto simp: controlled_code mine_def object_meta.defs fun_eq_iff split: option.split)
  moreover have "claimAll ?rm ?mgr (matchObject ?mgr []) os (u, None) =
      (Ret (filter (controlled ?rm ?mgr) os, []), (u, None))"
    using os by (intro claimAll_owned) (auto simp: matchObject_def selects_def sel)
  ultimately have "ClaimOwnedObjects ?rm ?mgr os [] u = (Ret (filter (mine sv) os, None), u)"
    using library_okD(2) [OF lib] by (simp add: ClaimOwnedObjects_def)
  with sel l show ?thesis
    by (simp add: GetAllPools_def RefManager_New_def andThen_Ret lift_def)
qed

lemma store_lists_run:
  assumes t: "(t, c) \<in> set (newReconciler_controls (sv_pc sv))" and i: "orderly sv (sv_objects sv w)"
  obtains sel r u where
    "pce_List (sv_pc sv) (ad_isKind (adapterOf (sv_pc sv) t)) sel w = (r, u)"
    and "sv_objects sv u = sv_objects sv w"
    and "\<And>os. r = Ret os \<Longrightarrow> \<exists>ps. c_GetAllPools c (sv_owner sv) w = (Ret ps, u) \<and>
      mset ps = mset (poolsOf sv t (sv_objects sv w))"
    and "\<And>e. r = Err e \<Longrightarrow> c_GetAllPools c (sv_owner sv) w = (Err e, u)"
    and "\<And>p. r = Panic p \<Longrightarrow> c_GetAllPools c (sv_owner sv) w = (Panic p, u)"
proof -
  let ?env = "sv_pc sv" and ?y = "sv_owner sv" and ?ad = "adapterOf (sv_pc sv) t"
  note lib = orderlyD(3) [OF i] and kind = adapterOf_kind [OF controlsD(2) [OF t]]
  obtain selector where selector: "ys_selector (yas_spec ?y) = Some selector"
    "items (ls_matchExpressions selector) = []"
    using orderlyD(2) [OF i] by (auto simp: plain_owner_def)
  from library_okD(1) [OF lib selector(2)] selector(1) obtain sel where
    sel: "rm_AsSelector (pce_rm ?env) (ys_selector (yas_spec ?y)) = Inr sel" by auto
  have sels: "sel (m_labels obj) \<longleftrightarrow> selects sv obj" for obj by (simp add: selects_def sel)
  have c: "c_GetAllPools c ?y = GetAllPools ?env ?ad ?y"
    by (simp add: controlsD(1) [OF t] PoolControl_def)
  obtain r u where l: "pce_List ?env (ad_isKind ?ad) sel w = (r, u)" by fastforce
  have u: "sv_objects sv u = sv_objects sv w" "\<And>os. r = Ret os \<Longrightarrow>
      mset os = mset (filter (\<lambda>obj. bodyKind obj = t \<and> selects sv obj) (sv_objects sv w))"
    using object_storeD(1,2) [OF orderlyD(1) [OF i]] l by (simp_all add: kind sels)
  have "\<exists>ps. GetAllPools ?env ?ad ?y w = (Ret ps, u) \<and> mset ps = mset (poolsOf sv t (sv_objects sv w))"
    if Ret: "r = Ret os" for os
  proof -
    have mem: "obj \<in> set os \<longleftrightarrow> obj \<in> set (sv_objects sv w) \<and> bodyKind obj = t \<and> selects sv obj" for obj
      using mset_eq_setD [OF u(2) [OF Ret]] by auto
    have "\<exists>pool. convertToPool ?ad obj = Ret pool" if "obj \<in> set (filter (mine sv) os)" for obj
      using that mem [of obj] by (intro readable_converts [OF orderlyD(5) [OF i]]) (auto simp: owned_def)
    moreover have "GetAllPools ?env ?ad ?y w = (convertAll ?ad (filter (mine sv) os), u)"
      using l Ret mem orderlyD(6) [OF i] by (intro GetAllPools_reads [OF lib sel]) auto
    moreover have "mset (filter (mine sv) os) = mset (filter (owned sv t) (sv_objects sv w))"
    proof -
      have "mset (filter (mine sv) os) =
          mset (filter (mine sv) (filter (\<lambda>obj. bodyKind obj = t \<and> selects sv obj) (sv_objects sv w)))"
        using u(2) [OF Ret] by (simp only: mset_filter)
      then show ?thesis by (simp only: filter_filter owned_def [abs_def] conj_ac)
    qed
    note mset_map_filter [OF this]
    ultimately show ?thesis
      using convertAll_filter [of "filter (mine sv) os" ?ad] by (auto simp: poolsOf_def)
  qed
  then show thesis
    by (intro that [OF l u(1)]) (use l in \<open>auto simp: c GetAllPools_def sel andThen_def\<close>)
qed

lemma store_lists:
  assumes t: "(t, c) \<in> set (newReconciler_controls (sv_pc sv))" and i: "orderly sv (sv_objects sv w)"
    and run: "c_GetAllPools c (sv_owner sv) w = (got, w')"
  shows "sv_objects sv w' = sv_objects sv w \<and>
    (\<forall>ps. got = Ret ps \<longrightarrow> mset ps = mset (poolsOf sv t (sv_objects sv w)))"
proof (rule store_lists_run [OF t i])
  fix sel r u
  assume "sv_objects sv u = sv_objects sv w"
    and "\<And>os. r = Ret os \<Longrightarrow> \<exists>ps. c_GetAllPools c (sv_owner sv) w = (Ret ps, u) \<and>
      mset ps = mset (poolsOf sv t (sv_objects sv w))"
    and "\<And>e. r = Err e \<Longrightarrow> c_GetAllPools c (sv_owner sv) w = (Err e, u)"
    and "\<And>p. r = Panic p \<Longrightarrow> c_GetAllPools c (sv_owner sv) w = (Panic p, u)"
  with run show ?thesis by (cases r) auto
qed

lemma store_creates:
  assumes t: "(t, c) \<in> set (newReconciler_controls (sv_pc sv))" and i: "orderly sv (sv_objects sv w)"
    and p: "p \<in> expectedPools (sv_owner sv)"
    and run: "c_CreatePool c (sv_owner sv) p r n w = (Ret (), w')"
  shows "\<exists>pool. pool_shows c p r n pool \<and> changed (orderly sv) (poolsOf sv) t (\<lambda>ps. ps @ [pool])
    (sv_objects sv w) (sv_objects sv w')"
proof -
  let ?env = "sv_pc sv" and ?y = "sv_owner sv" and ?ad = "adapterOf (sv_pc sv) t"
  note lib = orderlyD(3) [OF i] and c = controlsD(1) [OF t]
  have run': "CreatePool ?env ?ad ?y p r n w = (Ret (), w')"
    using run by (simp add: c PoolControl_def)
  obtain a obj where a: "ad_ApplyPoolTemplate ?ad ?y p r n (ad_NewResourceObject ?ad) = (a, obj)"
    by fastforce
  have "a \<noteq> Err e" for e
  proof
    assume "a = Err e"
    with a adapterOf_laws(4) [OF _ plain_ownerD(1) [OF orderlyD(2) [OF i] p]]
    obtain obj1 where "ae_SetControllerReference (pce_ad ?env) ?y obj1 = Inl e"
      "m_owners obj1 = m_owners (ad_NewResourceObject ?ad)" by blast
    with library_okD(6) [OF lib, of obj1] show False
      by (simp add: adapterOf_def adapter_defs empty_meta_def split: if_splits)
  qed
  then have a': "a = Ret ()" using run' a by (cases a) (auto simp: CreatePool_def lift_def)
  then obtain stored where st: "pce_Create ?env obj w = (Ret stored, w')"
    using run' a by (auto simp: CreatePool_def ret_def elim!: andThen_RetD)
  note sent = object_storeD(6) [OF orderlyD(1) [OF i] st]
  have "written_for sv t p r n obj"
    by (rule apply_written(1) [OF lib orderlyD(2) [OF i] p controlsD(2) [OF t] a [unfolded a']])
  with sent lib have wr: "written_for sv t p r n stored" by (auto intro: written_for_stored)
  then obtain pool where pool: "convertToPool ?ad stored = Ret pool" "pool_shows c p r n pool"
    by (rule written_for_shows) (simp add: c)
  have own: "owned sv t' stored \<longleftrightarrow> t' = t" for t' using wr by (auto simp: written_for_def owned_def)
  have "orderly sv (sv_objects sv w')"
    using sent orderlyD(4) [OF i] by (intro orderly_write [OF i wr]) auto
  moreover have "poolsOf sv t' [stored] = (if t' = t then [pool] else [])" for t'
    using pool(1) by (auto simp: poolsOf_simps own)
  ultimately show ?thesis using sent pool(2) by (auto simp: changed_def poolsOf_append)
qed

lemma listed_object:
  assumes "pool \<in> listed (orderly sv) (poolsOf sv t)"
  obtains obj where "p_ref pool = obj" and "bodyKind obj = t"
    and "objectKey pool = (m_namespace obj, m_name obj)"
proof -
  obtain s where s0: "orderly sv s" "pool \<in> set (poolsOf sv t s)"
    using assms by (auto simp: listed_def)
  then obtain obj where s: "orderly sv s" "obj \<in> set s" "owned sv t obj"
    "convertToPool (adapterOf (sv_pc sv) t) obj = Ret pool"
    using poolsOf_mem [OF orderlyD(5) [OF s0(1)]] by blast
  obtain p where "getPoolNameFrom obj = Inr p"
    using orderlyD(5) [OF s(1)] s(2,3) by (auto simp: readable_def)
  moreover have "bodyKind obj = t" using s(3) by (simp add: owned_def)
  ultimately show thesis using that s(4) by (metis convert_stored outcome.inject(1))
qed

lemma store_deletes:
  assumes t: "(t, c) \<in> set (newReconciler_controls (sv_pc sv))" and i: "orderly sv (sv_objects sv w)"
    and pool: "pool \<in> listed (orderly sv) (poolsOf sv t)"
    and run: "c_DeletePool c pool w = (q, w')" "q = Ret () \<or> (\<exists>e. q = Err e \<and> isNotFound e)"
  shows "changed (orderly sv) (poolsOf sv) t (removePools [pool]) (sv_objects sv w) (sv_objects sv w')"
proof -
  obtain obj where obj: "p_ref pool = obj" "bodyKind obj = t"
    "objectKey pool = (m_namespace obj, m_name obj)"
    using pool by (rule listed_object)
  have "pce_Delete (sv_pc sv) obj w = (q, w')"
    using run(1) obj(1) by (simp add: controlsD(1) [OF t] PoolControl_def DeletePool_def)
  then have w': "sv_objects sv w' = filter (\<lambda>o'. objectId o' \<noteq> objectId obj) (sv_objects sv w)"
    using run(2) object_storeD(8) [OF orderlyD(1) [OF i]] by blast
  have "orderly sv (sv_objects sv w')"
    using orderlyD(4) [OF i] by (intro orderly_subset [OF i]) (auto simp: w' distinct_map_filter)
  moreover have "poolsOf sv t (sv_objects sv w') = removePools [pool] (poolsOf sv t (sv_objects sv w))"
    using poolsOf_remove [OF obj(2) orderlyD(5) [OF i]] by (simp add: w' removePools_def obj(3))
  moreover have "poolsOf sv t' (sv_objects sv w') = poolsOf sv t' (sv_objects sv w)" if "t' \<noteq> t" for t'
    unfolding w' using that obj(2) by (intro poolsOf_other) (auto simp: objectId_def)
  ultimately show ?thesis by (simp add: changed_def)
qed

text \<open>Every attempt of an update writes the object of the pool or nothing; the last one writes it.\<close>

lemma UpdatePool_tries_writes:
  assumes lib: "library_ok sv" "object_store (sv_pc sv) (sv_objects sv)" "plain_owner (sv_owner sv)"
    and t: "t = StatefulSetTemplateType \<or> t = DeploymentTemplateType"
    and p: "p_name pool \<in> expectedPools (sv_owner sv)"
    and key: "objectKey pool = (m_namespace (sv_owner sv), name)"
    and id: "id0 = (t, m_namespace (sv_owner sv), name)"
  shows "UpdatePool_tries k (sv_pc sv) (adapterOf (sv_pc sv) t) pool (sv_owner sv) r n e obj0 u
      = (Ret fin, w') \<Longrightarrow> k > 0 \<or> e \<noteq> None \<Longrightarrow>
    sv_objects sv u = objs \<or> (\<exists>st. objectId st = id0 \<and> sv_objects sv u = replaceObject st objs) \<Longrightarrow>
    \<exists>st. objectId st = id0 \<and> written_for sv t (p_name pool) r n st \<and>
      sv_objects sv w' = replaceObject st objs"
proof (induction k arbitrary: e obj0 u)
  case 0
  then show ?case by (auto simp: fail_def)
next
  case (Suc k)
  let ?ad = "adapterOf (sv_pc sv) t"
  from Suc.prems(1) key obtain got u1 where
    g: "pce_Get (sv_pc sv) (ad_isKind ?ad) (m_namespace (sv_owner sv)) name u = (Ret got, u1)"
    and rest: "(case ad_ApplyPoolTemplate ?ad (sv_owner sv) (p_name pool) r n got of
          (Err e, wl') \<Rightarrow> fail e
        | (Panic p, wl') \<Rightarrow> lift (Panic p)
        | (Ret _, wl') \<Rightarrow>
            andThen (attempt (pce_Update (sv_pc sv) wl')) (\<lambda>q. case q of
              Inl e \<Rightarrow> UpdatePool_tries k (sv_pc sv) ?ad pool (sv_owner sv) r n (Some e) wl'
            | Inr stored \<Rightarrow> ret stored)) u1 = (Ret fin, w')"
    by (auto elim: andThen_RetD)
  from rest obtain obj where a: "ad_ApplyPoolTemplate ?ad (sv_owner sv) (p_name pool) r n got = (Ret (), obj)"
    by (auto simp: fail_def lift_def split: prod.splits outcome.splits)
  note got = object_storeD(3,4) [OF lib(2) g]
  note wr = apply_written [OF lib(1,3) p t a]
  have "m_name obj = name" using wr(2) got(2) by simp
  then have obj: "objectId obj = id0" using wr(1) id by (simp add: objectId_def written_for_def owned_def)
  obtain q u2 where q: "pce_Update (sv_pc sv) obj u1 = (q, u2)" by fastforce
  have again: "replaceObject st (replaceObject st' objs) = replaceObject st objs"
    if "objectId st = objectId st'" for st st'
    using that by (auto simp: replaceObject_def)
  have u2: "sv_objects sv u2 = sv_objects sv u \<and> (\<forall>st. q \<noteq> Ret st) \<or>
      (\<exists>st. objectId st = id0 \<and> written_for sv t (p_name pool) r n st \<and>
        sv_objects sv u2 = replaceObject st objs)"
    using object_storeD(7) [OF lib(2) q] got(1) Suc.prems(3) again obj written_for_stored [OF lib(1) wr(1)]
    by metis
  show ?case
  proof (cases q)
    case (Ret st)
    with rest a q u2 show ?thesis by (auto simp: andThen_Ret attempt_Ret ret_def)
  next
    case (Err e')
    with rest a q have later: "UpdatePool_tries k (sv_pc sv) ?ad pool (sv_owner sv) r n (Some e') obj u2
        = (Ret fin, w')"
      by (simp add: andThen_Ret attempt_Err)
    show ?thesis using u2 Suc.prems(3) by (intro Suc.IH [OF later]) auto
  qed (use rest a q in \<open>simp add: andThen_def attempt_def\<close>)
qed

lemma owned_key:
  assumes i: "orderly sv objs" and obj: "obj \<in> set objs" "owned sv t obj"
    "convertToPool (adapterOf (sv_pc sv) t) obj = Ret pool"
  shows "objectKey pool = (m_namespace obj, m_name obj)"
proof -
  have "readable sv t [obj]" using orderlyD(5) [OF i, of t] obj(1) by (auto simp: readable_def)
  with obj(2) show ?thesis by (rule ownedE) (use obj(3) in simp)
qed

lemma store_updates:
  assumes t: "(t, c) \<in> set (newReconciler_controls (sv_pc sv))" and i: "orderly sv (sv_objects sv w)"
    and pool: "pool \<in> set (poolsOf sv t (sv_objects sv w))" "p_name pool \<in> expectedPools (sv_owner sv)"
    and run: "c_UpdatePool c pool (sv_owner sv) r n w = (Ret (), w')"
  shows "\<exists>pool'. pool_shows c (p_name pool) r n pool' \<and> objectKey pool' = objectKey pool \<and>
    changed (orderly sv) (poolsOf sv) t (replacePool pool') (sv_objects sv w) (sv_objects sv w')"
proof -
  let ?ad = "adapterOf (sv_pc sv) t" and ?objs = "sv_objects sv w"
  note c = controlsD(1) [OF t] and kinds = controlsD(2) [OF t] and lib = orderlyD(3,1,2) [OF i]
  obtain obj where obj: "obj \<in> set ?objs" "owned sv t obj" "convertToPool ?ad obj = Ret pool"
    using pool(1) poolsOf_mem [OF orderlyD(5) [OF i]] by blast
  note ns = orderlyD(7) [OF i obj(1,2)]
  have "objectKey pool = (m_namespace obj, m_name obj)" by (rule owned_key [OF i obj])
  then have key: "objectKey pool = (m_namespace (sv_owner sv), m_name obj)" using ns by simp
  obtain fin where "UpdatePool_tries updateRetries (sv_pc sv) ?ad pool (sv_owner sv) r n None
      (ad_NewResourceObject ?ad) w = (Ret fin, w')"
    using run by (auto simp: c PoolControl_def UpdatePool_def adapterOf_laws(5) ret_def elim: andThen_RetD)
  from UpdatePool_tries_writes [OF lib kinds pool(2) key refl this, of ?objs]
  obtain st where st: "objectId st = (t, m_namespace (sv_owner sv), m_name obj)"
    "written_for sv t (p_name pool) r n st" "sv_objects sv w' = replaceObject st ?objs"
    by (auto simp: updateRetries_def)
  obtain pool' where pool': "convertToPool ?ad st = Ret pool'" "pool_shows c (p_name pool) r n pool'"
    "objectKey pool' = (m_namespace st, m_name st)"
    using st(2) by (rule written_for_shows) (simp add: c)
  have own: "owned sv t st" "bodyKind st = t" using st(2) by (simp_all add: written_for_def owned_def)
  have same: "o' = obj" if "o' \<in> set ?objs" "objectId o' = objectId st" for o'
    using that st(1) obj(2) ns by (intro orderly_id [OF i _ obj(1)]) (auto simp: objectId_def owned_def)
  have "orderly sv (sv_objects sv w')"
    using orderlyD(4) [OF i]
    by (intro orderly_write [OF i st(2)]) (auto simp: st(3) replaceObject_def comp_def if_distrib
        cong: if_cong)
  moreover have "poolsOf sv t (sv_objects sv w') = replacePool pool' (poolsOf sv t ?objs)"
    unfolding st(3) using same obj(2)
    by (intro poolsOf_replace [OF own(1) pool'(1,3) _ orderlyD(5) [OF i]]) auto
  moreover have "poolsOf sv t' (sv_objects sv w') = poolsOf sv t' ?objs" if "t' \<noteq> t" for t'
    unfolding st(3) using that own(2) by (intro poolsOf_replace_other) auto
  moreover have "objectKey pool' = objectKey pool"
    using pool'(3) key st(1) by (simp add: objectId_def)
  ultimately show ?thesis using pool'(2) by (auto simp: changed_def)
qed

subsection \<open>A server that answers\<close>

text \<open>The kind of the template, with match labels to fill in.\<close>

definition template_ready :: "yas \<Rightarrow> template_type \<Rightarrow> bool" where
  "template_ready y t \<longleftrightarrow>
     (t = StatefulSetTemplateType \<and> wt_statefulSet (ys_template (yas_spec y)) \<noteq> None \<or>
      t = DeploymentTemplateType \<and> wt_deployment (ys_template (yas_spec y)) \<noteq> None) \<and>
     (case ys_selector (yas_spec y) of None \<Rightarrow> False | Some s \<Rightarrow> ls_matchLabels s \<noteq> None)"

text \<open>Every list and creation succeeds, and so does what is asked of an object that is there; an object
  the YurtAppSet controls can be given its controller again.\<close>

definition server_answers :: "'w server \<Rightarrow> template_type \<Rightarrow> bool" where
  "server_answers sv t \<longleftrightarrow> template_ready (sv_owner sv) t \<and>
     (\<forall>kind sel w. \<exists>os w'. pce_List (sv_pc sv) kind sel w = (Ret os, w')) \<and>
     (\<forall>kind w. \<forall>obj \<in> set (sv_objects sv w). kind obj \<longrightarrow>
        (\<exists>got w'. pce_Get (sv_pc sv) kind (m_namespace obj) (m_name obj) w = (Ret got, w'))) \<and>
     (\<forall>obj w. \<exists>stored w'. pce_Create (sv_pc sv) obj w = (Ret stored, w')) \<and>
     (\<forall>obj w. objectId obj \<in> objectId ` set (sv_objects sv w) \<longrightarrow>
        (\<exists>stored w'. pce_Update (sv_pc sv) obj w = (Ret stored, w'))) \<and>
     (\<forall>obj w. \<exists>q w'. pce_Delete (sv_pc sv) obj w = (q, w') \<and>
        (q = Ret () \<or> objectId obj \<notin> objectId ` set (sv_objects sv w) \<and>
          (\<exists>e. q = Err e \<and> isNotFound e))) \<and>
     (\<forall>obj. mine sv obj \<longrightarrow>
        (\<exists>obj'. ae_SetControllerReference (pce_ad (sv_pc sv)) (sv_owner sv) obj = Inr obj'))"

lemma server_answersD:
  assumes "server_answers sv t"
  shows "template_ready (sv_owner sv) t"
    and "\<exists>os w'. pce_List (sv_pc sv) kind sel w = (Ret os, w')"
    and "obj \<in> set (sv_objects sv w) \<Longrightarrow> kind obj \<Longrightarrow>
      \<exists>got w'. pce_Get (sv_pc sv) kind (m_namespace obj) (m_name obj) w = (Ret got, w')"
    and "\<exists>stored w'. pce_Create (sv_pc sv) sent w = (Ret stored, w')"
    and "objectId sent \<in> objectId ` set (sv_objects sv w) \<Longrightarrow>
      \<exists>stored w'. pce_Update (sv_pc sv) sent w = (Ret stored, w')"
    and "\<exists>q w'. pce_Delete (sv_pc sv) gone w = (q, w') \<and>
        (q = Ret () \<or> objectId gone \<notin> objectId ` set (sv_objects sv w) \<and>
          (\<exists>e. q = Err e \<and> isNotFound e))"
    and "mine sv obj \<Longrightarrow>
      \<exists>obj'. ae_SetControllerReference (pce_ad (sv_pc sv)) (sv_owner sv) obj = Inr obj'"
  using assms unfolding server_answers_def by blast+

lemma apply_no_panic:
  assumes ready: "template_ready y t" and kind: "bodyKind obj = t"
  shows "ad_ApplyPoolTemplate (adapterOf env t) y p r n obj \<noteq> (Panic q, obj')"
proof -
  have patch: "applyPatch ad cfg fresh o' \<noteq> (Panic q, o'')" for ad cfg fresh o' o''
    by (auto simp: applyPatch_def PoolHasPatch_def split: option.splits sum.splits)
  show ?thesis
    using ready kind patch
    by (auto simp: template_ready_def adapterOf_def bodyKind_def DeploymentAdapter_def
        StatefulSetAdapter_def Deployment_ApplyPoolTemplate_def StatefulSet_ApplyPoolTemplate_def
        Let_def split: workload_body.splits option.splits sum.splits)
qed

text \<open>So the template can be applied, to a new object and to one of the YurtAppSet's.\<close>

lemma apply_answers:
  assumes lib: "library_ok sv" and y: "plain_owner (sv_owner sv)" "p \<in> expectedPools (sv_owner sv)"
    and ans: "server_answers sv t" and obj: "bodyKind obj = t" "m_owners obj = None \<or> mine sv obj"
  shows "\<exists>obj'. ad_ApplyPoolTemplate (adapterOf (sv_pc sv) t) (sv_owner sv) p r n obj = (Ret (), obj')"
proof -
  obtain a obj' where a: "ad_ApplyPoolTemplate (adapterOf (sv_pc sv) t) (sv_owner sv) p r n obj = (a, obj')"
    by fastforce
  show ?thesis
  proof (cases a)
    case (Err e)
    with a adapterOf_laws(4) [OF _ plain_ownerD(1) [OF y]] obtain obj1 where
      o1: "ae_SetControllerReference (pce_ad (sv_pc sv)) (sv_owner sv) obj1 = Inl e"
      "m_owners obj1 = m_owners obj" by blast
    have "m_owners obj1 = None \<or> mine sv obj1"
      using obj(2) o1(2) library_okD(3) [OF lib o1(2)] by (simp add: mine_def)
    with library_okD(6) [OF lib, of obj1] server_answersD(7) [OF ans, of obj1] o1(1)
    show ?thesis by auto
  next
    case (Panic q)
    with a apply_no_panic [OF server_answersD(1) [OF ans] obj(1)] show ?thesis by blast
  qed (use a in simp)
qed

lemma new_object: "bodyKind (ad_NewResourceObject (adapterOf env t)) =
    (if t = StatefulSetTemplateType then StatefulSetTemplateType else DeploymentTemplateType)"
  "m_owners (ad_NewResourceObject (adapterOf env t)) = None"
  by (simp_all add: adapterOf_def adapter_defs bodyKind_def empty_meta_def)

lemma create_answers:
  assumes ans: "server_answers sv t" and t: "(t, c) \<in> set (newReconciler_controls (sv_pc sv))"
    and i: "orderly sv (sv_objects sv w)" and p: "p \<in> expectedPools (sv_owner sv)"
  shows "\<exists>w'. c_CreatePool c (sv_owner sv) p r n w = (Ret (), w')"
proof -
  let ?ad = "adapterOf (sv_pc sv) t"
  have "bodyKind (ad_NewResourceObject ?ad) = t" using controlsD(2) [OF t] by (auto simp: new_object)
  with apply_answers [OF orderlyD(3,2) [OF i] p ans] new_object(2)
  obtain obj where "ad_ApplyPoolTemplate ?ad (sv_owner sv) p r n (ad_NewResourceObject ?ad) = (Ret (), obj)"
    by blast
  with server_answersD(4) [OF ans, of obj w] show ?thesis
    by (auto simp: controlsD(1) [OF t] PoolControl_def CreatePool_def andThen_def ret_def)
qed

lemma update_answers:
  assumes ans: "server_answers sv t" and t: "(t, c) \<in> set (newReconciler_controls (sv_pc sv))"
    and i: "orderly sv (sv_objects sv w)" and pool: "pool \<in> set (poolsOf sv t (sv_objects sv w))"
    "p_name pool \<in> expectedPools (sv_owner sv)"
  shows "\<exists>w'. c_UpdatePool c pool (sv_owner sv) r n w = (Ret (), w')"
proof -
  let ?ad = "adapterOf (sv_pc sv) t"
  note kind = adapterOf_kind [OF controlsD(2) [OF t]] and lib = orderlyD(3,2) [OF i]
  obtain obj where obj: "obj \<in> set (sv_objects sv w)" "owned sv t obj"
    "convertToPool ?ad obj = Ret pool"
    using pool(1) poolsOf_mem [OF orderlyD(5) [OF i]] by blast
  note key = owned_key [OF i obj]
  obtain got w1 where g: "pce_Get (sv_pc sv) (ad_isKind ?ad) (m_namespace obj) (m_name obj) w = (Ret got, w1)"
    using server_answersD(3) [OF ans obj(1), of "ad_isKind ?ad"] obj(2) by (auto simp: kind owned_def)
  note got = object_storeD(3,4) [OF orderlyD(1) [OF i] g]
  have "objectId got = objectId obj" using got(2) obj(2) by (simp add: objectId_def kind owned_def)
  then have "got = obj" using got(2) obj(1) by (intro orderly_id [OF i]) auto
  then have own: "bodyKind got = t" "mine sv got" using obj(2) by (simp_all add: owned_def)
  then obtain sent where a: "ad_ApplyPoolTemplate ?ad (sv_owner sv) (p_name pool) r n got = (Ret (), sent)"
    using apply_answers [OF lib pool(2) ans] by blast
  note wr = apply_written [OF lib pool(2) controlsD(2) [OF t] a]
  have "objectId sent = objectId obj"
    using wr orderlyD(7) [OF i obj(1,2)] obj(2) \<open>got = obj\<close>
    by (simp add: objectId_def written_for_def owned_def)
  then obtain stored w2 where "pce_Update (sv_pc sv) sent w1 = (Ret stored, w2)"
    using server_answersD(5) [OF ans, of sent w1] obj(1) got(1) by (metis image_eqI)
  with g a key show ?thesis
    by (simp add: controlsD(1) [OF t] PoolControl_def UpdatePool_def updateRetries_def numeral_eq_Suc
        adapterOf_laws(5) andThen_def attempt_def ret_def)
qed

lemma delete_answers:
  assumes ans: "server_answers sv t'" and t: "(t, c) \<in> set (newReconciler_controls (sv_pc sv))"
    and i: "orderly sv (sv_objects sv w)" and pool: "pool \<in> listed (orderly sv) (poolsOf sv t)"
  shows "\<exists>q w'. c_DeletePool c pool w = (q, w') \<and> (q = Ret () \<or> (\<exists>e. q = Err e \<and> isNotFound e))"
proof -
  have "c_DeletePool c pool w = pce_Delete (sv_pc sv) (p_ref pool) w"
    by (simp add: controlsD(1) [OF t] PoolControl_def DeletePool_def)
  then show ?thesis using server_answersD(6) [OF ans, of "p_ref pool" w] by auto
qed

lemma delete_present:
  assumes ans: "server_answers sv t'" and t: "(t, c) \<in> set (newReconciler_controls (sv_pc sv))"
    and i: "orderly sv (sv_objects sv w)" and pool: "pool \<in> set (poolsOf sv t (sv_objects sv w))"
  shows "\<exists>w'. c_DeletePool c pool w = (Ret (), w')"
proof -
  obtain obj where obj: "obj \<in> set (sv_objects sv w)" "owned sv t obj"
    "convertToPool (adapterOf (sv_pc sv) t) obj = Ret pool"
    using pool poolsOf_mem [OF orderlyD(5) [OF i]] by blast
  have "p_ref pool = obj" using obj(3) by (auto simp: convertToPool_def split: sum.splits outcome.splits)
  with server_answersD(6) [OF ans, of obj w] obj(1) show ?thesis
    by (auto simp: controlsD(1) [OF t] PoolControl_def DeletePool_def)
qed

interpretation stored: pool_server "\<lambda>sv. newReconciler_controls (sv_pc sv)" sv_owner sv_objects
  orderly poolsOf server_answers
proof (unfold_locales, goal_cases)
  case (1 sv s t)
  have "inj_on (\<lambda>obj. (m_namespace obj, m_name obj)) (set (filter (owned sv t) s))"
    by (intro inj_onI orderly_id [OF 1]) (auto simp: objectId_def owned_def)
  moreover have "distinct s" using orderlyD(4) [OF 1] by (simp add: distinct_map)
  ultimately have "distinct (map (\<lambda>obj. (m_namespace obj, m_name obj)) (filter (owned sv t) s))"
    by (simp add: distinct_map)
  then show ?case using poolsOf_keys [OF orderlyD(5) [OF 1]] by simp
next
  case (3 t c sv w p r n er w')
  show ?case
    using 3(3) object_storeD(5) [OF orderlyD(1) [OF 3(2)]]
    by (auto simp: controlsD(1) [OF 3(1)] PoolControl_def CreatePool_def andThen_def lift_def ret_def
        split: prod.splits outcome.splits)
next
  case (7 sv t' t c w)
  show ?case using server_answersD(2) [OF 7(1)] store_lists_run [OF 7(2,3)] by (metis prod.inject)
qed (fact store_lists store_creates store_updates store_deletes create_answers update_answers
  delete_answers delete_present)+

lemma getPoolControls_controls:
  assumes "getPoolControls upd y = Inr (Some c, t)" and "ye_poolControls upd = controls"
  shows "map_of controls t = Some c"
  using assms by (auto simp: getPoolControls_def split: if_splits)

subsection \<open>The reconciliation on such a server\<close>

text \<open>What the rest of the controller does not do: an event, and the reads and writes of the
  YurtAppSet itself, leave the workloads alone.\<close>

definition only_pools :: "'w server \<Rightarrow> 'w yc_env \<Rightarrow> bool" where
  "only_pools sv env \<longleftrightarrow> ye_poolControls (yc_upd env) = newReconciler_controls (sv_pc sv) \<and>
     batch_ok (yc_upd env) \<and>
     (\<forall>a b w. sv_objects sv (rt_Event (yc_upd env) a b w) = sv_objects sv w) \<and>
     (\<forall>obj w. sv_objects sv (snd (yc_UpdateStatus env obj w)) = sv_objects sv w) \<and>
     (\<forall>ns name w. sv_objects sv (snd (yc_Get env ns name w)) = sv_objects sv w)"

lemma only_poolsD:
  assumes "only_pools sv env"
  shows "ye_poolControls (yc_upd env) = newReconciler_controls (sv_pc sv)"
    and "batch_ok (yc_upd env)"
    and "\<And>a b w. sv_objects sv (rt_Event (yc_upd env) a b w) = sv_objects sv w"
    and "\<And>obj w. sv_objects sv (snd (yc_UpdateStatus env obj w)) = sv_objects sv w"
    and "\<And>ns name w. sv_objects sv (snd (yc_Get env ns name w)) = sv_objects sv w"
  using assms by (simp_all add: only_pools_def)

text \<open>The pools the server stores are those the YurtAppSet asks for.\<close>

definition converged :: "'w server \<Rightarrow> template_type \<Rightarrow> 'w control \<Rightarrow> string \<Rightarrow> workload list \<Rightarrow> bool" where
  "converged sv t c revision objs \<longleftrightarrow>
     orderly sv objs \<and> pools_settled c (sv_owner sv) revision (poolsOf sv t objs) \<and>
     (\<forall>t' \<in> fst ` set (newReconciler_controls (sv_pc sv)). t' \<noteq> t \<longrightarrow> poolsOf sv t' objs = [])"




end
