(* ===== verification/YAS_Store_Examples.thy ===== *)
theory YAS_Store_Examples
  imports YAS_Examples YAS_Store
begin

section \<open>YurtAppSet: a server in memory that meets the contract\<close>

text \<open>
  The properties of \<open>YAS_Store\<close> on a server whose world is the list of the stored workloads. It starts
  with a pool of an old revision and a duplicate of it, a pool that is no longer asked for and a
  stateful set; one pool that is asked for is missing.
\<close>

subsection \<open>The server\<close>

definition mem_selects :: "label_selector option \<Rightarrow> string gomap \<Rightarrow> bool" where
  "mem_selects sel ls =
     (case sel of None \<Rightarrow> False
      | Some s \<Rightarrow> list_all (\<lambda>k. gget ls k = gget (ls_matchLabels s) k)
          (map fst (entries (ls_matchLabels s))))"

definition mem_rm :: "('w, 'a) rm_env" where
  "mem_rm = demo_rm\<lparr>rm_AsSelector := \<lambda>sel. Inr (mem_selects sel)\<rparr>"

text \<open>A name longer than all there are\<close>

definition freshName :: "string \<Rightarrow> workload list \<Rightarrow> string" where
  "freshName base w = base @ replicate (Suc (sum_list (map (\<lambda>obj. length (m_name obj)) w))) CHR ''x''"

definition mem_pc :: "workload list pc_env" where
  "mem_pc = \<lparr>
     pce_ad = demo_ad, pce_rm = mem_rm,
     pce_List = (\<lambda>kind sel w. (Ret (filter (\<lambda>obj. kind obj \<and> sel (m_labels obj)) w), w)),
     pce_Get = (\<lambda>kind ns name w.
       (case find (\<lambda>obj. kind obj \<and> m_namespace obj = ns \<and> m_name obj = name) w of
          None \<Rightarrow> Err (StatusErr NotFound name) | Some obj \<Rightarrow> Ret obj, w)),
     pce_Create = (\<lambda>obj w. let obj' = obj\<lparr>m_name := freshName (m_generateName obj) w\<rparr>
       in (Ret obj', w @ [obj'])),
     pce_Update = (\<lambda>obj w. if objectId obj \<in> set (map objectId w)
       then (Ret obj, replaceObject obj w) else (Err (StatusErr NotFound (m_name obj)), w)),
     pce_Delete = (\<lambda>obj w. (if objectId obj \<in> set (map objectId w) then Ret ()
         else Err (StatusErr NotFound (m_name obj)),
       filter (\<lambda>o'. objectId o' \<noteq> objectId obj) w))\<rparr>"

definition mem_server :: "workload list server" where
  "mem_server = \<lparr>sv_pc = mem_pc, sv_owner = new_yas, sv_objects = (\<lambda>w. w)\<rparr>"

definition mem_yc :: "workload list yc_env" where
  "mem_yc = \<lparr>
     yc_upd = \<lparr>rt_sched = rev,
       rt_Event = (\<lambda>reason message w. w), rt_Now = (\<lambda>w. ''now''),
       rt_NewAggregate = (\<lambda>es. case es of [] \<Rightarrow> None | e # _ \<Rightarrow> Some e),
       ye_poolControls = newReconciler_controls mem_pc\<rparr>,
     yc_rev = down_rev, yc_Get = (\<lambda>ns name w. (Ret new_yas, w)),
     yc_UpdateStatus = (\<lambda>obj w. (Ret obj, w))\<rparr>"

definition messy :: "workload list" where
  "messy = [demo_wl old_yas ''hangzhou'' ''web-1'' 2,
     (demo_wl old_yas ''hangzhou'' ''web-1'' 1)\<lparr>m_name := ''web-hangzhou-y''\<rparr>,
     demo_wl old_yas ''shanghai'' ''web-1'' 1,
     (demo_wl new_yas ''beijing'' ''web-0'' 1)\<lparr>w_body :=
       StatefulSetBody empty_stateful_set_spec empty_workload_status\<rparr>]"

subsection \<open>It meets the contract\<close>

lemma freshName_fresh: "obj \<in> set w \<Longrightarrow> m_name obj \<noteq> freshName base w"
proof
  assume obj: "obj \<in> set w" and eq: "m_name obj = freshName base w"
  have "length (m_name obj) \<le> sum_list (map (\<lambda>obj. length (m_name obj)) w)"
    using obj by (intro member_le_sum_list) auto
  with arg_cong [OF eq, of length] show False by (simp add: freshName_def)
qed

lemma object_store_mem: "object_store mem_pc (\<lambda>w. w)"
proof -
  have id: "objectId (obj\<lparr>m_name := freshName b w\<rparr>) \<notin> objectId ` set w" for obj :: workload and b w
    using freshName_fresh [of _ w b] by (fastforce simp: objectId_def)
  have keep: "keeps obj (obj\<lparr>m_name := n\<rparr>)" "keeps obj obj" for obj :: workload and n
    by (simp_all add: keeps_def bodyKind_def wantedReplicas_def)
  have gone: "filter (\<lambda>o'. objectId o' \<noteq> objectId obj) w = w" if "objectId obj \<notin> objectId ` set w"
    for obj and w :: "workload list"
    using that by (intro filter_True ballI notI) (metis image_eqI)
  show ?thesis
    unfolding object_store_def
    by (auto simp: mem_pc_def Let_def keep id find_Some_iff split: if_splits option.splits)
      (use keep(2) in fastforce)+
qed

lemma plain_owner_new_yas: "plain_owner new_yas"
proof -
  have "list_all (\<lambda>cfg. pc_name cfg \<noteq> [] \<and> pc_patch cfg = None) (items (ys_pools (yas_spec new_yas)))"
    by code_simp
  moreover have "ys_selector (yas_spec new_yas) = Some demo_selector"
    by (simp add: new_yas_def demo_yas_def object_meta.defs)
  moreover have "gomap_ok (ls_matchLabels demo_selector) \<and>
      items (ls_matchExpressions demo_selector) = [] \<and>
      gget (ls_matchLabels demo_selector) PoolNameLabelKey = None \<and>
      gget (ls_matchLabels demo_selector) ControllerRevisionHashLabelKey = None" by code_simp
  ultimately show ?thesis by (simp add: plain_owner_def list_all_iff)
qed

lemma gget_entry: "k \<in> fst ` set (entries m) \<Longrightarrow> gget m k \<noteq> None"
  by (simp add: gget_def map_of_eq_None_iff)

lemma library_ok_mem: "library_ok mem_server"
  using gget_entry
  by (fastforce simp: library_ok_def mem_server_def mem_pc_def mem_rm_def demo_rm_def mem_selects_def
      list_all_iff owners_only_def demo_ad_def mine_def demo_ref_def)

lemma mem_server_simps:
  "sv_pc mem_server = mem_pc" "sv_owner mem_server = new_yas" "sv_objects mem_server = (\<lambda>w. w)"
  by (simp_all add: mem_server_def)

lemma orderly_mem:
  assumes "distinct (map objectId objs)"
    and "list_all (\<lambda>obj. rm_GetControllerOf (pce_rm mem_pc) obj \<noteq> None \<and>
      m_namespace obj = m_namespace new_yas \<and>
      (case getPoolNameFrom obj of Inl e \<Rightarrow> False | Inr p \<Rightarrow> True)) objs"
  shows "orderly mem_server objs"
proof -
  have "\<exists>p. getPoolNameFrom obj = Inr p" if "obj \<in> set objs" for obj
    using assms(2) that by (cases "getPoolNameFrom obj") (auto simp: list_all_iff)
  with assms object_store_mem plain_owner_new_yas library_ok_mem show ?thesis
    by (simp add: orderly_def mem_server_simps list_all_iff)
qed

lemma server_answers_mem: "server_answers mem_server DeploymentTemplateType"
proof -
  have "find (\<lambda>o'. kind o' \<and> m_namespace o' = m_namespace obj \<and> m_name o' = m_name obj) w \<noteq> None"
    if "obj \<in> set w" "kind obj" for kind and obj :: workload and w
    using that by (auto simp: find_None_iff)
  then show ?thesis
    by (fastforce simp: server_answers_def template_ready_def mem_server_def mem_pc_def demo_ad_def
        new_yas_def demo_yas_def demo_selector_def object_meta.defs Let_def)
qed

lemma only_pools_mem: "only_pools mem_server mem_yc"
  by (auto simp: only_pools_def mem_server_def mem_yc_def batch_ok_def split: list.splits)

subsection \<open>The properties applied\<close>

abbreviation mem_ctl :: "workload list control" where
  "mem_ctl \<equiv> PoolControl mem_pc (DeploymentAdapter demo_ad)"

abbreviation rev_1 :: controller_revision where
  "rev_1 \<equiv> demo_cr ''web-1'' ''a'' 1"

abbreviation rev_2 :: controller_revision where
  "rev_2 \<equiv> demo_cr ''web-2'' ''t'' 2"

lemma mem_ctl: "getPoolControls (yc_upd mem_yc) (sv_owner mem_server)
    = Inr (Some mem_ctl, DeploymentTemplateType)"
  by (simp add: getPoolControls_def mem_yc_def newReconciler_controls_def mem_server_def new_yas_def
      demo_yas_def object_meta.defs mem_pc_def)

lemma orderly_messy: "orderly mem_server messy"
  by (rule orderly_mem) code_simp+




end
